(* ===== verification/Prelude.thy ===== *)
theory Prelude
  imports Main "HOL-Library.AList"
begin

text \<open>
  Shared vocabulary of the development: thrown errors as sums, loops that may throw,
  and the insertion-ordered \<^verbatim>\<open>Map\<close> of JavaScript.

  A function of the program that can throw returns \<open>error + result\<close>, with \<open>Inl\<close> for the
  exception. \<open>bindE\<close> is the sequencing of two statements, \<open>foldE\<close> the
  \<^verbatim>\<open>for (const x of xs)\<close> loop whose body updates the local state and may throw.
\<close>

named_theorems js_simps \<open>equations that evaluate the JavaScript vocabulary\<close>
named_theorems ok_elims \<open>what a run that did not throw says of its parts\<close>

section \<open>Errors as values\<close>

fun bindE :: "'e + 'a \<Rightarrow> ('a \<Rightarrow> 'e + 'b) \<Rightarrow> 'e + 'b" where
  "bindE (Inl e) f = Inl e"
| "bindE (Inr a) f = f a"

lemma bindE_Inr_iff [js_simps]: "bindE m f = Inr b \<longleftrightarrow> (\<exists>a. m = Inr a \<and> f a = Inr b)"
  by (cases m) auto

lemma bindE_Inl_iff: "bindE m f = Inl e \<longleftrightarrow> m = Inl e \<or> (\<exists>a. m = Inr a \<and> f a = Inl e)"
  by (cases m) auto

lemma bindE_ok [ok_elims]:
  assumes "bindE m f = Inr b"
  obtains a where "m = Inr a" and "f a = Inr b"
  using assms by (auto simp: bindE_Inr_iff)

lemma bindE_cong [fundef_cong]:
  "m = m' \<Longrightarrow> (\<And>a. m' = Inr a \<Longrightarrow> f a = f' a) \<Longrightarrow> bindE m f = bindE m' f'"
  by (cases m') auto

fun foldE :: "('s \<Rightarrow> 'a \<Rightarrow> 'e + 's) \<Rightarrow> 's \<Rightarrow> 'a list \<Rightarrow> 'e + 's" where
  "foldE f s [] = Inr s"
| "foldE f s (x # xs) = bindE (f s x) (\<lambda>s'. foldE f s' xs)"

fun mapE :: "('a \<Rightarrow> 'e + 'b) \<Rightarrow> 'a list \<Rightarrow> 'e + 'b list" where
  "mapE f [] = Inr []"
| "mapE f (x # xs) = bindE (f x) (\<lambda>y. bindE (mapE f xs) (\<lambda>ys. Inr (y # ys)))"

lemma foldE_append: "foldE f s (xs @ ys) = bindE (foldE f s xs) (\<lambda>s'. foldE f s' ys)"
proof (induction xs arbitrary: s)
  case (Cons x xs)
  then show ?case by (cases "f s x") simp_all
qed simp

text \<open>The loop rule: an invariant kept by every completed body holds after the loop.\<close>

lemma foldE_inv:
  assumes "foldE f s xs = Inr s'" and "P s"
    and "\<And>s x s'. P s \<Longrightarrow> x \<in> set xs \<Longrightarrow> f s x = Inr s' \<Longrightarrow> P s'"
  shows "P s'"
  using assms
proof (induction xs arbitrary: s)
  case (Cons x xs)
  from Cons.prems(1) obtain t where t: "f s x = Inr t" "foldE f t xs = Inr s'"
    by (auto simp: bindE_Inr_iff)
  have "P t" using Cons.prems(2,3) t(1) by (meson list.set_intros(1))
  with t(2) show ?case using Cons.IH Cons.prems(3) by (meson list.set_intros(2))
qed simp

text \<open>The same with the elements seen so far, which grow from \<open>[]\<close> to the whole list.\<close>

lemma foldE_inv_prefix:
  assumes "foldE f s xs = Inr s'" and "P [] s"
    and "\<And>pre x post s s'. xs = pre @ x # post \<Longrightarrow> P pre s \<Longrightarrow> f s x = Inr s' \<Longrightarrow> P (pre @ [x]) s'"
  shows "P xs s'"
proof -
  have "foldE f t ys = Inr s' \<Longrightarrow> xs = pre @ ys \<Longrightarrow> P pre t \<Longrightarrow> P xs s'" for t pre ys
  proof (induction ys arbitrary: t pre)
    case (Cons y ys)
    then obtain u where u: "f t y = Inr u" "foldE f u ys = Inr s'"
      by (auto simp: bindE_Inr_iff)
    have "P (pre @ [y]) u" using assms(3) Cons.prems u(1) by blast
    with u(2) Cons.prems show ?case using Cons.IH [of u "pre @ [y]"] by simp
  qed simp
  from this [of s xs "[]"] assms(1,2) show ?thesis by simp
qed

lemma foldE_throw:
  assumes "foldE f s xs = Inl e" and "P s"
    and step: "\<And>s x s'. P s \<Longrightarrow> x \<in> set xs \<Longrightarrow> f s x = Inr s' \<Longrightarrow> P s'"
  shows "\<exists>t x. P t \<and> x \<in> set xs \<and> f t x = Inl e"
  using assms
proof (induction xs arbitrary: s)
  case (Cons x xs)
  show ?case
  proof (cases "f s x")
    case (Inl e')
    with Cons.prems(1,2) show ?thesis by auto
  next
    case (Inr t)
    then have "P t" using Cons.prems(2,3) by (meson list.set_intros(1))
    moreover have "foldE f t xs = Inl e" using Cons.prems(1) Inr by simp
    ultimately show ?thesis
      using Cons.IH [of t] Cons.prems(3) by (meson list.set_intros(2))
  qed
qed simp

lemma foldE_cong [fundef_cong]:
  "s = s' \<Longrightarrow> xs = xs' \<Longrightarrow> (\<And>t x. x \<in> set xs' \<Longrightarrow> f t x = g t x) \<Longrightarrow> foldE f s xs = foldE g s' xs'"
proof (induction xs arbitrary: xs' s s')
  case (Cons x xs)
  then show ?case by (cases "g s x") auto
qed simp

lemma mapE_cong [fundef_cong]:
  "xs = ys \<Longrightarrow> (\<And>x. x \<in> set ys \<Longrightarrow> f x = g x) \<Longrightarrow> mapE f xs = mapE g ys"
  by (induction ys arbitrary: xs) auto

lemma mapE_Inr_length: "mapE f xs = Inr ys \<Longrightarrow> length ys = length xs"
  by (induction xs arbitrary: ys) (auto simp: bindE_Inr_iff)

lemma mapE_Inr_list_all2: "mapE f xs = Inr ys \<Longrightarrow> list_all2 (\<lambda>x y. f x = Inr y) xs ys"
  by (induction xs arbitrary: ys) (auto simp: bindE_Inr_iff)

lemma mapE_Inr_mem: "mapE f xs = Inr ys \<Longrightarrow> y \<in> set ys \<Longrightarrow> \<exists>x \<in> set xs. f x = Inr y"
  by (induction xs arbitrary: ys) (auto simp: bindE_Inr_iff)

lemma mapE_Inl: "mapE f xs = Inl e \<Longrightarrow> \<exists>x \<in> set xs. f x = Inl e"
  by (induction xs) (auto simp: bindE_Inl_iff)

lemma mapE_total:
  "(\<And>x. x \<in> set xs \<Longrightarrow> \<exists>y. f x = Inr y) \<Longrightarrow> \<exists>ys. mapE f xs = Inr ys"
proof (induction xs)
  case (Cons x xs)
  then obtain y ys where "f x = Inr y" "mapE f xs = Inr ys"
    by (meson list.set_intros)
  then show ?case by simp
qed simp

section \<open>Maps in insertion order\<close>

text \<open>
  A JavaScript \<^verbatim>\<open>Map\<close> (and an object used as a record of string keys) enumerates its
  keys in the order of their first insertion; setting a present key keeps its place. That is
  an association list under \<^const>\<open>AList.update\<close>.
\<close>

type_synonym ('k, 'v) jsmap = "('k \<times> 'v) list"

abbreviation map_get :: "('k, 'v) jsmap \<Rightarrow> 'k \<Rightarrow> 'v option" where
  "map_get m k \<equiv> map_of m k"

abbreviation map_set :: "'k \<Rightarrow> 'v \<Rightarrow> ('k, 'v) jsmap \<Rightarrow> ('k, 'v) jsmap" where
  "map_set k v m \<equiv> AList.update k v m"

abbreviation map_delete :: "'k \<Rightarrow> ('k, 'v) jsmap \<Rightarrow> ('k, 'v) jsmap" where
  "map_delete k m \<equiv> AList.delete k m"

abbreviation map_keys :: "('k, 'v) jsmap \<Rightarrow> 'k list" where
  "map_keys m \<equiv> map fst m"

definition map_has :: "('k, 'v) jsmap \<Rightarrow> 'k \<Rightarrow> bool" where
  "map_has m k = (map_get m k \<noteq> None)"

definition map_modify :: "'k \<Rightarrow> ('v \<Rightarrow> 'v) \<Rightarrow> ('k, 'v) jsmap \<Rightarrow> ('k, 'v) jsmap" where
  "map_modify k f m = map (\<lambda>(k', v). (k', if k' = k then f v else v)) m"
  \<comment> \<open>mutation of the object stored under a key\<close>

lemmas map_get_set [js_simps] = update_conv'
lemmas map_get_delete [js_simps] = delete_conv'
lemmas map_keys_set [js_simps] = update_keys

lemma map_has_iff [js_simps]: "map_has m k \<longleftrightarrow> k \<in> set (map_keys m)"
  by (auto simp: map_has_def map_of_eq_None_iff weak_map_of_SomeI dest: map_of_SomeD)

lemma map_set_fresh: "k \<notin> set (map_keys m) \<Longrightarrow> map_set k v m = m @ [(k, v)]"
  by (induction m) auto

lemma map_keys_modify [simp]: "map_keys (map_modify k f m) = map_keys m"
  by (auto simp: map_modify_def)

lemma map_get_modify [js_simps]:
  "map_get (map_modify k f m) k' = (if k' = k then map_option f (map_get m k) else map_get m k')"
  by (induction m) (auto simp: map_modify_def)

lemma map_has_modify [simp]: "map_has (map_modify k f m) = map_has m"
  by (rule ext) (simp add: map_has_iff)

lemma map_get_mem: "map_get m k = Some v \<Longrightarrow> (k, v) \<in> set m"
  by (rule map_of_SomeD)

lemma map_get_distinct:
  "distinct (map_keys m) \<Longrightarrow> (k, v) \<in> set m \<Longrightarrow> map_get m k = Some v"
  by (rule map_of_is_SomeI)

lemma set_map_keys_set [simp]: "set (map_keys (map_set k v m)) = insert k (set (map_keys m))"
  by (induction m) auto

declare dom_update [simp]

lemma distinct_map_set [simp]: "distinct (map_keys (map_set k v m)) \<longleftrightarrow> distinct (map_keys m)"
proof (induction m)
  case (Cons p m)
  then show ?case by (cases p) (use set_map_keys_set [of k v m] in auto)
qed simp

section \<open>Lists\<close>

lemma butlast_prefix_induct [case_names Nil snoc]:
  "P [] \<Longrightarrow> (\<And>xs. xs \<noteq> [] \<Longrightarrow> P (butlast xs) \<Longrightarrow> P xs) \<Longrightarrow> P xs"
  by (induction xs rule: rev_induct) (simp, metis butlast_snoc snoc_eq_iff_butlast)

lemma butlast_take: "n \<le> length xs - 1 \<Longrightarrow> take n (butlast xs) = take n xs"
  by (simp add: butlast_conv_take take_take min_def)

lemma takeWhile_stop: "\<not> P x \<Longrightarrow> takeWhile P (xs @ x # ys) = takeWhile P xs"
  by (induction xs) auto

lemma dropWhile_stop: "\<not> P x \<Longrightarrow> dropWhile P (xs @ x # ys) = dropWhile P xs @ x # ys"
  by (induction xs) auto

lemma takeWhile_run:
  assumes "\<forall>x \<in> set xs. P x" and "\<forall>x \<in> set ys. \<not> P x"
  shows "takeWhile P (xs @ ys) = xs" and "dropWhile P (xs @ ys) = ys"
  using assms by (induction xs) (cases ys; simp)+

end
