(* ===== verification/Js_String.thy ===== *)
theory Js_String
  imports Prelude "HOL-Library.List_Lexorder" "HOL-Library.Char_ord"
begin

text \<open>
  The string operations of JavaScript the program uses. A string is a list of code units; every
  string the schema tools build or compare is made of 8-bit code units, so a unit is a \<open>char\<close>
  and the comparison operators are the lexicographic order of \<^verbatim>\<open>List_Lexorder\<close>.
\<close>

section \<open>split and join\<close>

text \<open>\<^verbatim>\<open>s.split(c)\<close> for a separator of one character.\<close>

fun split_on :: "'a \<Rightarrow> 'a list \<Rightarrow> 'a list list" where
  "split_on c [] = [[]]"
| "split_on c (x # xs) =
     (if x = c then [] # split_on c xs
      else (case split_on c xs of [] \<Rightarrow> [[x]] | y # ys \<Rightarrow> (x # y) # ys))"

text \<open>\<^verbatim>\<open>xs.join(sep)\<close>.\<close>

fun join :: "'a list \<Rightarrow> 'a list list \<Rightarrow> 'a list" where
  "join sep [] = []"
| "join sep [x] = x"
| "join sep (x # y # ys) = x @ sep @ join sep (y # ys)"

abbreviation dot_split :: "string \<Rightarrow> string list" where
  "dot_split s \<equiv> split_on (CHR ''.'') s"

abbreviation dot_join :: "string list \<Rightarrow> string" where
  "dot_join xs \<equiv> join ''.'' xs"

lemma split_on_nonempty [simp]: "split_on c xs \<noteq> []"
  by (induction xs) (auto split: list.splits)

lemma split_on_Cons_other:
  "x \<noteq> c \<Longrightarrow> split_on c (x # xs) = (x # hd (split_on c xs)) # tl (split_on c xs)"
  by (cases "split_on c xs") auto

lemma split_on_no_sep: "\<forall>p \<in> set (split_on c xs). c \<notin> set p"
proof (induction xs)
  case (Cons x xs)
  then show ?case by (cases "split_on c xs") auto
qed simp

lemma join_Cons: "ys \<noteq> [] \<Longrightarrow> join sep (y # ys) = y @ sep @ join sep ys"
  by (cases ys) auto

lemma join_split [simp]: "join [c] (split_on c xs) = xs"
proof (induction xs)
  case (Cons x xs)
  show ?case
  proof (cases "x = c")
    case True
    with Cons show ?thesis by (simp add: join_Cons)
  next
    case False
    obtain y ys where ys: "split_on c xs = y # ys"
      by (cases "split_on c xs") auto
    with Cons False show ?thesis by (cases ys) auto
  qed
qed simp

lemma split_on_fresh: "c \<notin> set xs \<Longrightarrow> split_on c xs = [xs]"
  by (induction xs) auto

lemma split_on_append_sep: "c \<notin> set p \<Longrightarrow> split_on c (p @ c # xs) = p # split_on c xs"
  by (induction p) (auto simp: split_on_Cons_other)

lemma split_join:
  assumes "xs \<noteq> []" and "\<forall>p \<in> set xs. c \<notin> set p"
  shows "split_on c (join [c] xs) = xs"
  using assms
proof (induction xs rule: list_nonempty_induct)
  case (single x)
  then show ?case by (simp add: split_on_fresh)
next
  case (cons x xs)
  then have "split_on c (x @ c # join [c] xs) = x # split_on c (join [c] xs)"
    by (intro split_on_append_sep) simp
  with cons show ?case by (simp add: join_Cons)
qed

lemma split_on_append:
  "split_on c (xs @ c # ys) = split_on c xs @ split_on c ys"
proof (induction xs)
  case (Cons x xs)
  then show ?case by (cases "split_on c xs") auto
qed simp

lemma split_on_join_append:
  assumes "xs \<noteq> []" and "\<forall>p \<in> set xs. c \<notin> set p"
  shows "split_on c (join [c] (xs @ split_on c s)) = xs @ split_on c s"
  by (rule split_join) (use assms split_on_no_sep [of c s] in auto)

lemma join_inj:
  assumes "xs \<noteq> []" "ys \<noteq> []" "\<forall>p \<in> set xs. c \<notin> set p" "\<forall>p \<in> set ys. c \<notin> set p"
    and "join [c] xs = join [c] ys"
  shows "xs = ys"
  using assms split_join by metis

section \<open>Searching\<close>

definition startsWith :: "string \<Rightarrow> string \<Rightarrow> bool" where
  "startsWith s p = (take (length p) s = p)"

definition endsWith :: "string \<Rightarrow> string \<Rightarrow> bool" where
  "endsWith s p = (length p \<le> length s \<and> drop (length s - length p) s = p)"

lemma startsWith_append [simp]: "startsWith (p @ s) p"
  by (simp add: startsWith_def)

lemma startsWith_iff: "startsWith s p \<longleftrightarrow> (\<exists>t. s = p @ t)"
  by (auto simp: startsWith_def) (metis append_take_drop_id)

lemma endsWith_append [simp]: "endsWith (s @ p) p"
  by (simp add: endsWith_def)

lemma endsWith_iff: "endsWith s p \<longleftrightarrow> (\<exists>t. s = t @ p)"
  by (auto simp: endsWith_def) (metis append_take_drop_id)

section \<open>trim\<close>

text \<open>
  \<^verbatim>\<open>trim\<close> removes white space and line terminators at both ends; among 8-bit
  code units these are tab, line feed, vertical tab, form feed, carriage return, space and
  the no-break space.
\<close>

definition is_space :: "char \<Rightarrow> bool" where
  "is_space c = (of_char c \<in> {9, 10, 11, 12, 13, 32, 160 :: nat})"

definition trim :: "string \<Rightarrow> string" where
  "trim s = rev (dropWhile is_space (rev (dropWhile is_space s)))"

lemma dropWhile_idem_rev:
  "dropWhile P (rev (dropWhile P (rev (dropWhile P xs)))) = rev (dropWhile P (rev (dropWhile P xs)))"
proof (cases "dropWhile P xs")
  case (Cons y ys)
  then have y: "\<not> P y" by (metis dropWhile_eq_Cons_conv)
  show ?thesis
  proof -
    have "rev (dropWhile P (rev (y # ys))) = y # rev (dropWhile P (rev ys))"
      using y by (simp add: dropWhile_append)
    with y Cons show ?thesis by simp
  qed
next
  case Nil
  then show ?thesis by (simp only: rev.simps dropWhile.simps)
qed

lemma trim_idem: "trim (trim s) = trim s"
proof -
  have d: "dropWhile is_space (trim s) = trim s"
    unfolding trim_def by (rule dropWhile_idem_rev)
  have "dropWhile is_space (rev (trim s)) = rev (trim s)"
    unfolding trim_def by simp
  with d show ?thesis by (simp add: trim_def [of "trim s"])
qed

section \<open>Character ranges\<close>

text \<open>A range of a regular expression's character class.\<close>

definition in_range :: "char \<Rightarrow> char \<Rightarrow> char \<Rightarrow> bool" where
  "in_range lo hi c = (lo \<le> c \<and> c \<le> hi)"

end
