(* ===== verification/Fbs_Ast.thy ===== *)
theory Fbs_Ast
  imports Js_String "HOL-Library.Option_ord" Complex_Main
begin

text \<open>
  The syntax tree of a FlatBuffers schema file (\<^verbatim>\<open>tools/protocol/src/fbs/ast.ts\<close>)
  and the table of basic types (\<^verbatim>\<open>fbs/basic_types.ts\<close>). A TypeScript union tagged
  by \<^verbatim>\<open>c\<close> or \<^verbatim>\<open>t\<close> is a datatype with one constructor per tag; an
  interface is a record.
\<close>

section \<open>Basic types\<close>

type_synonym IntTypeName = string
type_synonym FloatTypeName = string

definition INT_TYPES :: "IntTypeName list" where
  "INT_TYPES =
    [''byte'', ''ubyte'', ''short'', ''ushort'', ''int'', ''uint'', ''long'', ''ulong'',
     ''int8'', ''uint8'', ''int16'', ''uint16'', ''int32'', ''uint32'', ''int64'', ''uint64'']"

record IntTypeProperties =
  bits :: nat
  unsigned :: bool

definition INT_TYPE_PROPERTIES :: "(IntTypeName, IntTypeProperties) jsmap" where
  "INT_TYPE_PROPERTIES =
    [(''byte'', \<lparr>bits = 8, unsigned = False\<rparr>),
     (''int8'', \<lparr>bits = 8, unsigned = False\<rparr>),
     (''ubyte'', \<lparr>bits = 8, unsigned = True\<rparr>),
     (''uint8'', \<lparr>bits = 8, unsigned = True\<rparr>),
     (''short'', \<lparr>bits = 16, unsigned = False\<rparr>),
     (''int16'', \<lparr>bits = 16, unsigned = False\<rparr>),
     (''ushort'', \<lparr>bits = 16, unsigned = True\<rparr>),
     (''uint16'', \<lparr>bits = 16, unsigned = True\<rparr>),
     (''int'', \<lparr>bits = 32, unsigned = False\<rparr>),
     (''int32'', \<lparr>bits = 32, unsigned = False\<rparr>),
     (''uint'', \<lparr>bits = 32, unsigned = True\<rparr>),
     (''uint32'', \<lparr>bits = 32, unsigned = True\<rparr>),
     (''long'', \<lparr>bits = 64, unsigned = False\<rparr>),
     (''int64'', \<lparr>bits = 64, unsigned = False\<rparr>),
     (''ulong'', \<lparr>bits = 64, unsigned = True\<rparr>),
     (''uint64'', \<lparr>bits = 64, unsigned = True\<rparr>)]"

definition FLOAT_TYPES :: "FloatTypeName list" where
  "FLOAT_TYPES = [''float'', ''double'', ''float32'', ''float64'']"

record FloatTypeProperties =
  fbits :: nat

definition FLOAT_TYPE_PROPERTIES :: "(FloatTypeName, FloatTypeProperties) jsmap" where
  "FLOAT_TYPE_PROPERTIES =
    [(''float'', \<lparr>fbits = 32\<rparr>), (''float32'', \<lparr>fbits = 32\<rparr>),
     (''double'', \<lparr>fbits = 64\<rparr>), (''float64'', \<lparr>fbits = 64\<rparr>)]"

datatype BasicType =
    BoolType
  | IntType IntTypeName IntTypeProperties
  | FloatType FloatTypeName FloatTypeProperties
  | StringType

text \<open>
  The basic types the schema parser can produce: a name of the table with the properties the
  table gives it (\<^verbatim>\<open>fbs/parser/types.ts\<close> spreads the table entry into the node).
\<close>

fun basic_wf :: "BasicType \<Rightarrow> bool" where
  "basic_wf (IntType n p) \<longleftrightarrow> map_get INT_TYPE_PROPERTIES n = Some p"
| "basic_wf (FloatType n p) \<longleftrightarrow> map_get FLOAT_TYPE_PROPERTIES n = Some p"
| "basic_wf _ \<longleftrightarrow> True"

lemma INT_TYPE_PROPERTIES_total: "set (map_keys INT_TYPE_PROPERTIES) = set INT_TYPES"
  by (auto simp: INT_TYPE_PROPERTIES_def INT_TYPES_def)

lemma FLOAT_TYPE_PROPERTIES_total: "set (map_keys FLOAT_TYPE_PROPERTIES) = set FLOAT_TYPES"
  by (auto simp: FLOAT_TYPE_PROPERTIES_def FLOAT_TYPES_def)

lemma int_bits_cases:
  "map_get INT_TYPE_PROPERTIES n = Some p \<Longrightarrow> bits p \<in> {8, 16, 32, 64}"
  by (auto simp: INT_TYPE_PROPERTIES_def split: if_splits)

lemma float_bits_cases:
  "map_get FLOAT_TYPE_PROPERTIES n = Some p \<Longrightarrow> fbits p \<in> {32, 64}"
  by (auto simp: FLOAT_TYPE_PROPERTIES_def split: if_splits)

section \<open>Numbers\<close>

text \<open>
  A JavaScript number as the schema tools see it: a finite value (held exactly), NaN or an
  infinity. The tools only copy, compare with zero and print these values.
\<close>

datatype jsnum = Fin rat | NaN | PosInf | NegInf

section \<open>The tree\<close>

datatype AstFieldType =
    AstBasic BasicType
  | AstVector AstFieldType
  | AstCustom string

datatype AstScalarLiteral = AstBoolean bool | AstNumeric jsnum

datatype AstLiteral = AstScalar AstScalarLiteral | AstString string

datatype AstDefault = AstScalarDefault AstScalarLiteral | AstRef string

record AstAttribute =
  attr_id :: string
  attr_value :: "AstLiteral option"

type_synonym AstMetadata = "AstAttribute list option"

record AstEnumVal =
  ev_id :: string
  ev_value :: "jsnum option"
  ev_metadata :: AstMetadata

type_synonym AstUnionVal = AstEnumVal

record AstField =
  af_name :: string
  af_type :: AstFieldType
  af_default :: "AstDefault option"
  af_metadata :: AstMetadata

datatype AstTopLevel =
    AstInclude string
  | AstNamespace string
  | AstEnum string AstFieldType AstMetadata "AstEnumVal list"
  | AstUnion string AstMetadata "AstUnionVal list"
  | AstTable bool string AstMetadata "AstField list"
  | AstRootType string
  | AstAttributeDecl string

end
