(* ===== verification/Schema_Types.thy ===== *)
theory Schema_Types
  imports Fbs_Ast Js_String
begin

text \<open>
  The resolved schema (\<^verbatim>\<open>tools/protocol/src/schema/types.ts\<close>): what the resolver
  builds from the syntax trees and every output reads. \<^verbatim>\<open>interface T extends TypeBase\<close>
  is record extension.
\<close>

type_synonym Namespace = "string list"

record TypeRef =
  ref_input :: string
  ref_currentNamespace :: Namespace
  resolvedFqtn :: "string list"

datatype FieldType =
    FBasic BasicType
  | FVector FieldType
  | FCustom TypeRef

record TableField =
  fld_name :: string
  fld_type :: FieldType
  fld_default :: "AstDefault option"
  fld_metadata :: AstMetadata

record UnionValue =
  uv_typeRef :: TypeRef
  uv_value :: "jsnum option"
  uv_metadata :: AstMetadata

record TypeBase =
  tb_name :: string
  tb_ns :: Namespace
  tb_fbsFile :: string
  tb_relativeFbsFile :: string
  tb_metadata :: AstMetadata

record EnumType = TypeBase +
  enum_values :: "AstEnumVal list"

record UnionType = TypeBase +
  union_values :: "UnionValue list"

record TableType = TypeBase +
  isStruct :: bool
  tbl_fields :: "TableField list"
  usedInUnion :: bool
  usedInTable :: bool

datatype SchemaType = SEnum EnumType | SUnion UnionType | STable TableType

record SchemaTypes =
  types :: "(string, SchemaType) jsmap"
  rootType :: "TypeRef option"

section \<open>Views\<close>

fun type_base :: "SchemaType \<Rightarrow> TypeBase" where
  "type_base (SEnum e) = TypeBase.truncate e"
| "type_base (SUnion u) = TypeBase.truncate u"
| "type_base (STable t) = TypeBase.truncate t"

text \<open>The references to other types inside a field type, a table and a union.\<close>

fun field_refs :: "FieldType \<Rightarrow> TypeRef list" where
  "field_refs (FBasic b) = []"
| "field_refs (FVector t) = field_refs t"
| "field_refs (FCustom r) = [r]"

definition table_refs :: "TableType \<Rightarrow> TypeRef list" where
  "table_refs t = concat (map (\<lambda>f. field_refs (fld_type f)) (tbl_fields t))"

definition union_refs :: "UnionType \<Rightarrow> TypeRef list" where
  "union_refs u = map uv_typeRef (union_values u)"

fun type_table_refs :: "SchemaType \<Rightarrow> TypeRef list" where
  "type_table_refs (STable t) = table_refs t"
| "type_table_refs _ = []"

fun type_union_refs :: "SchemaType \<Rightarrow> TypeRef list" where
  "type_union_refs (SUnion u) = union_refs u"
| "type_union_refs _ = []"

definition type_refs :: "SchemaType \<Rightarrow> TypeRef list" where
  "type_refs t = type_table_refs t @ type_union_refs t"

abbreviation ref_key :: "TypeRef \<Rightarrow> string" where
  "ref_key r \<equiv> dot_join (resolvedFqtn r)"

fun is_table :: "SchemaType \<Rightarrow> bool" where
  "is_table (STable t) = True"
| "is_table _ = False"

fun is_union :: "SchemaType \<Rightarrow> bool" where
  "is_union (SUnion t) = True"
| "is_union _ = False"

lemma field_refs_single: "length (field_refs ft) \<le> 1"
  by (induction ft) auto

lemma type_refs_mem:
  "r \<in> set (type_refs t) \<longleftrightarrow>
     (\<exists>tt f. t = STable tt \<and> f \<in> set (tbl_fields tt) \<and> r \<in> set (field_refs (fld_type f))) \<or>
     (\<exists>u v. t = SUnion u \<and> v \<in> set (union_values u) \<and> r = uv_typeRef v)"
  by (cases t) (auto simp: type_refs_def table_refs_def union_refs_def)

section \<open>The references of a schema, and what its source promises\<close>

definition root_refs :: "SchemaTypes \<Rightarrow> TypeRef list" where
  "root_refs S = (case rootType S of None \<Rightarrow> [] | Some r \<Rightarrow> [r])"

definition all_table_refs :: "SchemaTypes \<Rightarrow> TypeRef list" where
  "all_table_refs S = concat (map (type_table_refs \<circ> snd) (types S)) @ root_refs S"

definition all_union_refs :: "SchemaTypes \<Rightarrow> TypeRef list" where
  "all_union_refs S = concat (map (type_union_refs \<circ> snd) (types S))"

definition all_refs :: "SchemaTypes \<Rightarrow> TypeRef list" where
  "all_refs S = concat (map (type_refs \<circ> snd) (types S)) @ root_refs S"

definition own_fqtn :: "SchemaType \<Rightarrow> string" where
  "own_fqtn t = dot_join (tb_ns (type_base t) @ dot_split (tb_name (type_base t)))"

lemma all_refs_mem:
  "r \<in> set (all_refs S) \<longleftrightarrow> (\<exists>k t. (k, t) \<in> set (types S) \<and> r \<in> set (type_refs t)) \<or> rootType S = Some r"
  by (cases "rootType S") (force simp: all_refs_def root_refs_def)+

lemma map_get_refs: "map_get (types S) k = Some t \<Longrightarrow> r \<in> set (type_refs t) \<Longrightarrow> r \<in> set (all_refs S)"
  using map_get_mem all_refs_mem by metis

text \<open>
  The interface between whatever produces a schema and the outputs: the types have distinct names,
  each its own, every reference in the schema leads to a declared type, and the two marks of a table
  say exactly whether a table (or the root declaration) or a union refers to it.
\<close>

locale schema_source =
  fixes load :: "'h \<Rightarrow> string \<Rightarrow> string \<Rightarrow> 'e + SchemaTypes"
  assumes keys: "load h d f = Inr S \<Longrightarrow> distinct (map_keys (types S))"
    and named: "load h d f = Inr S \<Longrightarrow> map_get (types S) k = Some t \<Longrightarrow>
      k = own_fqtn t \<and> dot_split k = tb_ns (type_base t) @ dot_split (tb_name (type_base t))"
    and closed: "load h d f = Inr S \<Longrightarrow> r \<in> set (all_refs S) \<Longrightarrow>
      resolvedFqtn r \<noteq> [] \<and> dot_split (ref_key r) = resolvedFqtn r \<and> map_has (types S) (ref_key r)"
    and marked: "load h d f = Inr S \<Longrightarrow> map_get (types S) k = Some (STable tt) \<Longrightarrow>
      (usedInTable tt \<longleftrightarrow> k \<in> ref_key ` set (all_table_refs S)) \<and>
      (usedInUnion tt \<longleftrightarrow> k \<in> ref_key ` set (all_union_refs S))"
begin

lemma target:
  assumes "load h d f = Inr S" and "r \<in> set (all_refs S)"
  obtains t where "map_get (types S) (ref_key r) = Some t"
  using closed [OF assms] by (auto simp: map_has_def)

lemma field_target:
  assumes "load h d f = Inr S" and "map_get (types S) k = Some t" and "r \<in> set (type_refs t)"
  obtains t' where "map_get (types S) (ref_key r) = Some t'"
  using target [OF assms(1) map_get_refs [OF assms(2,3)]] by blast

lemma unused_table:
  assumes "load h d f = Inr S" and "map_get (types S) k = Some (STable t)"
    and "\<not> usedInTable t" and "\<not> usedInUnion t" and "r \<in> set (all_refs S)"
  shows "ref_key r \<noteq> k"
  using marked [OF assms(1,2)] assms(3-5)
  by (auto simp: all_refs_def all_table_refs_def all_union_refs_def type_refs_def)

end

end
