(* ===== verification/Resolver.thy ===== *)
theory Resolver
  imports Schema_Types
begin

text \<open>
  The schema resolver (\<^verbatim>\<open>tools/protocol/src/schema/resolver.ts\<close>): it reads the root
  schema file and everything it includes, collects the declared types under their fully
  qualified names, resolves every reference to a type from the innermost enclosing namespace
  outwards and marks the tables that are used in tables and in unions.

  The file system is a finite table of file contents. Path arithmetic (Node's
  \<^verbatim>\<open>path\<close>) and the schema parser (built on the \<^verbatim>\<open>arcsecond\<close> package) are
  parameters. The recursion over includes takes fuel; the number of files plus one is enough.
\<close>

record Host =
  host_files :: "(string, string) jsmap"
  path_resolve :: "string \<Rightarrow> string \<Rightarrow> string"
  path_relative :: "string \<Rightarrow> string \<Rightarrow> string"
  parse_fbs :: "string \<Rightarrow> AstTopLevel list option"

datatype resolver_error =
    FileNotFound string
  | ParseFailed string
  | TypeAlreadyDefined string
  | UnknownType string string
  | OutOfFuel \<comment> \<open>not an error of the program\<close>

record ResolverContext =
  ctx_schema :: SchemaTypes
  ctx_files :: "string list"
  rootDir :: string
  currentFile :: string

abbreviation ctx_types :: "ResolverContext \<Rightarrow> (string, SchemaType) jsmap" where
  "ctx_types ctx \<equiv> types (ctx_schema ctx)"

definition set_types :: "(string, SchemaType) jsmap \<Rightarrow> ResolverContext \<Rightarrow> ResolverContext" where
  "set_types ts ctx = ctx\<lparr>ctx_schema := (ctx_schema ctx)\<lparr>types := ts\<rparr>\<rparr>"

lemma set_types_simps [simp]:
  "ctx_types (set_types ts ctx) = ts"
  "rootType (ctx_schema (set_types ts ctx)) = rootType (ctx_schema ctx)"
  "ctx_files (set_types ts ctx) = ctx_files ctx"
  "rootDir (set_types ts ctx) = rootDir ctx"
  "currentFile (set_types ts ctx) = currentFile ctx"
  by (simp_all add: set_types_def)

section \<open>Extraction\<close>

text \<open>\<^verbatim>\<open>replace("\\", "/")\<close> changes the first backslash only.\<close>

fun replace_first :: "'a \<Rightarrow> 'a \<Rightarrow> 'a list \<Rightarrow> 'a list" where
  "replace_first a b [] = []"
| "replace_first a b (x # xs) = (if x = a then b # xs else x # replace_first a b xs)"

definition getRelativeFbsFile :: "Host \<Rightarrow> ResolverContext \<Rightarrow> string \<Rightarrow> string" where
  "getRelativeFbsFile H ctx fbsFile =
     replace_first (CHR 0x5C) (CHR ''/'') (path_relative H (rootDir ctx) fbsFile)"

definition namespaced :: "string list \<Rightarrow> string \<Rightarrow> string list" where
  "namespaced ns i = ns @ dot_split i"

definition verifyNewType :: "ResolverContext \<Rightarrow> string list \<Rightarrow> resolver_error + unit" where
  "verifyNewType ctx fqtn =
     (let s = dot_join fqtn
      in if map_has (ctx_types ctx) s then Inl (TypeAlreadyDefined s) else Inr ())"

definition extractType :: "string list \<Rightarrow> string \<Rightarrow> TypeRef" where
  "extractType ns i = \<lparr>ref_input = i, ref_currentNamespace = ns, resolvedFqtn = []\<rparr>"

fun extractFieldType :: "string list \<Rightarrow> AstFieldType \<Rightarrow> FieldType" where
  "extractFieldType ns (AstBasic b) = FBasic b"
| "extractFieldType ns (AstVector t) = FVector (extractFieldType ns t)"
| "extractFieldType ns (AstCustom t) = FCustom (extractType ns t)"

definition extractEnum :: "string list \<Rightarrow> string \<Rightarrow> string \<Rightarrow> string \<Rightarrow> AstMetadata \<Rightarrow> AstEnumVal list \<Rightarrow> SchemaType" where
  "extractEnum ns fbsFile rel name md vals =
     SEnum \<lparr>tb_name = name, tb_ns = ns, tb_fbsFile = fbsFile, tb_relativeFbsFile = rel,
            tb_metadata = md, enum_values = vals\<rparr>"

definition extractUnion :: "string list \<Rightarrow> string \<Rightarrow> string \<Rightarrow> string \<Rightarrow> AstMetadata \<Rightarrow> AstUnionVal list \<Rightarrow> SchemaType" where
  "extractUnion ns fbsFile rel name md vals =
     SUnion \<lparr>tb_name = name, tb_ns = ns, tb_fbsFile = fbsFile, tb_relativeFbsFile = rel,
             tb_metadata = md,
             union_values = map (\<lambda>a. \<lparr>uv_typeRef = extractType ns (ev_id a), uv_value = ev_value a,
                                       uv_metadata = ev_metadata a\<rparr>) vals\<rparr>"

definition extractTable :: "string list \<Rightarrow> string \<Rightarrow> string \<Rightarrow> bool \<Rightarrow> string \<Rightarrow> AstMetadata \<Rightarrow> AstField list \<Rightarrow> SchemaType" where
  "extractTable ns fbsFile rel struct name md fs =
     STable \<lparr>tb_name = name, tb_ns = ns, tb_fbsFile = fbsFile, tb_relativeFbsFile = rel,
             tb_metadata = md, isStruct = struct,
             tbl_fields = map (\<lambda>a. \<lparr>fld_name = af_name a, fld_type = extractFieldType ns (af_type a),
                                 fld_default = af_default a, fld_metadata = af_metadata a\<rparr>) fs,
             usedInUnion = False, usedInTable = False\<rparr>"

definition declareType :: "ResolverContext \<Rightarrow> string list \<Rightarrow> string \<Rightarrow> SchemaType \<Rightarrow> resolver_error + ResolverContext" where
  "declareType ctx ns name t =
     (let fqtn = namespaced ns name
      in bindE (verifyNewType ctx fqtn)
           (\<lambda>_. Inr (set_types (map_set (dot_join fqtn) t (ctx_types ctx)) ctx)))"

text \<open>One element of a file; the namespace in force is part of the loop state.\<close>

definition extractStep :: "string \<Rightarrow> string \<Rightarrow> ResolverContext \<times> string list \<Rightarrow> AstTopLevel \<Rightarrow>
    resolver_error + ResolverContext \<times> string list" where
  "extractStep fbsFile rel s elm =
     (let ctx = fst s; ns = snd s in
      case elm of
        AstNamespace v \<Rightarrow> Inr (ctx, dot_split v)
      | AstEnum name bt md vals \<Rightarrow>
          bindE (declareType ctx ns name (extractEnum ns fbsFile rel name md vals)) (\<lambda>c. Inr (c, ns))
      | AstUnion name md vals \<Rightarrow>
          bindE (declareType ctx ns name (extractUnion ns fbsFile rel name md vals)) (\<lambda>c. Inr (c, ns))
      | AstTable struct name md fs \<Rightarrow>
          bindE (declareType ctx ns name (extractTable ns fbsFile rel struct name md fs)) (\<lambda>c. Inr (c, ns))
      | AstAttributeDecl i \<Rightarrow> Inr (ctx, ns)
      | AstRootType t \<Rightarrow>
          Inr (ctx\<lparr>ctx_schema := (ctx_schema ctx)\<lparr>rootType := Some (extractType ns t)\<rparr>\<rparr>, ns)
      | AstInclude v \<Rightarrow> Inr (ctx, ns))"

definition extractTypes :: "Host \<Rightarrow> ResolverContext \<Rightarrow> string \<Rightarrow> AstTopLevel list \<Rightarrow> resolver_error + ResolverContext" where
  "extractTypes H ctx fbsFile ast =
     bindE (foldE (extractStep fbsFile (getRelativeFbsFile H ctx fbsFile))
              (ctx\<lparr>currentFile := fbsFile\<rparr>, []) ast)
       (\<lambda>s. Inr (fst s))"

section \<open>Files\<close>

text \<open>The include loop, with the recursive call as a parameter.\<close>

definition includeStep :: "Host \<Rightarrow> (ResolverContext \<Rightarrow> string \<Rightarrow> resolver_error + ResolverContext) \<Rightarrow>
    ResolverContext \<Rightarrow> AstTopLevel \<Rightarrow> resolver_error + ResolverContext" where
  "includeStep H rec ctx elm =
     (case elm of AstInclude v \<Rightarrow> rec ctx (path_resolve H (rootDir ctx) v) | _ \<Rightarrow> Inr ctx)"

fun resolveFile :: "nat \<Rightarrow> Host \<Rightarrow> ResolverContext \<Rightarrow> string \<Rightarrow> resolver_error + ResolverContext" where
  "resolveFile 0 H ctx file = Inl OutOfFuel"
| "resolveFile (Suc n) H ctx file =
     (if file \<in> set (ctx_files ctx) then Inr ctx
      else case map_get (host_files H) file of
        None \<Rightarrow> Inl (FileNotFound file)
      | Some fbs \<Rightarrow>
          (case parse_fbs H fbs of
             None \<Rightarrow> Inl (ParseFailed file)
           | Some ast \<Rightarrow>
               bindE (foldE (includeStep H (resolveFile n H))
                        (ctx\<lparr>currentFile := file, ctx_files := ctx_files ctx @ [file]\<rparr>) ast)
                 (\<lambda>ctx'. extractTypes H ctx' file ast)))"

section \<open>References\<close>

text \<open>The scope walk: the enclosing namespaces from the innermost outwards.\<close>

function resolveWalk :: "(string \<Rightarrow> bool) \<Rightarrow> string list \<Rightarrow> string list \<Rightarrow> string list option" where
  "resolveWalk has prefix parts =
     (let fqtn = prefix @ parts
      in if has (dot_join fqtn) then Some fqtn
         else if prefix \<noteq> [] then resolveWalk has (butlast prefix) parts
         else None)"
  by pat_completeness auto
termination
  by (relation "measure (\<lambda>(has, prefix, parts). length prefix)") auto

declare resolveWalk.simps [simp del]

definition resolveType :: "ResolverContext \<Rightarrow> TypeRef \<Rightarrow> resolver_error + TypeRef" where
  "resolveType ctx ref =
     (if resolvedFqtn ref \<noteq> [] then Inr ref
      else case resolveWalk (map_has (ctx_types ctx)) (ref_currentNamespace ref) (dot_split (ref_input ref)) of
        Some fqtn \<Rightarrow> Inr (ref\<lparr>resolvedFqtn := fqtn\<rparr>)
      | None \<Rightarrow> Inl (UnknownType (ref_input ref) (currentFile ctx)))"

fun on_table :: "(TableType \<Rightarrow> TableType) \<Rightarrow> SchemaType \<Rightarrow> SchemaType" where
  "on_table f (STable t) = STable (f t)"
| "on_table f t = t"

definition markResolvedType :: "ResolverContext \<Rightarrow> TypeRef \<Rightarrow> (TableType \<Rightarrow> TableType) \<Rightarrow> ResolverContext" where
  "markResolvedType ctx ref f = set_types (map_modify (ref_key ref) (on_table f) (ctx_types ctx)) ctx"

abbreviation mark_table :: "TableType \<Rightarrow> TableType" where
  "mark_table t \<equiv> t\<lparr>usedInTable := True\<rparr>"

abbreviation mark_union :: "TableType \<Rightarrow> TableType" where
  "mark_union t \<equiv> t\<lparr>usedInUnion := True\<rparr>"

text \<open>The in-place update of a reference becomes the returned field type.\<close>

fun resolveFieldType :: "ResolverContext \<Rightarrow> FieldType \<Rightarrow> resolver_error + ResolverContext \<times> FieldType" where
  "resolveFieldType ctx (FBasic b) = Inr (ctx, FBasic b)"
| "resolveFieldType ctx (FVector t) =
     bindE (resolveFieldType ctx t) (\<lambda>r. Inr (fst r, FVector (snd r)))"
| "resolveFieldType ctx (FCustom ref) =
     bindE (resolveType ctx ref)
       (\<lambda>ref'. Inr (markResolvedType ctx ref' mark_table, FCustom ref'))"

definition unionValueStep :: "ResolverContext \<times> UnionValue list \<Rightarrow> UnionValue \<Rightarrow> resolver_error + ResolverContext \<times> UnionValue list" where
  "unionValueStep s uv =
     bindE (resolveType (fst s) (uv_typeRef uv))
       (\<lambda>ref'. Inr (markResolvedType (fst s) ref' mark_union, snd s @ [uv\<lparr>uv_typeRef := ref'\<rparr>]))"

definition fieldStep :: "ResolverContext \<times> TableField list \<Rightarrow> TableField \<Rightarrow> resolver_error + ResolverContext \<times> TableField list" where
  "fieldStep s f =
     bindE (resolveFieldType (fst s) (fld_type f))
       (\<lambda>r. Inr (fst r, snd s @ [f\<lparr>fld_type := snd r\<rparr>]))"

fun with_values :: "UnionValue list \<Rightarrow> SchemaType \<Rightarrow> SchemaType" where
  "with_values vs (SUnion u) = SUnion (u\<lparr>union_values := vs\<rparr>)"
| "with_values vs t = t"

fun with_fields :: "TableField list \<Rightarrow> SchemaType \<Rightarrow> SchemaType" where
  "with_fields fs (STable t) = STable (t\<lparr>tbl_fields := fs\<rparr>)"
| "with_fields fs t = t"

text \<open>
  One type of the map. The resolved references are written back into the entry as it is after the
  loop, because the loop itself may have marked the entry.
\<close>

definition resolveOne :: "ResolverContext \<Rightarrow> string \<Rightarrow> resolver_error + ResolverContext" where
  "resolveOne ctx k =
     (case map_get (ctx_types ctx) k of
        Some (SUnion u) \<Rightarrow>
          bindE (foldE unionValueStep (ctx, []) (union_values u))
            (\<lambda>s. Inr (set_types (map_modify k (with_values (snd s)) (ctx_types (fst s))) (fst s)))
      | Some (STable t) \<Rightarrow>
          bindE (foldE fieldStep (ctx, []) (tbl_fields t))
            (\<lambda>s. Inr (set_types (map_modify k (with_fields (snd s)) (ctx_types (fst s))) (fst s)))
      | _ \<Rightarrow> Inr ctx)"

definition resolveTypes :: "ResolverContext \<Rightarrow> resolver_error + ResolverContext" where
  "resolveTypes ctx =
     bindE (foldE resolveOne ctx (map_keys (ctx_types ctx)))
       (\<lambda>ctx'. case rootType (ctx_schema ctx') of
          None \<Rightarrow> Inr ctx'
        | Some ref \<Rightarrow>
            bindE (resolveType ctx' ref)
              (\<lambda>ref'. let c = ctx'\<lparr>ctx_schema := (ctx_schema ctx')\<lparr>rootType := Some ref'\<rparr>\<rparr>
                      in Inr (markResolvedType c ref' mark_table)))"

definition resolveSchemaTypes :: "Host \<Rightarrow> string \<Rightarrow> string \<Rightarrow> resolver_error + SchemaTypes" where
  "resolveSchemaTypes H baseDir rootFile =
     (let ctx = \<lparr>ctx_schema = \<lparr>types = [], rootType = None\<rparr>, ctx_files = [],
                 rootDir = baseDir, currentFile = rootFile\<rparr>
      in bindE (resolveFile (Suc (length (host_files H))) H ctx rootFile)
           (\<lambda>ctx'. bindE (resolveTypes ctx') (\<lambda>ctx''. Inr (ctx_schema ctx''))))"

section \<open>The include recursion ends and visits each file once\<close>

lemma declareType_frame:
  "declareType ctx ns name t = Inr ctx' \<Longrightarrow>
     ctx_files ctx' = ctx_files ctx \<and> currentFile ctx' = currentFile ctx \<and> rootDir ctx' = rootDir ctx"
  by (auto simp: declareType_def Let_def bindE_Inr_iff)

lemma declareType_fuel: "declareType ctx ns name t \<noteq> Inl OutOfFuel"
  by (auto simp: declareType_def verifyNewType_def Let_def bindE_Inl_iff split: if_splits)

lemma extractStep_frame:
  assumes "extractStep fl rel s elm = Inr s'"
  shows "ctx_files (fst s') = ctx_files (fst s) \<and> currentFile (fst s') = currentFile (fst s) \<and>
    rootDir (fst s') = rootDir (fst s)"
  using assms declareType_frame
  by (cases elm) (auto simp: extractStep_def Let_def bindE_Inr_iff)

lemma extractStep_fuel: "extractStep fl rel s elm \<noteq> Inl OutOfFuel"
  using declareType_fuel by (cases elm) (auto simp: extractStep_def Let_def bindE_Inl_iff)

lemma extractTypes_frame:
  assumes "extractTypes H ctx fl ast = Inr ctx'"
  shows "ctx_files ctx' = ctx_files ctx" and "currentFile ctx' = fl" and "rootDir ctx' = rootDir ctx"
proof -
  obtain s where s: "foldE (extractStep fl (getRelativeFbsFile H ctx fl)) (ctx\<lparr>currentFile := fl\<rparr>, []) ast = Inr s"
    "ctx' = fst s"
    using assms by (auto simp: extractTypes_def bindE_Inr_iff)
  have "ctx_files (fst s) = ctx_files ctx \<and> currentFile (fst s) = fl \<and> rootDir (fst s) = rootDir ctx"
    by (rule foldE_inv [OF s(1)]) (auto dest: extractStep_frame)
  with s(2) show "ctx_files ctx' = ctx_files ctx" "currentFile ctx' = fl" "rootDir ctx' = rootDir ctx"
    by simp_all
qed

lemma extractTypes_fuel: "extractTypes H ctx fl ast \<noteq> Inl OutOfFuel"
proof
  assume "extractTypes H ctx fl ast = Inl OutOfFuel"
  then have "foldE (extractStep fl (getRelativeFbsFile H ctx fl)) (ctx\<lparr>currentFile := fl\<rparr>, []) ast = Inl OutOfFuel"
    by (auto simp: extractTypes_def bindE_Inl_iff)
  from foldE_throw [OF this, where P = "\<lambda>_. True"] show False
    using extractStep_fuel by blast
qed

lemma includeStep_ok:
  "includeStep H rec ctx elm = Inr ctx' \<Longrightarrow>
     ctx' = ctx \<or> (\<exists>f. rec ctx f = Inr ctx')"
  by (cases elm) (auto simp: includeStep_def)

lemma includeStep_throw:
  "includeStep H rec ctx elm = Inl e \<Longrightarrow> \<exists>f. rec ctx f = Inl e"
  by (cases elm) (auto simp: includeStep_def)

text \<open>What a completed call leaves: a longer list of files, each once, and the called file in it.\<close>

lemma resolveFile_files:
  assumes "resolveFile n H ctx fl = Inr ctx'" and "distinct (ctx_files ctx)"
  shows "set (ctx_files ctx) \<subseteq> set (ctx_files ctx') \<and> fl \<in> set (ctx_files ctx') \<and>
    distinct (ctx_files ctx') \<and> rootDir ctx' = rootDir ctx \<and>
    set (ctx_files ctx') \<subseteq> set (ctx_files ctx) \<union> set (map_keys (host_files H))"
  using assms
proof (induction n arbitrary: ctx fl ctx')
  case (Suc n)
  show ?case
  proof (cases "fl \<in> set (ctx_files ctx)")
    case True
    with Suc.prems show ?thesis by simp
  next
    case False
    with Suc.prems obtain fbs ast c where
      fbs: "map_get (host_files H) fl = Some fbs" "parse_fbs H fbs = Some ast" and
      c: "foldE (includeStep H (resolveFile n H)) (ctx\<lparr>currentFile := fl, ctx_files := ctx_files ctx @ [fl]\<rparr>) ast = Inr c"
        "extractTypes H c fl ast = Inr ctx'"
      by (auto simp: bindE_Inr_iff split: option.splits)
    let ?P = "\<lambda>c. set (ctx_files ctx @ [fl]) \<subseteq> set (ctx_files c) \<and> distinct (ctx_files c) \<and>
      rootDir c = rootDir ctx \<and>
      set (ctx_files c) \<subseteq> set (ctx_files ctx) \<union> set (map_keys (host_files H))"
    have "fl \<in> set (map_keys (host_files H))" using fbs(1) by (force dest: map_of_SomeD)
    then have "?P (ctx\<lparr>currentFile := fl, ctx_files := ctx_files ctx @ [fl]\<rparr>)"
      using Suc.prems(2) False by auto
    then have "?P c"
    proof (rule foldE_inv [OF c(1)])
      fix s x s' assume P: "?P s" and "includeStep H (resolveFile n H) s x = Inr s'"
      then consider "s' = s" | f where "resolveFile n H s f = Inr s'" using includeStep_ok by metis
      then show "?P s'"
      proof cases
        case 2
        with P Suc.IH [OF 2] show ?thesis by auto
      qed (use P in simp)
    qed
    with extractTypes_frame [OF c(2)] show ?thesis by simp
  qed
qed simp

definition unvisited :: "Host \<Rightarrow> ResolverContext \<Rightarrow> nat" where
  "unvisited H ctx = card (set (map_keys (host_files H)) - set (ctx_files ctx))"

lemma unvisited_mono: "set (ctx_files ctx) \<subseteq> set (ctx_files ctx') \<Longrightarrow> unvisited H ctx' \<le> unvisited H ctx"
  unfolding unvisited_def by (rule card_mono) auto

lemma resolveFile_fuel:
  assumes "unvisited H ctx < n" and "distinct (ctx_files ctx)"
  shows "resolveFile n H ctx fl \<noteq> Inl OutOfFuel"
  using assms
proof (induction n arbitrary: ctx fl)
  case (Suc n)
  show ?case
  proof (cases "fl \<in> set (ctx_files ctx) \<or> map_get (host_files H) fl = None")
    case True
    then show ?thesis by (auto split: option.splits)
  next
    case False
    then obtain fbs where fbs: "map_get (host_files H) fl = Some fbs" by auto
    let ?c = "ctx\<lparr>currentFile := fl, ctx_files := ctx_files ctx @ [fl]\<rparr>"
    have mem: "fl \<in> set (map_keys (host_files H)) - set (ctx_files ctx)"
      using False fbs by (force dest: map_of_SomeD)
    then have "unvisited H ?c < unvisited H ctx"
      unfolding unvisited_def by (intro psubset_card_mono) auto
    then have less: "unvisited H ?c < n" using Suc.prems(1) by simp
    have "foldE (includeStep H (resolveFile n H)) ?c ast \<noteq> Inl OutOfFuel" for ast
    proof
      let ?P = "\<lambda>t. set (ctx_files ?c) \<subseteq> set (ctx_files t) \<and> distinct (ctx_files t)"
      assume "foldE (includeStep H (resolveFile n H)) ?c ast = Inl OutOfFuel"
      then have "\<exists>t x. ?P t \<and> x \<in> set ast \<and> includeStep H (resolveFile n H) t x = Inl OutOfFuel"
      proof (rule foldE_throw)
        show "?P ?c" using Suc.prems(2) False by simp
        fix s x s' assume P: "?P s" and "includeStep H (resolveFile n H) s x = Inr s'"
        then consider "s' = s" | f where "resolveFile n H s f = Inr s'" using includeStep_ok by metis
        then show "?P s'" by cases (use P resolveFile_files in blast)+
      qed
      then obtain t f where "?P t" "resolveFile n H t f = Inl OutOfFuel"
        using includeStep_throw by metis
      moreover from this(1) have "unvisited H t < n" using less unvisited_mono le_less_trans by blast
      ultimately show False using Suc.IH by blast
    qed
    then show ?thesis
      using False fbs extractTypes_fuel by (auto simp: bindE_Inl_iff split: option.splits)
  qed
qed simp

lemma resolveFile_current:
  assumes "resolveFile (Suc n) H ctx fl = Inr ctx'" and "fl \<notin> set (ctx_files ctx)"
  shows "currentFile ctx' = fl"
  using assms extractTypes_frame(2) by (auto simp: bindE_Inr_iff split: option.splits)

section \<open>The scope walk\<close>

lemma resolveWalk_hit: "has (dot_join (pre @ parts)) \<Longrightarrow> resolveWalk has pre parts = Some (pre @ parts)"
  by (subst resolveWalk.simps) simp

lemma resolveWalk_up:
  "\<not> has (dot_join (pre @ parts)) \<Longrightarrow> pre \<noteq> [] \<Longrightarrow>
     resolveWalk has pre parts = resolveWalk has (butlast pre) parts"
  by (subst resolveWalk.simps) simp

lemma resolveWalk_fail: "\<not> has (dot_join parts) \<Longrightarrow> resolveWalk has [] parts = None"
  by (subst resolveWalk.simps) simp

lemma resolveWalk_Some:
  "resolveWalk has pre parts = Some f \<longleftrightarrow>
     (\<exists>n \<le> length pre. f = take n pre @ parts \<and> has (dot_join f) \<and>
        (\<forall>m. n < m \<and> m \<le> length pre \<longrightarrow> \<not> has (dot_join (take m pre @ parts))))"
proof (induction has pre parts rule: resolveWalk.induct)
  case (1 has pre parts)
  show ?case
  proof (cases "has (dot_join (pre @ parts))")
    case True
    have "f = pre @ parts"
      if "n \<le> length pre" "f = take n pre @ parts"
        "\<forall>m. n < m \<and> m \<le> length pre \<longrightarrow> \<not> has (dot_join (take m pre @ parts))" for n
      using that(3) [rule_format, of "length pre"] that(1,2) True by (cases "n = length pre") auto
    with True show ?thesis
      unfolding resolveWalk_hit [of has, OF True]
      by (metis le_refl not_less option.inject take_all_iff)
  next
    case False
    show ?thesis
    proof (cases "pre = []")
      case True
      with False show ?thesis by (auto simp: resolveWalk_fail)
    next
      case ne: False
      have shift: "(\<exists>n \<le> length pre. f = take n pre @ parts \<and> has (dot_join f) \<and>
            (\<forall>m. n < m \<and> m \<le> length pre \<longrightarrow> \<not> has (dot_join (take m pre @ parts)))) \<longleftrightarrow>
          (\<exists>n \<le> length (butlast pre). f = take n (butlast pre) @ parts \<and> has (dot_join f) \<and>
            (\<forall>m. n < m \<and> m \<le> length (butlast pre) \<longrightarrow> \<not> has (dot_join (take m (butlast pre) @ parts))))"
        (is "?l \<longleftrightarrow> ?r")
      proof
        assume ?l
        then obtain n where n: "n \<le> length pre" "f = take n pre @ parts" "has (dot_join f)"
          "\<forall>m. n < m \<and> m \<le> length pre \<longrightarrow> \<not> has (dot_join (take m pre @ parts))" by blast
        have "n \<noteq> length pre" using n(2,3) False by auto
        then have "n \<le> length (butlast pre)" using n(1) by simp
        with n show ?r by (intro exI [of _ n]) (auto simp: butlast_take)
      next
        assume ?r
        then obtain n where n: "n \<le> length (butlast pre)" "f = take n (butlast pre) @ parts" "has (dot_join f)"
          "\<forall>m. n < m \<and> m \<le> length (butlast pre) \<longrightarrow> \<not> has (dot_join (take m (butlast pre) @ parts))"
          by blast
        have "\<not> has (dot_join (take m pre @ parts))" if "n < m" "m \<le> length pre" for m
          using n(4) that False by (cases "m = length pre") (auto simp: butlast_take)
        with n show ?l by (intro exI [of _ n]) (auto simp: butlast_take)
      qed
      have "resolveWalk has pre parts = resolveWalk has (butlast pre) parts"
        using False ne by (rule resolveWalk_up)
      with 1 [OF refl False ne] shift show ?thesis by simp
    qed
  qed
qed

lemma resolveWalk_None:
  "resolveWalk has pre parts = None \<longleftrightarrow> (\<forall>n \<le> length pre. \<not> has (dot_join (take n pre @ parts)))"
proof (induction has pre parts rule: resolveWalk.induct)
  case (1 has pre parts)
  show ?case
  proof (cases "has (dot_join (pre @ parts)) \<or> pre = []")
    case True
    show ?thesis
    proof (cases "has (dot_join (pre @ parts))")
      case True
      then show ?thesis using resolveWalk_hit [of has, OF True] by auto
    qed (use True in \<open>auto simp: resolveWalk_fail\<close>)
  next
    case False
    then have "resolveWalk has pre parts = resolveWalk has (butlast pre) parts"
      by (intro resolveWalk_up) auto
    moreover have "(\<forall>n \<le> length (butlast pre). \<not> has (dot_join (take n (butlast pre) @ parts))) \<longleftrightarrow>
        (\<forall>n \<le> length pre. \<not> has (dot_join (take n pre @ parts)))"
    proof (intro iffI allI impI)
      fix n assume a: "\<forall>n \<le> length (butlast pre). \<not> has (dot_join (take n (butlast pre) @ parts))"
        and "n \<le> length pre"
      then show "\<not> has (dot_join (take n pre @ parts))"
        using False by (cases "n = length pre") (auto simp: butlast_take)
    next
      fix n assume "\<forall>n \<le> length pre. \<not> has (dot_join (take n pre @ parts))"
        and "n \<le> length (butlast pre)"
      then show "\<not> has (dot_join (take n (butlast pre) @ parts))"
        by (auto simp: butlast_take)
    qed
    ultimately show ?thesis using 1 False by (simp add: Let_def)
  qed
qed

lemma resolveWalk_has: "resolveWalk has pre parts = Some f \<Longrightarrow> has (dot_join f)"
  by (auto simp: resolveWalk_Some)

lemma resolveWalk_nonempty: "resolveWalk has pre parts = Some f \<Longrightarrow> parts \<noteq> [] \<Longrightarrow> f \<noteq> []"
  by (auto simp: resolveWalk_Some)

end
