(* ===== verification/Resolver_Spec.thy ===== *)
theory Resolver_Spec
  imports Resolver
begin

text \<open>
  What the resolver computes, stated without its loops: every reference of the extracted schema is
  replaced by its resolution in the scope of its namespace, and a table is marked exactly when a
  table field (or the root type) or a union value resolves to it. The loops of
  \<^verbatim>\<open>resolver.ts\<close> are shown to compute this.
\<close>

section \<open>Resolution as a pure function\<close>

definition resolved_ref :: "(string \<Rightarrow> bool) \<Rightarrow> TypeRef \<Rightarrow> TypeRef" where
  "resolved_ref has r =
     (case resolveWalk has (ref_currentNamespace r) (dot_split (ref_input r)) of
        Some f \<Rightarrow> r\<lparr>resolvedFqtn := f\<rparr> | None \<Rightarrow> r)"

definition resolvable :: "(string \<Rightarrow> bool) \<Rightarrow> TypeRef \<Rightarrow> bool" where
  "resolvable has r = (resolveWalk has (ref_currentNamespace r) (dot_split (ref_input r)) \<noteq> None)"

definition dotfree :: "string list \<Rightarrow> bool" where
  "dotfree ns = list_all (\<lambda>p. CHR ''.'' \<notin> set p) ns"

lemma dotfree_simps [simp]:
  "dotfree []" "dotfree (p # ns) \<longleftrightarrow> CHR ''.'' \<notin> set p \<and> dotfree ns" "dotfree (ns @ ms) \<longleftrightarrow> dotfree ns \<and> dotfree ms"
  "dotfree (dot_split s)"
  using split_on_no_sep [of "CHR ''.''" s] by (auto simp: dotfree_def list_all_iff)

lemma dotfree_take: "dotfree ns \<Longrightarrow> dotfree (take n ns)"
  by (auto simp: dotfree_def list_all_iff dest: in_set_takeD)

lemma dotfree_split: "dotfree ns \<Longrightarrow> ns \<noteq> [] \<Longrightarrow> dot_split (dot_join ns) = ns"
  by (rule split_join) (auto simp: dotfree_def list_all_iff)

definition fresh_ref :: "TypeRef \<Rightarrow> bool" where
  "fresh_ref r = (resolvedFqtn r = [] \<and> dotfree (ref_currentNamespace r))"

fun map_ft :: "(TypeRef \<Rightarrow> TypeRef) \<Rightarrow> FieldType \<Rightarrow> FieldType" where
  "map_ft g (FBasic b) = FBasic b"
| "map_ft g (FVector t) = FVector (map_ft g t)"
| "map_ft g (FCustom r) = FCustom (g r)"

definition map_field :: "(TypeRef \<Rightarrow> TypeRef) \<Rightarrow> TableField \<Rightarrow> TableField" where
  "map_field g f = f\<lparr>fld_type := map_ft g (fld_type f)\<rparr>"

definition map_value :: "(TypeRef \<Rightarrow> TypeRef) \<Rightarrow> UnionValue \<Rightarrow> UnionValue" where
  "map_value g v = v\<lparr>uv_typeRef := g (uv_typeRef v)\<rparr>"

fun map_type :: "(TypeRef \<Rightarrow> TypeRef) \<Rightarrow> SchemaType \<Rightarrow> SchemaType" where
  "map_type g (SEnum e) = SEnum e"
| "map_type g (SUnion u) = SUnion (u\<lparr>union_values := map (map_value g) (union_values u)\<rparr>)"
| "map_type g (STable t) = STable (t\<lparr>tbl_fields := map (map_field g) (tbl_fields t)\<rparr>)"

text \<open>Marks: the keys in \<open>U\<close> are used in unions, those in \<open>T\<close> in tables.\<close>

definition mark_type :: "string set \<Rightarrow> string set \<Rightarrow> string \<Rightarrow> SchemaType \<Rightarrow> SchemaType" where
  "mark_type U T k = on_table (\<lambda>t. t\<lparr>usedInUnion := usedInUnion t \<or> k \<in> U, usedInTable := usedInTable t \<or> k \<in> T\<rparr>)"

definition mark_keys :: "string set \<Rightarrow> string set \<Rightarrow> (string, SchemaType) jsmap \<Rightarrow> (string, SchemaType) jsmap" where
  "mark_keys U T ts = map (\<lambda>(k, t). (k, mark_type U T k t)) ts"

definition ref_keys :: "TypeRef list \<Rightarrow> string set" where
  "ref_keys rs = (\<lambda>r. ref_key r) ` set rs"

lemma ref_keys_simps [simp]:
  "ref_keys [] = {}" "ref_keys (r # rs) = insert (ref_key r) (ref_keys rs)"
  "ref_keys (rs @ rs') = ref_keys rs \<union> ref_keys rs'"
  by (auto simp: ref_keys_def)

lemma set_types_id [simp]: "set_types (ctx_types ctx) ctx = ctx"
  by (simp add: set_types_def)

lemma set_types_twice [simp]: "set_types ts (set_types ts' ctx) = set_types ts ctx"
  by (simp add: set_types_def)

lemma on_table_id [simp]: "on_table (\<lambda>t. t) x = x"
  by (cases x) auto

lemma mark_type_comp [simp]: "mark_type U T k (mark_type U' T' k t) = mark_type (U' \<union> U) (T' \<union> T) k t"
  by (cases t) (auto simp: mark_type_def)

lemma mark_type_none [simp]: "k \<notin> U \<Longrightarrow> k \<notin> T \<Longrightarrow> mark_type U T k t = t"
  by (cases t) (auto simp: mark_type_def)

lemma mark_keys_none [simp]: "mark_keys {} {} ts = ts"
  by (auto simp: mark_keys_def intro: map_idI)

lemma mark_keys_comp [simp]: "mark_keys U T (mark_keys U' T' ts) = mark_keys (U' \<union> U) (T' \<union> T) ts"
  by (auto simp: mark_keys_def)

lemma mark_keys_keys [simp]: "map_keys (mark_keys U T ts) = map_keys ts"
  by (auto simp: mark_keys_def)

lemma mark_keys_has [simp]: "map_has (mark_keys U T ts) = map_has ts"
  by (rule ext) (simp only: map_has_iff mark_keys_keys)

lemma map_modify_mark_table: "map_modify k (on_table mark_table) ts = mark_keys {} {k} ts"
proof -
  have "on_table mark_table t = mark_type {} {k} k t" for t
    by (cases t) (auto simp: mark_type_def)
  then show ?thesis by (auto simp: map_modify_def mark_keys_def)
qed

lemma map_modify_mark_union: "map_modify k (on_table mark_union) ts = mark_keys {k} {} ts"
proof -
  have "on_table mark_union t = mark_type {k} {} k t" for t
    by (cases t) (auto simp: mark_type_def)
  then show ?thesis by (auto simp: map_modify_def mark_keys_def)
qed

lemma map_get_mark_keys: "map_get (mark_keys U T ts) k = map_option (mark_type U T k) (map_get ts k)"
  by (induction ts) (auto simp: mark_keys_def)

lemma type_refs_mark [simp]:
  "type_table_refs (mark_type U T k t) = type_table_refs t"
  "type_union_refs (mark_type U T k t) = type_union_refs t"
  by (cases t; simp add: mark_type_def table_refs_def)+

section \<open>References, fields and values\<close>

lemma resolveType_fresh:
  assumes "fresh_ref r"
  shows "resolveType ctx r =
    (if resolvable (map_has (ctx_types ctx)) r then Inr (resolved_ref (map_has (ctx_types ctx)) r)
     else Inl (UnknownType (ref_input r) (currentFile ctx)))"
  using assms by (auto simp: resolveType_def fresh_ref_def resolvable_def resolved_ref_def split: option.splits)

lemma field_refs_map [simp]: "field_refs (map_ft g t) = map g (field_refs t)"
  by (induction t) auto

lemma resolveFieldType_spec:
  assumes "\<forall>r \<in> set (field_refs ft). fresh_ref r" and "has = map_has (ctx_types ctx)"
  shows "resolveFieldType ctx ft =
    (if \<forall>r \<in> set (field_refs ft). resolvable has r
     then Inr (set_types (mark_keys {} (ref_keys (map (resolved_ref has) (field_refs ft))) (ctx_types ctx)) ctx,
               map_ft (resolved_ref has) ft)
     else Inl (UnknownType (ref_input (hd (filter (\<lambda>r. \<not> resolvable has r) (field_refs ft)))) (currentFile ctx)))"
  using assms
  by (induction ft) (auto simp: resolveType_fresh markResolvedType_def map_modify_mark_table)

definition fields_refs :: "TableField list \<Rightarrow> TypeRef list" where
  "fields_refs fs = concat (map (\<lambda>f. field_refs (fld_type f)) fs)"

lemma fields_refs_simps [simp]:
  "fields_refs [] = []" "fields_refs (f # fs) = field_refs (fld_type f) @ fields_refs fs"
  by (auto simp: fields_refs_def)

lemma fields_loop:
  assumes "\<forall>r \<in> set (fields_refs fs). fresh_ref r" and "has = map_has (ctx_types ctx)"
  shows "foldE fieldStep (ctx, out) fs =
    (if \<forall>r \<in> set (fields_refs fs). resolvable has r
     then Inr (set_types (mark_keys {} (ref_keys (map (resolved_ref has) (fields_refs fs))) (ctx_types ctx)) ctx,
               out @ map (map_field (resolved_ref has)) fs)
     else Inl (UnknownType (ref_input (hd (filter (\<lambda>r. \<not> resolvable has r) (fields_refs fs)))) (currentFile ctx)))"
  using assms
proof (induction fs arbitrary: ctx out)
  case (Cons f fs)
  have ft: "\<forall>r \<in> set (field_refs (fld_type f)). fresh_ref r"
    and fs: "\<forall>r \<in> set (fields_refs fs). fresh_ref r" using Cons.prems(1) by auto
  show ?case
  proof (cases "\<forall>r \<in> set (field_refs (fld_type f)). resolvable has r")
    case True
    let ?ctx = "set_types (mark_keys {} (ref_keys (map (resolved_ref has) (field_refs (fld_type f)))) (ctx_types ctx)) ctx"
    have step: "fieldStep (ctx, out) f = Inr (?ctx, out @ [map_field (resolved_ref has) f])"
      using resolveFieldType_spec [OF ft Cons.prems(2)] True by (simp add: fieldStep_def map_field_def)
    have filt: "filter (\<lambda>r. \<not> resolvable has r) (field_refs (fld_type f)) = []"
      using True by (simp add: filter_empty_conv)
    have "has = map_has (ctx_types ?ctx)" using Cons.prems(2) by simp
    from Cons.IH [OF fs this] step True filt show ?thesis by (auto simp: Un_commute)
  next
    case False
    then have "filter (\<lambda>r. \<not> resolvable has r) (field_refs (fld_type f)) \<noteq> []"
      by (auto simp: filter_empty_conv)
    then show ?thesis
      using False resolveFieldType_spec [OF ft Cons.prems(2)] by (auto simp: fieldStep_def)
  qed
qed simp

lemma values_loop:
  assumes "\<forall>v \<in> set vs. fresh_ref (uv_typeRef v)" and "has = map_has (ctx_types ctx)"
  shows "foldE unionValueStep (ctx, out) vs =
    (if \<forall>v \<in> set vs. resolvable has (uv_typeRef v)
     then Inr (set_types (mark_keys (ref_keys (map (resolved_ref has \<circ> uv_typeRef) vs)) {} (ctx_types ctx)) ctx,
               out @ map (map_value (resolved_ref has)) vs)
     else Inl (UnknownType (ref_input (hd (filter (\<lambda>r. \<not> resolvable has r) (map uv_typeRef vs)))) (currentFile ctx)))"
  using assms
proof (induction vs arbitrary: ctx out)
  case (Cons v vs)
  show ?case
  proof (cases "resolvable has (uv_typeRef v)")
    case True
    let ?r = "resolved_ref has (uv_typeRef v)"
    let ?ctx = "set_types (mark_keys {ref_key ?r} {} (ctx_types ctx)) ctx"
    have step: "unionValueStep (ctx, out) v = Inr (?ctx, out @ [map_value (resolved_ref has) v])"
      using Cons.prems True
      by (simp add: unionValueStep_def resolveType_fresh markResolvedType_def map_modify_mark_union map_value_def)
    have "has = map_has (ctx_types ?ctx)" using Cons.prems(2) by simp
    with Cons.IH [of ?ctx] Cons.prems step True show ?thesis by (auto simp: Un_commute)
  next
    case False
    with Cons.prems show ?thesis by (simp add: unionValueStep_def resolveType_fresh)
  qed
qed simp

section \<open>One type\<close>

definition unresolved_error :: "ResolverContext \<Rightarrow> resolver_error \<Rightarrow> bool" where
  "unresolved_error ctx e = (\<exists>r. e = UnknownType (ref_input r) (currentFile ctx) \<and>
     \<not> resolvable (map_has (ctx_types ctx)) r)"

lemma map_modify_mark:
  assumes "\<And>U T t. f (mark_type U T k t) = mark_type U T k (f t)"
  shows "map_modify k f (mark_keys U T ts) = mark_keys U T (map_modify k f ts)"
  using assms by (auto simp: map_modify_def mark_keys_def)

lemma map_type_mark: "map_type g (mark_type U T k t) = mark_type U T k (map_type g t)"
  by (cases t) (auto simp: mark_type_def)

lemma with_mark:
  "with_fields fs (mark_type U T k t) = mark_type U T k (with_fields fs t)"
  "with_values vs (mark_type U T k t) = mark_type U T k (with_values vs t)"
  by (cases t; simp add: mark_type_def)+

lemma map_modify_at:
  assumes "distinct (map_keys ts)" and "map_get ts k = Some t" and "f t = g t"
  shows "map_modify k f ts = map_modify k g ts"
  unfolding map_modify_def
proof (rule map_cong [OF refl])
  fix p assume p: "p \<in> set ts"
  show "(case p of (k', v) \<Rightarrow> (k', if k' = k then f v else v)) = (case p of (k', v) \<Rightarrow> (k', if k' = k then g v else v))"
  proof (cases p)
    case (Pair k' v)
    have "k' = k \<Longrightarrow> v = t"
      using map_get_distinct [OF assms(1), of k v] p Pair assms(2) by auto
    with Pair assms(3) show ?thesis by auto
  qed
qed

lemma filter_hd_mem: "\<exists>x \<in> set xs. P x \<Longrightarrow> P (hd (filter P xs)) \<and> hd (filter P xs) \<in> set xs"
  by (induction xs) auto

lemma map_modify_idle: "map_get ts k = Some t \<Longrightarrow> distinct (map_keys ts) \<Longrightarrow> f t = t \<Longrightarrow> map_modify k f ts = ts"
  using map_modify_at [of ts k t f "\<lambda>t. t"] by (simp add: map_modify_def)

lemma resolveOne_spec:
  assumes t: "map_get (ctx_types ctx) k = Some t" and d: "distinct (map_keys (ctx_types ctx))"
    and fr: "\<forall>r \<in> set (type_refs t). fresh_ref r" and has: "has = map_has (ctx_types ctx)"
  defines "g \<equiv> resolved_ref has"
  shows "(\<forall>r \<in> set (type_refs t). resolvable has r) \<Longrightarrow> resolveOne ctx k =
      Inr (set_types (mark_keys (ref_keys (map g (type_union_refs t))) (ref_keys (map g (type_table_refs t)))
            (map_modify k (map_type g) (ctx_types ctx))) ctx)"
    and "\<not> (\<forall>r \<in> set (type_refs t). resolvable has r) \<Longrightarrow>
      \<exists>e. resolveOne ctx k = Inl e \<and> unresolved_error ctx e"
proof -
  have tab: "fields_refs (tbl_fields tt) = table_refs tt" for tt :: TableType
    by (simp add: fields_refs_def table_refs_def)
  have un: "map uv_typeRef (union_values u) = union_refs u" for u :: UnionType by (simp add: union_refs_def)
  {
    assume all: "\<forall>r \<in> set (type_refs t). resolvable has r"
    show "resolveOne ctx k =
      Inr (set_types (mark_keys (ref_keys (map g (type_union_refs t))) (ref_keys (map g (type_table_refs t)))
            (map_modify k (map_type g) (ctx_types ctx))) ctx)"
    proof (cases t)
      case (SEnum e)
      with t map_modify_idle [OF t d, of "map_type g"] show ?thesis by (simp add: resolveOne_def)
    next
      case (SUnion u)
      have vs: "\<forall>v \<in> set (union_values u). fresh_ref (uv_typeRef v)" "\<forall>v \<in> set (union_values u). resolvable has (uv_typeRef v)"
        using fr all SUnion by (auto simp: type_refs_def union_refs_def)
      have "map_modify k (with_values (map (map_value g) (union_values u))) (ctx_types ctx) = map_modify k (map_type g) (ctx_types ctx)"
        by (rule map_modify_at [OF d t]) (simp add: SUnion)
      then show ?thesis
        using SUnion t values_loop [OF vs(1) has, of "[]"] vs(2)
        by (simp add: resolveOne_def map_modify_mark with_mark g_def union_refs_def)
    next
      case (STable tt)
      have fs: "\<forall>r \<in> set (fields_refs (tbl_fields tt)). fresh_ref r" "\<forall>r \<in> set (fields_refs (tbl_fields tt)). resolvable has r"
        using fr all STable by (auto simp: type_refs_def tab)
      have "map_modify k (with_fields (map (map_field g) (tbl_fields tt))) (ctx_types ctx) = map_modify k (map_type g) (ctx_types ctx)"
        by (rule map_modify_at [OF d t]) (simp add: STable)
      then show ?thesis
        using STable t fields_loop [OF fs(1) has, of "[]"] fs(2)
        by (simp add: resolveOne_def map_modify_mark with_mark g_def tab)
    qed
  next
    assume bad: "\<not> (\<forall>r \<in> set (type_refs t). resolvable has r)"
    then have h: "\<exists>r \<in> set (type_refs t). \<not> resolvable has r" by blast
    show "\<exists>e. resolveOne ctx k = Inl e \<and> unresolved_error ctx e"
    proof (cases t)
      case (SEnum e)
      with bad show ?thesis by (simp add: type_refs_def)
    next
      case (SUnion u)
      then have vs: "\<forall>v \<in> set (union_values u). fresh_ref (uv_typeRef v)" "\<not> (\<forall>v \<in> set (union_values u). resolvable has (uv_typeRef v))"
        and ex: "\<exists>r \<in> set (map uv_typeRef (union_values u)). \<not> resolvable has r"
        using fr h by (auto simp: type_refs_def union_refs_def)
      from filter_hd_mem [OF ex] values_loop [OF vs(1) has, of "[]"] vs(2) SUnion t show ?thesis
        by (auto simp: resolveOne_def unresolved_error_def has)
    next
      case (STable tt)
      then have fs: "\<forall>r \<in> set (fields_refs (tbl_fields tt)). fresh_ref r" "\<not> (\<forall>r \<in> set (fields_refs (tbl_fields tt)). resolvable has r)"
        and ex: "\<exists>r \<in> set (fields_refs (tbl_fields tt)). \<not> resolvable has r"
        using fr h by (auto simp: type_refs_def tab)
      from filter_hd_mem [OF ex] fields_loop [OF fs(1) has, of "[]"] fs(2) STable t show ?thesis
        by (auto simp: resolveOne_def unresolved_error_def has)
    qed
  }
qed

section \<open>All types\<close>

definition refs_at :: "(SchemaType \<Rightarrow> TypeRef list) \<Rightarrow> (string, SchemaType) jsmap \<Rightarrow> string list \<Rightarrow> TypeRef list" where
  "refs_at f ts ks = concat (map (\<lambda>k. case map_get ts k of None \<Rightarrow> [] | Some t \<Rightarrow> f t) ks)"

lemma refs_at_simps [simp]:
  "refs_at f ts [] = []"
  "refs_at f ts (k # ks) = (case map_get ts k of None \<Rightarrow> [] | Some t \<Rightarrow> f t) @ refs_at f ts ks"
  by (simp_all add: refs_at_def)

lemma refs_at_cong:
  assumes "\<And>k. k \<in> set ks \<Longrightarrow> map_option f (map_get ts k) = map_option f (map_get ts' k)"
  shows "refs_at f ts ks = refs_at f ts' ks"
  using assms
proof (induction ks)
  case (Cons k ks)
  from Cons.prems [of k] have "(case map_get ts k of None \<Rightarrow> [] | Some t \<Rightarrow> f t) =
      (case map_get ts' k of None \<Rightarrow> [] | Some t \<Rightarrow> f t)"
    by (auto split: option.splits)
  with Cons show ?case by simp
qed simp

lemma refs_at_all:
  "distinct (map_keys ts) \<Longrightarrow> refs_at f ts (map_keys ts) = concat (map (f \<circ> snd) ts)"
proof (induction ts)
  case (Cons p ts)
  obtain k t where p: "p = (k, t)" by (cases p)
  have "refs_at f ((k, t) # ts) (map_keys ts) = refs_at f ts (map_keys ts)"
    by (rule refs_at_cong) (use Cons.prems p in auto)
  with Cons p show ?case by simp
qed simp

lemma fold_map_modify:
  assumes "distinct ks"
  shows "fold (\<lambda>k. map_modify k f) ks ts = map (\<lambda>(k, t). (k, if k \<in> set ks then f t else t)) ts"
  using assms
proof (induction ks rule: rev_induct)
  case (snoc k ks)
  then show ?case by (auto simp: map_modify_def)
qed (auto intro: map_idI [symmetric])

lemma map_modify_mark_keys:
  "fold (\<lambda>k. map_modify k (map_type g)) ks (mark_keys U T ts) = mark_keys U T (fold (\<lambda>k. map_modify k (map_type g)) ks ts)"
  by (induction ks arbitrary: ts) (simp_all add: map_modify_mark map_type_mark)

lemma all_types_loop:
  assumes "distinct ks" and "set ks \<subseteq> set (map_keys (ctx_types ctx))" and "distinct (map_keys (ctx_types ctx))"
    and "\<forall>r \<in> set (refs_at type_refs (ctx_types ctx) ks). fresh_ref r" and "has = map_has (ctx_types ctx)"
  defines "g \<equiv> resolved_ref has"
  shows "((\<forall>r \<in> set (refs_at type_refs (ctx_types ctx) ks). resolvable has r) \<and>
      foldE resolveOne ctx ks =
        Inr (set_types (mark_keys (ref_keys (map g (refs_at type_union_refs (ctx_types ctx) ks)))
               (ref_keys (map g (refs_at type_table_refs (ctx_types ctx) ks)))
               (fold (\<lambda>k. map_modify k (map_type g)) ks (ctx_types ctx))) ctx)) \<or>
     (\<not> (\<forall>r \<in> set (refs_at type_refs (ctx_types ctx) ks). resolvable has r) \<and>
      (\<exists>e. foldE resolveOne ctx ks = Inl e \<and> unresolved_error ctx e))"
  using assms(1-5)
proof (induction ks arbitrary: ctx)
  case (Cons k ks)
  let ?ts = "ctx_types ctx"
  from Cons.prems(2) obtain t where t: "map_get ?ts k = Some t"
    by (metis list.set_intros(1) map_has_def map_has_iff not_None_eq subset_iff)
  have frt: "\<forall>r \<in> set (type_refs t). fresh_ref r" using Cons.prems(4) t by simp
  show ?case
  proof (cases "\<forall>r \<in> set (type_refs t). resolvable has r")
    case False
    with resolveOne_spec(2) [OF t Cons.prems(3) frt Cons.prems(5)] t show ?thesis by auto
  next
    case True
    let ?U = "ref_keys (map g (type_union_refs t))" and ?T = "ref_keys (map g (type_table_refs t))"
    let ?ctx = "set_types (mark_keys ?U ?T (map_modify k (map_type g) ?ts)) ctx"
    have step: "resolveOne ctx k = Inr ?ctx"
      unfolding g_def by (rule resolveOne_spec(1) [OF t Cons.prems(3) frt Cons.prems(5) True])
    have same: "refs_at f (ctx_types ?ctx) ks = refs_at f ?ts ks"
      if "\<And>U T k t. f (mark_type U T k t) = f t" for f
      using Cons.prems(1) that
      by (intro refs_at_cong) (auto simp: map_get_mark_keys map_get_modify option.map_comp comp_def)
    have tr: "type_refs (mark_type U T k t) = type_refs t" for U T k t by (simp add: type_refs_def)
    note sames = same [of type_refs, OF tr] same [of type_union_refs, OF type_refs_mark(2)]
      same [of type_table_refs, OF type_refs_mark(1)]
    have err: "unresolved_error ?ctx e = unresolved_error ctx e" for e by (simp add: unresolved_error_def)
    have d: "distinct ks" "set ks \<subseteq> set (map_keys (ctx_types ?ctx))" "distinct (map_keys (ctx_types ?ctx))"
      "has = map_has (ctx_types ?ctx)"
      "\<forall>r \<in> set (refs_at type_refs (ctx_types ?ctx) ks). fresh_ref r"
      using Cons.prems t unfolding sames by auto
    have IH: "((\<forall>r \<in> set (refs_at type_refs ?ts ks). resolvable has r) \<and>
      foldE resolveOne ?ctx ks =
        Inr (set_types (mark_keys (ref_keys (map g (refs_at type_union_refs ?ts ks)))
               (ref_keys (map g (refs_at type_table_refs ?ts ks)))
               (fold (\<lambda>k. map_modify k (map_type g)) ks (ctx_types ?ctx))) ctx)) \<or>
     (\<not> (\<forall>r \<in> set (refs_at type_refs ?ts ks). resolvable has r) \<and>
      (\<exists>e. foldE resolveOne ?ctx ks = Inl e \<and> unresolved_error ctx e))"
      using Cons.IH [OF d(1-3) d(5) d(4)] unfolding sames err set_types_twice .
    have fo: "foldE resolveOne ctx (k # ks) = foldE resolveOne ?ctx ks" using step by simp
    have rs: "refs_at f ?ts (k # ks) = f t @ refs_at f ?ts ks" for f using t by simp
    show ?thesis
      unfolding fo rs using IH True
      by (auto simp: map_modify_mark_keys Un_commute simp del: refs_at_simps)
  qed
qed simp

section \<open>What extraction produces\<close>

text \<open>
  The invariant of extraction: keys are distinct, every entry stands under its own fully qualified
  name, no reference is resolved and no table is marked.
\<close>

fun unmarked :: "SchemaType \<Rightarrow> bool" where
  "unmarked (STable t) = (\<not> usedInUnion t \<and> \<not> usedInTable t)"
| "unmarked _ = True"

definition entry_ok :: "string \<Rightarrow> SchemaType \<Rightarrow> bool" where
  "entry_ok k t = (k = dot_join (tb_ns (type_base t) @ dot_split (tb_name (type_base t))) \<and>
     unmarked t \<and> dotfree (tb_ns (type_base t)) \<and> (\<forall>r \<in> set (type_refs t). fresh_ref r \<and> ref_currentNamespace r = tb_ns (type_base t)))"

definition extracted :: "ResolverContext \<Rightarrow> bool" where
  "extracted ctx = (distinct (map_keys (ctx_types ctx)) \<and>
     (\<forall>(k, t) \<in> set (ctx_types ctx). entry_ok k t) \<and>
     (\<forall>r. rootType (ctx_schema ctx) = Some r \<longrightarrow> fresh_ref r))"

lemma field_refs_extract: "dotfree ns \<Longrightarrow> \<forall>r \<in> set (field_refs (extractFieldType ns t)). fresh_ref r \<and> ref_currentNamespace r = ns"
  by (induction t) (auto simp: extractType_def fresh_ref_def)

lemma entry_ok_extract:
  assumes "dotfree ns"
  shows
  "entry_ok (dot_join (namespaced ns name)) (extractEnum ns file rel name md vals)"
  "entry_ok (dot_join (namespaced ns name)) (extractUnion ns file rel name md vals)"
  "entry_ok (dot_join (namespaced ns name)) (extractTable ns file rel struct name md fs)"
  using field_refs_extract [OF assms] assms
  by (auto simp: entry_ok_def namespaced_def extractEnum_def extractUnion_def extractTable_def
      TypeBase.defs type_refs_def union_refs_def table_refs_def extractType_def fresh_ref_def)

lemma declareType_extracted:
  assumes "declareType ctx ns name t = Inr ctx'" and "extracted ctx"
    and "entry_ok (dot_join (namespaced ns name)) t"
  shows "extracted ctx'"
proof -
  let ?k = "dot_join (namespaced ns name)"
  have new: "?k \<notin> set (map_keys (ctx_types ctx))" "ctx' = set_types (map_set ?k t (ctx_types ctx)) ctx"
    using assms(1)
    by (auto simp: declareType_def verifyNewType_def Let_def map_has_iff bindE_Inr_iff split: if_splits)
  then have "ctx_types ctx' = ctx_types ctx @ [(?k, t)]" using map_set_fresh by simp
  with new(1) assms(2,3) show ?thesis by (auto simp: extracted_def new(2))
qed

lemma extractStep_extracted:
  assumes "extractStep file rel s elm = Inr s'" and "extracted (fst s) \<and> dotfree (snd s)"
  shows "extracted (fst s') \<and> dotfree (snd s')"
proof (cases elm)
  case AST: (AstEnum name bt md vals)
  with assms(1) have "declareType (fst s) (snd s) name (extractEnum (snd s) file rel name md vals) = Inr (fst s')"
    by (auto simp: extractStep_def Let_def bindE_Inr_iff)
  from declareType_extracted [OF this _ entry_ok_extract(1)] assms AST show ?thesis
    by (auto simp: extractStep_def Let_def bindE_Inr_iff)
next
  case AST: (AstUnion name md vals)
  with assms(1) have "declareType (fst s) (snd s) name (extractUnion (snd s) file rel name md vals) = Inr (fst s')"
    by (auto simp: extractStep_def Let_def bindE_Inr_iff)
  from declareType_extracted [OF this _ entry_ok_extract(2)] assms AST show ?thesis
    by (auto simp: extractStep_def Let_def bindE_Inr_iff)
next
  case AST: (AstTable struct name md fs)
  with assms(1) have "declareType (fst s) (snd s) name (extractTable (snd s) file rel struct name md fs) = Inr (fst s')"
    by (auto simp: extractStep_def Let_def bindE_Inr_iff)
  from declareType_extracted [OF this _ entry_ok_extract(3)] assms AST show ?thesis
    by (auto simp: extractStep_def Let_def bindE_Inr_iff)
qed (use assms in \<open>auto simp: extractStep_def Let_def extracted_def extractType_def fresh_ref_def\<close>)

lemma extractTypes_extracted:
  assumes "extractTypes H ctx file ast = Inr ctx'" and "extracted ctx"
  shows "extracted ctx'"
proof -
  obtain s where s: "foldE (extractStep file (getRelativeFbsFile H ctx file)) (ctx\<lparr>currentFile := file\<rparr>, []) ast = Inr s"
    "ctx' = fst s"
    using assms(1) by (auto simp: extractTypes_def bindE_Inr_iff)
  have "extracted (fst s) \<and> dotfree (snd s)"
    by (rule foldE_inv [OF s(1)]) (use assms(2) in \<open>auto simp: extracted_def [of "ctx\<lparr>currentFile := file\<rparr>"] extracted_def [of ctx] dest: extractStep_extracted\<close>)
  with s(2) show ?thesis by simp
qed

lemma resolveFile_extracted:
  "resolveFile n H ctx f = Inr ctx' \<Longrightarrow> extracted ctx \<Longrightarrow> extracted ctx'"
proof (induction n arbitrary: ctx f ctx')
  case (Suc n)
  show ?case
  proof (cases "f \<in> set (ctx_files ctx)")
    case True
    with Suc.prems show ?thesis by simp
  next
    case False
    with Suc.prems obtain fbs ast c where
      c: "foldE (includeStep H (resolveFile n H)) (ctx\<lparr>currentFile := f, ctx_files := ctx_files ctx @ [f]\<rparr>) ast = Inr c"
        "extractTypes H c f ast = Inr ctx'"
      by (auto simp: bindE_Inr_iff split: option.splits)
    have "extracted c"
    proof (rule foldE_inv [OF c(1)])
      show "extracted (ctx\<lparr>currentFile := f, ctx_files := ctx_files ctx @ [f]\<rparr>)"
        using Suc.prems(2) by (simp add: extracted_def)
      fix s x s' assume "extracted s" "includeStep H (resolveFile n H) s x = Inr s'"
      then show "extracted s'" using includeStep_ok Suc.IH by metis
    qed
    with c(2) show ?thesis by (rule extractTypes_extracted)
  qed
qed simp

section \<open>The whole resolver\<close>

definition start_context :: "string \<Rightarrow> string \<Rightarrow> ResolverContext" where
  "start_context baseDir rootFile =
     \<lparr>ctx_schema = \<lparr>types = [], rootType = None\<rparr>, ctx_files = [], rootDir = baseDir, currentFile = rootFile\<rparr>"

definition collectTypes :: "Host \<Rightarrow> string \<Rightarrow> string \<Rightarrow> resolver_error + ResolverContext" where
  "collectTypes H baseDir rootFile =
     resolveFile (Suc (length (host_files H))) H (start_context baseDir rootFile) rootFile"

text \<open>The abstract resolver: resolve every reference by \<open>g\<close>, then mark the tables.\<close>

definition resolve_schema :: "SchemaTypes \<Rightarrow> SchemaTypes" where
  "resolve_schema S =
     (let g = resolved_ref (map_has (types S))
      in \<lparr>types = mark_keys (ref_keys (map g (all_union_refs S))) (ref_keys (map g (all_table_refs S)))
                    (map (\<lambda>(k, t). (k, map_type g t)) (types S)),
          rootType = map_option g (rootType S)\<rparr>)"

definition resolvable_schema :: "SchemaTypes \<Rightarrow> bool" where
  "resolvable_schema S = list_all (resolvable (map_has (types S))) (all_refs S)"

lemma resolvable_mark [simp]: "map_has (fold (\<lambda>k. map_modify k f) ks ts) = map_has ts"
  by (induction ks arbitrary: ts) simp_all

lemma all_keys_modify:
  assumes "distinct (map_keys ts)"
  shows "fold (\<lambda>k. map_modify k f) (map_keys ts) ts = map (\<lambda>(k, t). (k, f t)) ts"
  using assms by (subst fold_map_modify) (force intro!: map_cong)+

lemma resolveTypes_spec:
  assumes ex: "extracted ctx"
  shows "resolvable_schema (ctx_schema ctx) \<Longrightarrow>
      resolveTypes ctx = Inr (ctx\<lparr>ctx_schema := resolve_schema (ctx_schema ctx)\<rparr>)"
    and "\<not> resolvable_schema (ctx_schema ctx) \<Longrightarrow>
      \<exists>e. resolveTypes ctx = Inl e \<and> unresolved_error ctx e"
proof -
  let ?ts = "ctx_types ctx" and ?S = "ctx_schema ctx"
  let ?has = "map_has ?ts" let ?g = "resolved_ref ?has"
  have d: "distinct (map_keys ?ts)" and ok: "\<forall>(k, t) \<in> set ?ts. entry_ok k t"
    and rt: "\<And>r. rootType ?S = Some r \<Longrightarrow> fresh_ref r"
    using ex by (auto simp: extracted_def)
  have at: "refs_at f ?ts (map_keys ?ts) = concat (map (f \<circ> snd) ?ts)" for f
    by (rule refs_at_all [OF d])
  have fr: "\<forall>r \<in> set (refs_at type_refs ?ts (map_keys ?ts)). fresh_ref r"
    unfolding at using ok by (fastforce simp: entry_ok_def)
  note loop = all_types_loop [OF d subset_refl d fr refl, unfolded at all_keys_modify [OF d]]
  let ?ts' = "mark_keys (ref_keys (map ?g (all_union_refs ?S)))
     (ref_keys (map ?g (concat (map (type_table_refs \<circ> snd) ?ts)))) (map (\<lambda>(k, t). (k, map_type ?g t)) ?ts)"
  have has': "map_has ?ts' = ?has" unfolding mark_keys_has by (rule ext) (simp add: map_has_iff image_image split_def)
  let ?inner = "\<forall>r \<in> set (concat (map (type_refs \<circ> snd) ?ts)). resolvable ?has r"
  have loop_ok: "?inner \<Longrightarrow> foldE resolveOne ctx (map_keys ?ts) = Inr (set_types ?ts' ctx)"
    using loop by (auto simp: all_union_refs_def)
  have loop_bad: "\<not> ?inner \<Longrightarrow> \<exists>e. foldE resolveOne ctx (map_keys ?ts) = Inl e \<and> unresolved_error ctx e"
    using loop by blast
  have split: "resolvable_schema ?S \<longleftrightarrow> ?inner \<and> (\<forall>r. rootType ?S = Some r \<longrightarrow> resolvable ?has r)"
    by (auto simp: resolvable_schema_def all_refs_def root_refs_def list_all_iff split: option.splits)
  show "resolvable_schema ?S \<Longrightarrow> resolveTypes ctx = Inr (ctx\<lparr>ctx_schema := resolve_schema ?S\<rparr>)"
  proof -
    assume "resolvable_schema ?S"
    then have inn: ?inner and rr: "\<And>r. rootType ?S = Some r \<Longrightarrow> resolvable ?has r" using split by auto
    show ?thesis
    proof (cases "rootType ?S")
      case None
      then show ?thesis
        using loop_ok [OF inn]
        by (simp add: resolveTypes_def resolve_schema_def all_table_refs_def root_refs_def set_types_def Let_def)
    next
      case (Some r)
      have "resolveType (set_types ?ts' ctx) r = Inr (?g r)"
        using resolveType_fresh [OF rt [OF Some], of "set_types ?ts' ctx"] rr [OF Some] has' by simp
      then show ?thesis
        using loop_ok [OF inn] Some
        by (simp add: resolveTypes_def resolve_schema_def all_table_refs_def root_refs_def Let_def
            markResolvedType_def map_modify_mark_table set_types_def)
    qed
  qed
  show "\<not> resolvable_schema ?S \<Longrightarrow> \<exists>e. resolveTypes ctx = Inl e \<and> unresolved_error ctx e"
  proof -
    assume bad: "\<not> resolvable_schema ?S"
    show ?thesis
    proof (cases ?inner)
      case False
      from loop_bad [OF this] show ?thesis by (auto simp: resolveTypes_def)
    next
      case True
      with bad split obtain r where r: "rootType ?S = Some r" "\<not> resolvable ?has r" by auto
      then have "resolveType (set_types ?ts' ctx) r = Inl (UnknownType (ref_input r) (currentFile ctx))"
        using resolveType_fresh [OF rt [OF r(1)], of "set_types ?ts' ctx"] has' by simp
      then show ?thesis
        using loop_ok [OF True] r by (auto simp: resolveTypes_def unresolved_error_def)
    qed
  qed
qed

end
