(* ===== verification/Resolver_Properties.thy ===== *)
theory Resolver_Properties
  imports Resolver_Spec
begin

text \<open>
  The properties of the resolver: it ends, it computes the abstract resolution of
  \<^verbatim>\<open>Resolver_Spec\<close>, and what it returns meets the contract the outputs rely on
  (\<open>schema_source\<close>).
\<close>

section \<open>A run of the resolver\<close>

lemma start_extracted: "extracted (start_context d f)"
  by (simp add: extracted_def start_context_def)

lemma collectTypes_extracted: "collectTypes H d f = Inr ctx \<Longrightarrow> extracted ctx"
  unfolding collectTypes_def using resolveFile_extracted start_extracted by blast

lemma collectTypes_current: "collectTypes H d f = Inr ctx \<Longrightarrow> currentFile ctx = f"
  unfolding collectTypes_def by (erule resolveFile_current) (simp add: start_context_def)

lemma collectTypes_fuel: "collectTypes H d f \<noteq> Inl OutOfFuel"
  unfolding collectTypes_def
proof (rule resolveFile_fuel)
  have "unvisited H (start_context d f) = card (set (map_keys (host_files H)))"
    by (simp add: unvisited_def start_context_def)
  also have "\<dots> \<le> length (host_files H)" using card_length [of "map_keys (host_files H)"] by simp
  finally show "unvisited H (start_context d f) < Suc (length (host_files H))" by simp
qed (simp add: start_context_def)

lemma resolveSchemaTypes_alt:
  "resolveSchemaTypes H d f =
     bindE (collectTypes H d f) (\<lambda>ctx. bindE (resolveTypes ctx) (\<lambda>ctx'. Inr (ctx_schema ctx')))"
  by (simp add: resolveSchemaTypes_def collectTypes_def start_context_def Let_def)

lemma resolveSchemaTypes_ok:
  "resolveSchemaTypes H d f = Inr S \<longleftrightarrow>
     (\<exists>ctx. collectTypes H d f = Inr ctx \<and> resolvable_schema (ctx_schema ctx) \<and> S = resolve_schema (ctx_schema ctx))"
  (is "?l \<longleftrightarrow> ?r")
proof
  assume ?l
  then obtain ctx ctx' where c: "collectTypes H d f = Inr ctx" "resolveTypes ctx = Inr ctx'" "S = ctx_schema ctx'"
    unfolding resolveSchemaTypes_alt by (auto simp: bindE_Inr_iff)
  with resolveTypes_spec [OF collectTypes_extracted [OF c(1)]] show ?r by fastforce
next
  assume ?r
  then show ?l
    using resolveTypes_spec(1) collectTypes_extracted by (auto simp: resolveSchemaTypes_alt)
qed

lemma resolveSchemaTypes_throw:
  "resolveSchemaTypes H d f = Inl e \<longleftrightarrow>
     collectTypes H d f = Inl e \<or>
     (\<exists>ctx. collectTypes H d f = Inr ctx \<and> resolveTypes ctx = Inl e)"
  by (auto simp: resolveSchemaTypes_alt bindE_Inl_iff)

section \<open>The contract\<close>

lemma type_base_resolve [simp]:
  "type_base (mark_type U T k (map_type g t)) = type_base t"
  "own_fqtn (mark_type U T k (map_type g t)) = own_fqtn t"
  by (cases t; auto simp: own_fqtn_def mark_type_def TypeBase.defs)+

lemma map_type_refs [simp]:
  "type_table_refs (map_type g t) = map g (type_table_refs t)"
  "type_union_refs (map_type g t) = map g (type_union_refs t)"
proof -
  have "concat (map (\<lambda>f. field_refs (fld_type (map_field g f))) fs) = map g (concat (map (\<lambda>f. field_refs (fld_type f)) fs))" for fs
    by (induction fs) (simp_all add: map_field_def)
  then show "type_table_refs (map_type g t) = map g (type_table_refs t)"
    by (cases t) (simp_all add: table_refs_def comp_def)
  show "type_union_refs (map_type g t) = map g (type_union_refs t)"
    by (cases t) (simp_all add: union_refs_def map_value_def)
qed

lemma resolve_schema_refs:
  fixes S defines "g \<equiv> resolved_ref (map_has (types S))"
  shows "all_table_refs (resolve_schema S) = map g (all_table_refs S)"
    and "all_union_refs (resolve_schema S) = map g (all_union_refs S)"
    and "set (all_refs (resolve_schema S)) = g ` set (all_refs S)"
proof -
  have tt: "type_table_refs \<circ> snd \<circ> (\<lambda>(k, t). (k, mark_type U T k t)) \<circ> (\<lambda>(k, t). (k, map_type g t)) =
      map g \<circ> (type_table_refs \<circ> snd)"
    and uu: "type_union_refs \<circ> snd \<circ> (\<lambda>(k, t). (k, mark_type U T k t)) \<circ> (\<lambda>(k, t). (k, map_type g t)) =
      map g \<circ> (type_union_refs \<circ> snd)" for U T
    by (auto simp: fun_eq_iff)
  have rr: "root_refs (resolve_schema S) = map g (root_refs S)"
    by (simp add: resolve_schema_def root_refs_def g_def Let_def split: option.splits)
  show 1: "all_table_refs (resolve_schema S) = map g (all_table_refs S)"
    unfolding all_table_refs_def rr
    by (simp add: resolve_schema_def Let_def mark_keys_def map_concat tt [unfolded comp_assoc]
        flip: g_def) (simp add: comp_def split_def)
  show 2: "all_union_refs (resolve_schema S) = map g (all_union_refs S)"
    unfolding all_union_refs_def
    by (simp add: resolve_schema_def Let_def mark_keys_def map_concat flip: g_def) (simp add: comp_def split_def)
  have "set (all_refs S) = set (all_table_refs S) \<union> set (all_union_refs S)" for S
    by (auto simp: all_refs_def all_table_refs_def all_union_refs_def type_refs_def)
  with 1 2 show "set (all_refs (resolve_schema S)) = g ` set (all_refs S)" by (simp add: image_Un)
qed

lemma resolve_schema_has [simp]: "map_has (types (resolve_schema S)) = map_has (types S)"
  by (rule ext) (simp add: resolve_schema_def Let_def map_has_iff image_image split_def mark_keys_def)

lemma resolved_ref_closed:
  assumes "resolvable has r" and "fresh_ref r"
  shows "resolvedFqtn (resolved_ref has r) \<noteq> [] \<and>
    dot_split (ref_key (resolved_ref has r)) = resolvedFqtn (resolved_ref has r) \<and> has (ref_key (resolved_ref has r))"
proof -
  obtain f where f: "resolveWalk has (ref_currentNamespace r) (dot_split (ref_input r)) = Some f"
    using assms by (auto simp: resolvable_def)
  then have "resolved_ref has r = r\<lparr>resolvedFqtn := f\<rparr>" by (simp add: resolved_ref_def)
  moreover have "dotfree f"
    using f assms(2) by (auto simp: resolveWalk_Some fresh_ref_def dotfree_take)
  ultimately show ?thesis using resolveWalk_has [OF f] resolveWalk_nonempty [OF f] by (simp add: dotfree_split)
qed

lemma extracted_fresh: "extracted ctx \<Longrightarrow> r \<in> set (all_refs (ctx_schema ctx)) \<Longrightarrow> fresh_ref r"
  by (fastforce simp: all_refs_mem extracted_def entry_ok_def)

lemma extracted_unmarked:
  assumes "extracted ctx" and "map_get (ctx_types ctx) k = Some t"
  shows "unmarked t" and "k = own_fqtn t" and "dotfree (tb_ns (type_base t))"
  using assms map_get_mem [OF assms(2)] by (auto simp: extracted_def entry_ok_def own_fqtn_def)

lemma map_get_map_type: "map_get (map (\<lambda>(k, t). (k, f t)) ts) k = map_option f (map_get ts k)"
  by (induction ts) auto

lemma resolve_schema_get:
  "map_get (types (resolve_schema S)) k =
     map_option (\<lambda>t. mark_type (ref_keys (all_union_refs (resolve_schema S)))
       (ref_keys (all_table_refs (resolve_schema S))) k (map_type (resolved_ref (map_has (types S))) t))
     (map_get (types S) k)"
  unfolding resolve_schema_refs
  by (simp add: resolve_schema_def Let_def map_get_mark_keys map_get_map_type option.map_comp comp_def)

lemma contract_keys:
  assumes "resolveSchemaTypes H d f = Inr S"
  shows "distinct (map_keys (types S))"
proof -
  obtain ctx where ctx: "collectTypes H d f = Inr ctx" "S = resolve_schema (ctx_schema ctx)"
    using assms resolveSchemaTypes_ok by blast
  with collectTypes_extracted [OF ctx(1)] show ?thesis
    by (simp add: extracted_def resolve_schema_def Let_def mark_keys_def comp_def split_def)
qed

lemma contract_named:
  assumes "resolveSchemaTypes H d f = Inr S" and "map_get (types S) k = Some t"
  shows "k = own_fqtn t \<and> dot_split k = tb_ns (type_base t) @ dot_split (tb_name (type_base t))"
proof -
  obtain ctx where ctx: "collectTypes H d f = Inr ctx" "S = resolve_schema (ctx_schema ctx)"
    using assms(1) resolveSchemaTypes_ok by blast
  with assms(2) obtain t0 where "map_get (ctx_types ctx) k = Some t0" "own_fqtn t = own_fqtn t0" "type_base t = type_base t0"
    by (auto simp: resolve_schema_get)
  moreover from this(1) have "k = own_fqtn t0" "dotfree (tb_ns (type_base t0))"
    using extracted_unmarked(2,3) [OF collectTypes_extracted [OF ctx(1)]] by blast+
  then have "k = own_fqtn t0" "dot_split k = tb_ns (type_base t0) @ dot_split (tb_name (type_base t0))"
    using dotfree_split [of "tb_ns (type_base t0) @ dot_split (tb_name (type_base t0))"]
    by (simp_all add: own_fqtn_def)
  ultimately show ?thesis by simp
qed

lemma contract_closed:
  assumes "resolveSchemaTypes H d f = Inr S" and "r \<in> set (all_refs S)"
  shows "resolvedFqtn r \<noteq> [] \<and> dot_split (ref_key r) = resolvedFqtn r \<and> map_has (types S) (ref_key r)"
proof -
  obtain ctx :: ResolverContext where col: "collectTypes H d f = Inr ctx" and ctx: "resolvable_schema (ctx_schema ctx)" "S = resolve_schema (ctx_schema ctx)"
    using assms(1) unfolding resolveSchemaTypes_ok by blast
  with assms(2) obtain r0 where r0: "r0 \<in> set (all_refs (ctx_schema ctx))"
    and r: "r = resolved_ref (map_has (ctx_types ctx)) r0"
    by (auto simp: resolve_schema_refs)
  with ctx(1) have "resolvable (map_has (ctx_types ctx)) r0"
    by (simp add: resolvable_schema_def list_all_iff)
  from resolved_ref_closed [OF this extracted_fresh [OF collectTypes_extracted [OF col] r0]] ctx(2) r
  show ?thesis by simp
qed

lemma contract_marked:
  assumes "resolveSchemaTypes H d f = Inr S" and "map_get (types S) k = Some (STable tt)"
  shows "(usedInTable tt \<longleftrightarrow> k \<in> ref_key ` set (all_table_refs S)) \<and>
    (usedInUnion tt \<longleftrightarrow> k \<in> ref_key ` set (all_union_refs S))"
proof -
  obtain ctx where ctx: "collectTypes H d f = Inr ctx" "S = resolve_schema (ctx_schema ctx)"
    using assms(1) resolveSchemaTypes_ok by blast
  from assms(2) obtain t0 where t0: "map_get (ctx_types ctx) k = Some t0"
    "STable tt = mark_type (ref_keys (all_union_refs S)) (ref_keys (all_table_refs S)) k
       (map_type (resolved_ref (map_has (ctx_types ctx))) t0)"
    unfolding ctx(2) by (auto simp: resolve_schema_get)
  moreover have "unmarked t0"
    using extracted_unmarked(1) [OF collectTypes_extracted [OF ctx(1)] t0(1)] .
  ultimately show ?thesis by (cases t0) (auto simp: mark_type_def ref_keys_def)
qed

interpretation resolver: schema_source resolveSchemaTypes
  by unfold_locales (erule contract_keys contract_named contract_closed contract_marked; assumption)+

section \<open>An example schema\<close>

text \<open>
  Two files: \<^verbatim>\<open>root\<close> includes \<^verbatim>\<open>base\<close>, declares a request and a
  union of messages in a nested namespace and names the message type of the base namespace.
\<close>

definition demo_parse :: "string \<Rightarrow> AstTopLevel list option" where
  "demo_parse s =
     (if s = ''R'' then Some
        [AstInclude ''base'', AstNamespace ''motis.lookup'',
         AstTable False ''Request'' None
           [\<lparr>af_name = ''pos'', af_type = AstCustom ''Position'', af_default = None, af_metadata = None\<rparr>],
         AstUnion ''Msg'' None [\<lparr>ev_id = ''Request'', ev_value = None, ev_metadata = None\<rparr>],
         AstRootType ''Request'']
      else if s = ''B'' then Some
        [AstInclude ''root'', AstNamespace ''motis'',
         AstTable True ''Position'' None
           [\<lparr>af_name = ''lat'', af_type = AstBasic (FloatType ''double'' \<lparr>fbits = 64\<rparr>), af_default = None, af_metadata = None\<rparr>]]
      else if s = ''X'' then Some
        [AstTable False ''T'' None
           [\<lparr>af_name = ''f'', af_type = AstVector (AstCustom ''Missing''), af_default = None, af_metadata = None\<rparr>]]
      else if s = ''I'' then Some [AstInclude ''bad''] else None)"

definition demo_host :: Host where
  "demo_host = \<lparr>host_files = [(''root'', ''R''), (''base'', ''B''), (''bad'', ''X''), (''top'', ''I'')],
     path_resolve = (\<lambda>d f. f), path_relative = (\<lambda>d f. f), parse_fbs = demo_parse\<rparr>"

lemma demo_schema:
  "resolveSchemaTypes demo_host ''/'' ''root'' =
     Inr \<lparr>types =
       [(''motis.Position'', STable \<lparr>tb_name = ''Position'', tb_ns = [''motis''], tb_fbsFile = ''base'',
           tb_relativeFbsFile = ''base'', tb_metadata = None, isStruct = True,
           tbl_fields = [\<lparr>fld_name = ''lat'', fld_type = FBasic (FloatType ''double'' \<lparr>fbits = 64\<rparr>),
             fld_default = None, fld_metadata = None\<rparr>],
           usedInUnion = False, usedInTable = True\<rparr>),
        (''motis.lookup.Request'', STable \<lparr>tb_name = ''Request'', tb_ns = [''motis'', ''lookup''], tb_fbsFile = ''root'',
           tb_relativeFbsFile = ''root'', tb_metadata = None, isStruct = False,
           tbl_fields = [\<lparr>fld_name = ''pos'',
             fld_type = FCustom \<lparr>ref_input = ''Position'', ref_currentNamespace = [''motis'', ''lookup''],
               resolvedFqtn = [''motis'', ''Position'']\<rparr>,
             fld_default = None, fld_metadata = None\<rparr>],
           usedInUnion = True, usedInTable = True\<rparr>),
        (''motis.lookup.Msg'', SUnion \<lparr>tb_name = ''Msg'', tb_ns = [''motis'', ''lookup''], tb_fbsFile = ''root'',
           tb_relativeFbsFile = ''root'', tb_metadata = None,
           union_values = [\<lparr>uv_typeRef = \<lparr>ref_input = ''Request'', ref_currentNamespace = [''motis'', ''lookup''],
               resolvedFqtn = [''motis'', ''lookup'', ''Request'']\<rparr>, uv_value = None, uv_metadata = None\<rparr>]\<rparr>)],
       rootType = Some \<lparr>ref_input = ''Request'', ref_currentNamespace = [''motis'', ''lookup''],
         resolvedFqtn = [''motis'', ''lookup'', ''Request'']\<rparr>\<rparr>"
  by code_simp

section \<open>Properties\<close>

text \<open>C2: the resolver ends on every input. With one more unit of fuel than there are files the
  include recursion never runs out, however the files include each other, cycles included.\<close>

theorem resolver_ends: "resolveSchemaTypes H baseDir rootFile \<noteq> Inl OutOfFuel"
proof
  assume "resolveSchemaTypes H baseDir rootFile = Inl OutOfFuel"
  then obtain ctx where c: "collectTypes H baseDir rootFile = Inr ctx" "resolveTypes ctx = Inl OutOfFuel"
    using collectTypes_fuel unfolding resolveSchemaTypes_throw by blast
  with resolveTypes_spec [OF collectTypes_extracted [OF c(1)]] show False
    by (cases "resolvable_schema (ctx_schema ctx)") (auto simp: unresolved_error_def)
qed

text \<open>C1: the resolver computes the abstract resolution. It succeeds exactly when the files can be
  read and every reference resolves in its scope, and then the schema is the extracted one with
  every reference replaced by its resolution and exactly the referenced tables marked.\<close>

theorem resolver_refines:
  "resolveSchemaTypes H baseDir rootFile = Inr S \<longleftrightarrow>
     (\<exists>ctx. collectTypes H baseDir rootFile = Inr ctx \<and> resolvable_schema (ctx_schema ctx) \<and>
        S = resolve_schema (ctx_schema ctx))"
  by (rule resolveSchemaTypes_ok)

text \<open>A reference resolves to the innermost enclosing namespace in which the name is declared:
  the walk tries the namespace prefixes from the longest to the empty one.\<close>

theorem innermost_scope:
  assumes "resolvedFqtn ref = []" and "resolveType ctx ref = Inr ref'"
  shows "\<exists>n \<le> length (ref_currentNamespace ref).
    resolvedFqtn ref' = take n (ref_currentNamespace ref) @ dot_split (ref_input ref) \<and>
    map_has (ctx_types ctx) (ref_key ref') \<and>
    (\<forall>m. n < m \<and> m \<le> length (ref_currentNamespace ref) \<longrightarrow>
       \<not> map_has (ctx_types ctx) (dot_join (take m (ref_currentNamespace ref) @ dot_split (ref_input ref))))"
proof -
  obtain f where f: "resolveWalk (map_has (ctx_types ctx)) (ref_currentNamespace ref) (dot_split (ref_input ref)) = Some f"
    "ref' = ref\<lparr>resolvedFqtn := f\<rparr>"
    using assms by (auto simp: resolveType_def split: option.splits)
  from resolveWalk_Some [THEN iffD1, OF f(1)] f(2) show ?thesis by auto
qed

definition demo_context :: ResolverContext where
  "demo_context = set_types [(''a.T'', SEnum \<lparr>tb_name = ''T'', tb_ns = [''a''], tb_fbsFile = [], tb_relativeFbsFile = [],
       tb_metadata = None, enum_values = []\<rparr>)] (start_context ''/'' ''root'')"

definition demo_ref :: TypeRef where
  "demo_ref = \<lparr>ref_input = ''T'', ref_currentNamespace = [''a'', ''b'', ''c''], resolvedFqtn = []\<rparr>"

theorem innermost_scope_witness:
  "\<exists>ref'. resolveType demo_context demo_ref = Inr ref' \<and>
     (\<exists>n \<le> length (ref_currentNamespace demo_ref).
        resolvedFqtn ref' = take n (ref_currentNamespace demo_ref) @ dot_split (ref_input demo_ref))"
proof -
  have r: "resolveType demo_context demo_ref = Inr (demo_ref\<lparr>resolvedFqtn := [''a'', ''T'']\<rparr>)" by code_simp
  have f: "resolvedFqtn demo_ref = []" by code_simp
  from innermost_scope [OF f r] r show ?thesis by blast
qed

text \<open>C34: what the resolver returns is closed: every reference of every table, union and of the
  root declaration leads to a declared type, and every type stands under its own qualified name.\<close>

theorem resolved_schema_closed:
  assumes "resolveSchemaTypes H baseDir rootFile = Inr S"
  shows "distinct (map_keys (types S)) \<and>
    (\<forall>(k, t) \<in> set (types S). k = own_fqtn t \<and>
       (\<forall>r \<in> set (type_refs t). map_has (types S) (ref_key r))) \<and>
    list_all (\<lambda>r. map_has (types S) (ref_key r)) (root_refs S)"
proof (intro conjI)
  show d: "distinct (map_keys (types S))" by (rule resolver.keys [OF assms])
  show "\<forall>(k, t) \<in> set (types S). k = own_fqtn t \<and>
       (\<forall>r \<in> set (type_refs t). map_has (types S) (ref_key r))"
    using resolver.named [OF assms] resolver.closed [OF assms] map_get_distinct [OF d] map_get_refs
    by fastforce
  show "list_all (\<lambda>r. map_has (types S) (ref_key r)) (root_refs S)"
    using resolver.closed [OF assms] by (auto simp: list_all_iff all_refs_def)
qed

theorem resolved_schema_closed_witness:
  "\<exists>S. resolveSchemaTypes demo_host ''/'' ''root'' = Inr S \<and> distinct (map_keys (types S))"
  using resolved_schema_closed [OF demo_schema] demo_schema by blast

text \<open>C35: the marks are exact. A table of the resolved schema is marked as used in a table exactly
  when a table field or the root declaration refers to it, and as used in a union exactly when a
  union value refers to it.\<close>

theorem marks_exact:
  assumes "resolveSchemaTypes H baseDir rootFile = Inr S" and "map_get (types S) k = Some (STable t)"
  shows "(usedInTable t \<longleftrightarrow> k \<in> ref_key ` set (all_table_refs S)) \<and>
    (usedInUnion t \<longleftrightarrow> k \<in> ref_key ` set (all_union_refs S))"
  by (rule contract_marked [OF assms])

theorem marks_exact_witness:
  "\<exists>S t. resolveSchemaTypes demo_host ''/'' ''root'' = Inr S \<and>
     map_get (types S) ''motis.Position'' = Some (STable t) \<and>
     ''motis.Position'' \<in> ref_key ` set (all_table_refs S) \<and>
     ''motis.Position'' \<notin> ref_key ` set (all_union_refs S)"
  using marks_exact [OF demo_schema, of "''motis.Position''"] demo_schema by simp

text \<open>An unresolvable reference stops the resolver with an error that names the root file, in
  whichever file the reference stands.\<close>

theorem unknown_type_names_root:
  assumes "resolveSchemaTypes H baseDir rootFile = Inl (UnknownType i f)"
    and "collectTypes H baseDir rootFile = Inr ctx"
  shows "f = rootFile \<and> (\<exists>r. ref_input r = i \<and> \<not> resolvable (map_has (ctx_types ctx)) r)"
proof -
  have "resolveTypes ctx = Inl (UnknownType i f)" using assms unfolding resolveSchemaTypes_throw by simp
  with resolveTypes_spec [OF collectTypes_extracted [OF assms(2)]]
  have "unresolved_error ctx (UnknownType i f)"
    by (cases "resolvable_schema (ctx_schema ctx)") auto
  with collectTypes_current [OF assms(2)] show ?thesis by (auto simp: unresolved_error_def)
qed

theorem unknown_type_names_root_witness:
  "resolveSchemaTypes demo_host ''/'' ''top'' = Inl (UnknownType ''Missing'' ''top'') \<and>
     (\<exists>r :: TypeRef. ref_input r = ''Missing'')"
proof -
  have e: "resolveSchemaTypes demo_host ''/'' ''top'' = Inl (UnknownType ''Missing'' ''top'')" by code_simp
  obtain ctx where c: "collectTypes demo_host ''/'' ''top'' = Inr ctx"
  proof -
    have "case collectTypes demo_host ''/'' ''top'' of Inr _ \<Rightarrow> True | Inl _ \<Rightarrow> False" by code_simp
    then show thesis using that by (auto split: sum.splits)
  qed
  from unknown_type_names_root [OF e c] e show ?thesis by blast
qed

end
