(* ===== verification/Js_Value.thy ===== *)
theory Js_Value
  imports Fbs_Ast
begin

text \<open>
  Dynamic values: what \<^verbatim>\<open>JSON.parse\<close> or the YAML reader hands to the program and
  what it builds to be serialised. An object keeps its keys in insertion order.
\<close>

datatype jsval =
    JUndef
  | JNull
  | JBool bool
  | JNum jsnum
  | JStr string
  | JArr "jsval list"
  | JObj "(string \<times> jsval) list"

abbreviation JInt :: "int \<Rightarrow> jsval" where
  "JInt i \<equiv> JNum (Fin (of_int i))"

text \<open>\<^verbatim>\<open>o[key]\<close>, \<^verbatim>\<open>key in o\<close> and \<^verbatim>\<open>o[key] = v\<close> on an object.\<close>

fun obj_get :: "jsval \<Rightarrow> string \<Rightarrow> jsval" where
  "obj_get (JObj ps) k = (case map_get ps k of None \<Rightarrow> JUndef | Some v \<Rightarrow> v)"
| "obj_get _ k = JUndef"

fun obj_has :: "jsval \<Rightarrow> string \<Rightarrow> bool" where
  "obj_has (JObj ps) k = map_has ps k"
| "obj_has _ k = False"

fun obj_set :: "string \<Rightarrow> jsval \<Rightarrow> jsval \<Rightarrow> jsval" where
  "obj_set k v (JObj ps) = JObj (map_set k v ps)"
| "obj_set k v x = x"

fun obj_keys :: "jsval \<Rightarrow> string list" where
  "obj_keys (JObj ps) = map_keys ps"
| "obj_keys _ = []"

fun is_obj :: "jsval \<Rightarrow> bool" where
  "is_obj (JObj ps) = True"
| "is_obj _ = False"

text \<open>Truthiness: undefined, null, false, zero, NaN and the empty string are falsy.\<close>

fun truthy :: "jsval \<Rightarrow> bool" where
  "truthy JUndef = False"
| "truthy JNull = False"
| "truthy (JBool b) = b"
| "truthy (JNum (Fin q)) = (q \<noteq> 0)"
| "truthy (JNum NaN) = False"
| "truthy (JNum _) = True"
| "truthy (JStr s) = (s \<noteq> [])"
| "truthy (JArr _) = True"
| "truthy (JObj _) = True"

text \<open>\<^verbatim>\<open>a || b\<close> and \<^verbatim>\<open>a ?? b\<close>.\<close>

definition js_or :: "jsval \<Rightarrow> jsval \<Rightarrow> jsval" where
  "js_or a b = (if truthy a then a else b)"

definition js_coalesce :: "jsval \<Rightarrow> jsval \<Rightarrow> jsval" where
  "js_coalesce a b = (if a = JUndef \<or> a = JNull then b else a)"

lemma is_obj_set [simp]: "is_obj (obj_set k v x) = is_obj x"
  by (cases x) auto

lemma obj_get_set [js_simps]:
  "is_obj x \<Longrightarrow> obj_get (obj_set k v x) k' = (if k' = k then v else obj_get x k')"
  by (cases x) (auto simp: map_get_set)

lemma obj_has_iff: "obj_has x k \<longleftrightarrow> k \<in> set (obj_keys x)"
  by (cases x) (auto simp: map_has_iff)

lemma obj_keys_set: "is_obj x \<Longrightarrow> set (obj_keys (obj_set k v x)) = insert k (set (obj_keys x))"
  by (cases x) auto

lemma obj_has_set [js_simps]: "is_obj x \<Longrightarrow> obj_has (obj_set k v x) k' = (k' = k \<or> obj_has x k')"
  by (simp add: obj_has_iff obj_keys_set)

section \<open>Deep equality\<close>

text \<open>
  \<^verbatim>\<open>deepEqual\<close> (\<^verbatim>\<open>ui/web/external_lib/deep-equal.js\<close>) on such values: arrays
  by their elements, objects by their keys in any order, everything else by
  \<^verbatim>\<open>===\<close>, where \<^verbatim>\<open>NaN\<close> differs from itself.
\<close>

lemma size_jarr: "x \<in> set xs \<Longrightarrow> size x < Suc (size_list size xs)" for x :: jsval
  by (induction xs) auto

lemma size_jobj: "(k, v) \<in> set ps \<Longrightarrow> size v < Suc (size_list (size_prod (\<lambda>x. 0) size) ps)" for v :: jsval
  by (induction ps) auto

function deepEqual :: "jsval \<Rightarrow> jsval \<Rightarrow> bool" where
  "deepEqual (JArr xs) b =
     (case b of
        JArr ys \<Rightarrow> length xs = length ys \<and> list_all (\<lambda>(x, y). deepEqual x y) (zip xs ys)
      | _ \<Rightarrow> False)"
| "deepEqual (JObj ps) b =
     (case b of
        JObj qs \<Rightarrow>
          length ps = length qs \<and> list_all (\<lambda>(k, v). map_has qs k) ps \<and>
          list_all (\<lambda>(k, v). deepEqual v (obj_get b k)) ps
      | _ \<Rightarrow> False)"
| "deepEqual (JNum x) b = (x \<noteq> NaN \<and> b = JNum x)"
| "deepEqual (JStr x) b = (b = JStr x)"
| "deepEqual (JBool x) b = (b = JBool x)"
| "deepEqual JNull b = (b = JNull)"
| "deepEqual JUndef b = (b = JUndef)"
  by pat_completeness auto
termination
  by (relation "measure (\<lambda>(a, b). size a)") (auto dest: set_zip_leftD size_jarr size_jobj)

end
