(* ===== verification/Type_Filter.thy ===== *)
theory Type_Filter
  imports Js_Value
begin

text \<open>
  Type filters (\<^verbatim>\<open>tools/protocol/src/filter\<close>): wildcard patterns over dotted type
  names, compiled to regular expressions. The part of JavaScript's \<^verbatim>\<open>RegExp\<close> the
  compiled patterns use is modelled from the language definition: a source text between
  \<^verbatim>\<open>^\<close> and \<^verbatim>\<open>$\<close> is parsed into a sequence of possibly starred atoms and
  matched by backtracking.
\<close>

section \<open>The regular expressions the compiler emits\<close>

datatype ratom = RChar char | RNotDot | RAny

datatype rpiece = One ratom | Many ratom

definition line_terminator :: "char \<Rightarrow> bool" where
  "line_terminator c = (of_char c \<in> {10, 13 :: nat})"

fun atom_ok :: "ratom \<Rightarrow> char \<Rightarrow> bool" where
  "atom_ok (RChar d) c = (c = d)"
| "atom_ok RNotDot c = (c \<noteq> CHR ''.'')"
| "atom_ok RAny c = (\<not> line_terminator c)"

fun rx_match :: "rpiece list \<Rightarrow> string \<Rightarrow> bool" where
  "rx_match [] s = (s = [])"
| "rx_match (One a # ps) [] = False"
| "rx_match (One a # ps) (c # s) = (atom_ok a c \<and> rx_match ps s)"
| "rx_match (Many a # ps) [] = rx_match ps []"
| "rx_match (Many a # ps) (c # s) = (rx_match ps (c # s) \<or> (atom_ok a c \<and> rx_match (Many a # ps) s))"

text \<open>
  One atom at the head of a source text. A bare quantifier is a syntax error
  (\<open>None\<close>), as it is in the \<^verbatim>\<open>RegExp\<close> constructor; so is any other character the
  subset does not know.
\<close>

definition plain_char :: "char \<Rightarrow> bool" where
  "plain_char c = (c = CHR ''-'' \<or> c = CHR ''_'' \<or> in_range (CHR ''a'') (CHR ''z'') c
     \<or> in_range (CHR ''A'') (CHR ''Z'') c \<or> in_range (CHR ''0'') (CHR ''9'') c)"

definition backslash :: char where "backslash = CHR 0x5C"

fun rx_atom :: "string \<Rightarrow> (ratom \<times> string) option" where
  "rx_atom [] = None"
| "rx_atom (c # s) =
     (if c = CHR ''['' then
        (if take 4 (c # s) = ''[^.]'' then Some (RNotDot, drop 4 (c # s)) else None)
      else if c = backslash then
        (case s of d # s' \<Rightarrow> if d = CHR ''.'' then Some (RChar d, s') else None | [] \<Rightarrow> None)
      else if c = CHR ''.'' then Some (RAny, s)
      else if plain_char c then Some (RChar c, s)
      else None)"

lemma rx_atom_shorter: "rx_atom s = Some (a, s') \<Longrightarrow> length s' < length s"
  by (cases s) (auto split: if_splits list.splits)

function rx_parse :: "string \<Rightarrow> rpiece list option" where
  "rx_parse s =
     (if s = ''$'' then Some []
      else case rx_atom s of
        None \<Rightarrow> None
      | Some (a, s') \<Rightarrow>
          (case s' of
             c # s'' \<Rightarrow>
               if c = CHR ''*'' then map_option ((#) (Many a)) (rx_parse s'')
               else map_option ((#) (One a)) (rx_parse s')
           | [] \<Rightarrow> map_option ((#) (One a)) (rx_parse s')))"
  by pat_completeness auto
termination
  by (relation "measure length") (auto dest!: rx_atom_shorter)

declare rx_parse.simps [simp del]

datatype filter_error = InvalidTypeFilter string | RegExpSyntaxError string | TypeError

definition new_RegExp :: "string \<Rightarrow> filter_error + rpiece list" where
  "new_RegExp src =
     (case src of
        c # s \<Rightarrow> (if c = CHR ''^'' then
                    (case rx_parse s of None \<Rightarrow> Inl (RegExpSyntaxError src) | Some ps \<Rightarrow> Inr ps)
                  else Inl (RegExpSyntaxError src))
      | [] \<Rightarrow> Inl (RegExpSyntaxError src))"

section \<open>parse-filter.ts\<close>

definition allowedPartCharacter :: "char \<Rightarrow> bool" where
  "allowedPartCharacter c = (c = CHR ''*'' \<or> plain_char c)"

definition allowedPart :: "string \<Rightarrow> bool" where
  "allowedPart part = (part \<noteq> [] \<and> list_all allowedPartCharacter part)"

text \<open>\<^verbatim>\<open>part.replace(/\*+/, f)\<close>: the first run of stars only.\<close>

fun replaceStars :: "string \<Rightarrow> string" where
  "replaceStars [] = []"
| "replaceStars (c # cs) =
     (if c = CHR ''*'' then
        (if length (takeWhile (\<lambda>d. d = CHR ''*'') (c # cs)) = 1 then ''[^.]*'' else ''.*'') @
        dropWhile (\<lambda>d. d = CHR ''*'') (c # cs)
      else c # replaceStars cs)"

definition convertPart :: "string \<Rightarrow> string \<Rightarrow> filter_error + string" where
  "convertPart pattern part =
     (if \<not> allowedPart part then Inl (InvalidTypeFilter pattern)
      else if CHR ''*'' \<in> set part then Inr (replaceStars part)
      else Inr part)"

definition parseTypePattern :: "string \<Rightarrow> filter_error + rpiece list" where
  "parseTypePattern pattern =
     bindE (mapE (convertPart pattern) (dot_split pattern))
       (\<lambda>parts. new_RegExp (''^'' @ join [backslash, CHR ''.''] parts @ ''$''))"

text \<open>
  \<^verbatim>\<open>patterns\<close> is whatever the configuration holds: an array is iterated, skipping the
  values that are not strings; iterating another object (or null) is a TypeError; any other
  value yields no patterns.
\<close>

fun pushPattern :: "rpiece list list \<Rightarrow> jsval \<Rightarrow> filter_error + rpiece list list" where
  "pushPattern res (JStr p) = bindE (parseTypePattern p) (\<lambda>r. Inr (res @ [r]))"
| "pushPattern res _ = Inr res"

fun parseTypePatterns :: "jsval \<Rightarrow> filter_error + rpiece list list" where
  "parseTypePatterns (JArr ps) = foldE pushPattern [] ps"
| "parseTypePatterns (JObj _) = Inl TypeError"
| "parseTypePatterns JNull = Inl TypeError"
| "parseTypePatterns _ = Inr []"

section \<open>type-filter.ts\<close>

record TypeFilter =
  tf_includes :: "rpiece list list"
  tf_excludes :: "rpiece list list"

fun typeMatches :: "rpiece list list \<Rightarrow> string \<Rightarrow> bool" where
  "typeMatches [] fqtn = False"
| "typeMatches (p # ps) fqtn = (if rx_match p fqtn then True else typeMatches ps fqtn)"

definition includeType :: "TypeFilter \<Rightarrow> string \<Rightarrow> bool" where
  "includeType flt fqtn =
     (if tf_includes flt \<noteq> [] \<and> \<not> typeMatches (tf_includes flt) fqtn then False
      else \<not> typeMatches (tf_excludes flt) fqtn)"

fun object_valued :: "jsval \<Rightarrow> bool" where
  "object_valued (JArr _) = True"
| "object_valued (JObj _) = True"
| "object_valued _ = False"

text \<open>\<^verbatim>\<open>"include" in null\<close> throws; a value that is no object has no filters.\<close>

definition parseTypeFilter :: "jsval \<Rightarrow> filter_error + TypeFilter" where
  "parseTypeFilter config =
     (if config = JNull then Inl TypeError
      else if \<not> object_valued config then Inr \<lparr>tf_includes = [], tf_excludes = []\<rparr>
      else
        bindE (if object_valued (obj_get config ''include'')
               then parseTypePatterns (obj_get config ''include'') else Inr [])
          (\<lambda>inc.
             bindE (if object_valued (obj_get config ''exclude'')
                    then parseTypePatterns (obj_get config ''exclude'') else Inr [])
               (\<lambda>exc. Inr \<lparr>tf_includes = inc, tf_excludes = exc\<rparr>)))"

lemma typeMatches_iff: "typeMatches ps s \<longleftrightarrow> (\<exists>p \<in> set ps. rx_match p s)"
  by (induction ps) auto

lemma includeType_iff:
  "includeType f s \<longleftrightarrow>
     (tf_includes f = [] \<or> (\<exists>p \<in> set (tf_includes f). rx_match p s)) \<and>
     \<not> (\<exists>p \<in> set (tf_excludes f). rx_match p s)"
  by (auto simp: includeType_def typeMatches_iff)

section \<open>The documented meaning of a pattern\<close>

text \<open>
  The tool's README: \<^verbatim>\<open>*\<close> matches zero or more characters except the dot,
  \<^verbatim>\<open>**\<close> zero or more characters, everything else itself.
\<close>

datatype gtok = GLit char | GStar | GGlobstar

function glob_tokens :: "string \<Rightarrow> gtok list" where
  "glob_tokens [] = []"
| "glob_tokens (c # cs) =
     (if c = CHR ''*'' then
        (if takeWhile (\<lambda>d. d = CHR ''*'') cs = [] then GStar else GGlobstar) #
        glob_tokens (dropWhile (\<lambda>d. d = CHR ''*'') cs)
      else GLit c # glob_tokens cs)"
  by pat_completeness auto
termination
  by (relation "measure length") (auto simp: le_imp_less_Suc length_dropWhile_le)

fun glob_match :: "gtok list \<Rightarrow> string \<Rightarrow> bool" where
  "glob_match [] s = (s = [])"
| "glob_match (GLit c # g) s = (s \<noteq> [] \<and> hd s = c \<and> glob_match g (tl s))"
| "glob_match (GStar # g) s =
     list_ex (\<lambda>i. CHR ''.'' \<notin> set (take i s) \<and> glob_match g (drop i s)) [0..<Suc (length s)]"
| "glob_match (GGlobstar # g) s =
     list_ex (\<lambda>i. glob_match g (drop i s)) [0..<Suc (length s)]"

fun tok_piece :: "gtok \<Rightarrow> rpiece" where
  "tok_piece (GLit c) = One (RChar c)"
| "tok_piece GStar = Many RNotDot"
| "tok_piece GGlobstar = Many RAny"

section \<open>Matching\<close>

lemma rx_match_One:
  "rx_match (One a # ps) s \<longleftrightarrow> s \<noteq> [] \<and> atom_ok a (hd s) \<and> rx_match ps (tl s)"
  by (cases s) auto

lemma rx_match_Many:
  "rx_match (Many a # ps) s \<longleftrightarrow>
     (\<exists>i \<le> length s. (\<forall>c \<in> set (take i s). atom_ok a c) \<and> rx_match ps (drop i s))"
proof (induction s)
  case (Cons c s)
  have "(\<exists>i \<le> length (c # s). (\<forall>d \<in> set (take i (c # s)). atom_ok a d) \<and> rx_match ps (drop i (c # s)))
     \<longleftrightarrow> rx_match ps (c # s) \<or> (\<exists>i \<le> length s. atom_ok a c \<and>
          (\<forall>d \<in> set (take i s). atom_ok a d) \<and> rx_match ps (drop i s))"
    (is "?l \<longleftrightarrow> ?r")
  proof
    assume ?l
    then obtain i where i: "i \<le> length (c # s)" "\<forall>d \<in> set (take i (c # s)). atom_ok a d"
      "rx_match ps (drop i (c # s))" by blast
    then show ?r by (cases i) auto
  next
    assume ?r
    then show ?l
    proof
      assume "rx_match ps (c # s)"
      then show ?l by (intro exI [of _ 0]) simp
    next
      assume "\<exists>i \<le> length s. atom_ok a c \<and> (\<forall>d \<in> set (take i s). atom_ok a d) \<and> rx_match ps (drop i s)"
      then obtain i where "i \<le> length s" "atom_ok a c" "\<forall>d \<in> set (take i s). atom_ok a d"
        "rx_match ps (drop i s)" by blast
      then show ?l by (intro exI [of _ "Suc i"]) simp
    qed
  qed
  with Cons show ?case by auto
qed simp

lemma list_ex_upto: "list_ex P [0..<Suc n] \<longleftrightarrow> (\<exists>i \<le> n. P i)"
  by (auto simp: list_ex_iff less_Suc_eq_le simp del: upt_Suc)

declare glob_match.simps(3,4) [simp del]

lemma glob_match_GStar:
  "glob_match (GStar # g) s \<longleftrightarrow> (\<exists>i \<le> length s. CHR ''.'' \<notin> set (take i s) \<and> glob_match g (drop i s))"
  by (simp only: glob_match.simps list_ex_upto)

lemma glob_match_GGlobstar:
  "glob_match (GGlobstar # g) s \<longleftrightarrow> (\<exists>i \<le> length s. glob_match g (drop i s))"
  by (simp only: glob_match.simps list_ex_upto)

lemma rx_match_glob:
  assumes "\<forall>c \<in> set s. \<not> line_terminator c"
  shows "rx_match (map tok_piece g) s = glob_match g s"
  using assms
proof (induction g arbitrary: s)
  case (Cons t g)
  have sub: "\<forall>c \<in> set (drop i s). \<not> line_terminator c" "\<forall>c \<in> set (take i s). \<not> line_terminator c" for i
    using Cons.prems in_set_dropD in_set_takeD by fast+
  show ?case
  proof (cases t)
    case (GLit c)
    have "\<forall>c \<in> set (tl s). \<not> line_terminator c" using sub(1) [of 1] by (simp add: drop_Suc)
    with Cons.IH GLit show ?thesis by (auto simp: rx_match_One)
  next
    case GStar
    have "rx_match (map tok_piece (t # g)) s \<longleftrightarrow>
      (\<exists>i \<le> length s. (\<forall>c \<in> set (take i s). c \<noteq> CHR ''.'') \<and> glob_match g (drop i s))"
      using GStar Cons.IH [OF sub(1)] by (simp add: rx_match_Many)
    moreover have "(\<forall>c \<in> set (take i s). c \<noteq> CHR ''.'') \<longleftrightarrow> CHR ''.'' \<notin> set (take i s)" for i by auto
    ultimately show ?thesis using GStar by (simp only: glob_match_GStar)
  next
    case GGlobstar
    have "rx_match (map tok_piece (t # g)) s \<longleftrightarrow> (\<exists>i \<le> length s. glob_match g (drop i s))"
      using GGlobstar Cons.IH [OF sub(1)] sub(2) by (simp add: rx_match_Many)
    with GGlobstar show ?thesis by (simp only: glob_match_GGlobstar)
  qed
qed simp

section \<open>Compilation\<close>

lemma plain_char_neqs:
  "plain_char c \<Longrightarrow> c \<noteq> CHR ''*'' \<and> c \<noteq> CHR ''['' \<and> c \<noteq> backslash \<and> c \<noteq> CHR ''.'' \<and> c \<noteq> CHR ''$''"
  by (auto simp: plain_char_def in_range_def backslash_def)

definition no_star_head :: "string \<Rightarrow> bool" where
  "no_star_head s = (s \<noteq> [] \<and> hd s \<noteq> CHR ''*'')"

lemma rx_parse_dollar: "rx_parse ''$'' = Some []"
  by (subst rx_parse.simps) simp

lemma rx_parse_One:
  assumes "rx_atom s = Some (a, s')" and "s \<noteq> ''$''" and "no_star_head s'"
  shows "rx_parse s = map_option ((#) (One a)) (rx_parse s')"
  using assms by (subst rx_parse.simps [of s]) (auto simp: no_star_head_def split: list.splits)

lemma rx_parse_Many:
  assumes "rx_atom s = Some (a, CHR ''*'' # s')" and "s \<noteq> ''$''"
  shows "rx_parse s = map_option ((#) (Many a)) (rx_parse s')"
  using assms by (subst rx_parse.simps [of s]) simp

lemma rx_parse_plain:
  assumes "plain_char c" and "no_star_head s"
  shows "rx_parse (c # s) = map_option ((#) (One (RChar c))) (rx_parse s)"
  by (rule rx_parse_One) (use assms plain_char_neqs [of c] in auto)

lemma append_Cons_fun: "(@) (x # xs) = (\<lambda>ys. x # xs @ ys)"
  by (rule ext) simp

lemma map_option_Cons_append [simp]:
  "map_option ((#) x) (map_option ((@) xs) r) = map_option (\<lambda>ys. x # xs @ ys) r"
  by (cases r) auto

lemma rx_parse_plains:
  assumes "list_all plain_char u" and "no_star_head s"
  shows "rx_parse (u @ s) = map_option ((@) (map (One \<circ> RChar) u)) (rx_parse s)"
  using assms(1)
proof (induction u)
  case Nil
  then show ?case by (simp add: option.map_ident)
next
  case (Cons c u)
  have "no_star_head (u @ s)"
    using Cons.prems assms(2) plain_char_neqs by (cases u) (auto simp: no_star_head_def)
  with Cons rx_parse_plain [of c "u @ s"] show ?case
    by simp
qed

lemma rx_parse_escaped_dot:
  assumes "no_star_head s"
  shows "rx_parse (backslash # CHR ''.'' # s) = map_option ((#) (One (RChar (CHR ''.'')))) (rx_parse s)"
  by (rule rx_parse_One) (use assms in \<open>auto simp: backslash_def\<close>)

lemma rx_parse_not_dot:
  "rx_parse (''[^.]*'' @ s) = map_option ((#) (Many RNotDot)) (rx_parse s)"
  by (rule rx_parse_Many) auto

lemma rx_parse_any:
  "rx_parse (''.*'' @ s) = map_option ((#) (Many RAny)) (rx_parse s)"
  by (rule rx_parse_Many) (auto simp: backslash_def)

definition oneRun :: "string \<Rightarrow> bool" where
  "oneRun part = (CHR ''*'' \<notin> set (dropWhile (\<lambda>d. d = CHR ''*'') (dropWhile (\<lambda>d. d \<noteq> CHR ''*'') part)))"
  \<comment> \<open>the stars of a part are consecutive\<close>

lemma replaceStars_no_star: "CHR ''*'' \<notin> set part \<Longrightarrow> replaceStars part = part"
  by (induction part) auto

lemma no_star_head_replaceStars: "no_star_head s \<Longrightarrow> no_star_head (replaceStars part @ s)"
  by (cases part) (auto simp: no_star_head_def)

lemma allowed_plain: "allowedPartCharacter c \<Longrightarrow> c \<noteq> CHR ''*'' \<Longrightarrow> plain_char c"
  by (simp add: allowedPartCharacter_def)

lemma glob_tokens_plain: "CHR ''*'' \<notin> set v \<Longrightarrow> glob_tokens v = map GLit v"
  by (induction v) auto

lemma glob_tokens_dot:
  "glob_tokens (u @ CHR ''.'' # v) = glob_tokens u @ GLit (CHR ''.'') # glob_tokens v"
proof (induction u rule: glob_tokens.induct)
  case (2 c cs)
  show ?case
  proof (cases "c = CHR ''*''")
    case True
    have t: "takeWhile (\<lambda>d. d = CHR ''*'') (cs @ CHR ''.'' # v) = takeWhile (\<lambda>d. d = CHR ''*'') cs"
      and d: "dropWhile (\<lambda>d. d = CHR ''*'') (cs @ CHR ''.'' # v) =
        dropWhile (\<lambda>d. d = CHR ''*'') cs @ CHR ''.'' # v"
      by (simp_all add: takeWhile_stop dropWhile_stop)
    have "glob_tokens (dropWhile (\<lambda>d. d = CHR ''*'') cs @ CHR ''.'' # v) =
      glob_tokens (dropWhile (\<lambda>d. d = CHR ''*'') cs) @ GLit (CHR ''.'') # glob_tokens v"
      using 2(1) True by blast
    with True t d show ?thesis by simp
  next
    case False
    with 2 show ?thesis by simp
  qed
qed simp

lemma rx_parse_run:
  assumes "list_all plain_char v" and "no_star_head s" and "set stars \<subseteq> {CHR ''*''}"
  shows "rx_parse (replaceStars (CHR ''*'' # stars @ v) @ s) =
    map_option ((@) (map tok_piece (glob_tokens (CHR ''*'' # stars @ v)))) (rx_parse s)"
proof -
  have nv: "\<forall>d \<in> set v. d \<noteq> CHR ''*''"
    using assms(1) plain_char_neqs by (metis list_all_iff)
  then have nstar: "CHR ''*'' \<notin> set v" by blast
  have run: "takeWhile (\<lambda>d. d = CHR ''*'') (stars @ v) = stars" "dropWhile (\<lambda>d. d = CHR ''*'') (stars @ v) = v"
    using takeWhile_run [of stars "\<lambda>d. d = CHR ''*''" v] assms(3) nv by blast+
  have pv: "map tok_piece (glob_tokens v) = map (One \<circ> RChar) v"
    by (simp add: glob_tokens_plain [OF nstar])
  have "rx_parse (v @ s) = map_option ((@) (map tok_piece (glob_tokens v))) (rx_parse s)"
    unfolding pv by (rule rx_parse_plains [OF assms(1,2)])
  moreover have "replaceStars (CHR ''*'' # stars @ v) = (if stars = [] then ''[^.]*'' else ''.*'') @ v"
    by (simp add: run)
  moreover have "glob_tokens (CHR ''*'' # stars @ v) = (if stars = [] then GStar else GGlobstar) # glob_tokens v"
    by (simp add: run)
  ultimately show ?thesis
    using rx_parse_not_dot [of "v @ s"] rx_parse_any [of "v @ s"]
    by (simp add: append_Cons_fun)
qed

lemma rx_parse_part:
  assumes "list_all allowedPartCharacter part" and "oneRun part" and "no_star_head s"
  shows "rx_parse (replaceStars part @ s) =
    map_option ((@) (map tok_piece (glob_tokens part))) (rx_parse s)"
  using assms(1,2)
proof (induction part)
  case Nil
  then show ?case by (simp add: option.map_ident)
next
  case (Cons c cs)
  show ?case
  proof (cases "c = CHR ''*''")
    case True
    define stars v where "stars = takeWhile (\<lambda>d. d = CHR ''*'') cs" and "v = dropWhile (\<lambda>d. d = CHR ''*'') cs"
    have cs: "cs = stars @ v" by (simp add: stars_def v_def)
    have "set stars \<subseteq> {CHR ''*''}" unfolding stars_def by (auto dest: set_takeWhileD)
    moreover have "CHR ''*'' \<notin> set v" using Cons.prems(2) True by (simp add: oneRun_def v_def)
    then have "list_all plain_char v"
      using Cons.prems(1) cs allowed_plain by (metis Un_iff list.set_intros(2) list_all_iff set_append)
    ultimately show ?thesis unfolding True cs using rx_parse_run assms(3) by blast
  next
    case False
    have "rx_parse (replaceStars cs @ s) = map_option ((@) (map tok_piece (glob_tokens cs))) (rx_parse s)"
      using Cons False by (simp add: oneRun_def)
    moreover have "plain_char c" using Cons.prems(1) False allowed_plain by simp
    ultimately show ?thesis
      using False rx_parse_plain [OF _ no_star_head_replaceStars [OF assms(3)]]
      by simp
  qed
qed

lemma rx_parse_parts:
  assumes "parts \<noteq> []" and "\<forall>p \<in> set parts. list_all allowedPartCharacter p \<and> oneRun p"
  shows "rx_parse (join [backslash, CHR ''.''] (map replaceStars parts) @ ''$'') =
    Some (map tok_piece (glob_tokens (dot_join parts)))"
  using assms
proof (induction parts rule: list_nonempty_induct)
  case (single p)
  then show ?case using rx_parse_part [of p "''$''"] rx_parse_dollar by (simp add: no_star_head_def)
next
  case (cons p parts)
  let ?rest = "join [backslash, CHR ''.''] (map replaceStars parts) @ ''$''"
  have "no_star_head ?rest"
  proof (cases parts)
    case (Cons q qs)
    then show ?thesis
      using no_star_head_replaceStars [of "[backslash, CHR ''.''] @ join [backslash, CHR ''.''] (map replaceStars qs) @ ''$''" q]
        no_star_head_replaceStars [of "''$''" q]
      by (cases qs) (auto simp: no_star_head_def backslash_def)
  qed (use cons in simp)
  then have "rx_parse (backslash # CHR ''.'' # ?rest) =
      Some (One (RChar (CHR ''.'')) # map tok_piece (glob_tokens (dot_join parts)))"
    using rx_parse_escaped_dot cons by simp
  moreover have "no_star_head (backslash # CHR ''.'' # ?rest)"
    by (simp add: no_star_head_def backslash_def)
  ultimately have "rx_parse (replaceStars p @ backslash # CHR ''.'' # ?rest) =
      Some (map tok_piece (glob_tokens (p @ CHR ''.'' # dot_join parts)))"
    using rx_parse_part [of p] cons.prems by (simp add: glob_tokens_dot)
  with cons show ?case by (simp add: join_Cons)
qed

lemma convertPart_ok: "allowedPart part \<Longrightarrow> convertPart p part = Inr (replaceStars part)"
  by (simp add: convertPart_def replaceStars_no_star)

lemma mapE_Inr_map: "(\<And>x. x \<in> set xs \<Longrightarrow> f x = Inr (g x)) \<Longrightarrow> mapE f xs = Inr (map g xs)"
  by (induction xs) auto

lemma parseTypePattern_compiles:
  assumes "\<forall>part \<in> set (dot_split p). allowedPart part \<and> oneRun part"
  shows "parseTypePattern p = Inr (map tok_piece (glob_tokens p))"
proof -
  have "mapE (convertPart p) (dot_split p) = Inr (map replaceStars (dot_split p))"
    by (rule mapE_Inr_map) (use assms convertPart_ok in blast)
  moreover have "rx_parse (join [backslash, CHR ''.''] (map replaceStars (dot_split p)) @ ''$'') =
      Some (map tok_piece (glob_tokens p))"
    using rx_parse_parts [of "dot_split p"] assms by (simp add: allowedPart_def)
  ultimately show ?thesis by (simp add: parseTypePattern_def new_RegExp_def)
qed

section \<open>Properties\<close>

definition good_pattern :: "string \<Rightarrow> bool" where
  "good_pattern p = list_all (\<lambda>part. allowedPart part \<and> oneRun part) (dot_split p)"

lemma good_pattern_compiles: "good_pattern p \<Longrightarrow> parseTypePattern p = Inr (map tok_piece (glob_tokens p))"
  by (rule parseTypePattern_compiles) (simp add: good_pattern_def list_all_iff)

lemma parseTypePatterns_good:
  assumes "list_all good_pattern ps"
  shows "parseTypePatterns (JArr (map JStr ps)) = Inr (map (\<lambda>p. map tok_piece (glob_tokens p)) ps)"
proof -
  have "foldE pushPattern acc (map JStr ps) = Inr (acc @ map (\<lambda>p. map tok_piece (glob_tokens p)) ps)" for acc
    using assms by (induction ps arbitrary: acc) (auto simp: good_pattern_compiles)
  from this [of "[]"] show ?thesis by simp
qed



lemma rx_match_lits:
  "rx_match (map (One \<circ> RChar) u @ ps) s \<longleftrightarrow> (\<exists>t. s = u @ t \<and> rx_match ps t)"
proof (induction u arbitrary: s)
  case (Cons c u)
  then show ?case by (cases s) auto
qed simp

lemma rx_match_repeat: "rx_match [Many (RChar c)] s \<longleftrightarrow> (\<exists>n. s = replicate n c)"
proof (induction s)
  case (Cons d s)
  show ?case
  proof
    assume "rx_match [Many (RChar c)] (d # s)"
    then obtain n where "d = c" "s = replicate n c" using Cons by auto
    then show "\<exists>n. d # s = replicate n c" by (intro exI [of _ "Suc n"]) simp
  next
    assume "\<exists>n. d # s = replicate n c"
    then obtain n where n: "d # s = replicate n c" by blast
    then obtain m where "n = Suc m" by (cases n) auto
    with n Cons show "rx_match [Many (RChar c)] (d # s)" by auto
  qed
qed simp

lemma parse_two_runs:
  assumes "list_all plain_char (v @ [c])"
  shows "parseTypePattern (CHR ''*'' # v @ [c, CHR ''*'']) =
    Inr (Many RNotDot # map (One \<circ> RChar) v @ [Many (RChar c)])"
proof -
  let ?p = "CHR ''*'' # v @ [c, CHR ''*'']"
  have pl: "list_all plain_char v" "plain_char c" using assms by auto
  note neq = plain_char_neqs [OF pl(2)]
  have ndot: "CHR ''.'' \<notin> set ?p" using pl plain_char_neqs by (auto simp: list_all_iff)
  have vh: "takeWhile (\<lambda>d. d = CHR ''*'') (v @ [c, CHR ''*'']) = []"
    "dropWhile (\<lambda>d. d = CHR ''*'') (v @ [c, CHR ''*'']) = v @ [c, CHR ''*'']"
    using pl neq plain_char_neqs by (cases v; auto)+
  have ok: "allowedPart ?p"
    using pl by (auto simp: allowedPart_def allowedPartCharacter_def list_all_iff)
  have "replaceStars ?p = ''[^.]*'' @ v @ [c, CHR ''*'']" by (simp add: vh)
  then have conv: "convertPart ?p ?p = Inr (''[^.]*'' @ v @ [c, CHR ''*''])"
    using convertPart_ok [OF ok] by simp
  have "rx_parse ([c, CHR ''*''] @ ''$'') = Some [Many (RChar c)]"
    using rx_parse_Many [of "[c, CHR ''*'', CHR ''$'']" "RChar c" "''$''"] neq pl(2) rx_parse_dollar by simp
  then have "rx_parse (v @ [c, CHR ''*''] @ ''$'') = Some (map (One \<circ> RChar) v @ [Many (RChar c)])"
    using rx_parse_plains [OF pl(1), of "[c, CHR ''*''] @ ''$''"] neq by (simp add: no_star_head_def)
  then have "rx_parse (''[^.]*'' @ v @ [c, CHR ''*''] @ ''$'') =
      Some (Many RNotDot # map (One \<circ> RChar) v @ [Many (RChar c)])"
    using rx_parse_not_dot by simp
  then show ?thesis
    using conv split_on_fresh [OF ndot] by (simp add: parseTypePattern_def new_RegExp_def)
qed

text \<open>Only the first run of stars in a part is a wildcard. A pattern
  \<^verbatim>\<open>*w*\<close> compiles to an expression whose second star repeats the last character of
  \<^verbatim>\<open>w\<close>: it accepts dot-free text followed by \<^verbatim>\<open>w\<close> with its last
  character repeated any number of times, and nothing else.\<close>

theorem only_first_star_run:
  assumes "list_all plain_char (v @ [c])"
  shows "\<exists>ps. parseTypePattern (CHR ''*'' # v @ [c, CHR ''*'']) = Inr ps \<and>
    (\<forall>s. rx_match ps s \<longleftrightarrow> (\<exists>u n. CHR ''.'' \<notin> set u \<and> s = u @ v @ replicate n c))"
proof (intro exI conjI allI)
  let ?ps = "Many RNotDot # map (One \<circ> RChar) v @ [Many (RChar c)]"
  show "parseTypePattern (CHR ''*'' # v @ [c, CHR ''*'']) = Inr ?ps"
    by (rule parse_two_runs [OF assms])
  fix s
  have tail: "rx_match (map (One \<circ> RChar) v @ [Many (RChar c)]) t \<longleftrightarrow> (\<exists>n. t = v @ replicate n c)" for t
    by (simp only: rx_match_lits rx_match_repeat) blast
  have "rx_match ?ps s \<longleftrightarrow>
    (\<exists>i \<le> length s. CHR ''.'' \<notin> set (take i s) \<and> (\<exists>n. drop i s = v @ replicate n c))"
    by (simp only: rx_match_Many tail) (metis atom_ok.simps(2))
  also have "\<dots> \<longleftrightarrow> (\<exists>u n. CHR ''.'' \<notin> set u \<and> s = u @ v @ replicate n c)"
  proof
    assume "\<exists>i \<le> length s. CHR ''.'' \<notin> set (take i s) \<and> (\<exists>n. drop i s = v @ replicate n c)"
    then show "\<exists>u n. CHR ''.'' \<notin> set u \<and> s = u @ v @ replicate n c"
      by (metis append_take_drop_id)
  next
    assume "\<exists>u n. CHR ''.'' \<notin> set u \<and> s = u @ v @ replicate n c"
    then obtain u n where "CHR ''.'' \<notin> set u" "s = u @ v @ replicate n c" by blast
    then show "\<exists>i \<le> length s. CHR ''.'' \<notin> set (take i s) \<and> (\<exists>n. drop i s = v @ replicate n c)"
      by (intro exI [of _ "length u"]) auto
  qed
  finally show "rx_match ?ps s \<longleftrightarrow> (\<exists>u n. CHR ''.'' \<notin> set u \<and> s = u @ v @ replicate n c)" .
qed

theorem only_first_star_run_witness:
  "\<exists>ps. parseTypePattern ''*Foo*'' = Inr ps \<and> rx_match ps ''myFooo'' \<and> \<not> rx_match ps ''FooBar'' \<and>
     glob_match (glob_tokens ''*Foo*'') ''FooBar''"
proof -
  have h: "list_all plain_char (''Fo'' @ [CHR ''o''])" by code_simp
  obtain ps where ps: "parseTypePattern ''*Foo*'' = Inr ps"
    and m: "\<And>s. rx_match ps s \<longleftrightarrow> (\<exists>u n. CHR ''.'' \<notin> set u \<and> s = u @ ''Fo'' @ replicate n (CHR ''o''))"
    using only_first_star_run [OF h] by auto
  have "rx_match ps ''myFooo''"
    unfolding m by (intro exI [of _ "''my''"] exI [of _ 2]) (simp add: numeral_2_eq_2)
  moreover have "\<not> rx_match ps ''FooBar''"
  proof
    assume "rx_match ps ''FooBar''"
    then obtain u n where "''FooBar'' = u @ ''Fo'' @ replicate n (CHR ''o'')" unfolding m by blast
    then have "last ''FooBar'' = last (''Fo'' @ replicate n (CHR ''o''))"
      by (metis Nil_is_append_conv last_appendR list.discI)
    then show False by (cases "n = 0") (simp_all add: last_append)
  qed
  moreover have "glob_match (glob_tokens ''*Foo*'') ''FooBar''" by code_simp
  ultimately show ?thesis using ps by blast
qed

end
