(* ===== verification/Schema_Util.thy ===== *)
theory Schema_Util
  imports Schema_Types "HOL-Library.Multiset"
begin

text \<open>
  The helpers under \<^verbatim>\<open>tools/protocol/src/util\<close>: the \<^verbatim>\<open>required\<close> /
  \<^verbatim>\<open>optional\<close> attribute lookup and the ordering of fully qualified type names, with
  the contract that \<^verbatim>\<open>Array.prototype.sort\<close> asks of a comparator as a locale.
\<close>

section \<open>required.ts\<close>

fun requiredLoop :: "bool \<Rightarrow> AstAttribute list \<Rightarrow> bool" where
  "requiredLoop d [] = d"
| "requiredLoop d (attr # attrs) =
     (if attr_id attr = ''optional'' then False
      else if attr_id attr = ''required'' then True
      else requiredLoop d attrs)"

definition isRequired :: "AstMetadata \<Rightarrow> bool \<Rightarrow> bool" where
  "isRequired md d = (case md of None \<Rightarrow> d | Some attrs \<Rightarrow> requiredLoop d attrs)"

lemma requiredLoop_find:
  "requiredLoop d attrs =
     (case List.find (\<lambda>a. attr_id a \<in> {''optional'', ''required''}) attrs of
        None \<Rightarrow> d | Some a \<Rightarrow> attr_id a = ''required'')"
  by (induction attrs) auto

section \<open>Array.prototype.sort\<close>

text \<open>
  The standard library sorts stably with the given comparator. For a consistent comparator the
  result does not depend on the algorithm; it is modelled by stable insertion.
\<close>

fun insert_by :: "('a \<Rightarrow> 'a \<Rightarrow> int) \<Rightarrow> 'a \<Rightarrow> 'a list \<Rightarrow> 'a list" where
  "insert_by cmp x [] = [x]"
| "insert_by cmp x (y # ys) = (if cmp x y \<le> 0 then x # y # ys else y # insert_by cmp x ys)"

definition array_sort :: "('a \<Rightarrow> 'a \<Rightarrow> int) \<Rightarrow> 'a list \<Rightarrow> 'a list" where
  "array_sort cmp xs = foldr (insert_by cmp) xs []"

lemma mset_insert_by [simp]: "mset (insert_by cmp x ys) = add_mset x (mset ys)"
  by (induction ys) auto

lemma mset_array_sort [simp]: "mset (array_sort cmp xs) = mset xs"
  unfolding array_sort_def by (induction xs) auto

lemma set_array_sort [simp]: "set (array_sort cmp xs) = set xs"
  using mset_array_sort by (metis set_mset_mset)

text \<open>What the standard library requires of a comparator, and what it then promises.\<close>

locale consistent_comparator =
  fixes cmp :: "'a \<Rightarrow> 'a \<Rightarrow> int"
  assumes cmp_antisym: "sgn (cmp b a) = - sgn (cmp a b)"
    and cmp_trans: "cmp a b \<le> 0 \<Longrightarrow> cmp b c \<le> 0 \<Longrightarrow> cmp a c \<le> 0"
begin

lemma cmp_flip: "\<not> cmp a b \<le> 0 \<Longrightarrow> cmp b a \<le> 0"
  using cmp_antisym [of b a] by (auto simp: sgn_if split: if_splits)

lemma insert_by_sorted:
  "sorted_wrt (\<lambda>a b. cmp a b \<le> 0) ys \<Longrightarrow> sorted_wrt (\<lambda>a b. cmp a b \<le> 0) (insert_by cmp x ys)"
proof (induction ys)
  case (Cons y ys)
  show ?case
  proof (cases "cmp x y \<le> 0")
    case True
    with Cons.prems show ?thesis by (auto intro: cmp_trans)
  next
    case False
    have "set (insert_by cmp x ys) = insert x (set ys)"
      by (metis mset_insert_by set_mset_add_mset_insert set_mset_mset)
    with False Cons show ?thesis by (auto intro: cmp_flip)
  qed
qed simp

lemma array_sort_sorted: "sorted_wrt (\<lambda>a b. cmp a b \<le> 0) (array_sort cmp xs)"
  unfolding array_sort_def by (induction xs) (auto intro: insert_by_sorted)

end

locale total_comparator = consistent_comparator +
  assumes cmp_zero: "cmp a b = 0 \<Longrightarrow> a = b"
begin

lemma cmp_both: "cmp a b \<le> 0 \<Longrightarrow> cmp b a \<le> 0 \<Longrightarrow> a = b"
  using cmp_antisym [of b a] cmp_zero [of a b] by (auto simp: sgn_if split: if_splits)

lemma sorted_unique:
  assumes "sorted_wrt (\<lambda>a b. cmp a b \<le> 0) xs" "sorted_wrt (\<lambda>a b. cmp a b \<le> 0) ys"
    and "mset xs = mset ys"
  shows "xs = ys"
  using assms
proof (induction xs arbitrary: ys)
  case (Cons x xs)
  then obtain y zs where ys: "ys = y # zs" by (cases ys) auto
  have "x = y"
  proof (rule ccontr)
    assume "x \<noteq> y"
    then have "x \<in> set zs" "y \<in> set xs"
      using Cons.prems(3) ys by (metis list.set_intros(1) set_ConsD set_mset_mset)+
    then show False using Cons.prems(1,2) ys \<open>x \<noteq> y\<close> cmp_both by auto
  qed
  with Cons ys show ?case by auto
qed simp

lemma array_sort_unique:
  "sorted_wrt (\<lambda>a b. cmp a b \<le> 0) ys \<Longrightarrow> mset ys = mset xs \<Longrightarrow> ys = array_sort cmp xs"
  by (rule sorted_unique) (auto intro: array_sort_sorted)

lemma array_sort_strict:
  "distinct xs \<Longrightarrow> sorted_wrt (\<lambda>a b. cmp a b < 0) (array_sort cmp xs)"
proof -
  assume "distinct xs"
  then have d: "distinct (array_sort cmp xs)"
    by (metis mset_array_sort mset_eq_imp_distinct_iff)
  have "sorted_wrt (\<lambda>a b. cmp a b \<le> 0) zs \<Longrightarrow> distinct zs \<Longrightarrow> sorted_wrt (\<lambda>a b. cmp a b < 0) zs" for zs
    using cmp_zero by (induction zs) (auto simp: less_le)
  with d array_sort_sorted show ?thesis by blast
qed

end

section \<open>sort.ts\<close>

definition isLowerCase :: "string \<Rightarrow> bool" where
  "isLowerCase c \<longleftrightarrow> ''a'' \<le> c \<and> c \<le> ''z''"

definition isUpperCase :: "string \<Rightarrow> bool" where
  "isUpperCase c \<longleftrightarrow> ''A'' \<le> c \<and> c \<le> ''Z''"

text \<open>The loop over the parts; \<open>d\<close> is the value returned after the loop.\<close>

fun compareParts :: "string list \<Rightarrow> string list \<Rightarrow> int \<Rightarrow> int" where
  "compareParts (a # as) (b # bs) d =
     (if a = b then compareParts as bs d
      else if isLowerCase a \<and> isUpperCase b then 1
      else if isUpperCase a \<and> isLowerCase b then -1
      else if b < a then 1 else -1)"
| "compareParts _ _ d = d"

definition compareFqtns :: "string \<Rightarrow> string \<Rightarrow> int" where
  "compareFqtns as bs =
     (let ap = dot_split as; bp = dot_split bs
      in compareParts ap bp (int (length ap) - int (length bp)))"

definition sortTypes :: "string list \<Rightarrow> string list" where
  "sortTypes fqtns = array_sort compareFqtns fqtns"

text \<open>
  The case analysis on letter case never changes the outcome: a part that begins in lower case
  is above every part the code calls upper case already in code-unit order.
\<close>

lemma upper_below_lower: "isUpperCase b \<Longrightarrow> isLowerCase a \<Longrightarrow> b < a"
proof -
  assume "isUpperCase b" "isLowerCase a"
  then have "b \<le> ''Z''" "''a'' \<le> a" by (auto simp: isUpperCase_def isLowerCase_def)
  moreover have "(''Z'' :: string) < ''a''" by code_simp
  ultimately show "b < a" by (meson le_less_trans less_le_trans)
qed

lemma Nil_less_iff: "([] :: string list) < xs \<longleftrightarrow> xs \<noteq> []"
  by (cases xs) auto

lemma compareParts_lex:
  assumes "d = int (length as) - int (length bs)"
  shows "(compareParts as bs d < 0 \<longleftrightarrow> as < bs) \<and> (compareParts as bs d = 0 \<longleftrightarrow> as = bs)"
  using assms
proof (induction as bs d rule: compareParts.induct)
  case (1 a as b bs d)
  show ?case
  proof (cases "a = b")
    case True
    with 1 show ?thesis by simp
  next
    case False
    then have "a < b \<or> b < a" by (simp add: neq_iff)
    with False show ?thesis
      using upper_below_lower [of a b] upper_below_lower [of b a] by (auto dest: less_asym)
  qed
qed (auto simp: Nil_less_iff)

lemma compareFqtns_lt: "compareFqtns a b < 0 \<longleftrightarrow> dot_split a < dot_split b"
  using compareParts_lex by (simp add: compareFqtns_def Let_def)

lemma compareFqtns_0: "compareFqtns a b = 0 \<longleftrightarrow> a = b"
proof -
  have "compareFqtns a b = 0 \<longleftrightarrow> dot_split a = dot_split b"
    using compareParts_lex by (simp add: compareFqtns_def Let_def)
  then show ?thesis by (metis join_split)
qed

lemma compareFqtns_gt: "0 < compareFqtns a b \<longleftrightarrow> dot_split b < dot_split a"
  using compareFqtns_lt [of a b] compareFqtns_0 [of a b]
  by (metis join_split less_asym neq_iff)

lemma compareFqtns_le: "compareFqtns a b \<le> 0 \<longleftrightarrow> dot_split a \<le> dot_split b"
  using compareFqtns_gt [of a b] by (simp add: not_less [symmetric])

interpretation fqtn_order: total_comparator compareFqtns
proof unfold_locales
  fix a b c :: string
  show "sgn (compareFqtns b a) = - sgn (compareFqtns a b)"
    using compareFqtns_lt [of a b] compareFqtns_gt [of a b]
      compareFqtns_lt [of b a] compareFqtns_gt [of b a] by (auto simp: sgn_if)
  show "compareFqtns a b \<le> 0 \<Longrightarrow> compareFqtns b c \<le> 0 \<Longrightarrow> compareFqtns a c \<le> 0"
    by (auto simp: compareFqtns_le)
  show "compareFqtns a b = 0 \<Longrightarrow> a = b"
    by (simp add: compareFqtns_0)
qed

section \<open>Properties\<close>

lemma sorted_fqtns_iff:
  "sorted (map dot_split ys) \<longleftrightarrow> sorted_wrt (\<lambda>a b. compareFqtns a b \<le> 0) ys"
  by (simp add: sorted_map compareFqtns_le)

text \<open>C37: sorting type names yields the one arrangement of the input in which the names ascend
  by their dot-separated parts in code-unit order; the comparator's lower/upper case branches do not
  change it, and no other arrangement is in order.\<close>

theorem sortTypes_canonical:
  "ys = sortTypes ts \<longleftrightarrow> mset ys = mset ts \<and> sorted (map dot_split ys)"
  unfolding sorted_fqtns_iff sortTypes_def
  using fqtn_order.array_sort_unique fqtn_order.array_sort_sorted by auto

text \<open>A field or value is required unless its attributes say otherwise: the first of the
  attributes \<^verbatim>\<open>required\<close> and \<^verbatim>\<open>optional\<close> decides, whatever attributes
  stand before it, and without either the default does.\<close>

theorem isRequired_first_flag:
  "isRequired md d =
     (case md of None \<Rightarrow> d
      | Some attrs \<Rightarrow>
         (case List.find (\<lambda>a. attr_id a = ''optional'' \<or> attr_id a = ''required'') attrs of
            None \<Rightarrow> d | Some a \<Rightarrow> attr_id a = ''required''))"
  by (simp add: isRequired_def requiredLoop_find split: option.split)

end
