(* ===== verification/Json_Schema.thy ===== *)
theory Json_Schema
  imports Resolver_Properties Type_Filter Schema_Util
begin

text \<open>
  The JSON Schema output (\<^verbatim>\<open>tools/protocol/src/output/json-schema\<close>): every type of
  the schema that passes the filter becomes an entry of \<^verbatim>\<open>jsonSchema\<close>. A table that
  is used in unions gets a second, tagged entry when unions carry their type inside. The OpenAPI
  output uses the same conversion with its own settings.

  A schema is the object the code builds, keys in insertion order (\<^typ>\<open>jsval\<close>). The
  \<^verbatim>\<open>URL\<close> class and \<^verbatim>\<open>path\<close> are parameters.
\<close>

section \<open>Context\<close>

record URL =
  url_origin :: string
  url_pathname :: string
  url_rest :: string

definition href :: "URL \<Rightarrow> string" where
  "href u = url_origin u @ url_pathname u @ url_rest u"

record JSContext =
  js_schema :: SchemaTypes
  js_typeFilter :: TypeFilter
  js_baseUri :: URL
  jsonSchema :: "(string, jsval) jsmap"
  taggedToUntaggedType :: "(string, string) jsmap"
  untaggedToTaggedType :: "(string, string) jsmap"
  strictIntTypes :: bool
  numberFormats :: bool
  strictUnions :: bool
  typesInUnions :: bool
  getRefUrl :: "string list \<Rightarrow> string"
  getTaggedType :: "string list \<Rightarrow> string list"
  typeKey :: string
  includeOpenApiDiscriminators :: bool
  constAsEnum :: bool
  explicitAdditionalProperties :: bool

text \<open>\<^verbatim>\<open>fqtn[fqtn.length - 1]\<close>, read and appended to; an empty array has no such
  element.\<close>

definition last_part :: "string list \<Rightarrow> string" where
  "last_part fqtn = (if fqtn = [] then ''undefined'' else last fqtn)"

definition append_last :: "string list \<Rightarrow> string \<Rightarrow> string list" where
  "append_last fqtn s = (if fqtn = [] then [] else butlast fqtn @ [last fqtn @ s])"

definition getDefaultRefUrl :: "URL \<Rightarrow> string list \<Rightarrow> bool \<Rightarrow> string" where
  "getDefaultRefUrl u fqtn absolute =
     (if absolute then href u else url_pathname u) @ join ''/'' fqtn"

definition getDefaultTaggedType :: "string list \<Rightarrow> string \<Rightarrow> string list" where
  "getDefaultTaggedType baseFqtn suffix = append_last baseFqtn suffix"

definition getUnionTagRefUrl :: "JSContext \<Rightarrow> string list \<Rightarrow> string" where
  "getUnionTagRefUrl ctx baseFqtn = getRefUrl ctx (append_last baseFqtn ''Type'')"

text \<open>The optional reference function and the tag function or suffix select the closures.\<close>

definition createJSContext ::
  "SchemaTypes \<Rightarrow> TypeFilter \<Rightarrow> URL \<Rightarrow> (string list \<Rightarrow> string) option \<Rightarrow> bool \<Rightarrow> bool \<Rightarrow> bool \<Rightarrow> bool \<Rightarrow>
   bool \<Rightarrow> bool \<Rightarrow> bool \<Rightarrow> (string list \<Rightarrow> string list) + string \<Rightarrow> string \<Rightarrow> JSContext" where
  "createJSContext schema flt baseUri refFn strictInt numFormats strictU typesIn discr asEnum explicitProps tagging key =
     \<lparr>js_schema = schema, js_typeFilter = flt, js_baseUri = baseUri, jsonSchema = [],
      taggedToUntaggedType = [], untaggedToTaggedType = [],
      strictIntTypes = strictInt, numberFormats = numFormats, strictUnions = strictU, typesInUnions = typesIn,
      getRefUrl = (case refFn of Some f \<Rightarrow> f | None \<Rightarrow> (\<lambda>fqtn. getDefaultRefUrl baseUri fqtn False)),
      getTaggedType = (case tagging of Inl f \<Rightarrow> f | Inr suffix \<Rightarrow> (\<lambda>fqtn. getDefaultTaggedType fqtn suffix)),
      typeKey = key, includeOpenApiDiscriminators = discr, constAsEnum = asEnum,
      explicitAdditionalProperties = explicitProps\<rparr>"

section \<open>Field types\<close>

definition js_ref :: "string \<Rightarrow> jsval" where
  "js_ref u = JObj [(''$ref'', JStr u)]"

definition basicTypeToJS :: "JSContext \<Rightarrow> BasicType \<Rightarrow> jsval" where
  "basicTypeToJS ctx b =
     (case b of
        BoolType \<Rightarrow> JObj [(''type'', JStr ''boolean'')]
      | IntType n p \<Rightarrow>
          (let js = JObj [(''type'', JStr ''integer'')];
               js = (if unsigned p then obj_set ''minimum'' (JInt 0) js
                     else if numberFormats ctx then
                       (if bits p = 32 then obj_set ''format'' (JStr ''int32'') js
                        else if bits p = 64 then obj_set ''format'' (JStr ''int64'') js else js)
                     else js)
           in if strictIntTypes ctx \<and> bits p < 64 then
                (if unsigned p then obj_set ''maximum'' (JInt (2 ^ bits p - 1)) js
                 else obj_set ''maximum'' (JInt (2 ^ (bits p - 1) - 1))
                        (obj_set ''minimum'' (JInt ((-2) ^ (bits p - 1))) js))
              else js)
      | FloatType n p \<Rightarrow>
          (let js = JObj [(''type'', JStr ''number'')]
           in if numberFormats ctx then
                obj_set ''format'' (JStr (if fbits p = 32 then ''float'' else ''double'')) js
              else js)
      | StringType \<Rightarrow> JObj [(''type'', JStr ''string'')])"

fun fieldTypeToJS :: "JSContext \<Rightarrow> FieldType \<Rightarrow> jsval" where
  "fieldTypeToJS ctx (FBasic b) = basicTypeToJS ctx b"
| "fieldTypeToJS ctx (FVector t) = JObj [(''type'', JStr ''array''), (''items'', fieldTypeToJS ctx t)]"
| "fieldTypeToJS ctx (FCustom r) = js_ref (getRefUrl ctx (resolvedFqtn r))"

definition getConstString :: "JSContext \<Rightarrow> string \<Rightarrow> jsval" where
  "getConstString ctx v =
     (if constAsEnum ctx then JObj [(''type'', JStr ''string''), (''enum'', JArr [JStr v])]
      else JObj [(''type'', JStr ''string''), (''const'', JStr v)])"

section \<open>Tables\<close>

datatype js_error =
    JsUnknownType string string string \<comment> \<open>the type, the table and the field\<close>
  | JsMissingProperty string
  | JsBadPath

record TableAcc =
  acc_props :: "(string, jsval) jsmap"
  acc_unionCases :: "jsval list"
  acc_required :: "string list"

definition add_required :: "string \<Rightarrow> TableAcc \<Rightarrow> TableAcc" where
  "add_required n a = a\<lparr>acc_required := acc_required a @ [n]\<rparr>"

definition add_prop :: "string \<Rightarrow> jsval \<Rightarrow> TableAcc \<Rightarrow> TableAcc" where
  "add_prop n v a = a\<lparr>acc_props := map_set n v (acc_props a)\<rparr>"

definition add_case :: "jsval \<Rightarrow> TableAcc \<Rightarrow> TableAcc" where
  "add_case v a = a\<lparr>acc_unionCases := acc_unionCases a @ [v]\<rparr>"

definition includes_ref :: "JSContext \<Rightarrow> TypeRef \<Rightarrow> bool" where
  "includes_ref ctx r = includeType (js_typeFilter ctx) (ref_key r)"

text \<open>The conditional schema of one union value: the tag decides the type of the field.\<close>

definition unionCase :: "JSContext \<Rightarrow> string \<Rightarrow> string \<Rightarrow> TypeRef \<Rightarrow> jsval" where
  "unionCase ctx fieldName tagName r =
     JObj [(''if'', JObj [(''properties'', JObj [(tagName, getConstString ctx (last_part (resolvedFqtn r)))])]),
           (''then'', JObj [(''properties'', JObj [(fieldName, js_ref (getRefUrl ctx (resolvedFqtn r)))])])]"

definition unionCaseStep :: "JSContext \<Rightarrow> string \<Rightarrow> string \<Rightarrow> UnionValue \<Rightarrow> TableAcc \<Rightarrow> TableAcc" where
  "unionCaseStep ctx fieldName tagName v a =
     (if includes_ref ctx (uv_typeRef v) then add_case (unionCase ctx fieldName tagName (uv_typeRef v)) a else a)"

definition plainField :: "JSContext \<Rightarrow> TableField \<Rightarrow> TableAcc \<Rightarrow> TableAcc" where
  "plainField ctx f a =
     (let a = add_prop (fld_name f) (fieldTypeToJS ctx (fld_type f)) a
      in if isRequired (fld_metadata f) True then add_required (fld_name f) a else a)"

definition untypedUnionField :: "JSContext \<Rightarrow> TableField \<Rightarrow> TypeRef \<Rightarrow> UnionType \<Rightarrow> TableAcc \<Rightarrow> TableAcc" where
  "untypedUnionField ctx f r u a =
     (let tagName = fld_name f @ ''_type'';
          req = isRequired (fld_metadata f) True;
          a = (if req then add_required tagName a else a)
      in if strictUnions ctx then
           (let a = (if req then add_required (fld_name f) a else a)
            in fold (unionCaseStep ctx (fld_name f) tagName) (union_values u) a)
         else plainField ctx f
                (add_prop tagName (js_ref (getUnionTagRefUrl ctx (resolvedFqtn r))) a))"

definition tableFieldStep :: "JSContext \<Rightarrow> TableType \<Rightarrow> TableAcc \<Rightarrow> TableField \<Rightarrow> js_error + TableAcc" where
  "tableFieldStep ctx t a f =
     (case fld_type f of
        FCustom r \<Rightarrow>
          (case map_get (types (js_schema ctx)) (ref_key r) of
             None \<Rightarrow> Inl (JsUnknownType (ref_key r) (dot_join (tb_ns t @ [tb_name t])) (fld_name f))
           | Some (SUnion u) \<Rightarrow>
               if typesInUnions ctx then Inr (plainField ctx f a)
               else Inr (untypedUnionField ctx f r u a)
           | Some _ \<Rightarrow> Inr (plainField ctx f a))
      | _ \<Rightarrow> Inr (plainField ctx f a))"

definition finishTable :: "JSContext \<Rightarrow> jsval \<Rightarrow> TableAcc \<Rightarrow> jsval" where
  "finishTable ctx js a =
     (let js = (if acc_props a \<noteq> [] then obj_set ''properties'' (JObj (acc_props a)) js else js);
          js = (if acc_unionCases a \<noteq> [] then obj_set ''allOf'' (JArr (acc_unionCases a)) js else js);
          js = (if acc_required a \<noteq> [] then obj_set ''required'' (JArr (map JStr (acc_required a))) js else js)
      in if explicitAdditionalProperties ctx then obj_set ''additionalProperties'' (JBool True) js else js)"

definition startTable :: "JSContext \<Rightarrow> TableType \<Rightarrow> bool \<Rightarrow> TableAcc" where
  "startTable ctx t tagged =
     (if tagged then
        \<lparr>acc_props = [(typeKey ctx, getConstString ctx (tb_name t))], acc_unionCases = [], acc_required = [typeKey ctx]\<rparr>
      else \<lparr>acc_props = [], acc_unionCases = [], acc_required = []\<rparr>)"

definition addTableProperties :: "JSContext \<Rightarrow> TableType \<Rightarrow> jsval \<Rightarrow> bool \<Rightarrow> js_error + jsval" where
  "addTableProperties ctx t js tagged =
     bindE (foldE (tableFieldStep ctx t) (startTable ctx t tagged) (tbl_fields t))
       (\<lambda>a. Inr (finishTable ctx js a))"

section \<open>Types\<close>

definition getBaseJSProps :: "JSContext \<Rightarrow> string list \<Rightarrow> string \<Rightarrow> jsval" where
  "getBaseJSProps ctx ns name = JObj [(''$id'', JStr (href (js_baseUri ctx) @ join ''/'' (ns @ [name])))]"

definition getTaggedBaseJSProps :: "JSContext \<Rightarrow> string list \<Rightarrow> string \<Rightarrow> jsval" where
  "getTaggedBaseJSProps ctx ns name =
     JObj [(''$id'', JStr (href (js_baseUri ctx) @ join ''/'' (getTaggedType ctx (ns @ [name]))))]"

definition set_js :: "string \<Rightarrow> jsval \<Rightarrow> JSContext \<Rightarrow> JSContext" where
  "set_js k v ctx = ctx\<lparr>jsonSchema := map_set k v (jsonSchema ctx)\<rparr>"

definition included_refs :: "JSContext \<Rightarrow> UnionType \<Rightarrow> TypeRef list" where
  "included_refs ctx u = filter (includes_ref ctx) (map uv_typeRef (union_values u))"

definition convertUnion :: "JSContext \<Rightarrow> string \<Rightarrow> UnionType \<Rightarrow> JSContext" where
  "convertUnion ctx fqtn u =
     (let base = getBaseJSProps ctx (tb_ns u) (tb_name u);
          refs = included_refs ctx u
      in if typesInUnions ctx then
           (let url = (\<lambda>r. getRefUrl ctx (getTaggedType ctx (resolvedFqtn r)));
                union = obj_set ''oneOf'' (JArr (map (\<lambda>r. js_ref (url r)) refs)) base;
                mapping = fold (\<lambda>r. map_set (last_part (resolvedFqtn r)) (JStr (url r))) refs [];
                union = (if includeOpenApiDiscriminators ctx then
                           obj_set ''discriminator''
                             (JObj [(''propertyName'', JStr (typeKey ctx)), (''mapping'', JObj mapping)]) union
                         else union)
            in set_js fqtn union ctx)
         else
           (let union = obj_set ''anyOf'' (JArr (map (\<lambda>r. js_ref (getRefUrl ctx (resolvedFqtn r))) refs)) base;
                tags = JObj [(''$id'', JStr (href (js_baseUri ctx) @ join ''/'' (tb_ns u @ [tb_name u @ ''Type'']))),
                             (''type'', JStr ''string''),
                             (''enum'', JArr (map (\<lambda>r. JStr (last_part (resolvedFqtn r))) refs))]
            in set_js (fqtn @ ''Type'') tags (set_js fqtn union ctx)))"

definition convertTable :: "JSContext \<Rightarrow> string \<Rightarrow> TableType \<Rightarrow> js_error + JSContext" where
  "convertTable ctx fqtn t =
     (let untagged = (\<not> typesInUnions ctx \<or> usedInTable t);
          tagged = (typesInUnions ctx \<and> usedInUnion t)
      in bindE
           (if untagged then
              bindE (addTableProperties ctx t
                       (obj_set ''type'' (JStr ''object'') (getBaseJSProps ctx (tb_ns t) (tb_name t))) False)
                (\<lambda>js. Inr (set_js fqtn js ctx))
            else Inr ctx)
           (\<lambda>ctx.
              if tagged then
                (let taggedStr = dot_join (getTaggedType ctx (dot_split fqtn))
                 in bindE (addTableProperties ctx t
                             (obj_set ''type'' (JStr ''object'') (getTaggedBaseJSProps ctx (tb_ns t) (tb_name t))) True)
                      (\<lambda>js. Inr ((set_js taggedStr js ctx)
                         \<lparr>taggedToUntaggedType := map_set taggedStr fqtn (taggedToUntaggedType ctx),
                          untaggedToTaggedType := map_set fqtn taggedStr (untaggedToTaggedType ctx)\<rparr>)))
              else Inr ctx))"

definition convertSchemaType :: "JSContext \<Rightarrow> string \<Rightarrow> SchemaType \<Rightarrow> js_error + JSContext" where
  "convertSchemaType ctx fqtn t =
     (case t of
        SEnum e \<Rightarrow>
          Inr (set_js fqtn
                (obj_set ''enum'' (JArr (map (JStr \<circ> ev_id) (enum_values e)))
                  (obj_set ''type'' (JStr ''string'') (getBaseJSProps ctx (tb_ns e) (tb_name e)))) ctx)
      | SUnion u \<Rightarrow> Inr (convertUnion ctx fqtn u)
      | STable tt \<Rightarrow> convertTable ctx fqtn tt)"

text \<open>\<^verbatim>\<open>bundleDefs\<close> copies the map into an object.\<close>

definition bundleDefs :: "JSContext \<Rightarrow> (string, jsval) jsmap" where
  "bundleDefs ctx = fold (\<lambda>(k, v). map_set k v) (jsonSchema ctx) []"

record JSONSchemaTypes =
  jst_types :: "(string, jsval) jsmap"
  jst_taggedToUntaggedType :: "(string, string) jsmap"
  jst_untaggedToTaggedType :: "(string, string) jsmap"

definition schemaTypeStep :: "JSContext \<Rightarrow> string \<times> SchemaType \<Rightarrow> js_error + JSContext" where
  "schemaTypeStep ctx e =
     (if includeType (js_typeFilter ctx) (fst e) then convertSchemaType ctx (fst e) (snd e) else Inr ctx)"

definition getJSONSchemaTypes :: "JSContext \<Rightarrow> js_error + JSONSchemaTypes" where
  "getJSONSchemaTypes ctx =
     bindE (foldE schemaTypeStep ctx (types (js_schema ctx)))
       (\<lambda>ctx. Inr \<lparr>jst_types = bundleDefs ctx, jst_taggedToUntaggedType = taggedToUntaggedType ctx,
                   jst_untaggedToTaggedType = untaggedToTaggedType ctx\<rparr>)"

section \<open>The output files\<close>

text \<open>
  What is written: the file names with the values that are serialised into them. \<open>newURL\<close>
  is the \<^verbatim>\<open>URL\<close> constructor, \<open>resolvePath\<close> is
  \<^verbatim>\<open>path.resolve\<close> and \<open>toStr\<close> the conversion of a value that is not a
  string to one.
\<close>

fun spread :: "jsval \<Rightarrow> jsval \<Rightarrow> jsval" where
  "spread js (JObj ps) = fold (\<lambda>(k, v). obj_set k v) ps js"
| "spread js _ = js"

definition as_string :: "(jsval \<Rightarrow> string) \<Rightarrow> jsval \<Rightarrow> string" where
  "as_string toStr v = (case v of JStr s \<Rightarrow> s | _ \<Rightarrow> toStr v)"

fun is_str :: "jsval \<Rightarrow> bool" where
  "is_str (JStr s) = True"
| "is_str _ = False"

definition configured_path :: "(string list \<Rightarrow> string) \<Rightarrow> string \<Rightarrow> jsval \<Rightarrow> js_error + string option" where
  "configured_path resolvePath baseDir v =
     (if \<not> truthy v then Inr None
      else case v of JStr s \<Rightarrow> Inr (Some (resolvePath [baseDir, s])) | _ \<Rightarrow> Inl JsBadPath)"

definition JSON_SCHEMA_URL :: string where
  "JSON_SCHEMA_URL = ''https://json-schema.org/draft/2020-12/schema''"

definition with_slash :: "URL \<Rightarrow> URL" where
  "with_slash u = (if endsWith (url_pathname u) ''/'' then u else u\<lparr>url_pathname := url_pathname u @ ''/''\<rparr>)"

definition typeFile :: "(string list \<Rightarrow> string) \<Rightarrow> string \<Rightarrow> string \<times> jsval \<Rightarrow> string \<times> jsval" where
  "typeFile resolvePath dir e =
     (resolvePath (dir # dot_split (fst e)) @ ''.schema.json'',
      spread (JObj [(''$schema'', JStr JSON_SCHEMA_URL)]) (snd e))"

definition bundleFile :: "JSContext \<Rightarrow> (string, jsval) jsmap \<Rightarrow> jsval" where
  "bundleFile ctx defs =
     (let js = JObj [(''$schema'', JStr JSON_SCHEMA_URL), (''$defs'', JObj defs)]
      in case rootType (js_schema ctx) of
           None \<Rightarrow> js
         | Some r \<Rightarrow> obj_set ''$ref'' (JStr (getDefaultRefUrl (js_baseUri ctx) (resolvedFqtn r) True)) js)"

definition writeJsonSchemaOutput :: "(string \<Rightarrow> URL) \<Rightarrow> (string list \<Rightarrow> string) \<Rightarrow> (jsval \<Rightarrow> string) \<Rightarrow>
    SchemaTypes \<Rightarrow> TypeFilter \<Rightarrow> string \<Rightarrow> jsval \<Rightarrow> js_error + (string \<times> jsval) list" where
  "writeJsonSchemaOutput newURL resolvePath toStr schema flt baseDir config =
     (let opt = obj_get config
      in case opt ''base-uri'' of
        JStr base \<Rightarrow>
          if \<not> is_str (opt ''dir'') \<and> \<not> is_str (opt ''bundle'') then Inl (JsMissingProperty ''dir or bundle'')
          else
            bindE (configured_path resolvePath baseDir (opt ''dir'')) (\<lambda>dir.
            bindE (configured_path resolvePath baseDir (opt ''bundle'')) (\<lambda>bundle.
              let ctx = createJSContext schema flt (with_slash (newURL base)) None
                    (truthy (opt ''strict-int-types'')) (truthy (opt ''number-formats''))
                    (opt ''strict-unions'' \<noteq> JBool False) (opt ''types-in-unions'' \<noteq> JBool False)
                    False False (truthy (opt ''explicit-additional-properties''))
                    (Inr (as_string toStr (js_or (opt ''tagged-type-suffix'') (JStr ''T'')))) ''_type''
              in bindE (getJSONSchemaTypes ctx) (\<lambda>r.
                   Inr ((case dir of None \<Rightarrow> [] | Some d \<Rightarrow> map (typeFile resolvePath d) (jst_types r)) @
                        (case bundle of None \<Rightarrow> [] | Some b \<Rightarrow> [(b, bundleFile ctx (jst_types r))])))))
      | _ \<Rightarrow> Inl (JsMissingProperty ''base-uri''))"

end
