(* ===== verification/Json_Schema_Properties.thy ===== *)
theory Json_Schema_Properties
  imports Json_Schema
begin

text \<open>
  The properties of the JSON Schema output: integer types get exactly the range of their width,
  every reference in the output leads to an emitted type, a table lists and requires exactly its
  fields, and the two tag maps are inverse to each other.
\<close>

section \<open>Integer ranges\<close>

text \<open>What \<^verbatim>\<open>minimum\<close> and \<^verbatim>\<open>maximum\<close> admit.\<close>

definition int_admits :: "jsval \<Rightarrow> int \<Rightarrow> bool" where
  "int_admits js v =
     ((case obj_get js ''minimum'' of JNum (Fin m) \<Rightarrow> m \<le> of_int v | _ \<Rightarrow> True) \<and>
      (case obj_get js ''maximum'' of JNum (Fin m) \<Rightarrow> of_int v \<le> m | _ \<Rightarrow> True))"

lemma minus_two_odd: "odd k \<Longrightarrow> (-2 :: int) ^ k = - (2 ^ k)"
  by (simp add: power_minus_odd)

text \<open>C33: the schema of an integer type admits the values of its width and signedness. With strict
  integer types and fewer than 64 bits these are exactly the representable values; otherwise only an
  unsigned type is bounded, from below.\<close>

theorem int_schema_range:
  assumes "map_get INT_TYPE_PROPERTIES n = Some p"
  shows "int_admits (basicTypeToJS ctx (IntType n p)) v \<longleftrightarrow>
    (if strictIntTypes ctx \<and> bits p < 64
     then if unsigned p then 0 \<le> v \<and> v < 2 ^ bits p
          else - (2 ^ (bits p - 1)) \<le> v \<and> v < 2 ^ (bits p - 1)
     else \<not> unsigned p \<or> 0 \<le> v)"
proof -
  have "odd (bits p - Suc 0)" "0 < bits p" using int_bits_cases [OF assms] by auto
  note two = minus_two_odd [OF this(1)]
  have le: "(of_int a :: rat) \<le> of_int b \<longleftrightarrow> a \<le> b" for a b by simp
  show ?thesis
    by (simp add: basicTypeToJS_def int_admits_def Let_def obj_get_set le two
        del: of_int_diff of_int_power of_int_minus of_int_add of_int_mult)
qed

theorem int_schema_range_witness:
  "\<exists>ctx. int_admits (basicTypeToJS ctx (IntType ''short'' \<lparr>bits = 16, unsigned = False\<rparr>)) (-32768) \<and>
     \<not> int_admits (basicTypeToJS ctx (IntType ''short'' \<lparr>bits = 16, unsigned = False\<rparr>)) 32768"
proof -
  let ?ctx = "createJSContext \<lparr>types = [], rootType = None\<rparr> \<lparr>tf_includes = [], tf_excludes = []\<rparr>
    \<lparr>url_origin = [], url_pathname = [], url_rest = []\<rparr> None True False True True False False False (Inr ''T'') ''_type''"
  have m: "map_get INT_TYPE_PROPERTIES ''short'' = Some \<lparr>bits = 16, unsigned = False\<rparr>" by code_simp
  have "strictIntTypes ?ctx" by (simp add: createJSContext_def)
  then show ?thesis
    using int_schema_range [OF m, of ?ctx "-32768"] int_schema_range [OF m, of ?ctx 32768] by (intro exI [of _ ?ctx]) simp
qed

section \<open>References in the output\<close>

text \<open>Every \<^verbatim>\<open>$ref\<close> in a value.\<close>

fun js_refs :: "jsval \<Rightarrow> string list" where
  "js_refs (JArr xs) = concat (map js_refs xs)"
| "js_refs (JObj ps) =
     concat (map (\<lambda>(k, v). (case v of JStr s \<Rightarrow> if k = ''$ref'' then [s] else [] | _ \<Rightarrow> js_refs v)) ps)"
| "js_refs _ = []"

definition entry_refs :: "string \<Rightarrow> jsval \<Rightarrow> string list" where
  "entry_refs k v = (case v of JStr s \<Rightarrow> if k = ''$ref'' then [s] else [] | _ \<Rightarrow> js_refs v)"

lemma entry_refs_simps [simp]:
  "k \<noteq> ''$ref'' \<Longrightarrow> entry_refs k v = js_refs v"
  "entry_refs ''$ref'' (JStr s) = [s]"
  "entry_refs k (JObj ps) = js_refs (JObj ps)"
  by (cases v; auto simp: entry_refs_def)+

lemma js_refs_obj: "js_refs (JObj ps) = concat (map (\<lambda>(k, v). entry_refs k v) ps)"
  by (simp add: entry_refs_def)

declare js_refs.simps(2) [simp del]

lemma js_refs_obj_simps [simp]:
  "js_refs (JObj []) = []" "js_refs (JObj ((k, v) # ps)) = entry_refs k v @ js_refs (JObj ps)"
  by (simp_all add: js_refs_obj)

lemma js_refs_map_set: "set (js_refs (JObj (map_set k v ps))) \<subseteq> set (js_refs (JObj ps)) \<union> set (entry_refs k v)"
  by (induction ps) auto

lemma js_refs_obj_set: "set (js_refs (obj_set k v x)) \<subseteq> set (js_refs x) \<union> set (entry_refs k v)"
  using js_refs_map_set by (cases x) auto

lemma js_refs_ref [simp]: "js_refs (js_ref u) = [u]"
  by (simp add: js_ref_def)

lemma js_refs_const [simp]: "js_refs (getConstString ctx v) = []"
  by (simp add: getConstString_def)

lemma js_refs_basic [simp]: "js_refs (basicTypeToJS ctx b) = []"
  by (cases b) (auto simp: basicTypeToJS_def Let_def)

lemma js_refs_field [simp]: "js_refs (fieldTypeToJS ctx ft) = map (\<lambda>r. getRefUrl ctx (resolvedFqtn r)) (field_refs ft)"
  by (induction ft) simp_all

lemma fieldTypeToJS_obj: "\<exists>ps. fieldTypeToJS ctx ft = JObj ps"
  by (cases ft) (auto simp: js_ref_def basicTypeToJS_def Let_def split: BasicType.splits)

lemma entry_refs_field [simp]: "entry_refs k (fieldTypeToJS ctx ft) = js_refs (fieldTypeToJS ctx ft)"
  using fieldTypeToJS_obj [of ctx ft] entry_refs_simps(3) by metis

text \<open>The references a table contributes, and those a union contributes.\<close>

definition ref_url :: "JSContext \<Rightarrow> TypeRef \<Rightarrow> string" where
  "ref_url ctx r = getRefUrl ctx (resolvedFqtn r)"

definition untyped_urls :: "JSContext \<Rightarrow> TypeRef \<Rightarrow> string set" where
  "untyped_urls ctx r =
     (case map_get (types (js_schema ctx)) (ref_key r) of
        Some (SUnion u) \<Rightarrow> insert (getUnionTagRefUrl ctx (resolvedFqtn r)) (ref_url ctx ` set (included_refs ctx u))
      | _ \<Rightarrow> {})"

definition table_urls :: "JSContext \<Rightarrow> TableType \<Rightarrow> string set" where
  "table_urls ctx t = ref_url ctx ` set (table_refs t) \<union>
     (if typesInUnions ctx then {} else \<Union> (untyped_urls ctx ` set (table_refs t)))"

definition union_urls :: "JSContext \<Rightarrow> UnionType \<Rightarrow> string set" where
  "union_urls ctx u =
     (if typesInUnions ctx then (\<lambda>r. getRefUrl ctx (getTaggedType ctx (resolvedFqtn r))) ` set (included_refs ctx u)
      else ref_url ctx ` set (included_refs ctx u))"

definition acc_urls :: "TableAcc \<Rightarrow> string set" where
  "acc_urls a = set (js_refs (JObj (acc_props a))) \<union> set (concat (map js_refs (acc_unionCases a)))"

lemma acc_urls_steps [simp]:
  "acc_urls (add_required n a) = acc_urls a"
  "acc_urls (add_case v a) = acc_urls a \<union> set (js_refs v)"
  by (auto simp: acc_urls_def add_required_def add_case_def)

lemma acc_urls_prop: "acc_urls (add_prop n v a) \<subseteq> acc_urls a \<union> set (entry_refs n v)"
  using js_refs_map_set by (auto simp: acc_urls_def add_prop_def)

lemma plainField_urls: "acc_urls (plainField ctx f a) \<subseteq> acc_urls a \<union> ref_url ctx ` set (field_refs (fld_type f))"
  using acc_urls_prop [of "fld_name f" "fieldTypeToJS ctx (fld_type f)" a]
  by (auto simp: plainField_def Let_def ref_url_def)

lemma unionCase_urls [simp]: "js_refs (unionCase ctx n tag r) = [ref_url ctx r]"
  by (simp add: unionCase_def ref_url_def js_refs_obj entry_refs_def js_ref_def getConstString_def)

lemma unionCases_urls:
  "acc_urls (fold (unionCaseStep ctx n tag) vs a) =
     acc_urls a \<union> ref_url ctx ` set (filter (includes_ref ctx) (map uv_typeRef vs))"
  by (induction vs arbitrary: a) (auto simp: unionCaseStep_def)

lemma untypedUnionField_urls:
  assumes "fld_type f = FCustom r" and "map_get (types (js_schema ctx)) (ref_key r) = Some (SUnion u)"
  shows "acc_urls (untypedUnionField ctx f r u a) \<subseteq> acc_urls a \<union> {ref_url ctx r} \<union> untyped_urls ctx r"
proof (cases "strictUnions ctx")
  case True
  then show ?thesis
    using assms(2)
    by (auto simp: untypedUnionField_def Let_def unionCases_urls untyped_urls_def included_refs_def)
next
  case False
  let ?tag = "fld_name f @ ''_type''" and ?v = "js_ref (getUnionTagRefUrl ctx (resolvedFqtn r))"
  let ?b = "if isRequired (fld_metadata f) True then add_required ?tag a else a"
  have "acc_urls (untypedUnionField ctx f r u a) \<subseteq> acc_urls (add_prop ?tag ?v ?b) \<union> {ref_url ctx r}"
    using plainField_urls [of ctx f "add_prop ?tag ?v ?b"] assms(1) False
    by (simp add: untypedUnionField_def Let_def)
  also have "\<dots> \<subseteq> acc_urls ?b \<union> {getUnionTagRefUrl ctx (resolvedFqtn r)} \<union> {ref_url ctx r}"
    using acc_urls_prop [of ?tag ?v ?b] by (auto simp: js_ref_def)
  also have "\<dots> \<subseteq> acc_urls a \<union> {ref_url ctx r} \<union> untyped_urls ctx r"
    using assms(2) by (auto simp: untyped_urls_def)
  finally show ?thesis .
qed

lemma tableFieldStep_urls:
  assumes "tableFieldStep ctx t a f = Inr a'" and "f \<in> set (tbl_fields t)"
  shows "acc_urls a' \<subseteq> acc_urls a \<union> table_urls ctx t"
proof -
  have sub: "set (field_refs (fld_type f)) \<subseteq> set (table_refs t)"
    using assms(2) by (auto simp: table_refs_def)
  have plain: "acc_urls (plainField ctx f a) \<subseteq> acc_urls a \<union> table_urls ctx t"
    using plainField_urls [of ctx f a] image_mono [OF sub, of "ref_url ctx"]
    unfolding table_urls_def by blast
  show ?thesis
  proof (cases "fld_type f")
    case (FCustom r)
    show ?thesis
    proof (cases "\<exists>u. map_get (types (js_schema ctx)) (ref_key r) = Some (SUnion u) \<and> \<not> typesInUnions ctx")
      case True
      then obtain u where u: "map_get (types (js_schema ctx)) (ref_key r) = Some (SUnion u)" "\<not> typesInUnions ctx"
        by blast
      then have "a' = untypedUnionField ctx f r u a"
        using assms(1) FCustom by (simp add: tableFieldStep_def)
      with untypedUnionField_urls [OF FCustom u(1), of a] u(2) sub FCustom show ?thesis
        by (auto simp: table_urls_def)
    next
      case False
      with assms(1) FCustom have "a' = plainField ctx f a"
        by (auto simp: tableFieldStep_def split: option.splits SchemaType.splits if_splits)
      with plain show ?thesis by simp
    qed
  qed (use assms(1) plain in \<open>simp_all add: tableFieldStep_def\<close>)
qed

lemma js_refs_if_set: "set (js_refs (if b then obj_set k v j else j)) \<subseteq> set (js_refs j) \<union> set (entry_refs k v)"
  using js_refs_obj_set [of k v j] by (cases b) auto

lemma finishTable_urls: "set (js_refs (finishTable ctx js a)) \<subseteq> set (js_refs js) \<union> acc_urls a"
proof -
  note set_if = js_refs_if_set [THEN order_trans]
  have "set (entry_refs ''required'' (JArr (map JStr (acc_required a)))) = {}"
    "set (entry_refs ''additionalProperties'' (JBool True)) = {}"
    "set (entry_refs ''allOf'' (JArr (acc_unionCases a))) \<subseteq> acc_urls a"
    "set (entry_refs ''properties'' (JObj (acc_props a))) \<subseteq> acc_urls a"
    by (auto simp: acc_urls_def)
  then show ?thesis
    unfolding finishTable_def Let_def by (intro set_if Un_least) auto
qed

lemma addTableProperties_urls:
  assumes "addTableProperties ctx t js tagged = Inr js'"
  shows "set (js_refs js') \<subseteq> set (js_refs js) \<union> table_urls ctx t"
proof -
  obtain a where a: "foldE (tableFieldStep ctx t) (startTable ctx t tagged) (tbl_fields t) = Inr a"
    "js' = finishTable ctx js a"
    using assms by (auto simp: addTableProperties_def bindE_Inr_iff)
  have "entry_refs k (getConstString ctx v) = []" for k v
    by (cases "k = ''$ref''") (auto simp: getConstString_def entry_refs_def js_refs_obj)
  then have "acc_urls (startTable ctx t tagged) \<subseteq> table_urls ctx t"
    by (simp add: startTable_def acc_urls_def)
  then have "acc_urls a \<subseteq> table_urls ctx t"
    by (rule foldE_inv [OF a(1)]) (use tableFieldStep_urls in blast)
  with finishTable_urls [of ctx js a] a(2) show ?thesis by blast
qed

definition type_urls :: "JSContext \<Rightarrow> SchemaType \<Rightarrow> string set" where
  "type_urls ctx t = (case t of SEnum e \<Rightarrow> {} | SUnion u \<Rightarrow> union_urls ctx u | STable tt \<Rightarrow> table_urls ctx tt)"

text \<open>The conversion changes the three maps of the context only.\<close>

definition settings :: "JSContext \<Rightarrow> JSContext" where
  "settings ctx = ctx\<lparr>jsonSchema := [], taggedToUntaggedType := [], untaggedToTaggedType := []\<rparr>"

lemma settings_eq:
  assumes "settings c = settings ctx"
  shows "getRefUrl c = getRefUrl ctx" "getTaggedType c = getTaggedType ctx" "js_schema c = js_schema ctx"
    "js_typeFilter c = js_typeFilter ctx" "typesInUnions c = typesInUnions ctx"
proof -
  have "f c = f ctx" if "\<And>x. f (settings x) = f x" for f :: "JSContext \<Rightarrow> 'z"
    using that assms by metis
  note keeps = this
  show "getRefUrl c = getRefUrl ctx" by (rule keeps) (simp add: settings_def)
  show "getTaggedType c = getTaggedType ctx" by (rule keeps) (simp add: settings_def)
  show "js_schema c = js_schema ctx" by (rule keeps) (simp add: settings_def)
  show "js_typeFilter c = js_typeFilter ctx" by (rule keeps) (simp add: settings_def)
  show "typesInUnions c = typesInUnions ctx" by (rule keeps) (simp add: settings_def)
qed

lemma settings_urls:
  assumes "settings c = settings ctx"
  shows "type_urls c t = type_urls ctx t"
proof -
  note eq = settings_eq [OF assms]
  have "includes_ref c = includes_ref ctx" "ref_url c = ref_url ctx" "getUnionTagRefUrl c = getUnionTagRefUrl ctx"
    by (auto simp: fun_eq_iff includes_ref_def ref_url_def getUnionTagRefUrl_def eq)
  moreover from this have "included_refs c = included_refs ctx"
    by (intro ext) (simp add: included_refs_def)
  moreover from calculation have "untyped_urls c = untyped_urls ctx"
    by (intro ext) (simp add: untyped_urls_def eq cong: option.case_cong SchemaType.case_cong)
  ultimately show ?thesis
    by (cases t) (simp_all add: type_urls_def union_urls_def table_urls_def eq)
qed

lemma settings_set_js [simp]:
  "settings (set_js k v c) = settings c"
  "settings (c\<lparr>taggedToUntaggedType := a, untaggedToTaggedType := b\<rparr>) = settings c"
  "jsonSchema (set_js k v c) = map_set k v (jsonSchema c)"
  by (simp_all add: set_js_def settings_def)

text \<open>The names under which one type is emitted.\<close>

definition type_keys :: "JSContext \<Rightarrow> string \<Rightarrow> SchemaType \<Rightarrow> string set" where
  "type_keys ctx k t =
     (case t of
        SEnum e \<Rightarrow> {k}
      | SUnion u \<Rightarrow> if typesInUnions ctx then {k} else {k, k @ ''Type''}
      | STable tt \<Rightarrow> (if \<not> typesInUnions ctx \<or> usedInTable tt then {k} else {}) \<union>
          (if typesInUnions ctx \<and> usedInUnion tt then {dot_join (getTaggedType ctx (dot_split k))} else {}))"

definition emitted :: "JSContext \<Rightarrow> string set" where
  "emitted c = set (map_keys (jsonSchema c))"

lemma emitted_simps [simp]:
  "emitted (set_js k v c) = insert k (emitted c)"
  "emitted (c\<lparr>taggedToUntaggedType := a, untaggedToTaggedType := b\<rparr>) = emitted c"
  unfolding emitted_def settings_set_js set_map_keys_set by simp_all

definition schema_urls :: "JSContext \<Rightarrow> string set" where
  "schema_urls c = (\<Union>(k, v) \<in> set (jsonSchema c). set (js_refs v))"

lemma schema_urls_set: "schema_urls (set_js k v c) \<subseteq> schema_urls c \<union> set (js_refs v)"
proof -
  have "set (map_set k v m) \<subseteq> insert (k, v) (set m)" for m :: "(string, jsval) jsmap"
    by (induction m) auto
  then show ?thesis by (fastforce simp: schema_urls_def)
qed

lemma base_refs [simp]: "js_refs (getBaseJSProps ctx ns n) = []" "js_refs (getTaggedBaseJSProps ctx ns n) = []"
  by (simp_all add: getBaseJSProps_def getTaggedBaseJSProps_def js_refs_obj entry_refs_def)

lemma convertUnion_effect:
  "settings (convertUnion c k u) = settings c"
  "emitted (convertUnion c k u) = emitted c \<union> type_keys c k (SUnion u)"
  by (auto simp: convertUnion_def Let_def type_keys_def)

lemma mapping_refs: "set (js_refs (JObj (fold (\<lambda>r. map_set (f r) (JStr (g r))) rs ps))) \<subseteq> set (js_refs (JObj ps)) \<union> g ` set rs"
proof (induction rs arbitrary: ps)
  case (Cons r rs)
  have "set (entry_refs (f r) (JStr (g r))) \<subseteq> {g r}" by (auto simp: entry_refs_def)
  with Cons.IH [of "map_set (f r) (JStr (g r)) ps"] js_refs_map_set [of "f r" "JStr (g r)" ps] show ?case by auto
qed simp

lemma convertUnion_urls: "schema_urls (convertUnion c k u) \<subseteq> schema_urls c \<union> union_urls c u"
proof (cases "typesInUnions c")
  case True
  let ?rs = "included_refs c u" and ?url = "\<lambda>r. getRefUrl c (getTaggedType c (resolvedFqtn r))"
  let ?base = "getBaseJSProps c (tb_ns u) (tb_name u)"
  let ?union = "obj_set ''oneOf'' (JArr (map (\<lambda>r. js_ref (?url r)) ?rs)) ?base"
  let ?map = "fold (\<lambda>r. map_set (last_part (resolvedFqtn r)) (JStr (?url r))) ?rs []"
  let ?d = "JObj [(''propertyName'', JStr (typeKey c)), (''mapping'', JObj ?map)]"
  let ?full = "if includeOpenApiDiscriminators c then obj_set ''discriminator'' ?d ?union else ?union"
  have d: "set (js_refs ?d) \<subseteq> ?url ` set ?rs"
    using mapping_refs [of "\<lambda>r. last_part (resolvedFqtn r)" ?url ?rs "[]"] by (simp add: js_refs_obj entry_refs_def)
  have u: "set (js_refs ?union) \<subseteq> ?url ` set ?rs"
    using js_refs_obj_set [of "''oneOf''" "JArr (map (\<lambda>r. js_ref (?url r)) ?rs)" ?base] by auto
  have "set (js_refs ?full) \<subseteq> ?url ` set ?rs"
    using js_refs_if_set [of "includeOpenApiDiscriminators c" "''discriminator''" ?d ?union] d u by auto
  with schema_urls_set [of k ?full c] True show ?thesis
    by (auto simp: convertUnion_def Let_def union_urls_def)
next
  case False
  let ?rs = "included_refs c u"
  let ?base = "getBaseJSProps c (tb_ns u) (tb_name u)"
  let ?union = "obj_set ''anyOf'' (JArr (map (\<lambda>r. js_ref (getRefUrl c (resolvedFqtn r))) ?rs)) ?base"
  let ?tags = "JObj [(''$id'', JStr (href (js_baseUri c) @ join ''/'' (tb_ns u @ [tb_name u @ ''Type'']))),
    (''type'', JStr ''string''), (''enum'', JArr (map (\<lambda>r. JStr (last_part (resolvedFqtn r))) ?rs))]"
  have u: "set (js_refs ?union) \<subseteq> ref_url c ` set ?rs"
    using js_refs_obj_set [of "''anyOf''" "JArr (map (\<lambda>r. js_ref (getRefUrl c (resolvedFqtn r))) ?rs)" ?base]
    by (auto simp: ref_url_def)
  have t: "js_refs ?tags = []" by (simp add: js_refs_obj entry_refs_def)
  have "schema_urls (convertUnion c k u) \<subseteq> schema_urls (set_js k ?union c) \<union> set (js_refs ?tags)"
    using schema_urls_set [of "k @ ''Type''" ?tags "set_js k ?union c"] False
    by (simp add: convertUnion_def Let_def)
  with schema_urls_set [of k ?union c] u t False show ?thesis
    by (auto simp: union_urls_def)
qed

lemma addTable_set:
  assumes "addTableProperties c t (obj_set ''type'' (JStr ''object'') base) tagged = Inr js" and "js_refs base = []"
  shows "schema_urls (set_js k js c') \<subseteq> schema_urls c' \<union> table_urls c t"
  using addTableProperties_urls [OF assms(1)] schema_urls_set [of k js c'] assms(2)
    js_refs_obj_set [of "''type''" "JStr ''object''" base]
  by (auto simp: entry_refs_def)

lemma table_step:
  assumes "(if b then bindE (addTableProperties c t (obj_set ''type'' (JStr ''object'') base) tagged)
      (\<lambda>js. Inr (f (set_js k js c))) else Inr c) = Inr c'"
    and "js_refs base = []"
    and "\<And>c. settings (f c) = settings c" "\<And>c. jsonSchema (f c) = jsonSchema c"
  shows "settings c' = settings c \<and> emitted c' = emitted c \<union> (if b then {k} else {}) \<and>
    schema_urls c' \<subseteq> schema_urls c \<union> table_urls c t"
proof (cases b)
  case True
  then obtain js where js: "addTableProperties c t (obj_set ''type'' (JStr ''object'') base) tagged = Inr js"
    and c': "c' = f (set_js k js c)"
    using assms(1) by (auto simp: bindE_Inr_iff)
  have "emitted c' = emitted (set_js k js c)" "schema_urls c' = schema_urls (set_js k js c)"
    by (simp_all only: c' emitted_def schema_urls_def assms(4))
  moreover have "settings c' = settings c" by (simp add: c' assms(3))
  ultimately show ?thesis using True addTable_set [OF js assms(2), of k c] by auto
qed (use assms(1) in auto)

lemma convertTable_effect:
  assumes "convertTable c k t = Inr c'"
  shows "settings c' = settings c"
    and "emitted c' = emitted c \<union> type_keys c k (STable t)"
    and "schema_urls c' \<subseteq> schema_urls c \<union> table_urls c t"
proof -
  let ?tag = "\<lambda>c. dot_join (getTaggedType c (dot_split k))"
  let ?f = "\<lambda>d c. c\<lparr>taggedToUntaggedType := map_set (?tag d) k (taggedToUntaggedType d),
             untaggedToTaggedType := map_set k (?tag d) (untaggedToTaggedType d)\<rparr>"
  obtain c1 where 1: "(if \<not> typesInUnions c \<or> usedInTable t then bindE (addTableProperties c t
         (obj_set ''type'' (JStr ''object'') (getBaseJSProps c (tb_ns t) (tb_name t))) False)
         (\<lambda>js. Inr (set_js k js c)) else Inr c) = Inr c1"
    and 2: "(if typesInUnions c \<and> usedInUnion t then bindE (addTableProperties c1 t
         (obj_set ''type'' (JStr ''object'') (getTaggedBaseJSProps c1 (tb_ns t) (tb_name t))) True)
         (\<lambda>js. Inr (?f c1 (set_js (?tag c1) js c1))) else Inr c1) = Inr c'"
    using assms unfolding convertTable_def Let_def bindE_Inr_iff by blast
  have r1: "settings c1 = settings c \<and> emitted c1 = emitted c \<union> (if \<not> typesInUnions c \<or> usedInTable t then {k} else {}) \<and>
      schema_urls c1 \<subseteq> schema_urls c \<union> table_urls c t"
    by (rule table_step [where f = "\<lambda>c. c", OF 1]) simp_all
  have r2: "settings c' = settings c1 \<and> emitted c' = emitted c1 \<union> (if typesInUnions c \<and> usedInUnion t then {?tag c1} else {}) \<and>
      schema_urls c' \<subseteq> schema_urls c1 \<union> table_urls c1 t"
    by (rule table_step [OF 2]) simp_all
  have s1: "settings c1 = settings c" using r1 by blast
  have tu: "table_urls c1 t = table_urls c t" using settings_urls [OF s1, of "STable t"] by (simp add: type_urls_def)
  have tt: "getTaggedType c1 = getTaggedType c" by (rule settings_eq [OF s1])
  show "settings c' = settings c" using r1 r2 by simp
  show "emitted c' = emitted c \<union> type_keys c k (STable t)" using r1 r2 by (auto simp: type_keys_def tt)
  show "schema_urls c' \<subseteq> schema_urls c \<union> table_urls c t" using r1 r2 tu by auto
qed

lemma convertSchemaType_effect:
  assumes "convertSchemaType c k t = Inr c'"
  shows "settings c' = settings c"
    and "emitted c' = emitted c \<union> type_keys c k t"
    and "schema_urls c' \<subseteq> schema_urls c \<union> type_urls c t"
proof -
  have e: "schema_urls (set_js k (obj_set ''enum'' (JArr (map (JStr \<circ> ev_id) vs))
      (obj_set ''type'' (JStr ''string'') (getBaseJSProps c ns n))) c) \<subseteq> schema_urls c" (is "schema_urls (set_js k ?js c) \<subseteq> _") for vs ns n
    using schema_urls_set [of k ?js c] js_refs_obj_set [of "''enum''" "JArr (map (JStr \<circ> ev_id) vs)" "obj_set ''type'' (JStr ''string'') (getBaseJSProps c ns n)"]
      js_refs_obj_set [of "''type''" "JStr ''string''" "getBaseJSProps c ns n"]
    by (auto simp: entry_refs_def)
  show "settings c' = settings c"
    using assms convertUnion_effect(1) convertTable_effect(1)
    by (cases t) (auto simp: convertSchemaType_def)
  show "emitted c' = emitted c \<union> type_keys c k t"
    using assms convertUnion_effect(2) convertTable_effect(2)
    by (cases t) (auto simp: convertSchemaType_def type_keys_def [of _ _ "SEnum _"])
  show "schema_urls c' \<subseteq> schema_urls c \<union> type_urls c t"
  proof (cases t)
    case (SEnum x)
    with assms e show ?thesis by (auto simp: convertSchemaType_def)
  next
    case (SUnion u)
    with assms convertUnion_urls [of c k u] show ?thesis by (simp add: convertSchemaType_def type_urls_def)
  next
    case (STable tt)
    with assms convertTable_effect(3) [of c k tt c'] show ?thesis by (simp add: convertSchemaType_def type_urls_def)
  qed
qed

section \<open>The whole output\<close>

lemma bundleDefs_keys: "set (map_keys (bundleDefs c)) = emitted c"
proof -
  have "set (map_keys (fold (\<lambda>(k, v). map_set k v) ps m)) = set (map_keys m) \<union> set (map_keys ps)"
    for ps m :: "(string, jsval) jsmap"
  proof (induction ps arbitrary: m)
    case (Cons p ps)
    obtain k v where "p = (k, v)" by (cases p)
    with Cons [of "map_set k v m"] set_map_keys_set [of k v m] show ?case by simp
  qed simp
  then show ?thesis by (simp add: bundleDefs_def emitted_def del: set_map)
qed

lemma bundleDefs_values: "set (bundleDefs c) \<subseteq> set (jsonSchema c)"
proof -
  have sub: "set (map_set k v m) \<subseteq> insert (k, v) (set m)" for k v and m :: "(string, jsval) jsmap"
    by (induction m) auto
  have "set (fold (\<lambda>(k, v). map_set k v) ps m) \<subseteq> set m \<union> set ps" for ps m :: "(string, jsval) jsmap"
  proof (induction ps arbitrary: m)
    case (Cons p ps)
    obtain k v where "p = (k, v)" by (cases p)
    with Cons [of "map_set k v m"] sub [of k v m] show ?case by auto
  qed simp
  from this [of "jsonSchema c" "[]"] show ?thesis by (simp add: bundleDefs_def)
qed

definition included_types :: "JSContext \<Rightarrow> (string \<times> SchemaType) set" where
  "included_types ctx = {(k, t) \<in> set (types (js_schema ctx)). includeType (js_typeFilter ctx) k}"

lemma getJSONSchemaTypes_effect:
  assumes "getJSONSchemaTypes ctx = Inr out" and "jsonSchema ctx = []"
  shows "set (map_keys (jst_types out)) = (\<Union>(k, t) \<in> included_types ctx. type_keys ctx k t)"
    and "(k, v) \<in> set (jst_types out) \<Longrightarrow> set (js_refs v) \<subseteq> (\<Union>(k, t) \<in> included_types ctx. type_urls ctx t)"
proof -
  let ?step = schemaTypeStep
  obtain c where c: "foldE ?step ctx (types (js_schema ctx)) = Inr c" "jst_types out = bundleDefs c"
    using assms(1) by (auto simp: getJSONSchemaTypes_def bindE_Inr_iff)
  let ?inc = "\<lambda>es. {(k, t) \<in> set es. includeType (js_typeFilter ctx) k}"
  let ?P = "\<lambda>es c. settings c = settings ctx \<and> emitted c = (\<Union>(k, t) \<in> ?inc es. type_keys ctx k t) \<and>
    schema_urls c \<subseteq> (\<Union>(k, t) \<in> ?inc es. type_urls ctx t)"
  have "?P (types (js_schema ctx)) c"
  proof (rule foldE_inv_prefix [OF c(1), where P = ?P])
    show "?P [] ctx" using assms(2) by (simp add: emitted_def schema_urls_def)
    fix pre x post s s'
    assume P: "?P pre s" and st: "?step s x = Inr s'"
    obtain k t where x: "x = (k, t)" by (cases x)
    have se: "settings s = settings ctx" using P by blast
    note eq = settings_eq [OF se] settings_urls [OF se, of t]
    have tk: "type_keys s k t = type_keys ctx k t" by (cases t) (simp_all add: type_keys_def eq)
    show "?P (pre @ [x]) s'"
    proof (cases "includeType (js_typeFilter ctx) k")
      case True
      then have "convertSchemaType s k t = Inr s'" using st x P eq by (simp add: schemaTypeStep_def)
      note conv = convertSchemaType_effect [OF this]
      have "?inc (pre @ [x]) = insert (k, t) (?inc pre)" using True x by auto
      with conv P eq tk show ?thesis by auto
    next
      case False
      then have "s' = s" using st x P eq by (simp add: schemaTypeStep_def)
      moreover have "?inc (pre @ [x]) = ?inc pre" using False x by auto
      ultimately show ?thesis using P by simp
    qed
  qed
  then have P: "emitted c = (\<Union>(k, t) \<in> included_types ctx. type_keys ctx k t)"
    "schema_urls c \<subseteq> (\<Union>(k, t) \<in> included_types ctx. type_urls ctx t)"
    by (simp_all add: included_types_def)
  show "set (map_keys (jst_types out)) = (\<Union>(k, t) \<in> included_types ctx. type_keys ctx k t)"
    unfolding c(2) bundleDefs_keys by (rule P)
  assume "(k, v) \<in> set (jst_types out)"
  then have "set (js_refs v) \<subseteq> schema_urls c"
    using bundleDefs_values [of c] c(2) by (auto simp: schema_urls_def)
  with P(2) show "set (js_refs v) \<subseteq> (\<Union>(k, t) \<in> included_types ctx. type_urls ctx t)" by (rule order_trans [rotated])
qed

lemma join_append_last: "fq \<noteq> [] \<Longrightarrow> join sep (append_last fq s) = join sep fq @ s"
proof (induction fq)
  case (Cons p fq)
  then show ?case by (cases fq) (auto simp: append_last_def join_Cons)
qed simp

definition emitted_url :: "JSContext \<Rightarrow> JSONSchemaTypes \<Rightarrow> string \<Rightarrow> bool" where
  "emitted_url ctx out url = (\<exists>fq. url = getRefUrl ctx fq \<and> map_has (jst_types out) (dot_join fq))"

definition unions_of_tables :: "SchemaTypes \<Rightarrow> bool" where
  "unions_of_tables S =
     list_all (\<lambda>r. case map_get (types S) (ref_key r) of Some t \<Rightarrow> is_table t | None \<Rightarrow> False) (all_union_refs S)"

lemma union_ref_mem: "(k, SUnion u) \<in> set (types S) \<Longrightarrow> r \<in> set (union_refs u) \<Longrightarrow> r \<in> set (all_union_refs S)"
  by (force simp: all_union_refs_def)

lemma table_ref_mem: "(k, STable t) \<in> set (types S) \<Longrightarrow> r \<in> set (table_refs t) \<Longrightarrow> r \<in> set (all_table_refs S)"
  by (force simp: all_table_refs_def)

lemma all_refs_split: "set (all_refs S) = set (all_table_refs S) \<union> set (all_union_refs S)"
  by (auto simp: all_refs_def all_table_refs_def all_union_refs_def type_refs_def)

context schema_source
begin

lemma emits_included:
  assumes "load h d f = Inr (js_schema ctx)" and "getJSONSchemaTypes ctx = Inr out" and "jsonSchema ctx = []"
    and "map_get (types (js_schema ctx)) k = Some t" and "includeType (js_typeFilter ctx) k"
    and "key \<in> type_keys ctx k t"
  shows "map_has (jst_types out) key"
  using getJSONSchemaTypes_effect(1) [OF assms(2,3)] map_get_mem [OF assms(4)] assms(5,6)
  unfolding map_has_iff by (auto simp: included_types_def simp del: set_map)

lemma table_ref_emitted:
  assumes S: "load h d f = Inr (js_schema ctx)" and out: "getJSONSchemaTypes ctx = Inr out" "jsonSchema ctx = []"
    and r: "r \<in> set (all_table_refs (js_schema ctx))" and inc: "includes_ref ctx r"
  shows "emitted_url ctx out (ref_url ctx r)"
proof -
  have "r \<in> set (all_refs (js_schema ctx))" using r by (simp add: all_refs_split)
  then obtain t where t: "map_get (types (js_schema ctx)) (ref_key r) = Some t" using target [OF S] by blast
  have "ref_key r \<in> type_keys ctx (ref_key r) t"
  proof (cases t)
    case (STable tt)
    with marked [OF S] t r have "usedInTable tt" by blast
    with STable show ?thesis by (simp add: type_keys_def)
  qed (simp_all add: type_keys_def)
  from emits_included [OF S out t _ this] inc show ?thesis
    by (auto simp: emitted_url_def ref_url_def includes_ref_def)
qed

lemma union_ref_emitted:
  assumes S: "load h d f = Inr (js_schema ctx)" and out: "getJSONSchemaTypes ctx = Inr out" "jsonSchema ctx = []"
    and tabs: "unions_of_tables (js_schema ctx)"
    and r: "r \<in> set (all_union_refs (js_schema ctx))" and inc: "includes_ref ctx r"
  shows "typesInUnions ctx \<Longrightarrow> emitted_url ctx out (getRefUrl ctx (getTaggedType ctx (resolvedFqtn r)))"
    and "\<not> typesInUnions ctx \<Longrightarrow> emitted_url ctx out (ref_url ctx r)"
proof -
  have all: "r \<in> set (all_refs (js_schema ctx))" using r by (simp add: all_refs_split)
  note split = closed [OF S all]
  obtain tt where t: "map_get (types (js_schema ctx)) (ref_key r) = Some (STable tt)"
    using tabs r by (fastforce simp: unions_of_tables_def list_all_iff elim: is_table.elims split: option.splits)
  have "usedInUnion tt" using marked [OF S t] r by blast
  have i: "includeType (js_typeFilter ctx) (ref_key r)" using inc by (simp add: includes_ref_def)
  show "typesInUnions ctx \<Longrightarrow> emitted_url ctx out (getRefUrl ctx (getTaggedType ctx (resolvedFqtn r)))"
    using emits_included [OF S out t i, of "dot_join (getTaggedType ctx (resolvedFqtn r))"] split \<open>usedInUnion tt\<close>
    by (auto simp: type_keys_def emitted_url_def)
  show "\<not> typesInUnions ctx \<Longrightarrow> emitted_url ctx out (ref_url ctx r)"
    using emits_included [OF S out t i, of "ref_key r"]
    by (auto simp: type_keys_def emitted_url_def ref_url_def)
qed

lemma no_dangling:
  assumes S: "load h d f = Inr (js_schema ctx)" and out: "getJSONSchemaTypes ctx = Inr out" "jsonSchema ctx = []"
    and flt: "list_all (includes_ref ctx) (all_table_refs (js_schema ctx))"
    and tabs: "unions_of_tables (js_schema ctx)"
    and v: "(k, v) \<in> set (jst_types out)" "url \<in> set (js_refs v)"
  shows "emitted_url ctx out url"
proof -
  obtain k' t where kt: "(k', t) \<in> set (types (js_schema ctx))" "url \<in> type_urls ctx t"
    using getJSONSchemaTypes_effect(2) [OF out v(1)] v(2) by (auto simp: included_types_def)
  have tref: "emitted_url ctx out (ref_url ctx r)" if "r \<in> set (all_table_refs (js_schema ctx))" for r
    using table_ref_emitted [OF S out that] flt that by (simp add: list_all_iff)
  have uref: "includes_ref ctx r \<and> r \<in> set (all_union_refs (js_schema ctx))"
    if "(k', SUnion u) \<in> set (types (js_schema ctx))" "r \<in> set (included_refs ctx u)" for u k' r
    using union_ref_mem [OF that(1), of r] that(2) by (auto simp: included_refs_def union_refs_def)
  show ?thesis
  proof (cases t)
    case (SEnum e)
    with kt show ?thesis by (simp add: type_urls_def)
  next
    case (SUnion u)
    with kt show ?thesis
      using union_ref_emitted [OF S out tabs] uref
      by (auto simp: type_urls_def union_urls_def split: if_splits)
  next
    case (STable tt)
    show ?thesis
    proof (cases "url \<in> ref_url ctx ` set (table_refs tt)")
      case True
      then show ?thesis using tref table_ref_mem kt(1) STable by blast
    next
      case False
      then obtain r where m: "\<not> typesInUnions ctx" and r: "r \<in> set (table_refs tt)" "url \<in> untyped_urls ctx r"
        using kt(2) STable by (auto simp: type_urls_def table_urls_def split: if_splits)
      then obtain u where u: "map_get (types (js_schema ctx)) (ref_key r) = Some (SUnion u)"
        by (auto simp: untyped_urls_def split: option.splits SchemaType.splits)
      have rt: "r \<in> set (all_table_refs (js_schema ctx))" using table_ref_mem kt(1) STable r(1) by blast
      then have "resolvedFqtn r \<noteq> []" using closed [OF S] by (simp add: all_refs_split)
      moreover have "includeType (js_typeFilter ctx) (ref_key r)"
        using flt rt by (simp add: list_all_iff includes_ref_def)
      ultimately have tag: "emitted_url ctx out (getUnionTagRefUrl ctx (resolvedFqtn r))"
        using emits_included [OF S out u, of "ref_key r @ ''Type''"] m
        by (auto simp: type_keys_def emitted_url_def getUnionTagRefUrl_def join_append_last)
      show ?thesis
        using r(2) u tag union_ref_emitted(2) [OF S out tabs _ _ m] uref [OF map_get_mem [OF u]]
        by (auto simp: untyped_urls_def)
    qed
  qed
qed

end

text \<open>C3: no reference in the emitted schemas dangles. When the filter keeps every type a table
  field refers to and unions hold tables only, every \<^verbatim>\<open>$ref\<close> in the output, inside
  and outside unions and in all modes, is the URL of an emitted type.\<close>

theorem no_dangling_reference:
  assumes "resolveSchemaTypes H baseDir rootFile = Inr (js_schema ctx)"
    and "getJSONSchemaTypes ctx = Inr out" and "jsonSchema ctx = []"
    and "list_all (includes_ref ctx) (all_table_refs (js_schema ctx))"
    and "unions_of_tables (js_schema ctx)"
    and "(k, v) \<in> set (jst_types out)" and "url \<in> set (js_refs v)"
  shows "\<exists>fq. url = getRefUrl ctx fq \<and> map_has (jst_types out) (dot_join fq)"
  using resolver.no_dangling [OF assms] by (simp add: emitted_url_def)

definition demo_js :: JSContext where
  "demo_js = createJSContext (case resolveSchemaTypes demo_host ''/'' ''root'' of Inr S \<Rightarrow> S | Inl _ \<Rightarrow> \<lparr>types = [], rootType = None\<rparr>)
     \<lparr>tf_includes = [], tf_excludes = []\<rparr> \<lparr>url_origin = ''http://x'', url_pathname = ''/'', url_rest = []\<rparr>
     None True False True True False False False (Inr ''T'') ''_type''"

theorem no_dangling_reference_witness:
  "\<exists>out v. getJSONSchemaTypes demo_js = Inr out \<and> (''motis.lookup.Msg'', v) \<in> set (jst_types out) \<and>
     ''/motis/lookup/RequestT'' \<in> set (js_refs v) \<and>
     (\<exists>fq. ''/motis/lookup/RequestT'' = getRefUrl demo_js fq \<and> map_has (jst_types out) (dot_join fq))"
proof -
  have S: "resolveSchemaTypes demo_host ''/'' ''root'' = Inr (js_schema demo_js)"
    by (simp add: demo_js_def demo_schema createJSContext_def)
  obtain out where out: "getJSONSchemaTypes demo_js = Inr out"
    "map_get (jst_types out) ''motis.lookup.Msg'' =
       Some (JObj [(''$id'', JStr ''http://x/motis/lookup/Msg''),
                   (''oneOf'', JArr [JObj [(''$ref'', JStr ''/motis/lookup/RequestT'')]])])"
  proof -
    have "case getJSONSchemaTypes demo_js of Inl _ \<Rightarrow> False
      | Inr out \<Rightarrow> map_get (jst_types out) ''motis.lookup.Msg'' =
       Some (JObj [(''$id'', JStr ''http://x/motis/lookup/Msg''),
                   (''oneOf'', JArr [JObj [(''$ref'', JStr ''/motis/lookup/RequestT'')]])])" by code_simp
    then show thesis using that by (auto split: sum.splits)
  qed
  have f: "list_all (includes_ref demo_js) (all_table_refs (js_schema demo_js))" "unions_of_tables (js_schema demo_js)"
    "jsonSchema demo_js = []" by code_simp+
  let ?v = "JObj [(''$id'', JStr ''http://x/motis/lookup/Msg''),
                   (''oneOf'', JArr [JObj [(''$ref'', JStr ''/motis/lookup/RequestT'')]])]"
  have r: "''/motis/lookup/RequestT'' \<in> set (js_refs ?v)" by code_simp
  note m = map_get_mem [OF out(2)]
  show ?thesis
    using no_dangling_reference [OF S out(1) f(3) f(1) f(2) m r] out(1) m r by blast
qed

section \<open>Properties and required names of a table\<close>

definition required_names :: "JSContext \<Rightarrow> TableType \<Rightarrow> bool \<Rightarrow> string list" where
  "required_names ctx t tagged =
     (if tagged then [typeKey ctx] else []) @ map fld_name (filter (\<lambda>f. isRequired (fld_metadata f) True) (tbl_fields t))"

definition property_names :: "JSContext \<Rightarrow> TableType \<Rightarrow> bool \<Rightarrow> string set" where
  "property_names ctx t tagged = (if tagged then {typeKey ctx} else {}) \<union> set (map fld_name (tbl_fields t))"

lemma tableFieldStep_typed:
  "typesInUnions ctx \<Longrightarrow> tableFieldStep ctx t a f = Inr a' \<Longrightarrow> a' = plainField ctx f a"
  by (auto simp: tableFieldStep_def split: FieldType.splits option.splits SchemaType.splits)

lemma plainField_acc [simp]:
  "set (map_keys (acc_props (plainField ctx f a))) = insert (fld_name f) (set (map_keys (acc_props a)))"
  "acc_required (plainField ctx f a) = acc_required a @ (if isRequired (fld_metadata f) True then [fld_name f] else [])"
  "acc_unionCases (plainField ctx f a) = acc_unionCases a"
  by (auto simp: plainField_def Let_def add_prop_def add_required_def set_map_keys_set simp del: set_map)

lemma table_loop_typed:
  assumes "foldE (tableFieldStep ctx t) (startTable ctx t tagged) (tbl_fields t) = Inr a" and "typesInUnions ctx"
  shows "set (map_keys (acc_props a)) = property_names ctx t tagged \<and>
    acc_required a = required_names ctx t tagged \<and> acc_unionCases a = []"
proof -
  let ?P = "\<lambda>(fs :: TableField list) a. set (map_keys (acc_props a)) = (if tagged then {typeKey ctx} else {}) \<union> set (map fld_name fs) \<and>
    acc_required a = (if tagged then [typeKey ctx] else []) @ map fld_name (filter (\<lambda>f. isRequired (fld_metadata f) True) fs) \<and>
    acc_unionCases a = []"
  have "?P (tbl_fields t) a"
  proof (rule foldE_inv_prefix [OF assms(1), where P = ?P])
    fix pre x post s s'
    assume P: "?P pre s" and "tableFieldStep ctx t s x = Inr s'"
    then have s': "s' = plainField ctx x s" using tableFieldStep_typed [OF assms(2)] by blast
    show "?P (pre @ [x]) s'" unfolding s' plainField_acc using P by auto
  qed (simp add: startTable_def)
  then show ?thesis by (simp add: property_names_def required_names_def)
qed

text \<open>With typed unions a table's schema has one property per field, plus the type key when it is
  tagged, and requires exactly the type key and the fields that are not declared optional.\<close>

theorem table_lists_its_fields:
  assumes "typesInUnions ctx" and "addTableProperties ctx t (JObj [(''type'', JStr ''object'')]) tagged = Inr js"
  shows "set (obj_keys (obj_get js ''properties'')) = property_names ctx t tagged \<and>
    obj_get js ''required'' =
      (if required_names ctx t tagged = [] then JUndef else JArr (map JStr (required_names ctx t tagged))) \<and>
    \<not> obj_has js ''allOf''"
proof -
  obtain a where a: "foldE (tableFieldStep ctx t) (startTable ctx t tagged) (tbl_fields t) = Inr a"
    "js = finishTable ctx (JObj [(''type'', JStr ''object'')]) a"
    using assms(2) by (auto simp: addTableProperties_def bindE_Inr_iff)
  note acc = table_loop_typed [OF a(1) assms(1)]
  have "set (obj_keys (obj_get js ''properties'')) = set (map_keys (acc_props a))"
    by (simp add: a(2) finishTable_def Let_def)
  then show ?thesis using acc by (simp add: a(2) finishTable_def Let_def map_has_def del: set_map)
qed

theorem table_lists_its_fields_witness:
  "\<exists>t js. addTableProperties demo_js t (JObj [(''type'', JStr ''object'')]) True = Inr js \<and>
     set (obj_keys (obj_get js ''properties'')) = {''_type'', ''pos''}"
proof -
  let ?t = "\<lparr>tb_name = ''Request'', tb_ns = [''motis'', ''lookup''], tb_fbsFile = ''root'',
           tb_relativeFbsFile = ''root'', tb_metadata = None, isStruct = False,
           tbl_fields = [\<lparr>fld_name = ''pos'', fld_type = FBasic StringType, fld_default = None, fld_metadata = None\<rparr>],
           usedInUnion = True, usedInTable = True\<rparr>"
  have m: "typesInUnions demo_js" by code_simp
  obtain js where js: "addTableProperties demo_js ?t (JObj [(''type'', JStr ''object'')]) True = Inr js"
    by (auto simp: addTableProperties_def tableFieldStep_def)
  have "property_names demo_js ?t True = {''_type'', ''pos''}" by code_simp
  with table_lists_its_fields [OF m js] js show ?thesis by blast
qed

section \<open>Tagged and untagged names\<close>

definition tag_inverse :: "(string, string) jsmap \<Rightarrow> (string, string) jsmap \<Rightarrow> bool" where
  "tag_inverse tu ut = (\<forall>a b. map_get tu a = Some b \<longleftrightarrow> map_get ut b = Some a)"

lemma default_tag: "dot_join (getDefaultTaggedType (dot_split k) suffix) = k @ suffix"
  by (simp add: getDefaultTaggedType_def join_append_last)

definition tags_ok :: "string \<Rightarrow> JSContext \<Rightarrow> bool" where
  "tags_ok suffix c = (getTaggedType c = (\<lambda>fq. getDefaultTaggedType fq suffix) \<and>
     tag_inverse (taggedToUntaggedType c) (untaggedToTaggedType c) \<and>
     (\<forall>a b. map_get (untaggedToTaggedType c) b = Some a \<longrightarrow> a = b @ suffix))"

lemma tags_ok_set_js [simp]:
  "tags_ok suffix (set_js k v c) = tags_ok suffix c"
  "tags_ok suffix ((set_js k v c)\<lparr>taggedToUntaggedType := m, untaggedToTaggedType := n\<rparr>) =
     tags_ok suffix (c\<lparr>taggedToUntaggedType := m, untaggedToTaggedType := n\<rparr>)"
  "taggedToUntaggedType (set_js k v c) = taggedToUntaggedType c"
  "untaggedToTaggedType (set_js k v c) = untaggedToTaggedType c"
  by (simp_all add: tags_ok_def set_js_def)

lemma tags_ok_add:
  assumes "tags_ok suffix c"
  shows "tags_ok suffix (c\<lparr>taggedToUntaggedType := map_set (k @ suffix) k (taggedToUntaggedType c),
     untaggedToTaggedType := map_set k (k @ suffix) (untaggedToTaggedType c)\<rparr>)"
  using assms by (auto simp: tags_ok_def tag_inverse_def map_get_set)

lemma convertSchemaType_tags:
  assumes "tags_ok suffix c" and "convertSchemaType c k t = Inr c'"
  shows "tags_ok suffix c'"
proof (cases t)
  case (SUnion u)
  with assms show ?thesis by (auto simp: convertSchemaType_def convertUnion_def Let_def)
next
  case (STable tt)
  have gt: "\<And>c. tags_ok suffix c \<Longrightarrow> getTaggedType c = (\<lambda>fq. getDefaultTaggedType fq suffix)"
    by (simp add: tags_ok_def)
  show ?thesis
    using assms STable tags_ok_add
    by (auto simp: convertSchemaType_def convertTable_def Let_def bindE_Inr_iff gt default_tag split: if_splits)
qed (use assms in \<open>auto simp: convertSchemaType_def\<close>)

text \<open>With the default tagging the two name maps are inverse to each other: a type's tagged name
  leads back to that type and to no other.\<close>

theorem tag_maps_inverse:
  assumes "getJSONSchemaTypes (createJSContext schema flt baseUri refFn si nf su tu di ce ap (Inr suffix) key) = Inr out"
  shows "map_get (jst_taggedToUntaggedType out) a = Some b \<longleftrightarrow> map_get (jst_untaggedToTaggedType out) b = Some a"
proof -
  let ?ctx = "createJSContext schema flt baseUri refFn si nf su tu di ce ap (Inr suffix) key"
  obtain c where c: "foldE schemaTypeStep ?ctx (types (js_schema ?ctx)) = Inr c"
    "jst_taggedToUntaggedType out = taggedToUntaggedType c" "jst_untaggedToTaggedType out = untaggedToTaggedType c"
    using assms by (auto simp: getJSONSchemaTypes_def bindE_Inr_iff)
  have "tags_ok suffix c"
  proof (rule foldE_inv [OF c(1)])
    show "tags_ok suffix ?ctx" by (simp add: tags_ok_def createJSContext_def tag_inverse_def)
  qed (auto simp: schemaTypeStep_def convertSchemaType_tags split: if_splits)
  with c(2,3) show ?thesis by (simp add: tags_ok_def tag_inverse_def)
qed

theorem tag_maps_inverse_witness:
  "\<exists>out. getJSONSchemaTypes demo_js = Inr out \<and>
     map_get (jst_taggedToUntaggedType out) ''motis.lookup.RequestT'' = Some ''motis.lookup.Request''"
proof -
  obtain out where out: "getJSONSchemaTypes demo_js = Inr out"
    "map_get (jst_untaggedToTaggedType out) ''motis.lookup.Request'' = Some ''motis.lookup.RequestT''"
  proof -
    have "case getJSONSchemaTypes demo_js of Inl _ \<Rightarrow> False
      | Inr out \<Rightarrow> map_get (jst_untaggedToTaggedType out) ''motis.lookup.Request'' = Some ''motis.lookup.RequestT''"
      by code_simp
    then show thesis using that by (auto split: sum.splits)
  qed
  from tag_maps_inverse [OF out(1) [unfolded demo_js_def]] out show ?thesis by blast
qed

end
