(* ===== verification/Typescript_Output.thy ===== *)
theory Typescript_Output
  imports Resolver_Properties Type_Filter Schema_Util
begin

text \<open>
  The TypeScript output (\<^verbatim>\<open>tools/protocol/src/output/typescript\<close>): one file per
  namespace with the types that pass the filter, an import for every other namespace the file's
  types refer to, and a declaration per type. Node's \<^verbatim>\<open>path\<close>, number formatting and
  the \<^verbatim>\<open>prettier\<close> package are parameters. The result is the list of files with their
  contents.
\<close>

record TSHost =
  ts_resolve :: "string list \<Rightarrow> string"
  ts_relative :: "string \<Rightarrow> string \<Rightarrow> string"
  ts_dirname :: "string \<Rightarrow> string"
  ts_number :: "jsnum \<Rightarrow> string"
  prettier_format :: "string \<Rightarrow> string"

record TSFile =
  tf_path :: string
  tf_namespace :: string
  tf_types :: "string list"

record TSContext =
  ts_schema :: SchemaTypes
  ts_typeFilter :: TypeFilter
  ts_files :: "(string, TSFile) jsmap"
  ts_types :: "string list"
  ts_header :: string
  ts_outputDir :: string
  importBase :: "string option"
  usePrettier :: bool

record TSInclude =
  inc_filename :: string
  inc_types :: "string list"

type_synonym TSIncludes = "(string, TSInclude) jsmap"

datatype ts_error =
    TsUnknownType string
  | TsUndefinedType string
  | TsMissingDir

definition getUnionTagTypeName :: "string \<Rightarrow> string" where
  "getUnionTagTypeName typeName = typeName @ ''Type''"

definition getFilename :: "TSHost \<Rightarrow> TSContext \<Rightarrow> string list \<Rightarrow> string" where
  "getFilename H ctx ns = ts_resolve H (ts_outputDir ctx # ns) @ ''.ts''"

text \<open>\<^verbatim>\<open>Set.add\<close> and the last part of a name.\<close>

definition set_add :: "'a \<Rightarrow> 'a list \<Rightarrow> 'a list" where
  "set_add x xs = (if x \<in> set xs then xs else xs @ [x])"

lemma set_set_add [simp]: "set (set_add x xs) = insert x (set xs)"
  by (auto simp: set_add_def)

definition type_name :: "string list \<Rightarrow> string" where
  "type_name fqtn = (if fqtn = [] then ''undefined'' else last fqtn)"

section \<open>Includes\<close>

definition handleTypeRef :: "TSHost \<Rightarrow> TSContext \<Rightarrow> TSFile \<Rightarrow> TSIncludes \<Rightarrow> TypeRef \<Rightarrow> ts_error + TSIncludes" where
  "handleTypeRef H ctx f incs ref =
     (let ns = butlast (resolvedFqtn ref); nsStr = dot_join ns in
      if nsStr = tf_namespace f \<or> ref_key ref \<notin> set (ts_types ctx) then Inr incs
      else case map_get (types (ts_schema ctx)) (ref_key ref) of
        None \<Rightarrow> Inl (TsUnknownType (ref_key ref))
      | Some t \<Rightarrow>
          let inc = (case map_get incs nsStr of
                       Some i \<Rightarrow> i | None \<Rightarrow> \<lparr>inc_filename = getFilename H ctx ns, inc_types = []\<rparr>);
              name = type_name (resolvedFqtn ref);
              tys = set_add name (inc_types inc);
              tys = (if is_union t then set_add (getUnionTagTypeName name) tys else tys)
          in Inr (map_set nsStr (inc\<lparr>inc_types := tys\<rparr>) incs))"

fun handleFieldType :: "TSHost \<Rightarrow> TSContext \<Rightarrow> TSFile \<Rightarrow> TSIncludes \<Rightarrow> FieldType \<Rightarrow> ts_error + TSIncludes" where
  "handleFieldType H ctx f incs (FBasic b) = Inr incs"
| "handleFieldType H ctx f incs (FVector t) = handleFieldType H ctx f incs t"
| "handleFieldType H ctx f incs (FCustom r) = handleTypeRef H ctx f incs r"

definition includeTypeStep :: "TSHost \<Rightarrow> TSContext \<Rightarrow> TSFile \<Rightarrow> TSIncludes \<Rightarrow> string \<Rightarrow> ts_error + TSIncludes" where
  "includeTypeStep H ctx f incs name =
     (case map_get (types (ts_schema ctx)) name of
        None \<Rightarrow> Inl (TsUndefinedType name)
      | Some (SEnum e) \<Rightarrow> Inr incs
      | Some (SUnion u) \<Rightarrow> foldE (handleTypeRef H ctx f) incs (map uv_typeRef (union_values u))
      | Some (STable t) \<Rightarrow> foldE (handleFieldType H ctx f) incs (map fld_type (tbl_fields t)))"

definition collectIncludes :: "TSHost \<Rightarrow> TSContext \<Rightarrow> TSFile \<Rightarrow> ts_error + TSIncludes" where
  "collectIncludes H ctx f = foldE (includeTypeStep H ctx f) [] (tf_types f)"

section \<open>Declarations\<close>

fun getTSTypeName :: "FieldType \<Rightarrow> string" where
  "getTSTypeName (FBasic b) =
     (case b of BoolType \<Rightarrow> ''boolean'' | IntType n p \<Rightarrow> ''number'' | FloatType n p \<Rightarrow> ''number''
      | StringType \<Rightarrow> ''string'')"
| "getTSTypeName (FVector t) = getTSTypeName t @ ''[]''"
| "getTSTypeName (FCustom r) = type_name (resolvedFqtn r)"

definition nl :: string where "nl = [CHR 0x0A]"

text \<open>\<^verbatim>\<open>filter(Boolean)\<close> drops null and the empty string.\<close>

definition writeEnum :: "string \<Rightarrow> string option list \<Rightarrow> string" where
  "writeEnum name vals =
     (let fv = filter (\<lambda>v. v \<noteq> []) (map (\<lambda>v. case v of None \<Rightarrow> [] | Some s \<Rightarrow> s) vals)
      in if fv = [] then []
         else ''export type '' @ name @ '' ='' @ concat (map (\<lambda>v. nl @ ''  | '' @ v) fv) @ '';'' @ nl @ nl)"

definition unionValueFormatter :: "TSContext \<Rightarrow> UnionValue \<Rightarrow> string option" where
  "unionValueFormatter ctx v =
     (let fq = resolvedFqtn (uv_typeRef v)
      in if dot_join fq \<in> set (ts_types ctx) then Some (type_name fq) else None)"

definition quoted :: "string \<Rightarrow> string" where
  "quoted s = [CHR 0x22] @ s @ [CHR 0x22]"

definition unionTagValueFormatter :: "TSContext \<Rightarrow> UnionValue \<Rightarrow> string option" where
  "unionTagValueFormatter ctx v =
     (case unionValueFormatter ctx v of
        None \<Rightarrow> None
      | Some n \<Rightarrow> if n = [] then None else Some (quoted n))"

definition scalar_string :: "TSHost \<Rightarrow> AstScalarLiteral \<Rightarrow> string" where
  "scalar_string H l = (case l of AstBoolean b \<Rightarrow> (if b then ''true'' else ''false'') | AstNumeric n \<Rightarrow> ts_number H n)"

definition attrComment :: "TSHost \<Rightarrow> AstAttribute \<Rightarrow> string" where
  "attrComment H a =
     attr_id a @ (case attr_value a of
        None \<Rightarrow> [] | Some (AstScalar l) \<Rightarrow> '': '' @ scalar_string H l | Some (AstString s) \<Rightarrow> '': '' @ s)"

definition fieldComments :: "TSHost \<Rightarrow> TableField \<Rightarrow> string list" where
  "fieldComments H f =
     (case fld_default f of
        None \<Rightarrow> []
      | Some (AstScalarDefault l) \<Rightarrow> [''default: '' @ scalar_string H l]
      | Some (AstRef r) \<Rightarrow> [''default: '' @ r]) @
     (case fld_metadata f of
        None \<Rightarrow> []
      | Some md \<Rightarrow> map (attrComment H) (filter (\<lambda>a. attr_id a \<noteq> ''optional'' \<and> attr_id a \<noteq> ''required'') md))"

definition unionTagLine :: "TSContext \<Rightarrow> TableField \<Rightarrow> string \<Rightarrow> ts_error + string" where
  "unionTagLine ctx f suffix =
     (case fld_type f of
        FCustom r \<Rightarrow>
          (case map_get (types (ts_schema ctx)) (ref_key r) of
             None \<Rightarrow> Inl (TsUnknownType (ref_key r))
           | Some (SUnion u) \<Rightarrow>
               Inr (nl @ ''  '' @ fld_name f @ ''_type'' @ suffix @ '': '' @ getUnionTagTypeName (tb_name u) @ '';'')
           | Some _ \<Rightarrow> Inr [])
      | _ \<Rightarrow> Inr [])"

definition fieldLine :: "TSHost \<Rightarrow> TSContext \<Rightarrow> TableField \<Rightarrow> ts_error + string" where
  "fieldLine H ctx f =
     (let suffix = (if isRequired (fld_metadata f) True then [] else ''?'');
          comments = fieldComments H f
      in bindE (unionTagLine ctx f suffix) (\<lambda>tag.
           Inr (tag @ nl @ ''  '' @ fld_name f @ suffix @ '': '' @ getTSTypeName (fld_type f) @ '';'' @
                (if comments \<noteq> [] then '' // '' @ join '', '' comments else []))))"

definition writeTable :: "TSHost \<Rightarrow> TSContext \<Rightarrow> TableType \<Rightarrow> ts_error + string" where
  "writeTable H ctx t =
     bindE (mapE (fieldLine H ctx) (tbl_fields t)) (\<lambda>ls.
       Inr ((if tbl_fields t = [] then
               ''// eslint-disable-next-line @typescript-eslint/no-empty-interface'' @ nl else []) @
            ''export interface '' @ tb_name t @ '' {'' @ concat ls @ nl @ ''}'' @ nl @ nl))"

definition writeType :: "TSHost \<Rightarrow> TSContext \<Rightarrow> string \<Rightarrow> ts_error + string" where
  "writeType H ctx fqtn =
     (case map_get (types (ts_schema ctx)) fqtn of
        None \<Rightarrow> Inl (TsUndefinedType fqtn)
      | Some t \<Rightarrow>
          let out = ''// '' @ tb_relativeFbsFile (type_base t) @ nl in
          (case t of
             SEnum e \<Rightarrow> Inr (out @ writeEnum (tb_name e) (map (\<lambda>v. Some (quoted (ev_id v))) (enum_values e)))
           | SUnion u \<Rightarrow>
               Inr (out @ writeEnum (tb_name u) (map (unionValueFormatter ctx) (union_values u)) @
                    writeEnum (getUnionTagTypeName (tb_name u)) (map (unionTagValueFormatter ctx) (union_values u)))
           | STable tt \<Rightarrow> bindE (writeTable H ctx tt) (\<lambda>s. Inr (out @ s))))"

section \<open>Files\<close>

definition strip_ts :: "string \<Rightarrow> string" where
  "strip_ts p = (if endsWith p ''.ts'' then take (length p - 3) p else p)"

definition import_name :: "string \<Rightarrow> string" where
  "import_name p = strip_ts (replace_first (CHR 0x5C) (CHR ''/'') p)"

definition getImportPath :: "TSHost \<Rightarrow> TSContext \<Rightarrow> TSFile \<Rightarrow> TSInclude \<Rightarrow> string" where
  "getImportPath H ctx f inc =
     (case importBase ctx of
        Some (c # cs) \<Rightarrow> (c # cs) @ import_name (ts_relative H (ts_outputDir ctx) (inc_filename inc))
      | _ \<Rightarrow>
          (let p = import_name (ts_relative H (ts_dirname H (tf_path f)) (inc_filename inc))
           in if startsWith p ''../'' then p else ''./'' @ p))"

definition importLine :: "TSHost \<Rightarrow> TSContext \<Rightarrow> TSFile \<Rightarrow> TSInclude \<Rightarrow> string" where
  "importLine H ctx f inc =
     ''import {'' @ nl @ ''  '' @ join ('','' @ nl @ ''  '') (inc_types inc) @ nl @ ''} from '' @
     quoted (getImportPath H ctx f inc) @ '';'' @ nl"

definition writeFile :: "TSHost \<Rightarrow> TSContext \<Rightarrow> TSFile \<Rightarrow> ts_error + string \<times> string" where
  "writeFile H ctx f =
     bindE (collectIncludes H ctx f) (\<lambda>incs.
     bindE (mapE (writeType H ctx) (tf_types f)) (\<lambda>decls.
       let out = ts_header ctx @ concat (map (importLine H ctx f \<circ> snd) incs) @
                 (if incs \<noteq> [] then nl else []) @ concat decls
       in Inr (tf_path f, if usePrettier ctx then prettier_format H out else out)))"

definition addToFile :: "TSHost \<Rightarrow> string \<times> SchemaType \<Rightarrow> TSContext \<Rightarrow> TSContext" where
  "addToFile H e ctx =
     (if includeType (ts_typeFilter ctx) (fst e) then
        (let nsl = tb_ns (type_base (snd e)); ns = dot_join nsl;
             f = (case map_get (ts_files ctx) ns of
                    Some f \<Rightarrow> f | None \<Rightarrow> \<lparr>tf_path = getFilename H ctx nsl, tf_namespace = ns, tf_types = []\<rparr>)
         in ctx\<lparr>ts_files := map_set ns (f\<lparr>tf_types := tf_types f @ [fst e]\<rparr>) (ts_files ctx),
               ts_types := set_add (fst e) (ts_types ctx)\<rparr>)
      else ctx)"

definition createTSContext :: "TSHost \<Rightarrow> SchemaTypes \<Rightarrow> TypeFilter \<Rightarrow> string \<Rightarrow> jsval \<Rightarrow> TSContext" where
  "createTSContext H schema flt outputDir config =
     \<lparr>ts_schema = schema, ts_typeFilter = flt, ts_files = [], ts_types = [],
      ts_header = (case obj_get config ''header'' of JStr s \<Rightarrow> trim s @ nl @ nl | _ \<Rightarrow> []),
      ts_outputDir = outputDir,
      importBase = (case obj_get config ''import-base'' of JStr s \<Rightarrow> Some s | _ \<Rightarrow> None),
      usePrettier = (obj_get config ''prettier'' = JBool True)\<rparr>"

definition assignFiles :: "TSHost \<Rightarrow> TSContext \<Rightarrow> TSContext" where
  "assignFiles H ctx = fold (addToFile H) (types (ts_schema ctx)) ctx"

definition writeTypeScriptOutput :: "TSHost \<Rightarrow> SchemaTypes \<Rightarrow> TypeFilter \<Rightarrow> string \<Rightarrow> jsval \<Rightarrow>
    ts_error + (string \<times> string) list" where
  "writeTypeScriptOutput H schema flt baseDir config =
     (case obj_get config ''dir'' of
        JStr d \<Rightarrow>
          (let ctx = assignFiles H (createTSContext H schema flt (ts_resolve H [baseDir, d]) config)
           in mapE (writeFile H ctx \<circ> snd) (ts_files ctx))
      | _ \<Rightarrow> Inl TsMissingDir)"

end
