(* ===== verification/Typescript_Properties.thy ===== *)
theory Typescript_Properties
  imports Typescript_Output
begin

text \<open>
  The properties of the TypeScript output: the imports of a file are exactly what its types use
  from other namespaces, and every import leads to a file that declares the name.
\<close>

section \<open>The import loops as one loop over references\<close>

lemma handleFieldType_refs: "handleFieldType H ctx f incs t = foldE (handleTypeRef H ctx f) incs (field_refs t)"
proof (induction t arbitrary: incs)
  case (FCustom r)
  then show ?case by (cases "handleTypeRef H ctx f incs r") auto
qed auto

lemma handleFields_refs:
  "foldE (handleFieldType H ctx f) incs ts = foldE (handleTypeRef H ctx f) incs (concat (map field_refs ts))"
proof (induction ts arbitrary: incs)
  case (Cons t ts)
  show ?case unfolding foldE.simps list.map concat.simps foldE_append handleFieldType_refs [symmetric] Cons ..
qed simp

lemma includeTypeStep_refs:
  assumes "map_get (types (ts_schema ctx)) k = Some t"
  shows "includeTypeStep H ctx f incs k = foldE (handleTypeRef H ctx f) incs (type_refs t)"
  using assms
  by (cases t) (auto simp: includeTypeStep_def type_refs_def union_refs_def table_refs_def handleFields_refs comp_def)

definition file_refs :: "TSContext \<Rightarrow> TSFile \<Rightarrow> TypeRef list" where
  "file_refs ctx f =
     concat (map (\<lambda>k. case map_get (types (ts_schema ctx)) k of None \<Rightarrow> [] | Some t \<Rightarrow> type_refs t) (tf_types f))"

lemma collectIncludes_refs:
  assumes "list_all (map_has (types (ts_schema ctx))) (tf_types f)"
  shows "collectIncludes H ctx f = foldE (handleTypeRef H ctx f) [] (file_refs ctx f)"
proof -
  have "foldE (includeTypeStep H ctx f) incs ks = foldE (handleTypeRef H ctx f) incs
      (concat (map (\<lambda>k. case map_get (types (ts_schema ctx)) k of None \<Rightarrow> [] | Some t \<Rightarrow> type_refs t) ks))"
    if "list_all (map_has (types (ts_schema ctx))) ks" for incs ks
    using that
  proof (induction ks arbitrary: incs)
    case (Cons k ks)
    then obtain t where t: "map_get (types (ts_schema ctx)) k = Some t" by (auto simp: map_has_def)
    show ?case
      using t Cons by (simp add: includeTypeStep_refs [OF t] foldE_append)
  qed simp
  with assms show ?thesis by (simp add: collectIncludes_def file_refs_def)
qed

section \<open>What is imported\<close>

definition ref_ns :: "TypeRef \<Rightarrow> string" where
  "ref_ns r = dot_join (butlast (resolvedFqtn r))"

definition external :: "TSContext \<Rightarrow> TSFile \<Rightarrow> TypeRef \<Rightarrow> bool" where
  "external ctx f r = (ref_ns r \<noteq> tf_namespace f \<and> ref_key r \<in> set (ts_types ctx))"

definition ref_names :: "TSContext \<Rightarrow> TypeRef \<Rightarrow> string set" where
  "ref_names ctx r = insert (type_name (resolvedFqtn r))
     (case map_get (types (ts_schema ctx)) (ref_key r) of
        Some t \<Rightarrow> if is_union t then {getUnionTagTypeName (type_name (resolvedFqtn r))} else {} | None \<Rightarrow> {})"

definition imported :: "TSIncludes \<Rightarrow> string \<Rightarrow> string \<Rightarrow> bool" where
  "imported incs ns n = (case map_get incs ns of None \<Rightarrow> False | Some inc \<Rightarrow> n \<in> set (inc_types inc))"

lemma handleTypeRef_effect:
  assumes "handleTypeRef H ctx f incs r = Inr incs'"
  shows "imported incs' ns n \<longleftrightarrow> imported incs ns n \<or> external ctx f r \<and> ns = ref_ns r \<and> n \<in> ref_names ctx r"
  using assms
  by (auto simp: handleTypeRef_def Let_def imported_def external_def ref_ns_def ref_names_def map_get_set
      split: if_splits option.splits)

lemma handleTypeRef_file:
  assumes "handleTypeRef H ctx f incs r = Inr incs'"
    and "\<And>ns inc. map_get incs ns = Some inc \<Longrightarrow>
       \<exists>r \<in> R. external ctx f r \<and> ns = ref_ns r \<and> inc_filename inc = getFilename H ctx (butlast (resolvedFqtn r))"
    and "map_get incs' ns = Some inc"
  shows "\<exists>r \<in> insert r R. external ctx f r \<and> ns = ref_ns r \<and> inc_filename inc = getFilename H ctx (butlast (resolvedFqtn r))"
proof (cases "map_get incs ns")
  case None
  with assms(1,3) show ?thesis
    by (auto simp: handleTypeRef_def Let_def map_get_set external_def ref_ns_def split: if_splits option.splits)
next
  case (Some i)
  with assms(1,3) have "inc_filename inc = inc_filename i"
    by (auto simp: handleTypeRef_def Let_def map_get_set split: if_splits option.splits)
  with assms(2) [OF Some] show ?thesis by auto
qed

lemma ref_loop:
  assumes "foldE (handleTypeRef H ctx f) [] rs = Inr incs"
  shows "imported incs ns n \<longleftrightarrow> (\<exists>r \<in> set rs. external ctx f r \<and> ns = ref_ns r \<and> n \<in> ref_names ctx r)"
    and "map_get incs ns = Some inc \<Longrightarrow>
      \<exists>r \<in> set rs. external ctx f r \<and> ns = ref_ns r \<and> inc_filename inc = getFilename H ctx (butlast (resolvedFqtn r))"
proof -
  let ?P = "\<lambda>rs incs. (\<forall>ns n. imported incs ns n \<longleftrightarrow> (\<exists>r \<in> set rs. external ctx f r \<and> ns = ref_ns r \<and> n \<in> ref_names ctx r)) \<and>
    (\<forall>ns inc. map_get incs ns = Some inc \<longrightarrow>
      (\<exists>r \<in> set rs. external ctx f r \<and> ns = ref_ns r \<and> inc_filename inc = getFilename H ctx (butlast (resolvedFqtn r))))"
  have "?P rs incs"
  proof (rule foldE_inv_prefix [OF assms, where P = ?P])
    fix pre r post s s'
    assume P: "?P pre s" and st: "handleTypeRef H ctx f s r = Inr s'"
    have "imported s' ns n \<longleftrightarrow> (\<exists>r \<in> set (pre @ [r]). external ctx f r \<and> ns = ref_ns r \<and> n \<in> ref_names ctx r)" for ns n
      using P handleTypeRef_effect [OF st, of ns n] by auto
    moreover have "\<exists>r \<in> set (pre @ [r]). external ctx f r \<and> ns = ref_ns r \<and> inc_filename inc = getFilename H ctx (butlast (resolvedFqtn r))"
      if "map_get s' ns = Some inc" for ns inc
      using handleTypeRef_file [OF st _ that, of "set pre"] P by simp
    ultimately show "?P (pre @ [r]) s'" by blast
  qed (simp add: imported_def)
  then show "imported incs ns n \<longleftrightarrow> (\<exists>r \<in> set rs. external ctx f r \<and> ns = ref_ns r \<and> n \<in> ref_names ctx r)"
    and "map_get incs ns = Some inc \<Longrightarrow>
      \<exists>r \<in> set rs. external ctx f r \<and> ns = ref_ns r \<and> inc_filename inc = getFilename H ctx (butlast (resolvedFqtn r))"
    by blast+
qed

lemma ref_loop_total:
  "list_all (\<lambda>r. map_has (types (ts_schema ctx)) (ref_key r)) rs \<Longrightarrow> \<exists>incs'. foldE (handleTypeRef H ctx f) incs rs = Inr incs'"
proof (induction rs arbitrary: incs)
  case (Cons r rs)
  then obtain t where "map_get (types (ts_schema ctx)) (ref_key r) = Some t" by (auto simp: map_has_def)
  then have "\<exists>i. handleTypeRef H ctx f incs r = Inr i" by (simp add: handleTypeRef_def Let_def)
  then obtain i where "handleTypeRef H ctx f incs r = Inr i" ..
  with Cons show ?case by simp
qed simp

section \<open>The files\<close>

definition chosen :: "TSContext \<Rightarrow> (string \<times> SchemaType) list \<Rightarrow> (string \<times> SchemaType) set" where
  "chosen ctx es = {e \<in> set es. includeType (ts_typeFilter ctx) (fst e)}"

definition type_ns :: "SchemaType \<Rightarrow> string list" where
  "type_ns t = tb_ns (type_base t)"

definition files_ok :: "TSHost \<Rightarrow> TSContext \<Rightarrow> (string \<times> SchemaType) set \<Rightarrow> TSContext \<Rightarrow> bool" where
  "files_ok H ctx E c =
     (ts_schema c = ts_schema ctx \<and> ts_typeFilter c = ts_typeFilter ctx \<and> ts_outputDir c = ts_outputDir ctx \<and>
      set (ts_types c) = fst ` E \<and>
      (\<forall>(k, t) \<in> E. \<exists>g. map_get (ts_files c) (dot_join (type_ns t)) = Some g \<and> k \<in> set (tf_types g)) \<and>
      (\<forall>ns g. map_get (ts_files c) ns = Some g \<longrightarrow> tf_namespace g = ns \<and>
         (\<exists>(k, t) \<in> E. dot_join (type_ns t) = ns \<and> tf_path g = getFilename H ctx (type_ns t)) \<and>
         (\<forall>k \<in> set (tf_types g). \<exists>t. (k, t) \<in> E \<and> dot_join (type_ns t) = ns)))"

lemma addToFile_ok:
  assumes "files_ok H ctx (chosen ctx es) c"
  shows "files_ok H ctx (chosen ctx (es @ [e])) (addToFile H e c)"
proof (cases "includeType (ts_typeFilter ctx) (fst e)")
  case False
  then have "chosen ctx (es @ [e]) = chosen ctx es" by (auto simp: chosen_def)
  with False assms show ?thesis by (simp add: addToFile_def files_ok_def)
next
  case True
  obtain k t where e: "e = (k, t)" by (cases e)
  let ?ns = "dot_join (type_ns t)" and ?E = "chosen ctx es"
  have E': "chosen ctx (es @ [e]) = insert (k, t) ?E" using True e by (auto simp: chosen_def)
  let ?f = "case map_get (ts_files c) ?ns of Some f \<Rightarrow> f
     | None \<Rightarrow> \<lparr>tf_path = getFilename H c (type_ns t), tf_namespace = ?ns, tf_types = []\<rparr>"
  have c': "addToFile H e c = c\<lparr>ts_files := map_set ?ns (?f\<lparr>tf_types := tf_types ?f @ [k]\<rparr>) (ts_files c),
      ts_types := set_add k (ts_types c)\<rparr>"
  proof -
    have "ts_typeFilter c = ts_typeFilter ctx" using assms by (simp add: files_ok_def)
    with True show ?thesis unfolding addToFile_def Let_def type_ns_def e fst_conv snd_conv by simp
  qed
  have fn: "getFilename H c n = getFilename H ctx n" for n using assms by (simp add: getFilename_def files_ok_def)
  show ?thesis
    unfolding E' files_ok_def
  proof (intro conjI)
    show "\<forall>(k', t') \<in> insert (k, t) ?E. \<exists>g. map_get (ts_files (addToFile H e c)) (dot_join (type_ns t')) = Some g \<and> k' \<in> set (tf_types g)"
      using assms unfolding c' by (fastforce simp: files_ok_def map_get_set split: option.splits)
    have "tf_namespace ?f = ?ns \<and> (\<exists>(k, t) \<in> insert (k, t) ?E. dot_join (type_ns t) = ?ns \<and> tf_path ?f = getFilename H ctx (type_ns t)) \<and>
         (\<forall>k' \<in> set (tf_types ?f @ [k]). \<exists>t'. (k', t') \<in> insert (k, t) ?E \<and> dot_join (type_ns t') = ?ns)"
    proof (cases "map_get (ts_files c) ?ns")
      case None
      then show ?thesis by (auto simp: fn)
    next
      case (Some g)
      with assms show ?thesis by (fastforce simp: files_ok_def)
    qed
    then show "\<forall>ns g. map_get (ts_files (addToFile H e c)) ns = Some g \<longrightarrow> tf_namespace g = ns \<and>
         (\<exists>(k, t) \<in> insert (k, t) ?E. dot_join (type_ns t) = ns \<and> tf_path g = getFilename H ctx (type_ns t)) \<and>
         (\<forall>k' \<in> set (tf_types g). \<exists>t'. (k', t') \<in> insert (k, t) ?E \<and> dot_join (type_ns t') = ns)"
      using assms unfolding c' files_ok_def
      by (auto simp: map_get_set split: if_splits; blast)
  qed (use assms in \<open>auto simp: c' files_ok_def\<close>)
qed

lemma assignFiles_ok:
  assumes "ts_files ctx = []" and "ts_types ctx = []"
  shows "files_ok H ctx (chosen ctx (types (ts_schema ctx))) (assignFiles H ctx)"
proof -
  have "files_ok H ctx (chosen ctx es) (fold (addToFile H) es ctx)" for es
  proof (induction es rule: rev_induct)
    case Nil
    show ?case using assms by (simp add: files_ok_def chosen_def)
  next
    case (snoc e es)
    from addToFile_ok [OF snoc] show ?case by simp
  qed
  then show ?thesis by (simp add: assignFiles_def)
qed

section \<open>Imports lead to declarations\<close>

text \<open>Names as the grammar makes them: no dot inside a type's name, no empty namespace part.\<close>

definition plain_names :: "SchemaTypes \<Rightarrow> bool" where
  "plain_names S = list_all (\<lambda>(k, t). CHR ''.'' \<notin> set (tb_name (type_base t)) \<and> type_ns t \<noteq> [[]]) (types S)"

lemma join_Nil_cases: "join sep xs = [] \<Longrightarrow> sep \<noteq> [] \<Longrightarrow> xs = [] \<or> xs = [[]]"
  by (cases xs; cases "tl xs") auto

text \<open>The names a type's declaration exports.\<close>

definition declared_names :: "SchemaType \<Rightarrow> string set" where
  "declared_names t = insert (tb_name (type_base t))
     (if is_union t then {getUnionTagTypeName (tb_name (type_base t))} else {})"

context schema_source
begin

lemma ref_parts:
  assumes "load h d f = Inr S" and "plain_names S" and "r \<in> set (all_refs S)" and "map_get (types S) (ref_key r) = Some t"
  shows "resolvedFqtn r = type_ns t @ [tb_name (type_base t)]"
proof -
  have nd: "CHR ''.'' \<notin> set (tb_name (type_base t))"
    using assms(2) map_get_mem [OF assms(4)] by (auto simp: plain_names_def list_all_iff)
  have "resolvedFqtn r = dot_split (ref_key r)" using closed [OF assms(1,3)] by simp
  also have "\<dots> = type_ns t @ dot_split (tb_name (type_base t))"
    using named [OF assms(1,4), THEN conjunct2] unfolding type_ns_def .
  also have "dot_split (tb_name (type_base t)) = [tb_name (type_base t)]" using nd by (rule split_on_fresh)
  finally show ?thesis .
qed

lemma ns_inj:
  assumes "load h d f = Inr S" and "plain_names S" and "(k, t) \<in> set (types S)" and "(k', t') \<in> set (types S)"
    and "dot_join (type_ns t) = dot_join (type_ns t')"
  shows "type_ns t = type_ns t'"
proof -
  have get: "map_get (types S) k = Some t" "map_get (types S) k' = Some t'"
    using map_get_distinct [OF keys [OF assms(1)]] assms(3,4) by auto
  have ne: "type_ns t \<noteq> [[]]" "type_ns t' \<noteq> [[]]"
    using assms(2-4) by (auto simp: plain_names_def list_all_iff)
  have parts: "\<forall>p \<in> set (type_ns u). CHR ''.'' \<notin> set p" if "map_get (types S) j = Some u" for j u
    using named [OF assms(1) that, THEN conjunct2] split_on_no_sep [of "CHR ''.''" j] unfolding type_ns_def by auto
  show ?thesis
  proof (cases "type_ns t = [] \<or> type_ns t' = []")
    case True
    then show ?thesis using assms(5) ne join_Nil_cases [of "''.''"] by (metis join.simps(1) list.distinct(1))
  next
    case False
    with join_inj [OF _ _ parts [OF get(1)] parts [OF get(2)] assms(5)] show ?thesis by blast
  qed
qed

lemma imports_resolve:
  assumes S: "load h d f = Inr (ts_schema ctx)" and pl: "plain_names (ts_schema ctx)"
    and e: "ts_files ctx = []" "ts_types ctx = []"
    and g: "map_get (ts_files (assignFiles H ctx)) fns = Some file"
    and inc: "collectIncludes H (assignFiles H ctx) file = Inr incs"
    and i: "map_get incs ns = Some inc" "n \<in> set (inc_types inc)"
  shows "ns \<noteq> tf_namespace file \<and> (\<exists>g k t. map_get (ts_files (assignFiles H ctx)) ns = Some g \<and> tf_path g = inc_filename inc \<and>
    k \<in> set (tf_types g) \<and> map_get (types (ts_schema ctx)) k = Some t \<and> n \<in> declared_names t)"
proof -
  let ?c = "assignFiles H ctx" and ?S = "ts_schema ctx"
  let ?E = "chosen ctx (types ?S)"
  have ok: "files_ok H ctx ?E ?c" by (rule assignFiles_ok [OF e])
  then have sc: "ts_schema ?c = ?S" and tys: "set (ts_types ?c) = fst ` ?E" and out: "ts_outputDir ?c = ts_outputDir ctx"
    by (simp_all add: files_ok_def)
  have E: "(k, t) \<in> ?E \<Longrightarrow> map_get (types ?S) k = Some t \<and> (k, t) \<in> set (types ?S)" for k t
    using map_get_distinct [OF keys [OF S]] by (auto simp: chosen_def)
  have "\<exists>t. (k, t) \<in> ?E" if "k \<in> set (tf_types file)" for k
    using ok g that by (fastforce simp: files_ok_def)
  then have known: "list_all (map_has (types (ts_schema ?c))) (tf_types file)"
    unfolding list_all_iff map_has_def sc using E by blast
  have refs: "r \<in> set (all_refs ?S)" if "r \<in> set (file_refs ?c file)" for r
  proof -
    note mem = that
    obtain k t where "map_get (types ?S) k = Some t" "r \<in> set (type_refs t)"
      using mem by (auto simp: file_refs_def sc split: option.splits) metis
    then show ?thesis by (rule map_get_refs)
  qed
  note loop = ref_loop [OF inc [unfolded collectIncludes_refs [OF known]]]
  have "imported incs ns n" using i by (simp add: imported_def)
  then obtain r where r: "r \<in> set (file_refs ?c file)" "external ?c file r" "ns = ref_ns r" "n \<in> ref_names ?c r"
    using loop(1) by blast
  obtain r' where r': "r' \<in> set (file_refs ?c file)" "external ?c file r'" "ns = ref_ns r'"
    "inc_filename inc = getFilename H ?c (butlast (resolvedFqtn r'))"
    using loop(2) [OF i(1)] by blast
  have target_of: "\<exists>t. (ref_key x, t) \<in> ?E \<and> resolvedFqtn x = type_ns t @ [tb_name (type_base t)]"
    if "x \<in> set (file_refs ?c file)" "external ?c file x" for x
  proof -
    have "ref_key x \<in> fst ` ?E" using that(2) tys by (simp add: external_def)
    then obtain t where t: "(ref_key x, t) \<in> ?E" by auto
    with ref_parts [OF S pl refs [OF that(1)]] E show ?thesis by blast
  qed
  obtain t t' where t: "(ref_key r, t) \<in> ?E" "resolvedFqtn r = type_ns t @ [tb_name (type_base t)]"
    and t': "(ref_key r', t') \<in> ?E" "resolvedFqtn r' = type_ns t' @ [tb_name (type_base t')]"
    using target_of [OF r(1,2)] target_of [OF r'(1,2)] by blast
  have ns: "ns = dot_join (type_ns t)" "ns = dot_join (type_ns t')" using r(3) r'(3) t(2) t'(2) by (simp_all add: ref_ns_def)
  obtain g where g: "map_get (ts_files ?c) ns = Some g" "ref_key r \<in> set (tf_types g)"
    using ok t(1) unfolding ns(1) files_ok_def by blast
  have "\<exists>(k, t) \<in> ?E. dot_join (type_ns t) = ns \<and> tf_path g = getFilename H ctx (type_ns t)"
    using ok g(1) unfolding files_ok_def by blast
  then obtain k0 t0 where t0: "(k0, t0) \<in> ?E" "dot_join (type_ns t0) = ns" "tf_path g = getFilename H ctx (type_ns t0)"
    by blast
  have "type_ns t0 = type_ns t'"
    by (rule ns_inj [OF S pl E [THEN conjunct2, OF t0(1)] E [THEN conjunct2, OF t'(1)]]) (simp add: t0(2) flip: ns(2))
  then have "tf_path g = inc_filename inc" using t0(3) r'(4) t'(2) out by (simp add: getFilename_def)
  moreover have "n \<in> declared_names t"
    using r(4) t(2) E [OF t(1)] by (auto simp: ref_names_def declared_names_def type_name_def sc split: if_splits)
  moreover have "ns \<noteq> tf_namespace file" using r(2,3) by (simp add: external_def)
  ultimately show ?thesis using g E [OF t(1)] by blast
qed

end

text \<open>C5: the imports of a TypeScript file are exactly what it needs: a name is imported from a
  namespace if and only if a type of the file refers to an emitted type of that other namespace and
  the name is the type's name, or the name of its tag type when it is a union.\<close>

theorem imports_exact:
  assumes "list_all (map_has (types (ts_schema ctx))) (tf_types file)"
    and "collectIncludes H ctx file = Inr incs"
  shows "imported incs ns n \<longleftrightarrow>
    (\<exists>r \<in> set (file_refs ctx file). external ctx file r \<and> ns = ref_ns r \<and> n \<in> ref_names ctx r)"
  using ref_loop(1) assms(2) unfolding collectIncludes_refs [OF assms(1)] .


definition demo_ts :: TSContext where
  "demo_ts = \<lparr>ts_schema = (case resolveSchemaTypes demo_host ''/'' ''root'' of Inr S \<Rightarrow> S | Inl _ \<Rightarrow> \<lparr>types = [], rootType = None\<rparr>),
     ts_typeFilter = \<lparr>tf_includes = [], tf_excludes = []\<rparr>, ts_files = [], ts_types = [], ts_header = [],
     ts_outputDir = ''out'', importBase = None, usePrettier = False\<rparr>"

definition demo_ts_host :: TSHost where
  "demo_ts_host = \<lparr>ts_resolve = join ''/'', ts_relative = (\<lambda>a b. b), ts_dirname = (\<lambda>a. a), ts_number = (\<lambda>n. ''0''),
     prettier_format = (\<lambda>s. s)\<rparr>"

definition demo_ts_file :: TSFile where
  "demo_ts_file = \<lparr>tf_path = ''out/motis/lookup.ts'', tf_namespace = ''motis.lookup'',
     tf_types = [''motis.lookup.Request'', ''motis.lookup.Msg'']\<rparr>"

lemma demo_ts_files: "map_get (ts_files (assignFiles demo_ts_host demo_ts)) ''motis.lookup'' = Some demo_ts_file"
  by code_simp

lemma demo_ts_includes:
  "collectIncludes demo_ts_host (assignFiles demo_ts_host demo_ts) demo_ts_file =
     Inr [(''motis'', \<lparr>inc_filename = ''out/motis.ts'', inc_types = [''Position'']\<rparr>)]"
  by code_simp

theorem imports_exact_witness:
  "imported [(''motis'', \<lparr>inc_filename = ''out/motis.ts'', inc_types = [''Position'']\<rparr>)] ''motis'' ''Position'' \<longleftrightarrow>
    (\<exists>r \<in> set (file_refs (assignFiles demo_ts_host demo_ts) demo_ts_file).
       external (assignFiles demo_ts_host demo_ts) demo_ts_file r \<and> ''motis'' = ref_ns r \<and>
       ''Position'' \<in> ref_names (assignFiles demo_ts_host demo_ts) r)"
  by (rule imports_exact [OF _ demo_ts_includes]) code_simp


end
