(* ===== verification/Railviz_Model.thy ===== *)
theory Railviz_Model
  imports Js_Value Schema_Util
begin

text \<open>
  The railviz model (\<^verbatim>\<open>ui/web/js/railviz/model.js\<close>): decoded polylines with the
  length of each line, and trains that move along them.

  Numbers are exact rationals; \<open>None\<close> stands for \<^verbatim>\<open>NaN\<close> (and for what an undefined
  element gives in arithmetic), so that rounding is not modelled but the branches that
  \<^verbatim>\<open>NaN\<close> takes are. The polyline decoder, the Mercator projection of
  \<^verbatim>\<open>mapboxgl\<close> and \<^verbatim>\<open>Math.sqrt\<close> are parameters.
\<close>

section \<open>Numbers\<close>

type_synonym num = "rat option"

definition num_add :: "num \<Rightarrow> num \<Rightarrow> num" where
  "num_add a b = (case (a, b) of (Some x, Some y) \<Rightarrow> Some (x + y) | _ \<Rightarrow> None)"

definition num_sub :: "num \<Rightarrow> num \<Rightarrow> num" where
  "num_sub a b = (case (a, b) of (Some x, Some y) \<Rightarrow> Some (x - y) | _ \<Rightarrow> None)"

definition num_mult :: "num \<Rightarrow> num \<Rightarrow> num" where
  "num_mult a b = (case (a, b) of (Some x, Some y) \<Rightarrow> Some (x * y) | _ \<Rightarrow> None)"

definition num_le :: "num \<Rightarrow> num \<Rightarrow> bool" where
  "num_le a b = (case (a, b) of (Some x, Some y) \<Rightarrow> x \<le> y | _ \<Rightarrow> False)"

lemma num_simps [simp]:
  "num_add (Some x) (Some y) = Some (x + y)" "num_sub (Some x) (Some y) = Some (x - y)"
  "num_mult (Some x) (Some y) = Some (x * y)" "num_le (Some x) (Some y) = (x \<le> y)"
  "num_add None b = None" "num_add a None = None" "num_sub None b = None" "num_sub a None = None"
  "num_le None b = False" "num_le a None = False"
  by (auto simp: num_add_def num_sub_def num_mult_def num_le_def split: option.splits)

text \<open>\<^verbatim>\<open>a / b || 0\<close> on numbers: \<^verbatim>\<open>NaN\<close> gives 0, a division by zero an infinity.\<close>

definition div_or_0 :: "num \<Rightarrow> num \<Rightarrow> jsnum" where
  "div_or_0 a b =
     (case (a, b) of
        (Some x, Some y) \<Rightarrow>
          if y \<noteq> 0 then Fin (x / y) else if x > 0 then PosInf else if x < 0 then NegInf else Fin 0
      | _ \<Rightarrow> Fin 0)"

text \<open>Reading an array; outside its bounds the element is undefined.\<close>

definition elem :: "'a list \<Rightarrow> int \<Rightarrow> 'a option" where
  "elem xs i = (if 0 \<le> i \<and> nat i < length xs then Some (xs ! nat i) else None)"

section \<open>Polylines\<close>

type_synonym point = "rat \<times> rat"

record Geo =
  decode :: "string \<Rightarrow> point list"
  fromLngLat :: "rat \<Rightarrow> rat \<Rightarrow> point"
  math_sqrt :: "rat \<Rightarrow> rat"

record Polyline =
  coordinates :: "point list"
  mercatorCoordinates :: "point list"
  lineCount :: int
  lineLengths :: "rat list"
  lineOffsets :: "rat list"
  totalLength :: rat

definition line_length :: "Geo \<Rightarrow> point \<Rightarrow> point \<Rightarrow> rat" where
  "line_length G a b =
     (let x = fst a - fst b; y = snd a - snd b in math_sqrt G (x * x + y * y))"

text \<open>The measuring loop: the lengths and offsets written so far and the running offset.\<close>

fun measure_lines :: "Geo \<Rightarrow> point list \<Rightarrow> rat list \<times> rat list \<times> rat \<Rightarrow> rat list \<times> rat list \<times> rat" where
  "measure_lines G (a # b # ps) (lens, offs, off) =
     measure_lines G (b # ps) (lens @ [line_length G a b], offs @ [off], off + line_length G a b)"
| "measure_lines G ps acc = acc"

definition preprocessPolyline :: "Geo \<Rightarrow> string \<Rightarrow> Polyline option" where
  "preprocessPolyline G str =
     (let coords = decode G str
      in if coords = [] then None
         else
           (let mc = map (\<lambda>ll. fromLngLat G (snd ll) (fst ll)) coords;
                (lens, offs, off) = measure_lines G mc ([], [], 0)
            in Some \<lparr>coordinates = coords, mercatorCoordinates = mc, lineCount = int (length mc) - 1,
                     lineLengths = lens, lineOffsets = offs @ [off], totalLength = off\<rparr>))"

text \<open>\<^verbatim>\<open>convertPolyline\<close> and \<^verbatim>\<open>doublesToLngLats\<close>: pairs of numbers,
  consecutive duplicates dropped.\<close>

fun pairs :: "'a list \<Rightarrow> ('a \<times> 'a) list" where
  "pairs (a # b # xs) = (a, b) # pairs xs"
| "pairs _ = []"

definition push_new :: "'a list \<Rightarrow> 'a \<Rightarrow> 'a list" where
  "push_new acc x = (if acc = [] \<or> last acc \<noteq> x then acc @ [x] else acc)"

definition doublesToLngLats :: "rat list \<Rightarrow> point list" where
  "doublesToLngLats src = foldl (\<lambda>acc (a, b). push_new acc (b, a)) [] (pairs src)"

definition convertPolyline :: "Geo \<Rightarrow> rat list \<Rightarrow> point list" where
  "convertPolyline G coords = foldl (\<lambda>acc (lat, lng). push_new acc (fromLngLat G lng lat)) [] (pairs coords)"

section \<open>Trains\<close>

record Station =
  st_id :: string
  st_name :: string
  st_lat :: rat
  st_lng :: rat
  mercatorPos :: point

definition preprocessStation :: "Geo \<Rightarrow> Station \<Rightarrow> Station" where
  "preprocessStation G s = s\<lparr>mercatorPos := fromLngLat G (st_lng s) (st_lat s)\<rparr>"

record PolylineRef =
  pr_fwd :: bool
  pr_offset :: num
  pr_polyline :: "Polyline option"

record RawTrain =
  raw_clasz :: "int option"
  raw_trip :: "jsval list"
  raw_d_station_id :: string
  raw_a_station_id :: string
  raw_d_time :: rat
  raw_a_time :: rat
  raw_sched_d_time :: rat
  raw_sched_a_time :: rat
  raw_d_time_reason :: string
  raw_a_time_reason :: string
  raw_names :: "string list"
  raw_route_distance :: rat
  raw_indices :: "int list"

record TrainPos =
  currPolyline :: "nat option"
  currLine :: "int option"
  currProgress :: "jsnum option"

record Train = TrainPos +
  clasz :: int
  trip :: "jsval list"
  d_station_id :: string
  a_station_id :: string
  d_time :: rat
  a_time :: rat
  sched_d_time :: rat
  sched_a_time :: rat
  d_time_reason :: string
  a_time_reason :: string
  tr_names :: "string list"
  route_distance :: rat
  tr_indices :: "int list"
  dStation :: "Station option"
  aStation :: "Station option"
  polylines :: "PolylineRef list"
  tr_totalLength :: num

datatype model_error = NoSuchPolyline int | NoSuchPoint int

definition total_num :: "Polyline option \<Rightarrow> num" where
  "total_num p = map_option totalLength p"

definition addPolyline :: "Polyline option list \<Rightarrow> PolylineRef list \<times> num \<Rightarrow> int \<Rightarrow> model_error + PolylineRef list \<times> num" where
  "addPolyline pls s i =
     (case elem pls \<bar>i\<bar> of
        None \<Rightarrow> Inl (NoSuchPolyline \<bar>i\<bar>)
      | Some p \<Rightarrow>
          Inr (fst s @ [\<lparr>pr_fwd = (i > 0), pr_offset = snd s, pr_polyline = p\<rparr>], num_add (snd s) (total_num p)))"

definition newTrain :: "Station list \<Rightarrow> Polyline option list \<Rightarrow> RawTrain \<Rightarrow> model_error + Train" where
  "newTrain stations pls t =
     bindE (foldE (addPolyline pls) ([], Some 0) (raw_indices t)) (\<lambda>r.
       let findStationById = (\<lambda>id. find (\<lambda>s. st_id s = id) stations)
       in Inr \<lparr>currPolyline = None, currLine = None, currProgress = None,
               clasz = (case raw_clasz t of None \<Rightarrow> 0 | Some c \<Rightarrow> c),
               trip = map (\<lambda>trp. obj_set ''train_nr'' (js_or (obj_get trp ''train_nr'') (JInt 0)) trp) (raw_trip t),
               d_station_id = raw_d_station_id t, a_station_id = raw_a_station_id t,
               d_time = raw_d_time t, a_time = raw_a_time t, sched_d_time = raw_sched_d_time t,
               sched_a_time = raw_sched_a_time t,
               d_time_reason = raw_d_time_reason t, a_time_reason = raw_a_time_reason t, tr_names = raw_names t,
               route_distance = raw_route_distance t, tr_indices = raw_indices t,
               dStation = findStationById (raw_d_station_id t), aStation = findStationById (raw_a_station_id t),
               polylines = fst r, tr_totalLength = snd r\<rparr>)"

section \<open>Position\<close>

definition no_position :: "Train \<Rightarrow> Train" where
  "no_position t = t\<lparr>currPolyline := None, currLine := None, currProgress := None\<rparr>"

text \<open>Start and length of a line, counted in the direction of travel.\<close>

definition getCurrLinePos :: "PolylineRef \<Rightarrow> int \<Rightarrow> num \<times> num" where
  "getCurrLinePos p line =
     (case pr_polyline p of
        None \<Rightarrow> (None, None)
      | Some pl \<Rightarrow>
          if pr_fwd p then (num_add (pr_offset p) (elem (lineOffsets pl) line), elem (lineLengths pl) line)
          else
            (let idx = lineCount pl - 1 - line;
                 offset = elem (lineOffsets pl) idx;
                 len = elem (lineLengths pl) idx
             in (num_sub (num_add (pr_offset p) (Some (totalLength pl))) (num_add offset len), len)))"

definition in_line :: "num \<Rightarrow> num \<times> num \<Rightarrow> bool" where
  "in_line pos l = (num_le (fst l) pos \<and> num_le pos (num_add (fst l) (snd l)))"

text \<open>A counting loop: the first index from \<open>j\<close> below \<open>n\<close> that satisfies \<open>P\<close>, or where the loop stops.\<close>

function first_from :: "(int \<Rightarrow> bool) \<Rightarrow> int \<Rightarrow> int \<Rightarrow> int" where
  "first_from P j n = (if j < n then if P j then j else first_from P (j + 1) n else j)"
  by pat_completeness auto
termination
  by (relation "measure (\<lambda>(P, j, n). nat (n - j))") auto

declare first_from.simps [simp del]

definition polyline_at :: "Train \<Rightarrow> int \<Rightarrow> PolylineRef option" where
  "polyline_at t k = elem (polylines t) k"

definition in_polyline :: "num \<Rightarrow> PolylineRef \<Rightarrow> bool" where
  "in_polyline pos p = in_line pos (pr_offset p, total_num (pr_polyline p))"

definition updateCurrPolyline :: "Train \<Rightarrow> num \<Rightarrow> Train" where
  "updateCurrPolyline t pos =
     (let old = (case currPolyline t of None \<Rightarrow> 0 | Some k \<Rightarrow> int k);
          n = int (length (polylines t));
          k = first_from (\<lambda>k. case polyline_at t k of None \<Rightarrow> False | Some p \<Rightarrow> in_polyline pos p) old n
      in t\<lparr>currPolyline := Some (nat (min k (n - 1))),
           currLine := (if k < n \<and> k \<noteq> old then Some 0 else currLine t)\<rparr>)"

definition line_count :: "PolylineRef \<Rightarrow> int" where
  "line_count p = (case pr_polyline p of None \<Rightarrow> 0 | Some pl \<Rightarrow> lineCount pl)"

definition updateCurrLine :: "Train \<Rightarrow> PolylineRef \<Rightarrow> num \<Rightarrow> Train" where
  "updateCurrLine t p pos =
     (let old = (case currLine t of None \<Rightarrow> 0 | Some l \<Rightarrow> l);
          l = first_from (\<lambda>l. in_line pos (getCurrLinePos p l)) old (line_count p)
      in t\<lparr>currLine := Some (min l (line_count p - 1))\<rparr>)"

definition set_progress :: "Train \<Rightarrow> PolylineRef \<Rightarrow> num \<Rightarrow> Train" where
  "set_progress t p pos =
     (let lp = getCurrLinePos p (case currLine t of None \<Rightarrow> 0 | Some l \<Rightarrow> l)
      in t\<lparr>currProgress := Some (div_or_0 (num_sub pos (fst lp)) (snd lp))\<rparr>)"

definition train_pos :: "Train \<Rightarrow> rat \<Rightarrow> num" where
  "train_pos t time =
     num_mult (if a_time t = d_time t then None else Some ((time - d_time t) / (a_time t - d_time t))) (tr_totalLength t)"

definition on_current_line :: "Train \<Rightarrow> num \<Rightarrow> bool" where
  "on_current_line t pos =
     (case currPolyline t of
        None \<Rightarrow> False
      | Some k \<Rightarrow>
          (case polyline_at t (int k) of
             None \<Rightarrow> False
           | Some p \<Rightarrow> in_line pos (getCurrLinePos p (case currLine t of None \<Rightarrow> 0 | Some l \<Rightarrow> l))))"

definition updatePosition :: "Train \<Rightarrow> rat \<Rightarrow> Train \<times> bool" where
  "updatePosition t time =
     (if time < d_time t \<or> a_time t < time then (no_position t, currPolyline t \<noteq> None)
      else
        (let pos = train_pos t time
         in if on_current_line t pos then
              (case polyline_at t (int (the (currPolyline t))) of
                 None \<Rightarrow> (t, False) | Some p \<Rightarrow> (set_progress t p pos, False))
            else
              (let t1 = updateCurrPolyline t pos
               in case polyline_at t1 (int (the (currPolyline t1))) of
                    None \<Rightarrow> (t1, True)
                  | Some p \<Rightarrow> (set_progress (updateCurrLine t1 p pos) p pos, True))))"

definition getMercatorLine :: "Train \<Rightarrow> model_error + (point \<times> point) option" where
  "getMercatorLine t =
     (case currPolyline t of
        None \<Rightarrow> Inr None
      | Some k \<Rightarrow>
          (case polyline_at t (int k) of
             None \<Rightarrow> Inl (NoSuchPoint (int k))
           | Some p \<Rightarrow>
               (let line = (case currLine t of None \<Rightarrow> 0 | Some l \<Rightarrow> l);
                    mc = (case pr_polyline p of None \<Rightarrow> [] | Some pl \<Rightarrow> mercatorCoordinates pl);
                    offset = (if pr_fwd p then line else line_count p - line);
                    next = (if pr_fwd p then offset + 1 else offset - 1)
                in case (elem mc offset, elem mc next) of
                     (Some a, Some b) \<Rightarrow> Inr (Some (a, b)) | _ \<Rightarrow> Inl (NoSuchPoint offset))))"

section \<open>Preprocessing a response\<close>

record RawData =
  rd_stations :: "Station list"
  rd_polylines :: "string list"
  rd_trains :: "RawTrain list"
  rd_extras :: "nat list"

record TrainData =
  td_stations :: "Station list"
  td_polylines :: "Polyline option list"
  td_trains :: "Train list"
  td_extras :: "nat list"

text \<open>The second key reads \<^verbatim>\<open>route_distance_\<close>, which no train has, so it is always 0.\<close>

definition train_order :: "Train \<Rightarrow> Train \<Rightarrow> int" where
  "train_order lhs rhs = (if clasz rhs \<noteq> clasz lhs then clasz rhs - clasz lhs else 0 - 0)"

definition preprocess :: "Geo \<Rightarrow> RawData \<Rightarrow> model_error + TrainData" where
  "preprocess G d =
     (let stations = map (preprocessStation G) (rd_stations d);
          pls = map (preprocessPolyline G) (rd_polylines d)
      in bindE (mapE (newTrain stations pls) (rd_trains d)) (\<lambda>ts.
           Inr \<lparr>td_stations = stations, td_polylines = pls,
                td_trains = array_sort train_order (filter (\<lambda>t. polylines t \<noteq> []) ts),
                td_extras = rd_extras d\<rparr>))"

end
