(* ===== verification/Railviz_Api.thy ===== *)
theory Railviz_Api
  imports Railviz_Model
begin

text \<open>
  The requests of the web client (\<^verbatim>\<open>ui/web/js/railviz/api.js\<close>): the request
  objects, the URL they are posted to, the numbering of calls and what a finished call hands to
  its callbacks. A callback is named by a \<open>Callback\<close> instead of being a closure.
\<close>

section \<open>Stations and walks of the user interface\<close>

record MapStation =
  ms_id :: string
  ms_name :: string
  ms_lat :: rat
  ms_lng :: rat

record Walk =
  w_from :: MapStation
  w_to :: MapStation
  w_polyline :: "rat list option"
  w_mumoType :: string
  w_duration :: rat
  w_accessibility :: rat
  w_id :: "nat option"
  w_coordinates :: "num list option"

definition position :: "rat \<Rightarrow> rat \<Rightarrow> jsval" where
  "position lat lng = JObj [(''lat'', JNum (Fin lat)), (''lng'', JNum (Fin lng))]"

definition station_pos :: "MapStation \<Rightarrow> jsval" where
  "station_pos s = position (ms_lat s) (ms_lng s)"

text \<open>\<^verbatim>\<open>prepareWalk\<close> of \<^verbatim>\<open>model.js\<close>. Without a path it reads the coordinates
  \<^verbatim>\<open>pos.x\<close> and \<^verbatim>\<open>pos.y\<close>, which no position has: they are undefined.\<close>

definition prepareWalk :: "Geo \<Rightarrow> Walk \<Rightarrow> Walk" where
  "prepareWalk G walk =
     (case w_polyline walk of
        Some path \<Rightarrow> walk\<lparr>w_coordinates := Some (concat (map (\<lambda>(x, y). [Some x, Some y]) (convertPolyline G path)))\<rparr>
      | None \<Rightarrow> walk\<lparr>w_coordinates := Some [None, None, None, None]\<rparr>)"

section \<open>Request objects\<close>

definition request_to :: "string \<Rightarrow> string \<Rightarrow> (string \<times> jsval) list \<Rightarrow> jsval" where
  "request_to target ct content =
     JObj [(''destination'', JObj [(''type'', JStr ''Module''), (''target'', JStr target)]),
           (''content_type'', JStr ct), (''content'', JObj content)]"

definition makeTrainsRequest :: "int \<Rightarrow> jsval \<Rightarrow> jsval \<Rightarrow> rat \<Rightarrow> rat \<Rightarrow> nat \<Rightarrow> nat \<Rightarrow> jsval" where
  "makeTrainsRequest zoom_level corner1 corner2 startTime endTime maxTrains lastTrains =
     request_to ''/railviz/get_trains'' ''RailVizTrainsRequest''
       [(''zoom_bounds'', JInt zoom_level), (''zoom_geo'', JInt (zoom_level + 2)),
        (''corner1'', corner1), (''corner2'', corner2),
        (''start_time'', JInt \<lfloor>startTime\<rfloor>), (''end_time'', JInt \<lceil>endTime\<rceil>),
        (''max_trains'', JInt (int maxTrains)), (''last_trains'', JInt (int lastTrains))]"

definition makeTripsRequest :: "jsval list \<Rightarrow> jsval" where
  "makeTripsRequest tripIds =
     request_to ''/railviz/get_trips'' ''RailVizTripsRequest'' [(''trips'', JArr tripIds)]"

definition makePPRRequest :: "Walk \<Rightarrow> jsval \<Rightarrow> jsval" where
  "makePPRRequest walk searchOptions =
     request_to ''/ppr/route'' ''FootRoutingRequest''
       [(''start'', station_pos (w_from walk)), (''destinations'', JArr [station_pos (w_to walk)]),
        (''search_options'', searchOptions), (''include_steps'', JBool True),
        (''include_edges'', JBool False), (''include_path'', JBool True)]"

definition getOSRMProfile :: "Walk \<Rightarrow> string" where
  "getOSRMProfile walk =
     (if w_mumoType walk = ''bike'' then ''bike'' else if w_mumoType walk = ''car'' then ''car'' else ''foot'')"

definition makeOSRMRequest :: "Walk \<Rightarrow> jsval" where
  "makeOSRMRequest walk =
     request_to ''/osrm/via'' ''OSRMViaRouteRequest''
       [(''profile'', JStr (getOSRMProfile walk)),
        (''waypoints'', JArr [station_pos (w_from walk), station_pos (w_to walk)])]"

section \<open>Sending\<close>

definition request_url :: "string \<Rightarrow> jsval \<Rightarrow> string" where
  "request_url apiEndpoint requestData =
     (let destination = obj_get requestData ''destination'' in
      case (if truthy destination then obj_get destination ''target'' else destination) of
        JStr target \<Rightarrow>
          if target = [] then apiEndpoint
          else
            (if CHR ''?'' \<notin> set apiEndpoint then apiEndpoint @ ''?target=''
             else if \<not> endsWith apiEndpoint ''&'' then apiEndpoint @ ''&target=''
             else apiEndpoint @ ''target='') @ target
      | _ \<Rightarrow> apiEndpoint)"

text \<open>Whom a finished call reports to: the two requests of the main module and the two of the
  connection manager, the latter with the walk it was made for.\<close>

datatype Callback = TrainsReply | TripsReply | ConnectionTripsReply | ConnectionWalkReply nat

record ApiState =
  lastCallId :: nat
  pending :: "(nat \<times> Callback) list"
  sent :: "(string \<times> jsval) list"

definition sendRequest :: "string \<Rightarrow> jsval \<Rightarrow> Callback \<Rightarrow> 'a ApiState_scheme \<Rightarrow> nat \<times> 'a ApiState_scheme" where
  "sendRequest apiEndpoint requestData cb s =
     (let callId = Suc (lastCallId s)
      in (callId, s\<lparr>lastCallId := callId, pending := pending s @ [(callId, cb)],
                    sent := sent s @ [(request_url apiEndpoint requestData, requestData)]\<rparr>))"

text \<open>How an \<^verbatim>\<open>XMLHttpRequest\<close> ends, and what its listeners call; \<open>parse\<close> is
  \<^verbatim>\<open>JSON.parse\<close>, with \<open>None\<close> for a thrown error.\<close>

datatype XhrEvent = XhrLoad int string | XhrError | XhrTimeout

datatype Outcome = OnSuccess jsval | OnFail jsval

definition xhrOutcome :: "(string \<Rightarrow> jsval option) \<Rightarrow> XhrEvent \<Rightarrow> Outcome" where
  "xhrOutcome parse ev =
     (case ev of
        XhrLoad status txt \<Rightarrow>
          (let response = (case parse txt of None \<Rightarrow> JStr txt | Some v \<Rightarrow> v)
           in if status = 200 then OnSuccess response else OnFail response)
      | XhrError \<Rightarrow> OnFail (JStr ''NetworkError'')
      | XhrTimeout \<Rightarrow> OnFail (JStr ''TimeoutError''))"

text \<open>A call ends once: its number and callback leave the pending ones.\<close>

definition finish :: "nat \<Rightarrow> 'a ApiState_scheme \<Rightarrow> 'a ApiState_scheme" where
  "finish callId s = s\<lparr>pending := map_delete callId (pending s)\<rparr>"

section \<open>Numbering\<close>

definition calls_ok :: "'a ApiState_scheme \<Rightarrow> bool" where
  "calls_ok s = (distinct (map fst (pending s)) \<and> list_all (\<lambda>i. i \<le> lastCallId s) (map fst (pending s)))"

lemma sendRequest_calls_ok: "calls_ok s \<Longrightarrow> calls_ok (snd (sendRequest url r cb s))"
  by (auto simp: calls_ok_def sendRequest_def Let_def list_all_iff)

lemma finish_calls_ok: "calls_ok s \<Longrightarrow> calls_ok (finish i s)"
  unfolding calls_ok_def finish_def by (auto simp: list_all_iff delete_keys distinct_removeAll)

lemma length_finish:
  assumes "calls_ok s" and "map_get (pending s) i = Some cb"
  shows "Suc (length (pending (finish i s))) = length (pending s)"
proof -
  have d: "distinct (map fst (pending s))" and m: "i \<in> set (map fst (pending s))"
    using assms by (auto simp: calls_ok_def dest: map_of_SomeD intro!: rev_image_eqI)
  have "length (map fst (pending (finish i s))) = length (removeAll i (map fst (pending s)))"
    unfolding finish_def by (simp add: delete_keys)
  also have "\<dots> = length (remove1 i (map fst (pending s)))"
    using d by (simp add: distinct_remove1_removeAll)
  also have "\<dots> = length (pending s) - 1" using m by (simp add: length_remove1)
  moreover have "length (pending s) \<noteq> 0" using m by auto
  ultimately show ?thesis by simp
qed

end
