(* ===== verification/Railviz_Shell.thy ===== *)
theory Railviz_Shell
  imports Railviz_Api
begin

text \<open>
  What the modules of the map view share: the loading spinner of \<^verbatim>\<open>ui/web/js/railviz/main.js\<close>,
  the messages sent to the Elm ports, and the calls made on the mapbox map, which is third-party code
  and appears as the list of the calls it received. A handler ends \<open>Done\<close> or, at an uncaught
  exception, \<open>Thrown\<close>; both carry the state it leaves.
\<close>

section \<open>Handlers that may throw\<close>

datatype 's exec = Done 's | Thrown 's

fun after :: "'s exec \<Rightarrow> ('s \<Rightarrow> 's exec) \<Rightarrow> 's exec" where
  "after (Done s) f = f s"
| "after (Thrown s) f = Thrown s"

fun state_of :: "'s exec \<Rightarrow> 's" where
  "state_of (Done s) = s"
| "state_of (Thrown s) = s"

fun forX :: "('a \<Rightarrow> 's \<Rightarrow> 's exec) \<Rightarrow> 'a list \<Rightarrow> 's \<Rightarrow> 's exec" where
  "forX f [] s = Done s"
| "forX f (x # xs) s = after (f x s) (forX f xs)"

text \<open>A property kept by every step is kept by their composition, whether or not it throws.\<close>

definition keeps :: "('s \<Rightarrow> bool) \<Rightarrow> ('s \<Rightarrow> 's exec) \<Rightarrow> bool" where
  "keeps P f = (\<forall>s. P s \<longrightarrow> P (state_of (f s)))"

named_theorems keeps_intros \<open>preservation rules for handlers\<close>

lemma keepsI [intro?]: "(\<And>s. P s \<Longrightarrow> P (state_of (f s))) \<Longrightarrow> keeps P f"
  by (simp add: keeps_def)

lemma keepsD: "keeps P f \<Longrightarrow> P s \<Longrightarrow> P (state_of (f s))"
  by (simp add: keeps_def)

lemma after_keeps: "P (state_of m) \<Longrightarrow> keeps P f \<Longrightarrow> P (state_of (after m f))"
  by (cases m) (auto simp: keeps_def)

lemma keeps_after [keeps_intros]: "keeps P f \<Longrightarrow> keeps P g \<Longrightarrow> keeps P (\<lambda>s. after (f s) g)"
  by (rule keepsI) (metis after_keeps keepsD)

lemma keeps_if [keeps_intros]:
  "keeps P f \<Longrightarrow> keeps P g \<Longrightarrow> keeps P (\<lambda>s. if b s then f s else g s)"
  by (simp add: keeps_def)

lemma keeps_Done [keeps_intros]: "(\<And>s. P s \<Longrightarrow> P (h s)) \<Longrightarrow> keeps P (\<lambda>s. Done (h s))"
  by (simp add: keeps_def)

lemma keeps_Thrown [keeps_intros]: "(\<And>s. P s \<Longrightarrow> P (h s)) \<Longrightarrow> keeps P (\<lambda>s. Thrown (h s))"
  by (simp add: keeps_def)

lemma keeps_forX [keeps_intros]: "(\<And>x. keeps P (f x)) \<Longrightarrow> keeps P (forX f xs)"
proof (induction xs)
  case (Cons x xs)
  then have "keeps P (\<lambda>s. after (f x s) (forX f xs))" by (intro keeps_after) auto
  then show ?case by (simp add: keeps_def)
qed (simp add: keeps_def)

lemma after_Done [simp]: "after m Done = m"
  by (cases m) auto

lemma after_assoc: "after (after m f) g = after m (\<lambda>s. after (f s) g)"
  by (cases m) auto

section \<open>The map, the ports and the spinner\<close>

record ConnFeature =
  cf_id :: int
  cf_trip :: bool
  cf_sortKey :: int
  cf_color :: string
  cf_coords :: "point list"

datatype Feature =
    ConnectionFeature ConnFeature
  | DetailLine bool "int option" "point list"
  | DetailPoint string string bool point
  | DetailWalk "point list"
  | ExtraLine "point list"

datatype MapCmd =
    AddSource string jsval
  | SetData string "Feature list"
  | AddLayer jsval "string option"
  | SetVisibility string bool
  | RemoveFeatureState string
  | SetFeatureState string int string
  | AddImage string
  | RemoveLayer string
  | RemoveSource string
  | TriggerRepaint

text \<open>A tooltip carries the position, the hovered train, station and trip segments, and the hovered walk
  entry by its address.\<close>

datatype PortMsg =
    HandleRailVizError jsval
  | ClearRailVizError
  | ShowTripDetails jsval
  | ShowStationDetails string
  | MapCloseContextMenu
  | MapSetTooltip rat rat jsval jsval jsval "nat option"

record Shell = ApiState +
  map_log :: "MapCmd list"
  ports :: "PortMsg list"
  loadingCount :: int
  spinner :: bool

definition map_call :: "MapCmd \<Rightarrow> 'a Shell_scheme \<Rightarrow> 'a Shell_scheme" where
  "map_call c s = s\<lparr>map_log := map_log s @ [c]\<rparr>"

definition send_port :: "PortMsg \<Rightarrow> 'a Shell_scheme \<Rightarrow> 'a Shell_scheme" where
  "send_port p s = s\<lparr>ports := ports s @ [p]\<rparr>"

definition toggleLoadingSpinner :: "bool \<Rightarrow> 'a Shell_scheme \<Rightarrow> 'a Shell_scheme" where
  "toggleLoadingSpinner b s = s\<lparr>spinner := b\<rparr>"

definition setLoading :: "int \<Rightarrow> 'a Shell_scheme \<Rightarrow> 'a Shell_scheme" where
  "setLoading change s =
     (let visibleBefore = loadingCount s > 0;
          s1 = s\<lparr>loadingCount := loadingCount s + change\<rparr>;
          visibleAfter = loadingCount s1 > 0
      in if visibleBefore \<noteq> visibleAfter then toggleLoadingSpinner visibleAfter s1 else s1)"

definition handleApiError :: "jsval \<Rightarrow> 'a Shell_scheme \<Rightarrow> 'a Shell_scheme" where
  "handleApiError response s = send_port (HandleRailVizError response) (setLoading (-1) s)"

text \<open>\<^verbatim>\<open>flipped\<close> of \<^verbatim>\<open>polyline.js\<close>: the two coordinates swapped.\<close>

definition flipped :: "point list \<Rightarrow> point list" where
  "flipped ps = map (\<lambda>(a, b). (b, a)) ps"

text \<open>The fields of the shell after the basic operations.\<close>

lemma map_call_simps [simp]:
  "pending (map_call c s) = pending s" "lastCallId (map_call c s) = lastCallId s" "sent (map_call c s) = sent s"
  "loadingCount (map_call c s) = loadingCount s" "spinner (map_call c s) = spinner s" "ports (map_call c s) = ports s"
  "Shell.more (map_call c s) = Shell.more s" "map_log (map_call c s) = map_log s @ [c]"
  by (simp_all add: map_call_def)

lemma send_port_simps [simp]:
  "pending (send_port p s) = pending s" "lastCallId (send_port p s) = lastCallId s" "sent (send_port p s) = sent s"
  "loadingCount (send_port p s) = loadingCount s" "spinner (send_port p s) = spinner s" "map_log (send_port p s) = map_log s"
  "Shell.more (send_port p s) = Shell.more s" "ports (send_port p s) = ports s @ [p]"
  by (simp_all add: send_port_def)

lemma setLoading_simps [simp]:
  "pending (setLoading n s) = pending s" "lastCallId (setLoading n s) = lastCallId s" "sent (setLoading n s) = sent s"
  "loadingCount (setLoading n s) = loadingCount s + n" "ports (setLoading n s) = ports s" "map_log (setLoading n s) = map_log s"
  "Shell.more (setLoading n s) = Shell.more s"
  by (simp_all add: setLoading_def toggleLoadingSpinner_def Let_def)

lemma setLoading_spinner:
  "spinner s = (loadingCount s > 0) \<Longrightarrow> spinner (setLoading n s) = (loadingCount s + n > 0)"
  by (auto simp: setLoading_def toggleLoadingSpinner_def Let_def)

lemma sendRequest_simps [simp]:
  "loadingCount (snd (sendRequest u r cb s)) = loadingCount s" "spinner (snd (sendRequest u r cb s)) = spinner s"
  "map_log (snd (sendRequest u r cb s)) = map_log s" "ports (snd (sendRequest u r cb s)) = ports s"
  "pending (snd (sendRequest u r cb s)) = pending s @ [(Suc (lastCallId s), cb)]"
  "lastCallId (snd (sendRequest u r cb s)) = Suc (lastCallId s)" "fst (sendRequest u r cb s) = Suc (lastCallId s)"
  "Shell.more (snd (sendRequest u r cb s)) = Shell.more s"
  by (simp_all add: sendRequest_def Let_def)

end
