(* ===== verification/Railviz_Style.thy ===== *)
theory Railviz_Style
  imports Railviz_Shell
begin

text \<open>
  The shared style fragments (\<^verbatim>\<open>ui/web/js/railviz/style.js\<close>): expressions of the map
  style language as the nested arrays they are, and the scale of the train symbols.
\<close>

abbreviation expr :: "string \<Rightarrow> jsval list \<Rightarrow> jsval" where
  "expr op args \<equiv> JArr (JStr op # args)"

abbreviation lit :: "rat \<Rightarrow> jsval" where
  "lit q \<equiv> JNum (Fin q)"

abbreviation str_lit :: "string \<Rightarrow> jsval" where
  "str_lit s \<equiv> JStr s"

abbreviation get_prop :: "string \<Rightarrow> jsval" where
  "get_prop s \<equiv> expr ''get'' [str_lit s]"

definition lineColor :: jsval where
  "lineColor = expr ''case''
     [expr ''coalesce'' [get_prop ''stub'', JBool True], str_lit ''#DDDDDD'',
      expr ''<'' [get_prop ''min_class'', lit 6], str_lit ''#666666'',
      expr ''<'' [get_prop ''min_class'', lit 8], str_lit ''#999999'',
      str_lit ''#AAAAAA'']"

definition lineWidth :: jsval where
  "lineWidth = expr ''let''
     [str_lit ''w'', expr ''case''
        [expr ''coalesce'' [get_prop ''stub'', JBool True], lit 2,
         expr ''<'' [get_prop ''min_class'', lit 6], lit (7 / 2),
         expr ''<'' [get_prop ''min_class'', lit 8], lit 3,
         lit 2],
      expr ''interpolate'' [expr ''linear'' [], expr ''zoom'' [],
        lit 6, expr ''*'' [expr ''var'' [str_lit ''w''], lit (1 / 2)],
        lit 8, expr ''*'' [expr ''var'' [str_lit ''w''], lit (8 / 10)],
        lit 10, expr ''*'' [expr ''var'' [str_lit ''w''], lit 1]]]"

definition stationCircleRadius :: jsval where
  "stationCircleRadius = expr ''let''
     [str_lit ''w'', expr ''case''
        [expr ''<'' [get_prop ''min_class'', lit 8], lit 1,
         expr ''<'' [get_prop ''min_class'', lit 9], lit (9 / 10),
         expr ''<'' [get_prop ''min_class'', lit 12], lit (7 / 10),
         lit (1 / 2)],
      expr ''interpolate'' [expr ''linear'' [], expr ''zoom'' [],
        lit 6, expr ''*'' [expr ''var'' [str_lit ''w''], lit (75 / 100)],
        lit 8, expr ''*'' [expr ''var'' [str_lit ''w''], lit (125 / 100)],
        lit 10, expr ''*'' [expr ''var'' [str_lit ''w''], lit (225 / 100)],
        lit 20, expr ''*'' [expr ''var'' [str_lit ''w''], lit 4]]]"

definition stationCircleWidth :: jsval where
  "stationCircleWidth = expr ''let''
     [str_lit ''w'', expr ''case''
        [expr ''<'' [get_prop ''min_class'', lit 8], lit (13 / 10),
         expr ''<'' [get_prop ''min_class'', lit 9], lit 1,
         expr ''<'' [get_prop ''min_class'', lit 12], lit (7 / 10),
         lit (4 / 10)],
      expr ''interpolate'' [expr ''linear'' [], expr ''zoom'' [],
        lit 6, expr ''*'' [expr ''var'' [str_lit ''w''], lit (66 / 100)],
        lit 8, expr ''*'' [expr ''var'' [str_lit ''w''], lit (9 / 10)],
        lit 10, expr ''*'' [expr ''var'' [str_lit ''w''], lit 1],
        lit 20, expr ''*'' [expr ''var'' [str_lit ''w''], lit 2]]]"

definition interpolate :: "rat \<Rightarrow> rat \<Rightarrow> rat \<Rightarrow> rat \<Rightarrow> rat \<Rightarrow> rat" where
  "interpolate z lb ub lv uv = lv + ((z - lb) / (ub - lb)) * (uv - lv)"

definition interpolateTrainScale :: "rat \<Rightarrow> rat" where
  "interpolateTrainScale z =
     (if z < 6 then 1 / 2
      else if z < 8 then interpolate z 6 8 (1 / 2) (8 / 10)
      else if z < 10 then interpolate z 8 10 (8 / 10) 1
      else 1)"

text \<open>The train symbols grow with the zoom, without a jump at the zoom levels where the formula
  changes, between half and full size: the scale is monotone, lies in \<open>[1/2, 1]\<close>, and never
  changes by more than 0.15 per zoom level.\<close>

theorem train_scale_grows:
  "(z1 \<le> z2 \<longrightarrow> interpolateTrainScale z1 \<le> interpolateTrainScale z2 \<and>
     interpolateTrainScale z2 - interpolateTrainScale z1 \<le> (z2 - z1) * 15 / 100) \<and>
   1 / 2 \<le> interpolateTrainScale z1 \<and> interpolateTrainScale z1 \<le> 1"
  by (auto simp: interpolateTrainScale_def interpolate_def field_simps)

theorem train_scale_grows_witness:
  "interpolateTrainScale 7 \<le> interpolateTrainScale 9 \<and> interpolateTrainScale 9 - interpolateTrainScale 7 \<le> 3 / 10"
  using train_scale_grows [of 7 9] by simp

end
