(* ===== verification/Gbfs_Layer.thy ===== *)
theory Gbfs_Layer
  imports Railviz_Style
begin

text \<open>
  The vehicle sharing layers (\<^verbatim>\<open>gbfs.js\<close>): one source and two symbol layers for every
  provider in the search options, and the options that arrive before the map exists.
\<close>

section \<open>State\<close>

record GbfsOption =
  go_tag :: string
  go_data :: jsval

record Gbfs = Shell +
  gbfs_map :: bool
  gbfs_tilesEndpoint :: string
  gbfs_enabled :: bool
  gbfsOptions :: "(string, GbfsOption) jsmap"
  missedUpdate :: "GbfsOption list option"
  gbfs_loaded :: nat

lemma map_call_gbfs [simp]:
  "gbfs_map (map_call c s) = gbfs_map s" "gbfsOptions (map_call c s) = gbfsOptions s"
  "missedUpdate (map_call c s) = missedUpdate s" "gbfs_loaded (map_call c s) = gbfs_loaded s"
  by (simp_all add: map_call_def)

section \<open>Layers of a provider\<close>

definition gbfs_source_id :: "string \<Rightarrow> string" where
  "gbfs_source_id tag = ''gbfs-'' @ tag"

definition gbfs_source :: "string \<Rightarrow> string \<Rightarrow> jsval" where
  "gbfs_source tilesEndpoint tag = JObj
     [(''type'', JStr ''vector''),
      (''tiles'', JArr [JStr (tilesEndpoint @ ''gbfs/tiles/'' @ tag @ ''/{z}/{x}/{y}.mvt'')]),
      (''maxzoom'', lit 20)]"

definition gbfs_vehicle_layer :: "string \<Rightarrow> jsval" where
  "gbfs_vehicle_layer tag = JObj
     [(''id'', JStr (''gbfs-'' @ tag @ ''-vehicle'')), (''type'', JStr ''symbol''),
      (''source'', JStr (gbfs_source_id tag)), (''minzoom'', lit 13), (''source-layer'', JStr ''vehicle''),
      (''layout'', JObj
        [(''icon-image'', expr ''concat'' [JStr ''icon-'', get_prop ''type'']),
         (''icon-size'', expr ''interpolate'' [expr ''linear'' [], expr ''zoom'' [], lit 13, lit (6 / 10), lit 20, lit (8 / 10)]),
         (''icon-allow-overlap'', JBool False), (''text-allow-overlap'', JBool False)])]"

definition vehicles_available :: jsval where
  "vehicles_available = get_prop ''vehicles_available''"

definition gbfs_station_layer :: "string \<Rightarrow> jsval" where
  "gbfs_station_layer tag = JObj
     [(''id'', JStr (''gbfs-'' @ tag @ ''-station'')), (''type'', JStr ''symbol''),
      (''source'', JStr (gbfs_source_id tag)), (''minzoom'', lit 13), (''source-layer'', JStr ''station''),
      (''layout'', JObj
        [(''text-field'', expr ''case'' [expr ''=='' [vehicles_available, lit 999], JStr [], vehicles_available]),
         (''icon-image'', expr ''concat'' [JStr ''icon-'', get_prop ''type'']),
         (''text-font'', JArr [JStr ''Noto Sans Display Bold'']),
         (''text-offset'', JArr [lit (8 / 10), lit (-1)]), (''text-size'', lit 12),
         (''text-allow-overlap'', JBool False), (''icon-allow-overlap'', JBool False)]),
      (''paint'', JObj
        [(''text-color'', JStr ''white''),
         (''text-halo-color'', expr ''case''
            [expr ''>='' [vehicles_available, lit 3], JStr ''#94BD46'',
             expr ''>='' [vehicles_available, lit 2], JStr ''#f8c11c'',
             expr ''=='' [vehicles_available, lit 1], JStr ''orange'',
             JStr ''#f83d11'']),
         (''text-halo-width'', lit 2)])]"

section \<open>Operations\<close>

definition remove_provider :: "'a Gbfs_scheme \<Rightarrow> string \<Rightarrow> 'a Gbfs_scheme" where
  "remove_provider s tag =
     map_call (RemoveSource (gbfs_source_id tag))
       (map_call (RemoveLayer (''gbfs-'' @ tag @ ''-vehicle''))
         (map_call (RemoveLayer (''gbfs-'' @ tag @ ''-station''))
           (s\<lparr>gbfsOptions := map_delete tag (gbfsOptions s)\<rparr>)))"

definition add_provider :: "'a Gbfs_scheme \<Rightarrow> GbfsOption \<Rightarrow> 'a Gbfs_scheme" where
  "add_provider s opt =
     map_call (AddLayer (gbfs_station_layer (go_tag opt)) None)
       (map_call (AddLayer (gbfs_vehicle_layer (go_tag opt)) None)
         (map_call (AddSource (gbfs_source_id (go_tag opt)) (gbfs_source (gbfs_tilesEndpoint s) (go_tag opt)))
           (s\<lparr>gbfsOptions := map_set (go_tag opt) opt (gbfsOptions s)\<rparr>)))"

definition updateLayers :: "GbfsOption list \<Rightarrow> 'a Gbfs_scheme \<Rightarrow> 'a Gbfs_scheme" where
  "updateLayers newOptionsList s =
     (if \<not> gbfs_map s then s\<lparr>missedUpdate := Some newOptionsList\<rparr>
      else
        (let to_add = filter (\<lambda>opt. \<not> map_has (gbfsOptions s) (go_tag opt)) newOptionsList;
             to_remove = filter (\<lambda>tag. \<not> list_ex (\<lambda>opt. go_tag opt = tag) newOptionsList) (map_keys (gbfsOptions s))
         in foldl add_provider (foldl remove_provider s to_remove) to_add))"

text \<open>\<^verbatim>\<open>init\<close> asks for two images; each, when loaded, is counted, and the second one runs
  the update that was missed.\<close>

definition gbfs_init :: "string \<Rightarrow> 'a Gbfs_scheme \<Rightarrow> 'a Gbfs_scheme" where
  "gbfs_init tilesEndpoint s = s\<lparr>gbfs_map := True, gbfs_tilesEndpoint := tilesEndpoint, gbfs_loaded := 0\<rparr>"

definition image_loaded :: "string \<Rightarrow> 'a Gbfs_scheme \<Rightarrow> 'a Gbfs_scheme" where
  "image_loaded icon s =
     (let s1 = map_call (AddImage icon) (s\<lparr>gbfs_loaded := Suc (gbfs_loaded s)\<rparr>)
      in if gbfs_loaded s1 = 2 then
           (case missedUpdate s1 of
              None \<Rightarrow> s1
            | Some opts \<Rightarrow> (updateLayers opts s1)\<lparr>missedUpdate := None\<rparr>)
         else s1)"

definition gbfs_setEnabled :: "bool \<Rightarrow> 'a Gbfs_scheme \<Rightarrow> 'a Gbfs_scheme" where
  "gbfs_setEnabled b s =
     (if gbfs_map s
      then foldl (\<lambda>s l. map_call (SetVisibility l b) s) s [''railviz-base-line'', ''railviz-base-stations'', ''gbfs-stations'']
      else s)\<lparr>gbfs_enabled := b\<rparr>"

section \<open>The layers that are shown\<close>

text \<open>The sources the map has after a list of calls; \<open>None\<close> when one was added twice or a
  missing one removed, which the map refuses.\<close>

fun sources_after :: "string list \<Rightarrow> MapCmd list \<Rightarrow> string list option" where
  "sources_after ss [] = Some ss"
| "sources_after ss (AddSource i v # cs) = (if i \<in> set ss then None else sources_after (ss @ [i]) cs)"
| "sources_after ss (RemoveSource i # cs) = (if i \<in> set ss then sources_after (remove1 i ss) cs else None)"
| "sources_after ss (_ # cs) = sources_after ss cs"

lemma sources_append: "sources_after ss (cs @ ds) = (case sources_after ss cs of None \<Rightarrow> None | Some tt \<Rightarrow> sources_after tt ds)"
  by (induction ss cs rule: sources_after.induct) auto

text \<open>Exactly one source per provider.\<close>

definition providers_shown :: "'a Gbfs_scheme \<Rightarrow> bool" where
  "providers_shown s =
     (distinct (map_keys (gbfsOptions s)) \<and>
      (\<exists>ss. sources_after [] (map_log s) = Some ss \<and> distinct ss \<and>
         filter (\<lambda>i. take 5 i = ''gbfs-'') ss = map gbfs_source_id (map_keys (gbfsOptions s))))"

lemma gbfs_source_id_simps [simp]:
  "take 5 (gbfs_source_id tag) = ''gbfs-''" "gbfs_source_id a = gbfs_source_id b \<longleftrightarrow> a = b"
  by (auto simp: gbfs_source_id_def)

lemma inj_gbfs_source_id: "inj gbfs_source_id"
  by (rule injI) simp

lemma removeAll_as_remove1: "distinct xs \<Longrightarrow> removeAll x xs = remove1 x xs"
  by (simp add: distinct_remove1_removeAll)

lemma remove1_map_inj: "inj f \<Longrightarrow> remove1 (f x) (map f xs) = map f (remove1 x xs)"
  by (induction xs) (auto dest: injD)

lemma remove_provider_shown:
  assumes "providers_shown s" and "tag \<in> set (map_keys (gbfsOptions s))"
  shows "providers_shown (remove_provider s tag)"
proof -
  obtain ss where ss: "sources_after [] (map_log s) = Some ss" "distinct ss"
    "filter (\<lambda>i. take 5 i = ''gbfs-'') ss = map gbfs_source_id (map_keys (gbfsOptions s))"
    using assms(1) by (auto simp: providers_shown_def)
  have d: "distinct (map_keys (gbfsOptions s))" using assms(1) by (simp add: providers_shown_def)
  have "gbfs_source_id tag \<in> set (filter (\<lambda>i. take 5 i = ''gbfs-'') ss)"
    unfolding ss(3) set_map [of gbfs_source_id] using assms(2) by (rule imageI)
  then have "gbfs_source_id tag \<in> set ss" by simp
  moreover have "filter (\<lambda>i. take 5 i = ''gbfs-'') (remove1 (gbfs_source_id tag) ss) =
      map gbfs_source_id (map_keys (map_delete tag (gbfsOptions s)))"
    using d by (simp add: filter_remove1 ss(3) remove1_map_inj inj_gbfs_source_id delete_keys removeAll_as_remove1 del: map_map)
  moreover have "distinct (map_keys (map_delete tag (gbfsOptions s)))" using d by (simp add: delete_keys distinct_removeAll)
  ultimately show ?thesis
    using ss by (simp add: providers_shown_def remove_provider_def sources_append)
qed

lemma add_provider_shown:
  assumes "providers_shown s" and "go_tag opt \<notin> set (map_keys (gbfsOptions s))"
  shows "providers_shown (add_provider s opt)"
proof -
  obtain ss where ss: "sources_after [] (map_log s) = Some ss" "distinct ss"
    "filter (\<lambda>i. take 5 i = ''gbfs-'') ss = map gbfs_source_id (map_keys (gbfsOptions s))"
    using assms(1) by (auto simp: providers_shown_def)
  have "gbfs_source_id (go_tag opt) \<notin> set (filter (\<lambda>i. take 5 i = ''gbfs-'') ss)"
    unfolding ss(3) set_map [of gbfs_source_id] inj_image_mem_iff [OF inj_gbfs_source_id] by (rule assms(2))
  then have "gbfs_source_id (go_tag opt) \<notin> set ss" by simp
  moreover have "map_set (go_tag opt) opt (gbfsOptions s) = gbfsOptions s @ [(go_tag opt, opt)]"
    by (rule map_set_fresh) (rule assms(2))
  ultimately show ?thesis
    using ss assms by (auto simp: providers_shown_def add_provider_def sources_append)
qed

lemma gbfs_fields [simp]:
  "gbfs_map (remove_provider s tag) = gbfs_map s" "gbfs_map (add_provider s opt) = gbfs_map s"
  "gbfsOptions (remove_provider s tag) = map_delete tag (gbfsOptions s)"
  "gbfsOptions (add_provider s opt) = map_set (go_tag opt) opt (gbfsOptions s)"
  "missedUpdate (remove_provider s tag) = missedUpdate s" "missedUpdate (add_provider s opt) = missedUpdate s"
  by (simp_all add: remove_provider_def add_provider_def map_call_def)

lemma foldl_gbfs_fields [simp]:
  "gbfs_map (foldl remove_provider s tags) = gbfs_map s" "gbfs_map (foldl add_provider s opts) = gbfs_map s"
  "gbfsOptions (foldl remove_provider s tags) = foldl (\<lambda>m tag. map_delete tag m) (gbfsOptions s) tags"
  "gbfsOptions (foldl add_provider s opts) = foldl (\<lambda>m opt. map_set (go_tag opt) opt m) (gbfsOptions s) opts"
  "missedUpdate (foldl remove_provider s tags) = missedUpdate s" "missedUpdate (foldl add_provider s opts) = missedUpdate s"
  by (induction tags arbitrary: s) (simp_all, (induction opts arbitrary: s, simp_all)+)

lemma keys_foldl_delete: "set (map_keys (foldl (\<lambda>m tag. map_delete tag m) m tags)) = set (map_keys m) - set tags"
  by (induction tags arbitrary: m) (auto simp: delete_keys simp del: set_map)

lemma keys_foldl_set:
  "set (map_keys (foldl (\<lambda>m opt. map_set (go_tag opt) opt m) m opts)) = set (map_keys m) \<union> go_tag ` set opts"
  by (induction opts arbitrary: m) (auto simp del: set_map)

text \<open>After an update the providers are those of the new options.\<close>

lemma updateLayers_tags:
  assumes "gbfs_map s"
  shows "set (map_keys (gbfsOptions (updateLayers opts s))) = go_tag ` set opts"
  using assms
  by (auto simp: updateLayers_def Let_def keys_foldl_set keys_foldl_delete list_ex_iff map_has_iff simp del: set_map)

lemma updateLayers_shown:
  assumes "providers_shown s" and "gbfs_map s" and "distinct (map go_tag opts)"
  shows "providers_shown (updateLayers opts s)"
proof -
  let ?gone = "filter (\<lambda>tag. \<not> list_ex (\<lambda>opt. go_tag opt = tag) opts) (map_keys (gbfsOptions s))"
  let ?new = "filter (\<lambda>opt. \<not> map_has (gbfsOptions s) (go_tag opt)) opts"
  have removing: "providers_shown (foldl remove_provider t tags)"
    if "providers_shown t" "distinct tags" "set tags \<subseteq> set (map_keys (gbfsOptions t))" for t :: "'a Gbfs_scheme" and tags
    using that
  proof (induction tags arbitrary: t)
    case (Cons tag tags)
    have "set tags \<subseteq> set (map_keys (gbfsOptions (remove_provider t tag)))"
      using Cons.prems by (auto simp: delete_keys simp del: set_map)
    then show ?case using Cons remove_provider_shown [of t tag] by simp
  qed simp
  have adding: "providers_shown (foldl add_provider t os)"
    if "providers_shown t" "distinct (map go_tag os)" "go_tag ` set os \<inter> set (map_keys (gbfsOptions t)) = {}"
    for t :: "'a Gbfs_scheme" and os
    using that
  proof (induction os arbitrary: t)
    case (Cons opt os)
    have "go_tag ` set os \<inter> set (map_keys (gbfsOptions (add_provider t opt))) = {}"
      using Cons.prems by (auto simp: image_iff simp del: set_map) (metis image_eqI set_map)+
    moreover have "go_tag opt \<notin> set (map_keys (gbfsOptions t))" using Cons.prems by auto
    ultimately show ?case using Cons add_provider_shown [of t opt] by simp
  qed simp
  have d: "distinct (map_keys (gbfsOptions s))" using assms(1) by (simp add: providers_shown_def)
  have "providers_shown (foldl remove_provider s ?gone)" by (rule removing) (use assms(1) d in auto)
  moreover have "distinct (map go_tag ?new)" using assms(3) by (simp add: distinct_map_filter)
  moreover have "go_tag ` set ?new \<inter> set (map_keys (gbfsOptions (foldl remove_provider s ?gone))) = {}"
    by (auto simp: keys_foldl_delete map_has_iff simp del: set_map)
  ultimately have "providers_shown (foldl add_provider (foldl remove_provider s ?gone) ?new)" by (rule adding)
  then show ?thesis using assms(2) by (simp add: updateLayers_def Let_def)
qed

text \<open>C29: the map shows one source for every provider of the latest search options and none for
  any other: an update adds and removes exactly the difference, never adds a source twice and never
  removes one that is not there.\<close>

theorem gbfs_layers_match:
  assumes "providers_shown s" and "gbfs_map s" and "distinct (map go_tag opts)"
  shows "providers_shown (updateLayers opts s) \<and> set (map_keys (gbfsOptions (updateLayers opts s))) = go_tag ` set opts"
  using updateLayers_shown [OF assms] updateLayers_tags [OF assms(2)] by simp

definition demo_gbfs :: Gbfs where
  "demo_gbfs = \<lparr>lastCallId = 0, pending = [], sent = [], map_log = [], ports = [], loadingCount = 0, spinner = False,
     gbfs_map = False, gbfs_tilesEndpoint = [], gbfs_enabled = True, gbfsOptions = [], missedUpdate = None, gbfs_loaded = 0\<rparr>"

definition demo_option :: "string \<Rightarrow> GbfsOption" where
  "demo_option tag = \<lparr>go_tag = tag, go_data = JNull\<rparr>"

lemma demo_gbfs_ready: "providers_shown (gbfs_init ''/'' demo_gbfs) \<and> gbfs_map (gbfs_init ''/'' demo_gbfs)"
  by (simp add: providers_shown_def gbfs_init_def demo_gbfs_def)

theorem gbfs_layers_match_witness:
  "set (map_keys (gbfsOptions (updateLayers [demo_option ''b'', demo_option ''c'']
     (updateLayers [demo_option ''a'', demo_option ''b''] (gbfs_init ''/'' demo_gbfs))))) = {''b'', ''c''}"
proof -
  let ?s = "updateLayers [demo_option ''a'', demo_option ''b''] (gbfs_init ''/'' demo_gbfs)"
  have "providers_shown ?s" using demo_gbfs_ready updateLayers_shown [of "gbfs_init ''/'' demo_gbfs"] by (simp add: demo_option_def)
  moreover have "gbfs_map ?s" using demo_gbfs_ready by (simp add: updateLayers_def Let_def)
  ultimately show ?thesis using gbfs_layers_match [of ?s "[demo_option ''b'', demo_option ''c'']"] by (simp add: demo_option_def)
qed

text \<open>Options that arrived before the map win over later ones: when providers \<open>old\<close> come
  before the map is initialised and \<open>new\<close> after that but before both images are loaded, the
  layers end up being those of \<open>old\<close>.\<close>

theorem missed_update_overrides:
  assumes "\<not> gbfs_map s"
  shows "set (map_keys (gbfsOptions (image_loaded ''icon-car'' (image_loaded ''icon-bike''
    (updateLayers new (gbfs_init endpoint (updateLayers old s))))))) = go_tag ` set old"
proof -
  let ?s1 = "gbfs_init endpoint (updateLayers old s)"
  have s1: "gbfs_map ?s1" "missedUpdate ?s1 = Some old" "gbfs_loaded ?s1 = 0"
    using assms by (simp_all add: updateLayers_def gbfs_init_def)
  let ?s2 = "updateLayers new ?s1"
  have loaded: "gbfs_loaded (foldl remove_provider t tags) = gbfs_loaded t" "gbfs_loaded (foldl add_provider t os) = gbfs_loaded t"
    for t :: "'a Gbfs_scheme" and tags os
    by (induction tags arbitrary: t) (simp_all add: remove_provider_def map_call_def,
        (induction os arbitrary: t, simp_all add: add_provider_def map_call_def)+)
  have s2: "gbfs_map ?s2" "missedUpdate ?s2 = Some old" "gbfs_loaded ?s2 = 0"
    using s1 by (simp_all add: updateLayers_def [of new] Let_def loaded)
  let ?s3 = "image_loaded ''icon-bike'' ?s2"
  have s3: "gbfs_map ?s3" "missedUpdate ?s3 = Some old" "gbfs_loaded ?s3 = 1"
    using s2 by (simp_all add: image_loaded_def Let_def map_call_def)
  then show ?thesis
    using updateLayers_tags [of "map_call (AddImage ''icon-car'') (?s3\<lparr>gbfs_loaded := 2\<rparr>)" old]
    by (simp add: image_loaded_def [of "''icon-car''"] Let_def numeral_2_eq_2)
qed

theorem missed_update_overrides_witness:
  "set (map_keys (gbfsOptions (image_loaded ''icon-car'' (image_loaded ''icon-bike''
    (updateLayers [demo_option ''new''] (gbfs_init ''/'' (updateLayers [demo_option ''old''] demo_gbfs))))))) = {''old''}"
  using missed_update_overrides [of demo_gbfs "[demo_option ''new'']" "''/''" "[demo_option ''old'']"]
  by (simp add: demo_gbfs_def demo_option_def)

end
