(* ===== verification/Markers.thy ===== *)
theory Markers
  imports Gbfs_Layer
begin

text \<open>
  The markers of the start and the destination (\<^verbatim>\<open>markers.js\<close>). A marker is the mapbox
  object: where it is, its title, its image and whether it is on the map.
\<close>

record Marker =
  mk_pos :: "rat \<times> rat"
  mk_title :: string
  mk_img :: string
  mk_shown :: bool

text \<open>Positions are \<open>(lat, lng)\<close>; a name that is not given prints as \<^verbatim>\<open>null\<close>.\<close>

record MarkerSettings =
  startPosition :: "(rat \<times> rat) option"
  destinationPosition :: "(rat \<times> rat) option"
  startName :: "string option"
  destinationName :: "string option"

record MarkersState = Gbfs +
  markerSettings :: MarkerSettings
  startText :: string
  destinationText :: string
  startMarker :: "Marker option"
  destinationMarker :: "Marker option"
  markers_visible :: bool

definition marker_title :: "string \<Rightarrow> string option \<Rightarrow> string" where
  "marker_title txt name = txt @ '': '' @ (case name of None \<Rightarrow> ''null'' | Some n \<Rightarrow> n)"

definition updateMarker ::
  "Marker option \<Rightarrow> (rat \<times> rat) option \<Rightarrow> string \<Rightarrow> string option \<Rightarrow> string \<Rightarrow> bool \<Rightarrow> Marker option" where
  "updateMarker m pos txt name img visible =
     (case m of
        Some k \<Rightarrow>
          (case pos of
             None \<Rightarrow> None
           | Some p \<Rightarrow>
               if \<not> visible then None
               else Some (k\<lparr>mk_pos := (snd p, fst p), mk_title := marker_title txt name\<rparr>))
      | None \<Rightarrow>
          map_option (\<lambda>p. \<lparr>mk_pos = (snd p, fst p), mk_title = marker_title txt name, mk_img = img, mk_shown = visible\<rparr>) pos)"

definition updateMarkers :: "'a MarkersState_scheme \<Rightarrow> 'a MarkersState_scheme" where
  "updateMarkers s =
     s\<lparr>startMarker := updateMarker (startMarker s) (startPosition (markerSettings s)) (startText s)
         (startName (markerSettings s)) ''url(img/marker_origin.png)'' (markers_visible s),
       destinationMarker := updateMarker (destinationMarker s) (destinationPosition (markerSettings s)) (destinationText s)
         (destinationName (markerSettings s)) ''url(img/marker_destination.png)'' (markers_visible s)\<rparr>"

definition setMarkers :: "MarkerSettings \<Rightarrow> 'a MarkersState_scheme \<Rightarrow> 'a MarkersState_scheme" where
  "setMarkers settings s = updateMarkers (s\<lparr>markerSettings := settings\<rparr>)"

definition setLocale :: "string \<Rightarrow> string \<Rightarrow> 'a MarkersState_scheme \<Rightarrow> 'a MarkersState_scheme" where
  "setLocale st dt s =
     (let s1 = updateMarkers (s\<lparr>startText := st, destinationText := dt\<rparr>)
      in s1\<lparr>startMarker := map_option (\<lambda>m. m\<lparr>mk_title := startText s1\<rparr>) (startMarker s1),
            destinationMarker := map_option (\<lambda>m. m\<lparr>mk_title := destinationText s1\<rparr>) (destinationMarker s1)\<rparr>)"

definition put_on_map :: "bool \<Rightarrow> Marker option \<Rightarrow> Marker option" where
  "put_on_map b m = map_option (\<lambda>k. k\<lparr>mk_shown := b\<rparr>) m"

definition markers_show :: "'a MarkersState_scheme \<Rightarrow> 'a MarkersState_scheme" where
  "markers_show s =
     (if markers_visible s then s
      else s\<lparr>markers_visible := True, startMarker := put_on_map True (startMarker s),
             destinationMarker := put_on_map True (destinationMarker s)\<rparr>)"

definition markers_hide :: "'a MarkersState_scheme \<Rightarrow> 'a MarkersState_scheme" where
  "markers_hide s =
     (if \<not> markers_visible s then s
      else s\<lparr>markers_visible := False, startMarker := put_on_map False (startMarker s),
             destinationMarker := put_on_map False (destinationMarker s)\<rparr>)"

section \<open>What is shown\<close>

text \<open>While markers are visible, the settings' positions have markers, on the map and in place, and no
  others exist; while they are hidden no marker is on the map.\<close>

definition marker_ok :: "bool \<Rightarrow> (rat \<times> rat) option \<Rightarrow> Marker option \<Rightarrow> bool" where
  "marker_ok visible pos m =
     (if visible then map_option mk_pos m = map_option (\<lambda>p. (snd p, fst p)) pos \<and> pred_option mk_shown m
      else pred_option (\<lambda>k. \<not> mk_shown k) m)"

definition markers_ok :: "'a MarkersState_scheme \<Rightarrow> bool" where
  "markers_ok s =
     (marker_ok (markers_visible s) (startPosition (markerSettings s)) (startMarker s) \<and>
      marker_ok (markers_visible s) (destinationPosition (markerSettings s)) (destinationMarker s))"

lemma updateMarker_ok:
  "pred_option (\<lambda>k. mk_shown k = visible) m \<Longrightarrow> marker_ok visible pos (updateMarker m pos txt name img visible)"
  by (cases m; cases pos) (auto simp: marker_ok_def updateMarker_def)

lemma marker_ok_shown: "marker_ok visible pos m \<Longrightarrow> pred_option (\<lambda>k. mk_shown k = visible) m"
  by (auto simp: marker_ok_def split: if_splits)

lemma updateMarkers_ok:
  assumes "markers_visible s = markers_visible s'" "startMarker s = startMarker s'" "destinationMarker s = destinationMarker s'"
    and "markers_ok s'"
  shows "markers_ok (updateMarkers s)"
  using assms by (auto simp: markers_ok_def updateMarkers_def intro!: updateMarker_ok dest!: marker_ok_shown)

datatype MarkerEvent = SetMarkers MarkerSettings | SetLocale string string

fun marker_event :: "'a MarkersState_scheme \<Rightarrow> MarkerEvent \<Rightarrow> 'a MarkersState_scheme" where
  "marker_event s (SetMarkers m) = setMarkers m s"
| "marker_event s (SetLocale st dt) = setLocale st dt s"

text \<open>C30: while the markers are not hidden, every run of settings and locale changes keeps one marker on
  the map at each given position and no other.\<close>

theorem markers_follow_settings:
  assumes "markers_ok s" and "markers_visible s"
  shows "markers_ok (foldl marker_event s evs) \<and> markers_visible (foldl marker_event s evs)"
  using assms
proof (induction evs arbitrary: s)
  case (Cons e evs)
  have vis: "markers_visible (marker_event s e)"
    using Cons.prems by (cases e) (simp_all add: setMarkers_def setLocale_def updateMarkers_def Let_def)
  have upd: "markers_ok (updateMarkers t)"
    if "markers_visible t = markers_visible s" "startMarker t = startMarker s" "destinationMarker t = destinationMarker s" for t :: "'a MarkersState_scheme"
    using updateMarkers_ok that Cons.prems(1) by blast
  have "markers_ok (marker_event s e)"
  proof (cases e)
    case (SetMarkers m)
    then show ?thesis using upd by (simp add: setMarkers_def)
  next
    case (SetLocale st dt)
    have title: "marker_ok v p (map_option (\<lambda>m. m\<lparr>mk_title := x\<rparr>) m) = marker_ok v p m" for v p m x
      by (cases m) (auto simp: marker_ok_def)
    let ?s = "updateMarkers (s\<lparr>startText := st, destinationText := dt\<rparr>)"
    have "markers_ok ?s" by (rule upd) simp_all
    then show ?thesis using SetLocale by (simp add: setLocale_def Let_def markers_ok_def title)
  qed
  with vis Cons.IH [of "marker_event s e"] show ?case by simp
qed simp

definition demo_markers :: MarkersState where
  "demo_markers = Gbfs.extend demo_gbfs
     \<lparr>markerSettings = \<lparr>startPosition = None, destinationPosition = None, startName = None, destinationName = None\<rparr>,
      startText = [], destinationText = [], startMarker = None, destinationMarker = None, markers_visible = True\<rparr>"

definition demo_settings :: MarkerSettings where
  "demo_settings = \<lparr>startPosition = Some (49, 8), destinationPosition = None, startName = Some ''here'', destinationName = None\<rparr>"

theorem markers_follow_settings_witness:
  "markers_ok (foldl marker_event demo_markers [SetMarkers demo_settings, SetLocale ''a'' ''b''])"
proof -
  have "markers_ok demo_markers \<and> markers_visible demo_markers"
    by (simp add: demo_markers_def markers_ok_def marker_ok_def Gbfs.extend_def)
  then show ?thesis by (intro markers_follow_settings [THEN conjunct1]) simp_all
qed

text \<open>Markers that are updated while hidden are lost: when a position has a marker, and its settings
  are set again while the markers are hidden, showing them again shows no marker there.\<close>

theorem hidden_marker_lost:
  assumes "markers_visible s" and "startMarker s = Some m"
  shows "startMarker (markers_show (setMarkers settings (markers_hide s))) = None"
  using assms
  by (simp add: markers_hide_def setMarkers_def updateMarkers_def updateMarker_def markers_show_def put_on_map_def
      split: option.splits)

theorem hidden_marker_lost_witness:
  "startMarker (markers_show (setMarkers demo_settings (markers_hide (setMarkers demo_settings demo_markers)))) = None"
proof -
  let ?s = "setMarkers demo_settings demo_markers"
  have "markers_visible ?s" "startMarker ?s = Some (the (startMarker ?s))"
    by (simp_all add: setMarkers_def updateMarkers_def updateMarker_def demo_markers_def demo_settings_def Gbfs.extend_def)
  then show ?thesis by (rule hidden_marker_lost)
qed

end
