(* ===== verification/Path_Layers.thy ===== *)
theory Path_Layers
  imports Markers
begin

text \<open>
  The line layers of the map: the prerendered base layer (\<^verbatim>\<open>path_base.js\<close>), the extra
  paths of the shown trains (\<^verbatim>\<open>path_extra.js\<close>) and the layer of one journey
  (\<^verbatim>\<open>path_detail.js\<close>). The journey filter and its trips are the objects of
  \<^verbatim>\<open>main.js\<close>, which these functions also change; they are fields of the state.
\<close>

section \<open>State\<close>

record ConnSection =
  sec_from :: MapStation
  sec_to :: MapStation

record ConnTrain =
  ct_sections :: "ConnSection list"
  ct_trip :: jsval

record DetailFilter =
  df_trains :: "ConnTrain list"
  df_walks :: "Walk list"
  df_interchange :: "MapStation list"

text \<open>The trips of a journey (with the number of the call that fetched them), with what \<^verbatim>\<open>setData\<close> writes on the trains (highlight) and
  on the polylines (smallest class, highlight).\<close>

record DetailTrips =
  dt_call :: nat
  dt_data :: TrainData
  dt_highlight :: "bool list"
  dt_clasz :: "int option list"
  dt_marked :: "bool list"

definition detail_trips :: "nat \<Rightarrow> TrainData \<Rightarrow> DetailTrips" where
  "detail_trips callId d =
     \<lparr>dt_call = callId, dt_data = d, dt_highlight = replicate (length (td_trains d)) False,
      dt_clasz = replicate (length (td_polylines d)) None, dt_marked = replicate (length (td_polylines d)) False\<rparr>"

record PathLayers = MarkersState +
  base_map :: bool
  base_enabled :: bool
  extra_map :: bool
  extra_data :: "Feature list option"
  extra_enabled :: bool
  detail_map :: bool
  detail_data :: "Feature list option"
  detail_enabled :: bool
  detailFilter :: "DetailFilter option"
  detailTrips :: "DetailTrips option"

section \<open>Base layer\<close>

definition base_setEnabled :: "bool \<Rightarrow> 'a PathLayers_scheme \<Rightarrow> 'a PathLayers_scheme" where
  "base_setEnabled b s =
     (if base_map s
      then map_call (SetVisibility ''railviz-base-stations'' b) (map_call (SetVisibility ''railviz-base-line'' b) s)
      else s)\<lparr>base_enabled := b\<rparr>"

definition base_source :: "string \<Rightarrow> jsval" where
  "base_source tilesEndpoint = JObj
     [(''type'', JStr ''vector''),
      (''tiles'', JArr [JStr (tilesEndpoint @ ''path/tiles/{z}/{x}/{y}.mvt'')]),
      (''maxzoom'', lit 20)]"

definition base_line_layer :: jsval where
  "base_line_layer = JObj
     [(''id'', JStr ''railviz-base-line''), (''type'', JStr ''line''), (''source'', JStr ''railviz-base''),
      (''source-layer'', JStr ''path''),
      (''layout'', JObj
        [(''line-join'', JStr ''round''), (''line-cap'', JStr ''round''),
         (''line-sort-key'', expr ''*'' [expr ''-'' [get_prop ''min_class''],
            expr ''case'' [get_prop ''stub'', lit 1, lit 2]])]),
      (''paint'', JObj [(''line-color'', lineColor), (''line-width'', lineWidth)])]"

definition base_stations_layer :: jsval where
  "base_stations_layer = JObj
     [(''id'', JStr ''railviz-base-stations''), (''type'', JStr ''circle''), (''source'', JStr ''railviz-base''),
      (''source-layer'', JStr ''station''),
      (''paint'', JObj
        [(''circle-color'', JStr ''white''), (''circle-radius'', stationCircleRadius),
         (''circle-stroke-color'', JStr ''#666666''), (''circle-stroke-width'', stationCircleWidth),
         (''circle-pitch-alignment'', JStr ''map'')])]"

definition base_init :: "string \<Rightarrow> 'a PathLayers_scheme \<Rightarrow> 'a PathLayers_scheme" where
  "base_init tilesEndpoint s =
     (let s1 = map_call (AddSource ''railviz-base'' (base_source tilesEndpoint)) (s\<lparr>base_map := True\<rparr>);
          s2 = map_call (AddLayer base_stations_layer None) (map_call (AddLayer base_line_layer None) s1)
      in base_setEnabled (base_enabled s2) s2)"

text \<open>A GeoJSON source without features.\<close>

definition empty_source :: "(string \<times> jsval) list \<Rightarrow> jsval" where
  "empty_source extra = JObj
     ([(''type'', JStr ''geojson'')] @ extra @
      [(''data'', JObj [(''type'', JStr ''FeatureCollection''), (''features'', JArr [])])])"

definition round_line :: "(string \<times> jsval) list \<Rightarrow> jsval" where
  "round_line extra = JObj ([(''line-join'', JStr ''round''), (''line-cap'', JStr ''round'')] @ extra)"

definition give_data :: "string \<Rightarrow> Feature list option \<Rightarrow> 'a Shell_scheme \<Rightarrow> 'a Shell_scheme" where
  "give_data src d s = (case d of None \<Rightarrow> s | Some fs \<Rightarrow> map_call (SetData src fs) s)"

section \<open>Extra paths\<close>

definition extra_setEnabled :: "bool \<Rightarrow> 'a PathLayers_scheme \<Rightarrow> 'a PathLayers_scheme" where
  "extra_setEnabled b s =
     (if extra_map s then map_call (SetVisibility ''railviz-extra-line'' b) s else s)\<lparr>extra_enabled := b\<rparr>"

definition extra_line_layer :: jsval where
  "extra_line_layer = JObj
     [(''id'', JStr ''railviz-extra-line''), (''type'', JStr ''line''), (''source'', JStr ''railviz-extra''),
      (''layout'', round_line []),
      (''paint'', JObj [(''line-color'', lineColor), (''line-width'', lineWidth)])]"

definition extra_init :: "string option \<Rightarrow> 'a PathLayers_scheme \<Rightarrow> 'a PathLayers_scheme" where
  "extra_init beforeId s =
     (let s1 = map_call (AddSource ''railviz-extra'' (empty_source [(''promoteId'', JStr ''id'')])) (s\<lparr>extra_map := True\<rparr>);
          s2 = map_call (AddLayer extra_line_layer beforeId) (give_data ''railviz-extra'' (extra_data s1) s1)
      in extra_setEnabled (extra_enabled s2) s2)"

definition line_of :: "Polyline option list \<Rightarrow> nat \<Rightarrow> point list option" where
  "line_of pls i = (case elem pls (int i) of None \<Rightarrow> None | Some p \<Rightarrow> map_option coordinates p)"

definition extra_push :: "TrainData \<Rightarrow> nat \<Rightarrow> 'a PathLayers_scheme \<Rightarrow> 'a PathLayers_scheme exec" where
  "extra_push d e s =
     (case line_of (td_polylines d) e of
        None \<Rightarrow> Thrown s
      | Some cs \<Rightarrow> Done (s\<lparr>extra_data := map_option (\<lambda>fs. fs @ [ExtraLine (flipped cs)]) (extra_data s)\<rparr>))"

definition extra_setData :: "TrainData option \<Rightarrow> 'a PathLayers_scheme \<Rightarrow> 'a PathLayers_scheme exec" where
  "extra_setData newData s =
     (case newData of
        None \<Rightarrow> Done s
      | Some d \<Rightarrow>
          after (forX (extra_push d) (td_extras d) (s\<lparr>extra_data := Some []\<rparr>)) (\<lambda>s.
            Done (if extra_map s then give_data ''railviz-extra'' (extra_data s) s else s)))"

section \<open>Journey layer\<close>

definition hslValues :: "(int \<times> int \<times> int) list" where
  "hslValues =
     [(200, 16, 62), (291, 64, 42), (340, 82, 52), (88, 50, 60), (235, 66, 30), (4, 90, 58), (4, 90, 58),
      (122, 39, 49), (231, 48, 48), (36, 100, 50), (36, 100, 50), (187, 100, 38), (0, 0, 62)]"

text \<open>\<^verbatim>\<open>Math.round\<close> rounds halves up; \<open>show_int\<close> prints a number.\<close>

definition math_round :: "rat \<Rightarrow> int" where
  "math_round x = \<lfloor>x + 1 / 2\<rfloor>"

definition hsl :: "(int \<Rightarrow> string) \<Rightarrow> int \<Rightarrow> int \<Rightarrow> int \<Rightarrow> jsval" where
  "hsl show_int h s l =
     JStr (''hsl('' @ show_int h @ '', '' @ show_int s @ ''%, '' @ show_int l @ ''%)'')"

definition colors :: "(int \<Rightarrow> string) \<Rightarrow> jsval list" where
  "colors show_int = concat (map (\<lambda>(i, h, s, l). [JInt (int i), hsl show_int h s l]) (enumerate 0 hslValues))"

definition mutedColors :: "(int \<Rightarrow> string) \<Rightarrow> jsval list" where
  "mutedColors show_int =
     concat (map (\<lambda>(i, h, s, l).
       [JInt (int i), hsl show_int h (math_round (of_int s * 66 / 100)) (math_round (of_int l * 133 / 100))])
       (enumerate 0 hslValues))"

definition detail_setEnabled :: "bool \<Rightarrow> 'a PathLayers_scheme \<Rightarrow> 'a PathLayers_scheme" where
  "detail_setEnabled b s =
     (if detail_map s
      then map_call (SetVisibility ''railviz-detail-stations'' b) (map_call (SetVisibility ''railviz-detail-line'' b) s)
      else s)\<lparr>detail_enabled := b\<rparr>"

definition detail_line_layer :: "(int \<Rightarrow> string) \<Rightarrow> jsval" where
  "detail_line_layer show_int = JObj
     [(''id'', JStr ''railviz-detail-line''), (''type'', JStr ''line''), (''source'', JStr ''railviz-detail''),
      (''layout'', round_line [(''line-sort-key'', expr ''case'' [get_prop ''highlight'', lit 1, lit 0])]),
      (''paint'', JObj
        [(''line-color'', expr ''case''
            [get_prop ''highlight'',
             expr ''match'' (get_prop ''clasz'' # colors show_int @ [JStr ''#222222'']),
             expr ''match'' (get_prop ''clasz'' # mutedColors show_int @ [JStr ''#222222''])]),
         (''line-width'', expr ''case'' [get_prop ''highlight'', lit (41 / 10), lit (26 / 10)])]),
      (''filter'', expr ''=='' [JStr ''$type'', JStr ''LineString''])]"

definition detail_stations_layer :: jsval where
  "detail_stations_layer = JObj
     [(''id'', JStr ''railviz-detail-stations''), (''type'', JStr ''circle''), (''source'', JStr ''railviz-detail''),
      (''paint'', JObj
        [(''circle-color'', JStr ''white''),
         (''circle-radius'', expr ''case'' [get_prop ''important'', lit (35 / 10), lit (225 / 100)]),
         (''circle-stroke-color'', JStr ''#333333''), (''circle-stroke-width'', lit 2)]),
      (''filter'', expr ''=='' [JStr ''$type'', JStr ''Point''])]"

definition detail_init :: "(int \<Rightarrow> string) \<Rightarrow> string option \<Rightarrow> 'a PathLayers_scheme \<Rightarrow> 'a PathLayers_scheme" where
  "detail_init show_int beforeId s =
     (let s1 = map_call (AddSource ''railviz-detail'' (empty_source [])) (s\<lparr>detail_map := True\<rparr>);
          s2 = map_call (AddLayer (detail_line_layer show_int) beforeId) (give_data ''railviz-detail'' (detail_data s1) s1);
          s3 = map_call (AddLayer detail_stations_layer beforeId) s2
      in detail_setEnabled (detail_enabled s3) s3)"

subsection \<open>Highlighting\<close>

definition section_matches :: "Train \<Rightarrow> ConnSection \<Rightarrow> bool" where
  "section_matches t sec = (ms_id (sec_from sec) = d_station_id t \<and> ms_id (sec_to sec) = a_station_id t)"

definition train_highlighted :: "DetailFilter \<Rightarrow> Train \<Rightarrow> bool" where
  "train_highlighted f t =
     list_ex (\<lambda>this_trp.
       list_ex (\<lambda>ft. deepEqual (ct_trip ft) this_trp \<and> list_ex (section_matches t) (ct_sections ft)) (df_trains f))
       (trip t)"

text \<open>\<^verbatim>\<open>Math.min(p.polyline.clasz || 12, t.clasz)\<close>.\<close>

definition min_clasz :: "int option \<Rightarrow> int \<Rightarrow> int" where
  "min_clasz old c = min (case old of None \<Rightarrow> 12 | Some k \<Rightarrow> if k = 0 then 12 else k) c"

definition mark_polyline :: "bool \<Rightarrow> int \<Rightarrow> DetailTrips \<Rightarrow> int \<Rightarrow> DetailTrips" where
  "mark_polyline hl c d i =
     (let k = nat \<bar>i\<bar>
      in d\<lparr>dt_clasz := (dt_clasz d)[k := Some (min_clasz (dt_clasz d ! k) c)],
           dt_marked := (dt_marked d)[k := dt_marked d ! k \<or> hl]\<rparr>)"

definition mark_train :: "DetailFilter \<Rightarrow> DetailTrips \<Rightarrow> nat \<times> Train \<Rightarrow> DetailTrips" where
  "mark_train f d e =
     (let (k, t) = e; hl = train_highlighted f t
      in foldl (mark_polyline hl (clasz t)) (d\<lparr>dt_highlight := (dt_highlight d)[k := hl]\<rparr>) (tr_indices t))"

definition mark_trains :: "DetailFilter \<Rightarrow> DetailTrips \<Rightarrow> DetailTrips" where
  "mark_trains f d = foldl (mark_train f) d (enumerate 0 (td_trains (dt_data d)))"

subsection \<open>Walks\<close>

definition firstCoordinate :: "Train \<Rightarrow> point option" where
  "firstCoordinate t =
     (case polylines t of
        [] \<Rightarrow> None
      | p # _ \<Rightarrow>
          (case pr_polyline p of
             None \<Rightarrow> None
           | Some pl \<Rightarrow> elem (coordinates pl) (if pr_fwd p then 0 else int (length (coordinates pl)) - 1)))"

definition lastCoordinate :: "Train \<Rightarrow> point option" where
  "lastCoordinate t =
     (if polylines t = [] then None
      else
        (let p = last (polylines t)
         in case pr_polyline p of
              None \<Rightarrow> None
            | Some pl \<Rightarrow> elem (coordinates pl) (if pr_fwd p then int (length (coordinates pl)) - 1 else 0)))"

definition highlighted_trains :: "DetailTrips \<Rightarrow> Train list" where
  "highlighted_trains d = map snd (filter (\<lambda>(hl, t). hl) (zip (dt_highlight d) (td_trains (dt_data d))))"

definition put_front :: "point \<Rightarrow> rat list \<Rightarrow> rat list" where
  "put_front ll wp = (if elem wp 0 \<noteq> Some (fst ll) \<or> elem wp 1 \<noteq> Some (snd ll) then fst ll # snd ll # wp else wp)"

definition put_back :: "point \<Rightarrow> rat list \<Rightarrow> rat list" where
  "put_back ll wp =
     (if elem wp (int (length wp) - 2) \<noteq> Some (fst ll) \<or> elem wp (int (length wp) - 1) \<noteq> Some (snd ll)
      then wp @ [fst ll, snd ll] else wp)"

text \<open>The path is changed in place: it is returned with the coordinates, or with \<open>None\<close> when reading
  a train's coordinates throws.\<close>

definition loadAdjustedWalk :: "Walk \<Rightarrow> rat list \<Rightarrow> DetailTrips \<Rightarrow> rat list \<times> point list option" where
  "loadAdjustedWalk walk wp trips =
     (case those (map lastCoordinate (filter (\<lambda>t. a_station_id t = ms_id (w_from walk)) (highlighted_trains trips))) of
        None \<Rightarrow> (wp, None)
      | Some arrivals \<Rightarrow>
          (let wp1 = (case arrivals of [ll] \<Rightarrow> put_front ll wp | _ \<Rightarrow> wp)
           in case those (map firstCoordinate (filter (\<lambda>t. d_station_id t = ms_id (w_to walk)) (highlighted_trains trips))) of
                None \<Rightarrow> (wp1, None)
              | Some departures \<Rightarrow>
                  (let wp2 = (case departures of [ll] \<Rightarrow> put_back ll wp1 | _ \<Rightarrow> wp1)
                   in (wp2, Some (doublesToLngLats wp2)))))"

subsection \<open>Features\<close>

definition push_detail :: "Feature list \<Rightarrow> 'a PathLayers_scheme \<Rightarrow> 'a PathLayers_scheme" where
  "push_detail fs s = s\<lparr>detail_data := map_option (\<lambda>gs. gs @ fs) (detail_data s)\<rparr>"

definition detail_lines :: "DetailTrips \<Rightarrow> Feature list" where
  "detail_lines d =
     concat (map (\<lambda>(k, p). case p of
         None \<Rightarrow> []
       | Some pl \<Rightarrow> [DetailLine (dt_marked d ! k) (dt_clasz d ! k) (flipped (coordinates pl))])
       (enumerate 0 (td_polylines (dt_data d))))"

definition detail_station :: "Station \<Rightarrow> Feature" where
  "detail_station s = DetailPoint (st_id s) (st_name s) False (st_lng s, st_lat s)"

definition detail_interchange :: "MapStation \<Rightarrow> Feature" where
  "detail_interchange s = DetailPoint (ms_id s) (ms_name s) True (ms_lng s, ms_lat s)"

definition set_walk_path :: "nat \<Rightarrow> rat list \<Rightarrow> 'a PathLayers_scheme \<Rightarrow> 'a PathLayers_scheme" where
  "set_walk_path k wp s =
     s\<lparr>detailFilter := map_option (\<lambda>f. f\<lparr>df_walks := (df_walks f)[k := (df_walks f ! k)\<lparr>w_polyline := Some wp\<rparr>]\<rparr>) (detailFilter s)\<rparr>"

definition detail_walk :: "DetailTrips \<Rightarrow> nat \<times> Walk \<Rightarrow> 'a PathLayers_scheme \<Rightarrow> 'a PathLayers_scheme exec" where
  "detail_walk trips e s =
     (let (k, walk) = e in
      case w_polyline walk of
        None \<Rightarrow> Done s
      | Some wp \<Rightarrow>
          (let (wp', coords) = loadAdjustedWalk walk wp trips; s1 = set_walk_path k wp' s
           in case coords of
                None \<Rightarrow> Thrown s1
              | Some cs \<Rightarrow> Done (if cs = [] then s1 else push_detail [DetailWalk cs] s1)))"

definition detail_setData :: "'a PathLayers_scheme \<Rightarrow> 'a PathLayers_scheme exec" where
  "detail_setData s =
     (case (detailFilter s, detailTrips s) of
        (Some f, Some d) \<Rightarrow>
          (let d1 = mark_trains f d;
               s1 = s\<lparr>detailTrips := Some d1,
                      detail_data := Some (detail_lines d1 @ map detail_station (td_stations (dt_data d1)))\<rparr>
           in after (forX (detail_walk d1) (enumerate 0 (df_walks f)) s1) (\<lambda>s.
                let s2 = push_detail (map detail_interchange (df_interchange f)) s
                in Done (if detail_map s2 then give_data ''railviz-detail'' (detail_data s2) s2 else s2)))
      | _ \<Rightarrow> Done s)"

end
