(* ===== verification/Path_Connections.thy ===== *)
theory Path_Connections
  imports Path_Layers
begin

text \<open>
  The layer of all connections of a search result (\<^verbatim>\<open>path_connections.js\<close>). The
  connections and the walk entries of the connection manager are shared objects that both modules
  hold references to: they live in two heaps, and a reference is an index. The trips a layer was
  given are not changed afterwards and are kept by value.
\<close>

section \<open>Shared objects\<close>

record Connection =
  c_id :: int
  c_trains :: "ConnTrain list"
  c_walks :: "Walk list"
  c_resolved :: "Train list option"

text \<open>The path of a walk entry: the object a router answers with, or the array a walk of the user
  interface carries.\<close>

datatype WalkPath = PathObject "rat list" | PathArray "rat list"

datatype RouterType = Osrm | Ppr

record WalkEntry =
  we_id :: nat
  we_walk :: Walk
  we_connectionIds :: "int list"
  we_polyline :: "WalkPath option"
  we_error :: bool
  we_minCId :: "int option"
  we_routerType :: "RouterType option"
  we_route :: jsval

record TripTrain =
  tt_train :: Train
  tt_connectionIds :: "int list"

record TripPolyline =
  tp_line :: "Polyline option"
  tp_trains :: "TripTrain list option"
  tp_minCId :: "int option"

text \<open>The trips as they arrive, and after they were matched to the connections; the latter with the
  number of the call they answer, which tells one response object from another.\<close>

datatype TripsData = RawTrips RawData | MatchedTrips nat "TripPolyline list" "TripTrain list"

fun trip_polylines :: "TripsData \<Rightarrow> TripPolyline list" where
  "trip_polylines (RawTrips d) = map (\<lambda>_. \<lparr>tp_line = None, tp_trains = None, tp_minCId = None\<rparr>) (rd_polylines d)"
| "trip_polylines (MatchedTrips i ps ts) = ps"

record PathConnections = PathLayers +
  connection_heap :: "Connection list"
  walk_heap :: "WalkEntry list"
  conn_map :: bool
  conn_data :: "Feature list option"
  conn_enabled :: bool
  pc_connections :: "nat list option"
  pc_tripData :: "TripsData option"
  pc_walkData :: "nat list option"

section \<open>Connection ids\<close>

text \<open>\<^verbatim>\<open>cIdCombine\<close> of \<^verbatim>\<open>connectionmgr.js\<close>; \<open>None\<close> is \<^verbatim>\<open>undefined\<close>,
  for which both comparisons are false.\<close>

definition negative :: "int option \<Rightarrow> bool" where
  "negative a = (case a of None \<Rightarrow> False | Some x \<Rightarrow> x < 0)"

definition cIdCombine :: "int option \<Rightarrow> int option \<Rightarrow> int option" where
  "cIdCombine a b =
     (if negative a \<and> negative b then Some (max (the a) (the b))
      else if a = None \<or> negative a then b
      else if b = None \<or> negative b then a
      else Some (min (the a) (the b)))"

text \<open>\<^verbatim>\<open>ids.reduce(cIdCombine)\<close> on a list that is not empty.\<close>

definition reduce_ids :: "int list \<Rightarrow> int option" where
  "reduce_ids ids = (case ids of [] \<Rightarrow> None | i # is \<Rightarrow> foldl (\<lambda>a b. cIdCombine a (Some b)) (Some i) is)"

definition connection_colors :: "string list" where
  "connection_colors =
     [''#1f78b4'', ''#33a02c'', ''#e31a1c'', ''#ff7f00'', ''#6a3d9a'', ''#b15928'',
      ''#a6cee3'', ''#b2df8a'', ''#fb9a99'', ''#fdbf6f'', ''#cab2d6'', ''#ffff99'']"

text \<open>\<^verbatim>\<open>%\<close> takes the sign of its left operand.\<close>

definition js_rem :: "int \<Rightarrow> int \<Rightarrow> int" where
  "js_rem a b = sgn a * (\<bar>a\<bar> mod \<bar>b\<bar>)"

definition minCIdToColor :: "int \<Rightarrow> string option" where
  "minCIdToColor minCId =
     (let c = js_rem minCId (int (length connection_colors))
      in elem connection_colors (if c < 0 then int (length connection_colors) + c else c))"

section \<open>Setting up and enabling the layer\<close>

definition conn_setEnabled :: "bool \<Rightarrow> 'a PathConnections_scheme \<Rightarrow> 'a PathConnections_scheme" where
  "conn_setEnabled b s =
     (if conn_map s then map_call (SetVisibility ''railviz-connections-line'' b) s else s)\<lparr>conn_enabled := b\<rparr>"

definition conn_line_layer :: jsval where
  "conn_line_layer = JObj
     [(''id'', JStr ''railviz-connections-line''), (''type'', JStr ''line''), (''source'', JStr ''railviz-connections''),
      (''layout'', round_line [(''line-sort-key'', get_prop ''sortKey'')]),
      (''paint'', JObj
        [(''line-color'', expr ''string'' [expr ''feature-state'' [JStr ''color''], get_prop ''color'']),
         (''line-width'', expr ''case''
            [expr ''boolean'' [expr ''feature-state'' [JStr ''highlight''], JBool False], lit 10, lit 5])])]"

definition conn_init :: "string option \<Rightarrow> 'a PathConnections_scheme \<Rightarrow> 'a PathConnections_scheme" where
  "conn_init beforeId s =
     (let s1 = map_call (AddSource ''railviz-connections'' (empty_source [(''promoteId'', JStr ''id'')])) (s\<lparr>conn_map := True\<rparr>);
          s2 = map_call (AddLayer conn_line_layer beforeId) (give_data ''railviz-connections'' (conn_data s1) s1)
      in conn_setEnabled (conn_enabled s2) s2)"

section \<open>Data\<close>

definition walk_base :: int where
  "walk_base = 10 ^ 9"

definition sort_key :: "int \<Rightarrow> int" where
  "sort_key minCId = (if minCId > 0 then - minCId else minCId + walk_base)"

definition conn_feature :: "int \<Rightarrow> bool \<Rightarrow> int option \<Rightarrow> point list \<Rightarrow> Feature" where
  "conn_feature i is_trip minCId cs =
     (let m = (case minCId of None \<Rightarrow> 0 | Some m \<Rightarrow> m) in
      ConnectionFeature \<lparr>cf_id = i, cf_trip = is_trip, cf_sortKey = sort_key m,
        cf_color = (case minCIdToColor m of None \<Rightarrow> [] | Some c \<Rightarrow> c), cf_coords = cs\<rparr>)"

definition push_conn :: "Feature \<Rightarrow> 'a PathConnections_scheme \<Rightarrow> 'a PathConnections_scheme" where
  "push_conn f s = s\<lparr>conn_data := map_option (\<lambda>fs. fs @ [f]) (conn_data s)\<rparr>"

definition push_trip :: "nat \<times> TripPolyline \<Rightarrow> 'a PathConnections_scheme \<Rightarrow> 'a PathConnections_scheme exec" where
  "push_trip e s =
     (let (i, p) = e in
      if tp_trains p = None then Done s
      else
        (case tp_line p of
           None \<Rightarrow> Thrown s
         | Some pl \<Rightarrow> Done (push_conn (conn_feature (int i) True (tp_minCId p) (flipped (coordinates pl))) s)))"

definition push_walk :: "nat \<Rightarrow> 'a PathConnections_scheme \<Rightarrow> 'a PathConnections_scheme exec" where
  "push_walk a s =
     (let w = walk_heap s ! a in
      if we_error w then Done s
      else
        (case we_polyline w of
           None \<Rightarrow> Done s
         | Some (PathArray xs) \<Rightarrow> Thrown s
         | Some (PathObject xs) \<Rightarrow>
             (let coords = doublesToLngLats xs
              in Done (if coords = [] then s
                       else push_conn (conn_feature (walk_base + int (we_id w)) False (we_minCId w) coords) s))))"

definition conn_setData :: "nat list \<Rightarrow> TripsData option \<Rightarrow> nat list \<Rightarrow> 'a PathConnections_scheme \<Rightarrow> 'a PathConnections_scheme exec" where
  "conn_setData cs td ws s =
     (let s1 = s\<lparr>conn_data := Some [], pc_connections := Some cs, pc_tripData := td, pc_walkData := Some ws\<rparr>;
          trips = (case td of None \<Rightarrow> [] | Some d \<Rightarrow> enumerate 0 (trip_polylines d))
      in after (forX push_trip trips s1) (\<lambda>s.
         after (forX push_walk ws s) (\<lambda>s.
           Done (if conn_map s then give_data ''railviz-connections'' (conn_data s) s else s))))"

section \<open>Highlighting\<close>

definition combine_at :: "int \<Rightarrow> (int, int) jsmap \<Rightarrow> int \<Rightarrow> (int, int) jsmap" where
  "combine_at cid m i =
     (let curr = map_get m i; nxt = cIdCombine curr (Some cid)
      in if curr \<noteq> nxt then (case nxt of None \<Rightarrow> m | Some n \<Rightarrow> map_set i n m) else m)"

text \<open>The features of a connection: the polylines of its trains and its walks. A walk is numbered
  before its connection is shown.\<close>

definition feature_ids :: "Connection \<Rightarrow> int list" where
  "feature_ids c =
     concat (map (\<lambda>t. map abs (tr_indices t)) (case c_resolved c of None \<Rightarrow> [] | Some ts \<Rightarrow> ts)) @
     concat (map (\<lambda>w. case w_id w of None \<Rightarrow> [] | Some k \<Rightarrow> [walk_base + int k]) (c_walks c))"

definition highlight_step :: "Connection list \<Rightarrow> (int, int) jsmap \<Rightarrow> int \<Rightarrow> (int, int) jsmap" where
  "highlight_step cs m cid =
     (case find (\<lambda>c. c_id c = cid) cs of
        None \<Rightarrow> m
      | Some c \<Rightarrow> foldl (combine_at (c_id c)) m (feature_ids c))"

definition highlightConnections :: "int list option \<Rightarrow> 'a PathConnections_scheme \<Rightarrow> 'a PathConnections_scheme" where
  "highlightConnections connectionIds s =
     (if \<not> conn_map s then s
      else
        (let s1 = map_call (RemoveFeatureState ''railviz-connections'') s in
         case connectionIds of
           None \<Rightarrow> s1
         | Some ids \<Rightarrow>
             (let cs = (case pc_connections s of None \<Rightarrow> [] | Some as \<Rightarrow> map (\<lambda>a. connection_heap s ! a) as);
                  minCIds = foldl (highlight_step cs) [] ids
              in foldl (\<lambda>s (i, m). map_call (SetFeatureState ''railviz-connections'' i
                    (case minCIdToColor m of None \<Rightarrow> [] | Some c \<Rightarrow> c)) s) s1 minCIds)))"

section \<open>Picking\<close>

record PickedFeature =
  pk_layer :: string
  pk_id :: int
  pk_trip :: bool
  pk_station :: "string \<times> string"

text \<open>What was picked: the trains of a polyline (with the response and the index of the polyline) or a
  walk entry (with its address). These numbers identify the picked object.\<close>

datatype Picked = PickedTrains nat nat "TripTrain list" | PickedWalk nat WalkEntry

fun trips_call :: "TripsData \<Rightarrow> nat" where
  "trips_call (RawTrips d) = 0"
| "trips_call (MatchedTrips i ps ts) = i"

text \<open>\<open>Inl\<close> where a missing array is accessed.\<close>

definition getPickedConnections :: "PickedFeature list \<Rightarrow> 'a PathConnections_scheme \<Rightarrow> model_error + Picked option" where
  "getPickedConnections features s =
     (case find (\<lambda>e. pk_layer e = ''railviz-connections-line'') features of
        None \<Rightarrow> Inr None
      | Some f \<Rightarrow>
          if pk_trip f then
            (case pc_tripData s of
               None \<Rightarrow> Inl (NoSuchPolyline (pk_id f))
             | Some d \<Rightarrow>
                 (case elem (trip_polylines d) (pk_id f) of
                    None \<Rightarrow> Inl (NoSuchPolyline (pk_id f))
                  | Some p \<Rightarrow> Inr (map_option (PickedTrains (trips_call d) (nat (pk_id f))) (tp_trains p))))
          else
            (case pc_walkData s of
               None \<Rightarrow> Inl (NoSuchPolyline (pk_id f))
             | Some ws \<Rightarrow>
                 Inr (case elem ws (pk_id f - walk_base) of
                        None \<Rightarrow> None | Some a \<Rightarrow> Some (PickedWalk a (walk_heap s ! a)))))"

end
