(* ===== verification/Connection_Manager.thy ===== *)
theory Connection_Manager
  imports Path_Connections
begin

text \<open>
  The connection manager (\<^verbatim>\<open>connectionmgr.js\<close>): for the connections of a search result it
  requests the paths of their trips and walks, and gives them to the connections layer when all
  have arrived. The API endpoint and the foot routing options are variables of
  \<^verbatim>\<open>main.js\<close> that it reads.
\<close>

section \<open>State\<close>

type_synonym WalkKey = "string \<times> rat \<times> rat \<times> (rat \<times> rat) \<times> (rat \<times> rat)"

record CachedWalk =
  cache_polyline :: "WalkPath option"
  cache_route :: jsval

record ConnectionManager = PathConnections +
  connections :: "nat list"
  tripData :: "TripsData option"
  walkData :: "nat list"
  cm_lastTripsRequest :: "nat option"
  tripsComplete :: bool
  osrmCache :: "(WalkKey, CachedWalk) jsmap"
  pprCache :: "(WalkKey, CachedWalk) jsmap"
  apiEndpoint :: string
  pprSearchOptions :: jsval

text \<open>What a walk's entry in the caches is stored under: the serialised object of these values.\<close>

definition walkId :: "Walk \<Rightarrow> WalkKey" where
  "walkId w = (w_mumoType w, w_duration w, w_accessibility w,
     (ms_lat (w_from w), ms_lng (w_from w)), (ms_lat (w_to w), ms_lng (w_to w)))"

definition change_walk :: "nat \<Rightarrow> (WalkEntry \<Rightarrow> WalkEntry) \<Rightarrow> 'a ConnectionManager_scheme \<Rightarrow> 'a ConnectionManager_scheme" where
  "change_walk a f s = s\<lparr>walk_heap := (walk_heap s)[a := f (walk_heap s ! a)]\<rparr>"

section \<open>Showing the connections\<close>

definition dataIsComplete :: "'a ConnectionManager_scheme \<Rightarrow> bool" where
  "dataIsComplete s =
     (tripsComplete s \<and> list_all (\<lambda>a. we_polyline (walk_heap s ! a) \<noteq> None \<or> we_error (walk_heap s ! a)) (walkData s))"

definition showConnections :: "'a ConnectionManager_scheme \<Rightarrow> 'a ConnectionManager_scheme exec" where
  "showConnections s = (if dataIsComplete s then conn_setData (connections s) (tripData s) (walkData s) s else Done s)"

section \<open>Trips\<close>

definition find_index :: "('a \<Rightarrow> bool) \<Rightarrow> 'a list \<Rightarrow> int" where
  "find_index P xs = (let n = length (takeWhile (\<lambda>x. \<not> P x) xs) in if n < length xs then int n else -1)"

definition unique_trips :: "jsval list \<Rightarrow> jsval list" where
  "unique_trips trips = map snd (filter (\<lambda>(i, v). int i = find_index (deepEqual v) trips) (enumerate 0 trips))"

definition connection_trips :: "'a ConnectionManager_scheme \<Rightarrow> jsval list" where
  "connection_trips s = concat (map (\<lambda>a. map ct_trip (c_trains (connection_heap s ! a))) (connections s))"

definition requestTrips :: "'a ConnectionManager_scheme \<Rightarrow> 'a ConnectionManager_scheme exec" where
  "requestTrips s =
     (let trips = connection_trips s in
      if trips = [] then showConnections (s\<lparr>tripsComplete := True\<rparr>)
      else
        (let (i, s1) = sendRequest (apiEndpoint s @ ''?connectionTrips'') (makeTripsRequest (unique_trips trips))
                         ConnectionTripsReply (setLoading 1 s)
         in Done (s1\<lparr>cm_lastTripsRequest := Some i\<rparr>)))"

definition connection_matches :: "Train \<Rightarrow> Connection \<Rightarrow> bool" where
  "connection_matches t c =
     list_ex (\<lambda>ct. list_ex (\<lambda>tt. deepEqual tt (ct_trip ct)) (trip t) \<and> list_ex (section_matches t) (ct_sections ct)) (c_trains c)"

definition trainToConnectionIds :: "Train \<Rightarrow> 'a ConnectionManager_scheme \<Rightarrow> nat list" where
  "trainToConnectionIds t s = filter (\<lambda>a. connection_matches t (connection_heap s ! a)) (connections s)"

definition add_resolved :: "Train \<Rightarrow> Connection list \<Rightarrow> nat \<Rightarrow> Connection list" where
  "add_resolved t h a =
     h[a := (h ! a)\<lparr>c_resolved := Some ((case c_resolved (h ! a) of None \<Rightarrow> [] | Some ts \<Rightarrow> ts) @ [t])\<rparr>]"

definition add_train :: "TripTrain \<Rightarrow> int option \<Rightarrow> TripPolyline list \<Rightarrow> int \<Rightarrow> TripPolyline list" where
  "add_train tt minCId ps i =
     (let p = ps ! nat \<bar>i\<bar> in
      ps[nat \<bar>i\<bar> := p\<lparr>tp_trains := Some ((case tp_trains p of None \<Rightarrow> [] | Some ts \<Rightarrow> ts) @ [tt]),
                      tp_minCId := cIdCombine (tp_minCId p) minCId\<rparr>])"

definition match_train ::
  "'a ConnectionManager_scheme \<times> TripPolyline list \<times> TripTrain list \<Rightarrow> Train \<Rightarrow>
     'a ConnectionManager_scheme \<times> TripPolyline list \<times> TripTrain list" where
  "match_train st t =
     (let (s, ps, ts) = st;
          cs = trainToConnectionIds t s;
          ids = map (\<lambda>a. c_id (connection_heap s ! a)) cs;
          tt = \<lparr>tt_train = t, tt_connectionIds = ids\<rparr>;
          s1 = s\<lparr>connection_heap := foldl (add_resolved t) (connection_heap s) cs\<rparr>
      in if ids = [] then (s1, ps, ts)
         else (s1, foldl (add_train tt (reduce_ids ids)) ps (tr_indices t), ts @ [tt]))"

definition tripDataReceived :: "Geo \<Rightarrow> RawData \<Rightarrow> nat \<Rightarrow> 'a ConnectionManager_scheme \<Rightarrow> 'a ConnectionManager_scheme exec" where
  "tripDataReceived G content callId s =
     (let s1 = setLoading (-1) (s\<lparr>tripData := Some (RawTrips content)\<rparr>) in
      if Some callId \<noteq> cm_lastTripsRequest s1 then Done s1
      else
        (case preprocess G content of
           Inl e \<Rightarrow> Thrown s1
         | Inr d \<Rightarrow>
             (let start = map (\<lambda>p. \<lparr>tp_line = p, tp_trains = None, tp_minCId = None\<rparr>) (td_polylines d);
                  (s2, ps, ts) = foldl match_train (s1, start, []) (td_trains d)
              in showConnections (s2\<lparr>tripData := Some (MatchedTrips callId ps ts), tripsComplete := True\<rparr>))))"

section \<open>Walks\<close>

definition new_entry :: "nat \<Rightarrow> Walk \<Rightarrow> WalkEntry" where
  "new_entry i walk = \<lparr>we_id = i, we_walk = walk, we_connectionIds = [], we_polyline = None, we_error = False,
     we_minCId = None, we_routerType = None, we_route = JUndef\<rparr>"

text \<open>One walk of one connection: the \<open>j\<close>-th walk of the connection at address \<open>c\<close>.\<close>

definition collect_walk ::
  "nat \<Rightarrow> (WalkKey, nat) jsmap \<times> 'a ConnectionManager_scheme \<Rightarrow> nat \<times> Walk \<Rightarrow> (WalkKey, nat) jsmap \<times> 'a ConnectionManager_scheme" where
  "collect_walk c st jw =
     (let (walkMap, s) = st; (j, walk) = jw; walkKey = walkId walk;
          (a, walkMap1, s1) =
            (case map_get walkMap walkKey of
               Some a \<Rightarrow> (a, walkMap, s)
             | None \<Rightarrow>
                 (length (walk_heap s), map_set walkKey (length (walk_heap s)) walkMap,
                  s\<lparr>walk_heap := walk_heap s @ [new_entry (length (walkData s)) walk],
                    walkData := walkData s @ [length (walk_heap s)]\<rparr>));
          con = connection_heap s1 ! c;
          s2 = s1\<lparr>connection_heap := (connection_heap s1)[c := con\<lparr>c_walks :=
                    (c_walks con)[j := walk\<lparr>w_id := Some (we_id (walk_heap s1 ! a))\<rparr>]\<rparr>]\<rparr>;
          s3 = change_walk a (\<lambda>w. w\<lparr>we_connectionIds := we_connectionIds w @ [c_id con],
                    we_polyline := (if we_polyline w = None then map_option PathArray (w_polyline walk) else we_polyline w)\<rparr>) s2
      in (walkMap1, s3))"

definition collect_connection ::
  "(WalkKey, nat) jsmap \<times> 'a ConnectionManager_scheme \<Rightarrow> nat \<Rightarrow> (WalkKey, nat) jsmap \<times> 'a ConnectionManager_scheme" where
  "collect_connection st c = foldl (collect_walk c) st (enumerate 0 (c_walks (connection_heap (snd st) ! c)))"

definition router_name :: "RouterType \<Rightarrow> string" where
  "router_name r = (case r of Osrm \<Rightarrow> ''osrm'' | Ppr \<Rightarrow> ''ppr'')"

definition requestWalkSegment :: "nat \<Rightarrow> 'a ConnectionManager_scheme \<Rightarrow> 'a ConnectionManager_scheme" where
  "requestWalkSegment a s =
     (let walk = we_walk (walk_heap s ! a);
          walkKey = walkId walk;
          router = (if w_mumoType walk = ''bike'' \<or> w_mumoType walk = ''car'' then Osrm else Ppr);
          cached = map_get (case router of Osrm \<Rightarrow> osrmCache s | Ppr \<Rightarrow> pprCache s) walkKey;
          s1 = change_walk a (\<lambda>w. w\<lparr>we_routerType := Some router\<rparr>) s
      in case cached of
           Some c \<Rightarrow> change_walk a (\<lambda>w. w\<lparr>we_polyline := cache_polyline c, we_route := cache_route c\<rparr>) s1
         | None \<Rightarrow>
             snd (sendRequest (apiEndpoint s @ ''?connectionWalk;'' @ router_name router)
                    (case router of Osrm \<Rightarrow> makeOSRMRequest walk | Ppr \<Rightarrow> makePPRRequest walk (pprSearchOptions s))
                    (ConnectionWalkReply a) (setLoading 1 s1)))"

definition finish_entry :: "'a ConnectionManager_scheme \<Rightarrow> nat \<Rightarrow> 'a ConnectionManager_scheme" where
  "finish_entry s a =
     (let s1 = change_walk a (\<lambda>w. w\<lparr>we_minCId := reduce_ids (we_connectionIds w)\<rparr>) s
      in if we_polyline (walk_heap s1 ! a) = None then requestWalkSegment a s1 else s1)"

definition requestWalks :: "'a ConnectionManager_scheme \<Rightarrow> 'a ConnectionManager_scheme exec" where
  "requestWalks s =
     (let (walkMap, s1) = foldl collect_connection ([], s\<lparr>walkData := []\<rparr>) (connections s)
      in showConnections (foldl finish_entry s1 (walkData s1)))"

definition setConnections :: "Connection list \<Rightarrow> 'a ConnectionManager_scheme \<Rightarrow> 'a ConnectionManager_scheme exec" where
  "setConnections conns s =
     (let n = length (connection_heap s);
          s1 = s\<lparr>connection_heap := connection_heap s @ conns, connections := [n..<n + length conns],
                 tripData := None, walkData := [], tripsComplete := False\<rparr>
      in after (requestTrips s1) requestWalks)"

section \<open>Answers of the routers\<close>

text \<open>A foot route: \<open>None\<close> is an attribute that is missing.\<close>

record FootRoute =
  fr_duration :: num
  fr_accessibility :: num
  fr_path :: "rat list"
  fr_json :: jsval

datatype RouterResponse = FootRoutes "FootRoute list list" | OsrmRoute "rat list" jsval

definition default_duration :: "FootRoute \<Rightarrow> FootRoute" where
  "default_duration r = r\<lparr>fr_duration := Some (case fr_duration r of None \<Rightarrow> 0 | Some d \<Rightarrow> d)\<rparr>"

definition distance_to :: "rat \<Rightarrow> num \<Rightarrow> num" where
  "distance_to q x = map_option abs (num_sub x (Some q))"

definition sign :: "num \<Rightarrow> int" where
  "sign x = (case x of None \<Rightarrow> 0 | Some q \<Rightarrow> if q < 0 then -1 else if q > 0 then 1 else 0)"

definition compare_routes :: "Walk \<Rightarrow> FootRoute \<Rightarrow> FootRoute \<Rightarrow> int" where
  "compare_routes walk a b =
     (let d = num_sub (distance_to (w_duration walk) (fr_duration a)) (distance_to (w_duration walk) (fr_duration b))
      in if d = Some 0 then
           sign (num_sub (distance_to (w_accessibility walk) (fr_accessibility a))
                         (distance_to (w_accessibility walk) (fr_accessibility b)))
         else sign d)"

definition beeline :: "Walk \<Rightarrow> rat list" where
  "beeline w = [ms_lat (w_from w), ms_lng (w_from w), ms_lat (w_to w), ms_lng (w_to w)]"

definition handlePPRResponse :: "nat \<Rightarrow> FootRoute list list \<Rightarrow> 'a ConnectionManager_scheme \<Rightarrow> 'a ConnectionManager_scheme" where
  "handlePPRResponse a data s =
     (let walk = we_walk (walk_heap s ! a) in
      case data of
        (r # rs) # _ \<Rightarrow>
          (let routes = array_sort (compare_routes walk) (map default_duration (r # rs));
               route = hd routes;
               poly = Some (PathObject (fr_path route))
           in (change_walk a (\<lambda>w. w\<lparr>we_polyline := poly, we_route := fr_json route\<rparr>) s)
                \<lparr>pprCache := map_set (walkId walk) \<lparr>cache_polyline = poly, cache_route = fr_json route\<rparr> (pprCache s)\<rparr>)
      | _ \<Rightarrow> change_walk a (\<lambda>w. w\<lparr>we_polyline := Some (PathObject (beeline walk))\<rparr>) s)"

definition handleOSRMResponse :: "nat \<Rightarrow> rat list option \<Rightarrow> jsval \<Rightarrow> 'a ConnectionManager_scheme \<Rightarrow> 'a ConnectionManager_scheme" where
  "handleOSRMResponse a path data s =
     (let walk = we_walk (walk_heap s ! a); poly = map_option PathObject path
      in (change_walk a (\<lambda>w. w\<lparr>we_polyline := poly, we_route := data\<rparr>) s)
           \<lparr>osrmCache := map_set (walkId walk) \<lparr>cache_polyline = poly, cache_route = data\<rparr> (osrmCache s)\<rparr>)"

text \<open>The handler is chosen by the router the walk was sent to; an answer of the wrong shape lacks
  the attribute it reads.\<close>

definition walkDataReceived :: "nat \<Rightarrow> RouterResponse \<Rightarrow> 'a ConnectionManager_scheme \<Rightarrow> 'a ConnectionManager_scheme exec" where
  "walkDataReceived a response s =
     (let s1 = setLoading (-1) s in
      case (we_routerType (walk_heap s1 ! a), response) of
        (Some Ppr, FootRoutes data) \<Rightarrow> showConnections (handlePPRResponse a data s1)
      | (Some Ppr, OsrmRoute path v) \<Rightarrow> Thrown s1
      | (Some Osrm, OsrmRoute path v) \<Rightarrow> showConnections (handleOSRMResponse a (Some path) v s1)
      | (Some Osrm, FootRoutes data) \<Rightarrow> showConnections (handleOSRMResponse a None JUndef s1)
      | (None, _) \<Rightarrow> showConnections s1)"

definition walkRequestFailed :: "nat \<Rightarrow> jsval \<Rightarrow> 'a ConnectionManager_scheme \<Rightarrow> 'a ConnectionManager_scheme exec" where
  "walkRequestFailed a response s =
     after (showConnections (change_walk a (\<lambda>w. w\<lparr>we_error := True\<rparr>) s)) (\<lambda>s. Done (handleApiError response s))"

definition resetPPRCache :: "'a ConnectionManager_scheme \<Rightarrow> 'a ConnectionManager_scheme" where
  "resetPPRCache s = s\<lparr>pprCache := []\<rparr>"

end
