(* ===== verification/Railviz_Position.thy ===== *)
theory Railviz_Position
  imports Railviz_Model
begin

text \<open>
  Where a train is drawn. As long as time does not run backwards, the line a train is on contains
  its position and the progress on that line is between 0 and 1. When time runs backwards while
  the train is under way, it can be left on a line that does not contain its position.
\<close>

section \<open>Measured polylines\<close>

definition poly_ok :: "Polyline \<Rightarrow> bool" where
  "poly_ok pl =
     (lineCount pl = int (length (lineLengths pl)) \<and> length (lineOffsets pl) = Suc (length (lineLengths pl)) \<and>
      length (mercatorCoordinates pl) = Suc (length (lineLengths pl)) \<and>
      lineOffsets pl ! 0 = 0 \<and> totalLength pl = last (lineOffsets pl) \<and>
      (\<forall>i < length (lineLengths pl). lineOffsets pl ! Suc i = lineOffsets pl ! i + lineLengths pl ! i \<and>
         0 \<le> lineLengths pl ! i))"

definition offsets_ok :: "rat list \<Rightarrow> rat list \<Rightarrow> bool" where
  "offsets_ok lens full =
     (length full = Suc (length lens) \<and> full ! 0 = 0 \<and>
      (\<forall>i < length lens. full ! Suc i = full ! i + lens ! i \<and> 0 \<le> lens ! i))"

lemma offsets_ok_step:
  assumes "offsets_ok lens full" and "0 \<le> len"
  shows "offsets_ok (lens @ [len]) (full @ [last full + len])"
proof -
  have l: "length full = Suc (length lens)" using assms(1) by (simp add: offsets_ok_def)
  then have lst: "last full = full ! length lens" by (metis diff_Suc_1 last_conv_nth list.size(3) nat.distinct(1))
  have nth: "(full @ [x]) ! i = full ! i" if "i \<le> length lens" for i x using that l by (simp add: nth_append)
  have nth': "(full @ [x]) ! Suc (length lens) = x" for x using l by (metis nth_append_length)
  show ?thesis
    unfolding offsets_ok_def
  proof (intro conjI allI impI)
    show "length (full @ [last full + len]) = Suc (length (lens @ [len]))" using l by simp
    show "(full @ [last full + len]) ! 0 = 0" using assms(1) nth by (simp add: offsets_ok_def)
    fix i assume i: "i < length (lens @ [len])"
    then consider "i < length lens" | "i = length lens" by force
    then show "(full @ [last full + len]) ! Suc i = (full @ [last full + len]) ! i + (lens @ [len]) ! i"
      using assms(1) by cases (simp_all add: nth nth' lst offsets_ok_def nth_append [of lens])
    show "0 \<le> (lens @ [len]) ! i" using i assms by (auto simp: offsets_ok_def nth_append [of lens])
  qed
qed

lemma measure_lines_ok:
  assumes "\<And>x. 0 \<le> math_sqrt G x" and "offsets_ok lens (offs @ [off])"
  shows "case measure_lines G ps (lens, offs, off) of (lens', offs', off') \<Rightarrow>
    offsets_ok lens' (offs' @ [off']) \<and> length lens' = length lens + (length ps - 1)"
  using assms
proof (induction G ps "(lens, offs, off)" arbitrary: lens offs off rule: measure_lines.induct)
  case (1 G a b ps lens offs off)
  have "0 \<le> line_length G a b" using 1(2) by (simp add: line_length_def Let_def)
  from 1(1) [OF 1(2)] offsets_ok_step [OF 1(3) this] show ?case by auto
qed auto

lemma preprocessPolyline_ok:
  assumes "\<And>x. 0 \<le> math_sqrt G x" and "preprocessPolyline G str = Some pl"
  shows "poly_ok pl"
proof -
  let ?mc = "map (\<lambda>ll. fromLngLat G (snd ll) (fst ll)) (decode G str)"
  obtain lens offs off where m: "measure_lines G ?mc ([], [], 0) = (lens, offs, off)"
    by (metis prod_cases3)
  have "offsets_ok [] ([] @ [0])" by (simp add: offsets_ok_def)
  from measure_lines_ok [OF assms(1) this, of ?mc] m
  have ok: "offsets_ok lens (offs @ [off])" "length lens = length ?mc - 1" by auto
  have ne: "decode G str \<noteq> []" and pl: "pl = \<lparr>coordinates = decode G str, mercatorCoordinates = ?mc, lineCount = int (length ?mc) - 1,
                     lineLengths = lens, lineOffsets = offs @ [off], totalLength = off\<rparr>"
    using assms(2) m by (auto simp: preprocessPolyline_def Let_def split: if_splits)
  have "length ?mc = Suc (length lens)" using ok(2) ne by (cases "decode G str") auto
  then show ?thesis using ok(1) unfolding poly_ok_def offsets_ok_def pl by simp
qed

section \<open>Consecutive intervals\<close>

lemma first_from_spec:
  "j \<le> n \<Longrightarrow> j \<le> first_from P j n \<and> first_from P j n \<le> n \<and> (first_from P j n < n \<longrightarrow> P (first_from P j n))"
proof (induction "nat (n - j)" arbitrary: j rule: less_induct)
  case less
  show ?case
  proof (cases "j < n \<and> \<not> P j")
    case True
    then have "first_from P j n = first_from P (j + 1) n" by (subst first_from.simps) simp
    with less.hyps [of "j + 1"] True show ?thesis by auto
  next
    case False
    then have "first_from P j n = j" by (subst first_from.simps) auto
    with False less.prems show ?thesis by auto
  qed
qed

lemma first_from_cover:
  fixes b :: "int \<Rightarrow> rat"
  assumes "j < n" and "b j \<le> x" and "x \<le> b n"
    and "\<And>i. j \<le> i \<Longrightarrow> i < n \<Longrightarrow> P i \<longleftrightarrow> b i \<le> x \<and> x \<le> b (i + 1)"
  shows "first_from P j n < n"
  using assms
proof (induction "nat (n - j)" arbitrary: j rule: less_induct)
  case less
  show ?case
  proof (cases "P j")
    case True
    then show ?thesis using less.prems(1) by (subst first_from.simps) simp
  next
    case False
    then have "b (j + 1) < x" using less.prems(1,2) less.prems(4) [of j] by auto
    then have "j + 1 < n" using less.prems(1,3) by (cases "j + 1 = n") auto
    moreover have "first_from P j n = first_from P (j + 1) n"
      using False less.prems(1) by (subst first_from.simps) simp
    ultimately show ?thesis using less.hyps [of "j + 1"] less.prems \<open>b (j + 1) < x\<close> by simp
  qed
qed

section \<open>The lines of a polyline in the direction of travel\<close>

definition line_start :: "bool \<Rightarrow> rat \<Rightarrow> Polyline \<Rightarrow> int \<Rightarrow> rat" where
  "line_start fwd off pl i =
     (if fwd then off + lineOffsets pl ! nat i
      else off + totalLength pl - lineOffsets pl ! nat (lineCount pl - i))"

lemma poly_ok_facts:
  assumes "poly_ok pl"
  shows "lineOffsets pl ! 0 = 0" "lineOffsets pl ! length (lineLengths pl) = totalLength pl"
    "lineCount pl = int (length (lineLengths pl))"
    "i < length (lineLengths pl) \<Longrightarrow> lineOffsets pl ! Suc i = lineOffsets pl ! i + lineLengths pl ! i"
    "i < length (lineLengths pl) \<Longrightarrow> 0 \<le> lineLengths pl ! i"
proof -
  have "length (lineOffsets pl) = Suc (length (lineLengths pl))" using assms by (simp add: poly_ok_def)
  then have "last (lineOffsets pl) = lineOffsets pl ! length (lineLengths pl)"
    by (metis diff_Suc_1 last_conv_nth list.size(3) nat.distinct(1))
  with assms show "lineOffsets pl ! length (lineLengths pl) = totalLength pl" by (simp add: poly_ok_def)
qed (use assms in \<open>auto simp: poly_ok_def\<close>)

lemma elem_nth [simp]: "i < length xs \<Longrightarrow> elem xs (int i) = Some (xs ! i)"
  by (simp add: elem_def)

lemma elem_mem: "elem xs i = Some x \<Longrightarrow> x \<in> set xs"
  by (auto simp: elem_def split: if_splits)

lemma line_pos:
  assumes "poly_ok pl" and "0 \<le> i" and "i < lineCount pl"
  shows "getCurrLinePos \<lparr>pr_fwd = fwd, pr_offset = Some off, pr_polyline = Some pl\<rparr> i =
      (Some (line_start fwd off pl i), Some (line_start fwd off pl (i + 1) - line_start fwd off pl i))"
    and "line_start fwd off pl i \<le> line_start fwd off pl (i + 1)"
proof -
  let ?n = "length (lineLengths pl)"
  have len: "length (lineOffsets pl) = Suc ?n" using assms(1) by (simp add: poly_ok_def)
  obtain k where k: "i = int k" "k < ?n"
    using assms(2,3) poly_ok_facts(3) [OF assms(1)] by (metis nonneg_int_cases of_nat_less_iff)
  define m where "m = ?n - 1 - k"
  have m: "m < ?n" "lineCount pl - 1 - int k = int m" "nat (lineCount pl - int k) = Suc m" "nat (lineCount pl - (int k + 1)) = m"
    using k poly_ok_facts(3) [OF assms(1)] by (auto simp: m_def)
  have kn: "nat (int k) = k" "nat (int k + 1) = Suc k" by auto
  note fk = poly_ok_facts(4,5) [OF assms(1) k(2)] and fm = poly_ok_facts(4,5) [OF assms(1) m(1)]
  have e: "elem (lineOffsets pl) (int k) = Some (lineOffsets pl ! k)" "elem (lineOffsets pl) (int m) = Some (lineOffsets pl ! m)"
    "elem (lineLengths pl) (int k) = Some (lineLengths pl ! k)" "elem (lineLengths pl) (int m) = Some (lineLengths pl ! m)"
    using len k(2) m(1) by simp_all
  show "getCurrLinePos \<lparr>pr_fwd = fwd, pr_offset = Some off, pr_polyline = Some pl\<rparr> i =
      (Some (line_start fwd off pl i), Some (line_start fwd off pl (i + 1) - line_start fwd off pl i))"
    using e fk fm unfolding getCurrLinePos_def line_start_def Let_def k(1) kn m by (simp add: m(2))
  show "line_start fwd off pl i \<le> line_start fwd off pl (i + 1)"
    using fk fm unfolding line_start_def k(1) kn m by simp
qed

lemma line_ends:
  assumes "poly_ok pl"
  shows "line_start fwd off pl 0 = off" "line_start fwd off pl (lineCount pl) = off + totalLength pl"
  using poly_ok_facts(1-3) [OF assms] by (auto simp: line_start_def)

lemma chain_mono:
  fixes b :: "nat \<Rightarrow> rat"
  assumes "\<And>i. i < n \<Longrightarrow> b i \<le> b (Suc i)" and "i \<le> j" and "j \<le> n"
  shows "b i \<le> b j"
  using assms(2,3)
proof (induction j)
  case (Suc j)
  then show ?case using assms(1) [of j] by (cases "i = Suc j") (auto intro: order_trans)
qed simp

lemma line_start_mono:
  assumes "poly_ok pl" and "0 \<le> i" and "i \<le> j" and "j \<le> lineCount pl"
  shows "line_start fwd off pl i \<le> line_start fwd off pl j"
proof -
  have "line_start fwd off pl (int (nat i)) \<le> line_start fwd off pl (int (nat j))"
  proof (rule chain_mono [where b = "\<lambda>i. line_start fwd off pl (int i)"])
    fix k assume "k < nat (lineCount pl)"
    then show "line_start fwd off pl (int k) \<le> line_start fwd off pl (int (Suc k))"
      using line_pos(2) [OF assms(1), of "int k"] by (simp add: add.commute)
  qed (use assms in auto)
  with assms show ?thesis by simp
qed

section \<open>Well-formed trains\<close>

definition poly_total :: "PolylineRef \<Rightarrow> rat" where
  "poly_total p = (case pr_polyline p of Some pl \<Rightarrow> totalLength pl | None \<Rightarrow> 0)"

definition poly_start :: "PolylineRef list \<Rightarrow> nat \<Rightarrow> rat" where
  "poly_start ps k = sum_list (map poly_total (take k ps))"

definition polys_ok :: "PolylineRef list \<Rightarrow> bool" where
  "polys_ok ps = (\<forall>k < length ps. \<exists>pl. pr_polyline (ps ! k) = Some pl \<and> poly_ok pl \<and> 1 \<le> lineCount pl \<and>
     pr_offset (ps ! k) = Some (poly_start ps k))"

definition train_ok :: "Train \<Rightarrow> bool" where
  "train_ok t = (polylines t \<noteq> [] \<and> d_time t < a_time t \<and> polys_ok (polylines t) \<and>
     tr_totalLength t = Some (poly_start (polylines t) (length (polylines t))))"

lemma poly_start_Suc: "k < length ps \<Longrightarrow> poly_start ps (Suc k) = poly_start ps k + poly_total (ps ! k)"
  by (simp add: poly_start_def take_Suc_conv_app_nth)

lemma poly_start_0 [simp]: "poly_start ps 0 = 0"
  by (simp add: poly_start_def)

lemma polys_ok_nth:
  assumes "polys_ok ps" and "k < length ps"
  obtains fwd pl where "ps ! k = \<lparr>pr_fwd = fwd, pr_offset = Some (poly_start ps k), pr_polyline = Some pl\<rparr>"
    "poly_ok pl" "1 \<le> lineCount pl" "poly_start ps (Suc k) = poly_start ps k + totalLength pl" "0 \<le> totalLength pl"
proof -
  obtain pl where pl: "pr_polyline (ps ! k) = Some pl" "poly_ok pl" "1 \<le> lineCount pl" "pr_offset (ps ! k) = Some (poly_start ps k)"
    using assms unfolding polys_ok_def by blast
  have "0 \<le> totalLength pl"
    using line_start_mono [OF pl(2), of 0 "lineCount pl" True 0] pl(3) line_ends [OF pl(2), of True 0] by simp
  moreover have "poly_start ps (Suc k) = poly_start ps k + totalLength pl"
    using poly_start_Suc [OF assms(2)] pl(1) by (simp add: poly_total_def)
  ultimately show thesis using that [of "pr_fwd (ps ! k)" pl] pl by simp
qed

lemma poly_start_mono: "polys_ok ps \<Longrightarrow> i \<le> j \<Longrightarrow> j \<le> length ps \<Longrightarrow> poly_start ps i \<le> poly_start ps j"
proof (rule chain_mono [where n = "length ps" and b = "poly_start ps"])
  fix k assume "polys_ok ps" "k < length ps"
  then show "poly_start ps k \<le> poly_start ps (Suc k)" by (rule polys_ok_nth) simp
qed

lemma newTrain_ok:
  assumes "newTrain stations pls r = Inr t" and "raw_indices r \<noteq> []" and "raw_d_time r < raw_a_time r"
    and "\<And>i pl. elem pls i = Some (Some pl) \<Longrightarrow> poly_ok pl \<and> 1 \<le> lineCount pl"
    and "\<And>i. i \<in> set (raw_indices r) \<Longrightarrow> elem pls \<bar>i\<bar> \<noteq> Some None"
  shows "train_ok t \<and> currPolyline t = None \<and> currLine t = None"
proof -
  obtain ps tot where f: "foldE (addPolyline pls) ([], Some 0) (raw_indices r) = Inr (ps, tot)"
    and t: "polylines t = ps" "tr_totalLength t = tot" "d_time t = raw_d_time r" "a_time t = raw_a_time r"
      "currPolyline t = None" "currLine t = None"
    using assms(1) by (auto simp: newTrain_def bindE_Inr_iff Let_def)
  let ?P = "\<lambda>is s. polys_ok (fst s) \<and> snd s = Some (poly_start (fst s) (length (fst s))) \<and> length (fst s) = length is"
  have "?P (raw_indices r) (ps, tot)"
  proof (rule foldE_inv_prefix [OF f, where P = ?P])
    fix pre i post s s'
    assume xs: "raw_indices r = pre @ i # post" and P: "?P pre s" and st: "addPolyline pls s i = Inr s'"
    have "elem pls \<bar>i\<bar> \<noteq> Some None" using assms(5) xs by simp
    then obtain pl where pl: "elem pls \<bar>i\<bar> = Some (Some pl)"
      using st by (auto simp: addPolyline_def split: option.splits)
    let ?p = "\<lparr>pr_fwd = (i > 0), pr_offset = snd s, pr_polyline = Some pl\<rparr>"
    have s': "fst s' = fst s @ [?p]" "snd s' = Some (poly_start (fst s) (length (fst s)) + totalLength pl)"
      using st pl P by (auto simp: addPolyline_def total_num_def)
    have same: "poly_start (fst s @ [?p]) k = poly_start (fst s) k" if "k \<le> length (fst s)" for k
      using that by (simp add: poly_start_def)
    show "?P (pre @ [i]) s'"
    proof (intro conjI)
      show "polys_ok (fst s')"
        unfolding polys_ok_def s'(1)
      proof (intro allI impI)
        fix k assume "k < length (fst s @ [?p])"
        then consider "k < length (fst s)" | "k = length (fst s)" by force
        then show "\<exists>pl. pr_polyline ((fst s @ [?p]) ! k) = Some pl \<and> poly_ok pl \<and> 1 \<le> lineCount pl \<and>
            pr_offset ((fst s @ [?p]) ! k) = Some (poly_start (fst s @ [?p]) k)"
        proof cases
          case 1
          then show ?thesis using P same by (auto simp: polys_ok_def nth_append)
        next
          case 2
          moreover have "pr_offset ?p = Some (poly_start (fst s) k)" using P 2 by simp
          ultimately show ?thesis using same assms(4) [OF pl] by (simp add: nth_append)
        qed
      qed
      show "snd s' = Some (poly_start (fst s') (length (fst s')))"
        by (simp add: s' poly_start_def poly_total_def)
    qed (use P s' in simp)
  qed (simp add: polys_ok_def)
  then show ?thesis using t assms(2,3) by (auto simp: train_ok_def)
qed

section \<open>One update\<close>

definition cur_ref :: "Train \<Rightarrow> PolylineRef" where
  "cur_ref t = polylines t ! the (currPolyline t)"

text \<open>The train is on a line of its route that contains the position \<open>x\<close>.\<close>

definition on_line :: "Train \<Rightarrow> rat \<Rightarrow> bool" where
  "on_line t x =
     (case (currPolyline t, currLine t) of
        (Some k, Some l) \<Rightarrow> k < length (polylines t) \<and> 0 \<le> l \<and> l < line_count (polylines t ! k) \<and>
          in_line (Some x) (getCurrLinePos (polylines t ! k) l)
      | _ \<Rightarrow> False)"

definition progress_ok :: "Train \<Rightarrow> bool" where
  "progress_ok t = (case currProgress t of Some (Fin q) \<Rightarrow> 0 \<le> q \<and> q \<le> 1 | _ \<Rightarrow> False)"

lemma polyline_at_nth [simp]: "k < length (polylines t) \<Longrightarrow> polyline_at t (int k) = Some (polylines t ! k)"
  by (simp add: polyline_at_def)

lemma updates_keep [simp]:
  "polylines (updateCurrPolyline t pos) = polylines t" "polylines (updateCurrLine t p pos) = polylines t"
  "polylines (set_progress t p pos) = polylines t" "polylines (no_position t) = polylines t"
  "currPolyline (updateCurrLine t p pos) = currPolyline t" "currPolyline (set_progress t p pos) = currPolyline t"
  "currLine (set_progress t p pos) = currLine t"
  "d_time (updateCurrPolyline t pos) = d_time t" "d_time (updateCurrLine t p pos) = d_time t"
  "d_time (set_progress t p pos) = d_time t" "d_time (no_position t) = d_time t"
  "a_time (updateCurrPolyline t pos) = a_time t" "a_time (updateCurrLine t p pos) = a_time t"
  "a_time (set_progress t p pos) = a_time t" "a_time (no_position t) = a_time t"
  "tr_totalLength (updateCurrPolyline t pos) = tr_totalLength t" "tr_totalLength (updateCurrLine t p pos) = tr_totalLength t"
  "tr_totalLength (set_progress t p pos) = tr_totalLength t" "tr_totalLength (no_position t) = tr_totalLength t"
  by (simp_all add: updateCurrPolyline_def updateCurrLine_def set_progress_def no_position_def Let_def)

lemma set_progress_ok:
  assumes "currLine t = Some l" and "in_line (Some x) (getCurrLinePos p l)"
  shows "progress_ok (set_progress t p (Some x))"
proof -
  obtain lo len where lp: "getCurrLinePos p l = (Some lo, Some len)" and b: "lo \<le> x" "x \<le> lo + len"
    using assms(2) by (cases "getCurrLinePos p l"; cases "fst (getCurrLinePos p l)"; cases "snd (getCurrLinePos p l)")
      (auto simp: in_line_def)
  have "len \<noteq> 0 \<Longrightarrow> 0 \<le> (x - lo) / len \<and> (x - lo) / len \<le> 1"
    using b by (cases "0 < len") (auto simp: divide_le_eq)
  moreover have "len = 0 \<Longrightarrow> x = lo" using b by simp
  ultimately show ?thesis
    using assms(1) lp by (auto simp: progress_ok_def set_progress_def div_or_0_def Let_def)
qed

lemma in_line_start:
  assumes "poly_ok pl" and "0 \<le> i" and "i < lineCount pl"
  shows "in_line (Some x) (getCurrLinePos \<lparr>pr_fwd = fwd, pr_offset = Some off, pr_polyline = Some pl\<rparr> i) \<longleftrightarrow>
    line_start fwd off pl i \<le> x \<and> x \<le> line_start fwd off pl (i + 1)"
  unfolding line_pos(1) [OF assms] by (simp add: in_line_def)

lemma updateCurrLine_spec:
  assumes p: "p = \<lparr>pr_fwd = fwd, pr_offset = Some off, pr_polyline = Some pl\<rparr>" "poly_ok pl"
    and l0: "0 \<le> l0" "l0 < lineCount pl" "line_start fwd off pl l0 \<le> x" "x \<le> off + totalLength pl"
    and cl: "(case currLine t of None \<Rightarrow> 0 | Some l \<Rightarrow> l) = l0"
  shows "\<exists>l. currLine (updateCurrLine t p (Some x)) = Some l \<and> 0 \<le> l \<and> l < line_count p \<and>
    in_line (Some x) (getCurrLinePos p l)"
proof -
  let ?P = "\<lambda>l. in_line (Some x) (getCurrLinePos p l)"
  let ?l = "first_from ?P l0 (lineCount pl)"
  have lt: "?l < lineCount pl"
  proof (rule first_from_cover [where b = "line_start fwd off pl"])
    show "x \<le> line_start fwd off pl (lineCount pl)" using l0(4) line_ends(2) [OF p(2)] by simp
    show "?P i \<longleftrightarrow> line_start fwd off pl i \<le> x \<and> x \<le> line_start fwd off pl (i + 1)"
      if "l0 \<le> i" "i < lineCount pl" for i
      unfolding p(1) using in_line_start [OF p(2)] l0(1) that by auto
  qed (use l0 in auto)
  have "l0 \<le> ?l \<and> ?P ?l" using first_from_spec [of l0 "lineCount pl" ?P] l0(2) lt by simp
  then show ?thesis
    using lt l0(1) cl by (simp add: updateCurrLine_def Let_def line_count_def p(1))
qed

lemma updateCurrPolyline_spec:
  assumes ok: "polys_ok (polylines t)"
    and k0: "(case currPolyline t of None \<Rightarrow> 0 | Some k \<Rightarrow> k) = k0" "k0 < length (polylines t)"
    and x: "poly_start (polylines t) k0 \<le> x" "x \<le> poly_start (polylines t) (length (polylines t))"
  shows "\<exists>k. currPolyline (updateCurrPolyline t (Some x)) = Some k \<and> k0 \<le> k \<and> k < length (polylines t) \<and>
    poly_start (polylines t) k \<le> x \<and> x \<le> poly_start (polylines t) (Suc k) \<and>
    currLine (updateCurrPolyline t (Some x)) = (if k = k0 then currLine t else Some 0)"
proof -
  let ?ps = "polylines t" let ?n = "int (length ?ps)"
  let ?P = "\<lambda>k. case polyline_at t k of None \<Rightarrow> False | Some p \<Rightarrow> in_polyline (Some x) p"
  let ?b = "\<lambda>i. poly_start ?ps (nat i)"
  have P: "?P i \<longleftrightarrow> ?b i \<le> x \<and> x \<le> ?b (i + 1)" if i: "0 \<le> i" "i < ?n" for i
  proof -
    obtain k where k: "i = int k" "k < length ?ps" using i by (metis nonneg_int_cases of_nat_less_iff)
    obtain fwd pl where pl: "?ps ! k = \<lparr>pr_fwd = fwd, pr_offset = Some (poly_start ?ps k), pr_polyline = Some pl\<rparr>"
      "poly_start ?ps (Suc k) = poly_start ?ps k + totalLength pl"
      using polys_ok_nth [OF ok k(2)] by metis
    have "nat (i + 1) = Suc k" using k(1) by simp
    with k pl show ?thesis by (simp add: in_polyline_def in_line_def total_num_def)
  qed
  let ?k = "first_from ?P (int k0) ?n"
  have lt: "?k < ?n"
    by (rule first_from_cover [where b = ?b]) (use P k0 x in auto)
  have sp: "int k0 \<le> ?k" "?P ?k" using first_from_spec [of "int k0" ?n ?P] k0(2) lt by auto
  have e: "(case currPolyline t of None \<Rightarrow> 0 | Some k \<Rightarrow> int k) = int k0" using k0(1) by (cases "currPolyline t") auto
  have "nat (min ?k (?n - 1)) = nat ?k" using lt by simp
  then have "currPolyline (updateCurrPolyline t (Some x)) = Some (nat ?k)"
    "currLine (updateCurrPolyline t (Some x)) = (if ?k = int k0 then currLine t else Some 0)"
    using lt by (simp_all add: updateCurrPolyline_def Let_def e)
  moreover have "nat ?k < length ?ps" "k0 \<le> nat ?k" "(nat ?k = k0) = (?k = int k0)" using lt sp(1) by auto
  moreover have "poly_start ?ps (nat ?k) \<le> x \<and> x \<le> poly_start ?ps (Suc (nat ?k))"
    using P [of ?k] sp lt by (simp add: Suc_nat_eq_nat_zadd1 add.commute)
  ultimately show ?thesis by auto
qed

definition route_pos :: "Train \<Rightarrow> rat \<Rightarrow> rat" where
  "route_pos t time = (time - d_time t) / (a_time t - d_time t) * poly_start (polylines t) (length (polylines t))"

definition under_way :: "Train \<Rightarrow> rat \<Rightarrow> bool" where
  "under_way t time = (d_time t \<le> time \<and> time \<le> a_time t)"

lemma train_pos_eq: "train_ok t \<Longrightarrow> train_pos t time = Some (route_pos t time)"
  by (auto simp: train_pos_def route_pos_def train_ok_def)

lemma route_pos_bounds:
  assumes "train_ok t" and "under_way t time"
  shows "0 \<le> route_pos t time" "route_pos t time \<le> poly_start (polylines t) (length (polylines t))"
proof -
  let ?q = "(time - d_time t) / (a_time t - d_time t)" and ?tot = "poly_start (polylines t) (length (polylines t))"
  have q: "0 \<le> ?q" "?q \<le> 1" using assms by (auto simp: train_ok_def under_way_def divide_le_eq)
  have tot: "0 \<le> ?tot" using poly_start_mono [of "polylines t" 0 "length (polylines t)"] assms(1) by (simp add: train_ok_def)
  show "0 \<le> route_pos t time" unfolding route_pos_def using q(1) tot by (rule mult_nonneg_nonneg)
  show "route_pos t time \<le> ?tot" unfolding route_pos_def using mult_right_mono [OF q(2) tot] by simp
qed

lemma route_pos_mono:
  assumes "train_ok t" and "s \<le> time"
  shows "route_pos t s \<le> route_pos t time"
proof -
  have "0 \<le> poly_start (polylines t) (length (polylines t))"
    using poly_start_mono [of "polylines t" 0 "length (polylines t)"] assms(1) by (simp add: train_ok_def)
  moreover have "(s - d_time t) / (a_time t - d_time t) \<le> (time - d_time t) / (a_time t - d_time t)"
    using assms by (intro divide_right_mono) (auto simp: train_ok_def)
  ultimately show ?thesis unfolding route_pos_def by (rule mult_right_mono [rotated])
qed

lemma on_line_start:
  assumes "polys_ok (polylines t)" and "on_line t x"
  obtains k l fwd pl where "currPolyline t = Some k" "currLine t = Some l" "k < length (polylines t)"
    "polylines t ! k = \<lparr>pr_fwd = fwd, pr_offset = Some (poly_start (polylines t) k), pr_polyline = Some pl\<rparr>"
    "poly_ok pl" "0 \<le> l" "l < lineCount pl" "line_start fwd (poly_start (polylines t) k) pl l \<le> x"
    "poly_start (polylines t) k \<le> x"
proof -
  obtain k l where kl: "currPolyline t = Some k" "currLine t = Some l" "k < length (polylines t)"
    "0 \<le> l" "l < line_count (polylines t ! k)" "in_line (Some x) (getCurrLinePos (polylines t ! k) l)"
    using assms(2) by (auto simp: on_line_def split: option.splits)
  obtain fwd pl where pl: "polylines t ! k = \<lparr>pr_fwd = fwd, pr_offset = Some (poly_start (polylines t) k), pr_polyline = Some pl\<rparr>"
    "poly_ok pl" using polys_ok_nth [OF assms(1) kl(3)] by metis
  have l: "l < lineCount pl" using kl(5) pl(1) by (simp add: line_count_def)
  have start: "line_start fwd (poly_start (polylines t) k) pl l \<le> x"
    using kl(6) in_line_start [OF pl(2) kl(4) l] pl(1) by simp
  moreover have "poly_start (polylines t) k \<le> line_start fwd (poly_start (polylines t) k) pl l"
    using line_start_mono [OF pl(2), of 0 l] line_ends(1) [OF pl(2)] kl(4) l by simp
  ultimately show thesis using that [OF kl(1,2,3) pl kl(4) l] by simp
qed

lemma update_on_line:
  assumes ok: "train_ok t" and now: "under_way t time"
    and before: "currPolyline t = None \<and> currLine t = None \<or> (\<exists>x0 \<le> route_pos t time. on_line t x0)"
  shows "on_line (fst (updatePosition t time)) (route_pos t time) \<and> progress_ok (fst (updatePosition t time))"
proof -
  let ?x = "route_pos t time" and ?ps = "polylines t"
  have pok: "polys_ok ?ps" and ne: "?ps \<noteq> []" using ok by (auto simp: train_ok_def)
  have vis: "\<not> (time < d_time t \<or> a_time t < time)" using now by (auto simp: under_way_def)
  note tp = train_pos_eq [OF ok, of time]
  show ?thesis
  proof (cases "on_current_line t (Some ?x)")
    case True
    then obtain k where k: "currPolyline t = Some k" by (auto simp: on_current_line_def split: option.splits)
    with before obtain x0 where "on_line t x0" by auto
    with k obtain l where kl: "k < length ?ps" "currLine t = Some l" "0 \<le> l" "l < line_count (?ps ! k)"
      by (auto simp: on_line_def split: option.splits)
    then have inl: "in_line (Some ?x) (getCurrLinePos (?ps ! k) l)" using True k by (simp add: on_current_line_def)
    have u: "updatePosition t time = (set_progress t (?ps ! k) (Some ?x), False)"
      using vis True k kl(1) tp by (simp add: updatePosition_def)
    show ?thesis
      using set_progress_ok [OF kl(2) inl] k kl inl unfolding u by (simp add: on_line_def)
  next
    case False
    define k0 where "k0 = (case currPolyline t of None \<Rightarrow> 0 | Some k \<Rightarrow> k)"
    have k0: "k0 < length ?ps \<and> poly_start ?ps k0 \<le> ?x"
      using before
    proof
      assume "currPolyline t = None \<and> currLine t = None"
      then show ?thesis using ne route_pos_bounds(1) [OF ok now] by (simp add: k0_def)
    next
      assume "\<exists>x0 \<le> ?x. on_line t x0"
      then obtain x0 where x0: "x0 \<le> ?x" "on_line t x0" by blast
      show ?thesis by (rule on_line_start [OF pok x0(2)]) (use x0(1) in \<open>auto simp: k0_def\<close>)
    qed
    obtain k where k: "currPolyline (updateCurrPolyline t (Some ?x)) = Some k" "k0 \<le> k" "k < length ?ps"
      "poly_start ?ps k \<le> ?x" "?x \<le> poly_start ?ps (Suc k)"
      "currLine (updateCurrPolyline t (Some ?x)) = (if k = k0 then currLine t else Some 0)"
      using updateCurrPolyline_spec [OF pok k0_def [symmetric], of ?x] k0 route_pos_bounds(2) [OF ok now] by blast
    obtain fwd pl where pl: "?ps ! k = \<lparr>pr_fwd = fwd, pr_offset = Some (poly_start ?ps k), pr_polyline = Some pl\<rparr>"
      "poly_ok pl" "1 \<le> lineCount pl" "poly_start ?ps (Suc k) = poly_start ?ps k + totalLength pl"
      using polys_ok_nth [OF pok k(3)] by metis
    let ?t1 = "updateCurrPolyline t (Some ?x)"
    have s0: "line_start fwd (poly_start ?ps k) pl 0 \<le> ?x" using line_ends(1) [OF pl(2)] k(4) by simp
    have "\<exists>l0. (case currLine ?t1 of None \<Rightarrow> 0 | Some l \<Rightarrow> l) = l0 \<and> 0 \<le> l0 \<and> l0 < lineCount pl \<and>
        line_start fwd (poly_start ?ps k) pl l0 \<le> ?x"
    proof (cases "k = k0 \<and> currLine t \<noteq> None")
      case True
      with before obtain x0 where x0: "x0 \<le> ?x" "on_line t x0" by auto
      show ?thesis
        by (rule on_line_start [OF pok x0(2)]) (use True k(6) pl(1) x0(1) in \<open>auto simp: k0_def\<close>)
    next
      case False
      then have "(case currLine ?t1 of None \<Rightarrow> 0 | Some l \<Rightarrow> l) = 0" using k(6) by auto
      with s0 pl(3) show ?thesis by auto
    qed
    then obtain l0 where l0: "(case currLine ?t1 of None \<Rightarrow> 0 | Some l \<Rightarrow> l) = l0" "0 \<le> l0" "l0 < lineCount pl"
        "line_start fwd (poly_start ?ps k) pl l0 \<le> ?x" by blast
    let ?t2 = "updateCurrLine ?t1 (?ps ! k) (Some ?x)"
    obtain l where l: "currLine ?t2 = Some l" "0 \<le> l" "l < line_count (?ps ! k)" "in_line (Some ?x) (getCurrLinePos (?ps ! k) l)"
      using updateCurrLine_spec [OF pl(1,2) l0(2-4) _ l0(1)] k(5) pl(4) by auto
    have u: "updatePosition t time = (set_progress ?t2 (?ps ! k) (Some ?x), True)"
      using vis False tp k(1,3) by (simp add: updatePosition_def Let_def polyline_at_def)
    show ?thesis
      using set_progress_ok [OF l(1,4)] k(1,3) l unfolding u by (simp add: on_line_def)
  qed
qed

section \<open>A run of updates\<close>

definition run_updates :: "rat list \<Rightarrow> Train \<Rightarrow> Train" where
  "run_updates tms t = fold (\<lambda>time t. fst (updatePosition t time)) tms t"

lemma updatePosition_keeps [simp]:
  "polylines (fst (updatePosition t time)) = polylines t" "d_time (fst (updatePosition t time)) = d_time t"
  "a_time (fst (updatePosition t time)) = a_time t" "tr_totalLength (fst (updatePosition t time)) = tr_totalLength t"
  by (simp_all add: updatePosition_def Let_def split: option.split)

lemma updatePosition_ok [simp]:
  "train_ok (fst (updatePosition t time)) = train_ok t" "route_pos (fst (updatePosition t time)) = route_pos t"
  "under_way (fst (updatePosition t time)) = under_way t"
  by (auto simp: train_ok_def route_pos_def under_way_def fun_eq_iff)

text \<open>The state of a train at a time, and that an update at a later time keeps it.\<close>

definition placed :: "Train \<Rightarrow> rat \<Rightarrow> bool" where
  "placed t time =
     (if under_way t time then on_line t (route_pos t time) \<and> progress_ok t
      else currPolyline t = None \<and> currLine t = None \<and> currProgress t = None)"

lemma placed_update:
  assumes "train_ok t" and "currPolyline t = None \<and> currLine t = None \<or> placed t s \<and> s \<le> time"
  shows "placed (fst (updatePosition t time)) time"
proof (cases "under_way t time")
  case True
  have "currPolyline t = None \<and> currLine t = None \<or> (\<exists>x0 \<le> route_pos t time. on_line t x0)"
    using assms route_pos_mono [OF assms(1), of s time] by (auto simp: placed_def split: if_splits)
  from update_on_line [OF assms(1) True this] True show ?thesis by (simp add: placed_def)
next
  case False
  then show ?thesis by (auto simp: placed_def under_way_def updatePosition_def no_position_def)
qed

lemma run_placed:
  assumes "train_ok t" and "sorted (tms @ [time])" and "currPolyline t = None \<and> currLine t = None"
  shows "placed (run_updates (tms @ [time]) t) time \<and> train_ok (run_updates (tms @ [time]) t)"
  using assms(2)
proof (induction tms arbitrary: time rule: rev_induct)
  case Nil
  then show ?case using placed_update [OF assms(1), of time time] assms(1,3) by (simp add: run_updates_def)
next
  case (snoc s tms)
  then have "placed (run_updates (tms @ [s]) t) s \<and> train_ok (run_updates (tms @ [s]) t)" "s \<le> time"
    by (auto simp: sorted_append)
  with placed_update [of "run_updates (tms @ [s]) t" s time] show ?case by (simp add: run_updates_def)
qed

lemma preprocess_trains:
  assumes "preprocess G d = Inr data" and "\<And>x. 0 \<le> math_sqrt G x"
    and "list_all (\<lambda>s. 2 \<le> length (decode G s)) (rd_polylines d)"
    and "list_all (\<lambda>r. raw_d_time r < raw_a_time r) (rd_trains d)" and "t \<in> set (td_trains data)"
  shows "train_ok t \<and> currPolyline t = None \<and> currLine t = None"
proof -
  let ?pls = "map (preprocessPolyline G) (rd_polylines d)" and ?sts = "map (preprocessStation G) (rd_stations d)"
  obtain ts where ts: "mapE (newTrain ?sts ?pls) (rd_trains d) = Inr ts" "t \<in> set ts" "polylines t \<noteq> []"
    using assms(1,5) by (auto simp: preprocess_def Let_def bindE_Inr_iff)
  then obtain r where r: "r \<in> set (rd_trains d)" "newTrain ?sts ?pls r = Inr t"
    using mapE_Inr_mem [OF ts(1,2)] by blast
  have pl: "poly_ok pl \<and> 1 \<le> lineCount pl" if "elem ?pls i = Some (Some pl)" for i pl
  proof -
    have "Some pl \<in> set ?pls" by (rule elem_mem [OF that])
    then obtain str where s: "str \<in> set (rd_polylines d)" "preprocessPolyline G str = Some pl" by force
    then have "2 \<le> length (decode G str)" using assms(3) by (auto simp: list_all_iff)
    moreover have "lineCount pl = int (length (decode G str)) - 1"
      using s(2) by (auto simp: preprocessPolyline_def Let_def split: if_splits prod.splits)
    ultimately show ?thesis using preprocessPolyline_ok [OF assms(2) s(2)] by simp
  qed
  have ne: "elem ?pls i \<noteq> Some None" for i
  proof
    assume "elem ?pls i = Some None"
    then have "None \<in> set ?pls" by (rule elem_mem)
    then show False
      using assms(3) by (fastforce simp: list_all_iff preprocessPolyline_def Let_def split: if_splits prod.splits)
  qed
  have "raw_indices r \<noteq> []" using r(2) ts(3) by (auto simp: newTrain_def bindE_Inr_iff Let_def)
  moreover have "raw_d_time r < raw_a_time r" using assms(4) r(1) by (auto simp: list_all_iff)
  ultimately show ?thesis using newTrain_ok [OF r(2)] pl ne by blast
qed

lemma on_line_mercator:
  assumes "train_ok t" and "on_line t x"
  shows "\<exists>a b. getMercatorLine t = Inr (Some (a, b))"
proof -
  have pok: "polys_ok (polylines t)" using assms(1) by (simp add: train_ok_def)
  obtain k l fwd pl where kl: "currPolyline t = Some k" "currLine t = Some l" "k < length (polylines t)"
    "polylines t ! k = \<lparr>pr_fwd = fwd, pr_offset = Some (poly_start (polylines t) k), pr_polyline = Some pl\<rparr>"
    "poly_ok pl" "0 \<le> l" "l < lineCount pl"
    using on_line_start [OF pok assms(2)] by metis
  have "int (length (mercatorCoordinates pl)) = lineCount pl + 1" using kl(5) by (simp add: poly_ok_def)
  then have "\<exists>y. elem (mercatorCoordinates pl) i = Some y" if "0 \<le> i" "i \<le> lineCount pl" for i
    using that by (simp add: elem_def)
  from this [of l] this [of "l + 1"] this [of "lineCount pl - l"] this [of "lineCount pl - l - 1"] kl show ?thesis
    by (auto simp: getMercatorLine_def line_count_def)
qed


definition demo_geo :: Geo where
  "demo_geo = \<lparr>decode = (\<lambda>s. if s = ''a'' then [(0, 0), (0, 2), (0, 4)] else [(0, 4), (0, 5)]),
     fromLngLat = (\<lambda>lng lat. (lng, lat)), math_sqrt = (\<lambda>x. if x = 4 then 2 else 1)\<rparr>"

definition demo_raw :: RawData where
  "demo_raw = \<lparr>rd_stations = [], rd_polylines = [''b'', ''a'', ''b''],
     rd_trains = [\<lparr>raw_clasz = Some 1, raw_trip = [], raw_d_station_id = [], raw_a_station_id = [], raw_d_time = 0,
       raw_a_time = 10, raw_sched_d_time = 0,
       raw_sched_a_time = 10, raw_d_time_reason = [], raw_a_time_reason = [], raw_names = [], raw_route_distance = 0,
       raw_indices = [1, 2]\<rparr>], rd_extras = []\<rparr>"

definition demo_train :: Train where
  "demo_train = (case preprocess demo_geo demo_raw of Inr data \<Rightarrow> hd (td_trains data))"

lemma demo_preprocess: "case preprocess demo_geo demo_raw of Inr data \<Rightarrow> td_trains data = [demo_train] | Inl _ \<Rightarrow> False"
  by code_simp


text \<open>Time must not run backwards. There is a well-formed train that is under way at a time and
  is, after an update to an earlier time at which it is still under way, left on a line that does
  not contain its position.\<close>

theorem backward_jump_misplaces:
  "\<exists>t s time. train_ok t \<and> placed t s \<and> time < s \<and> under_way t time \<and>
     \<not> on_line (fst (updatePosition t time)) (route_pos t time)"
proof -
  obtain data where data: "preprocess demo_geo demo_raw = Inr data" "demo_train \<in> set (td_trains data)"
    using demo_preprocess by (auto split: sum.splits)
  have sq: "\<And>x. 0 \<le> math_sqrt demo_geo x" by (simp add: demo_geo_def)
  have l: "list_all (\<lambda>s. 2 \<le> length (decode demo_geo s)) (rd_polylines demo_raw)"
    "list_all (\<lambda>r. raw_d_time r < raw_a_time r) (rd_trains demo_raw)" by code_simp+
  have t: "train_ok demo_train" "currPolyline demo_train = None \<and> currLine demo_train = None"
    using preprocess_trains [OF data(1) sq l data(2)] by auto
  let ?t = "run_updates [9] demo_train"
  have "placed ?t 9 \<and> train_ok ?t" using run_placed [OF t(1), of "[]" 9] t(2) by simp
  moreover have "under_way ?t 1 \<and> \<not> on_line (fst (updatePosition ?t 1)) (route_pos ?t 1)" by code_simp
  ultimately show ?thesis by (intro exI [of _ ?t] exI [of _ 9] exI [of _ 1]) auto
qed

end
