(* ===== verification/Railviz_Trains.thy ===== *)
theory Railviz_Trains
  imports Railviz_Position "HOL-Library.Word"
begin

unbundle bit_operations_syntax

text \<open>
  The train layer (\<^verbatim>\<open>ui/web/js/railviz/trains.js\<close>): three groups of vertex
  attributes with the buffers they fill. A WebGL buffer is its last uploaded contents. Byte arrays
  hold \<open>8 word\<close>s; the rounding of a \<^verbatim>\<open>Float32Array\<close> and
  \<^verbatim>\<open>Math.atan2\<close> are parameters. The shaders are in \<open>Train_Shader\<close>, the set-up of
  the WebGL context in \<open>Gl_Util\<close>.
\<close>

section \<open>Corner indices\<close>

record VertexAttributes =
  trainCount :: "nat option"
  va_bufferDirty :: bool
  va_buffer :: "8 word list"

definition va_setData :: "Train list \<Rightarrow> VertexAttributes \<Rightarrow> VertexAttributes" where
  "va_setData ts a = a\<lparr>trainCount := Some (length ts), va_bufferDirty := True\<rparr>"

definition va_update :: "Train list \<Rightarrow> VertexAttributes \<Rightarrow> VertexAttributes" where
  "va_update ts a =
     (if \<not> va_bufferDirty a \<or> trainCount a = None \<or> trainCount a = Some 0 then a
      else a\<lparr>va_buffer := concat (map (\<lambda>_. [0, 1, 2, 1, 2, 3]) ts), va_bufferDirty := False\<rparr>)"

section \<open>Positions\<close>

record FloatOps =
  fround :: "num \<Rightarrow> num"
  math_atan2 :: "rat \<Rightarrow> rat \<Rightarrow> rat"

record PositionAttributes =
  positionData :: "num list option"
  progressData :: "jsnum list option"
  anchor :: "(num \<times> num) option"
  positionBuffer :: "num list"
  progressBuffer :: "jsnum list"

definition pa_setData :: "PositionAttributes \<Rightarrow> PositionAttributes" where
  "pa_setData a = a\<lparr>positionData := None, progressData := None, anchor := None\<rparr>"

definition end_point :: "bool \<Rightarrow> Train \<Rightarrow> model_error + point" where
  "end_point at_start t =
     (case elem (polylines t) (if at_start then 0 else int (length (polylines t)) - 1) of
        None \<Rightarrow> Inl (NoSuchPolyline 0)
      | Some p \<Rightarrow>
          (let mc = (case pr_polyline p of None \<Rightarrow> [] | Some pl \<Rightarrow> mercatorCoordinates pl);
               i = (if pr_fwd p = at_start then 0 else int (length mc) - 1)
           in case elem mc i of None \<Rightarrow> Inl (NoSuchPoint i) | Some c \<Rightarrow> Inr c))"

definition firstMercatorCoordinate :: "Train \<Rightarrow> model_error + point" where
  "firstMercatorCoordinate t = end_point True t"

definition lastMercatorCoordinate :: "Train \<Rightarrow> model_error + point" where
  "lastMercatorCoordinate t = end_point False t"

definition anchorStep :: "rat \<times> rat \<Rightarrow> Train \<Rightarrow> model_error + rat \<times> rat" where
  "anchorStep s t =
     bindE (firstMercatorCoordinate t) (\<lambda>a. bindE (lastMercatorCoordinate t) (\<lambda>b.
       Inr (fst s + (fst a + fst b), snd s + (snd a + snd b))))"

text \<open>The mean of the trains' end points; without trains it is \<^verbatim>\<open>NaN\<close>.\<close>

definition computeAnchor :: "Train list \<Rightarrow> model_error + num \<times> num" where
  "computeAnchor ts =
     bindE (foldE anchorStep (0, 0) ts) (\<lambda>s.
       let n = of_nat (2 * length ts) in
       Inr (if ts = [] then (None, None) else (Some (fst s / n), Some (snd s / n))))"

definition position_values :: "FloatOps \<Rightarrow> num \<times> num \<Rightarrow> (point \<times> point) option \<Rightarrow> num list" where
  "position_values F anc line =
     (case line of
        None \<Rightarrow> map (fround F) [Some (-100), Some (-100), Some (-100), Some (-100), Some 0]
      | Some ((x0, y0), (x1, y1)) \<Rightarrow>
          map (fround F)
            [num_sub (Some x0) (fst anc), num_sub (Some y0) (snd anc),
             num_sub (Some x1) (fst anc), num_sub (Some y1) (snd anc),
             Some (- math_atan2 F (y1 - y0) (x1 - x0))])"

text \<open>Writing consecutive elements of an array.\<close>

fun write_at :: "nat \<Rightarrow> 'a list \<Rightarrow> 'a list \<Rightarrow> 'a list" where
  "write_at off [] data = data"
| "write_at off (v # vs) data = write_at (Suc off) vs (data[off := v])"

definition writePositionToBuffer :: "FloatOps \<Rightarrow> num \<times> num \<Rightarrow> Train \<Rightarrow> nat \<Rightarrow> num list \<Rightarrow> model_error + num list" where
  "writePositionToBuffer F anc t i data =
     bindE (getMercatorLine t) (\<lambda>line. Inr (write_at (i * 5) (position_values F anc line) data))"

definition progress_value :: "Train \<Rightarrow> jsnum" where
  "progress_value t = (case currProgress t of Some p \<Rightarrow> p | None \<Rightarrow> Fin (-1))"

definition writeProgressToBuffer :: "Train \<Rightarrow> nat \<Rightarrow> jsnum list \<Rightarrow> jsnum list" where
  "writeProgressToBuffer t i data = data[i := progress_value t]"

text \<open>The loop over the trains: the trains are updated in place; \<open>always\<close> distinguishes the
  first update after new data from the later ones.\<close>

record PosLoop =
  pl_trains :: "Train list"
  pl_positions :: "num list"
  pl_progress :: "jsnum list"
  pl_upload :: bool

definition positionStep :: "FloatOps \<Rightarrow> num \<times> num \<Rightarrow> bool \<Rightarrow> rat \<Rightarrow> PosLoop \<Rightarrow> nat \<Rightarrow> model_error + PosLoop" where
  "positionStep F anc always time s i =
     (let (t, changed) = updatePosition (pl_trains s ! i) time;
          s1 = s\<lparr>pl_trains := (pl_trains s)[i := t], pl_progress := writeProgressToBuffer t i (pl_progress s)\<rparr>
      in if always \<or> changed then
           bindE (writePositionToBuffer F anc t i (pl_positions s)) (\<lambda>d.
             Inr (s1\<lparr>pl_positions := d, pl_upload := True\<rparr>))
         else Inr s1)"

definition pa_update :: "FloatOps \<Rightarrow> Train list \<Rightarrow> rat \<Rightarrow> PositionAttributes \<Rightarrow> model_error + Train list \<times> PositionAttributes" where
  "pa_update F ts time a =
     (case (anchor a, positionData a, progressData a) of
        (Some anc, Some pd, Some gd) \<Rightarrow>
          bindE (foldE (positionStep F anc False time)
                   \<lparr>pl_trains = ts, pl_positions = pd, pl_progress = gd, pl_upload = False\<rparr> [0..<length ts]) (\<lambda>s.
            Inr (pl_trains s,
                 a\<lparr>positionData := Some (pl_positions s), progressData := Some (pl_progress s),
                   positionBuffer := (if pl_upload s then pl_positions s else positionBuffer a),
                   progressBuffer := pl_progress s\<rparr>))
      | _ \<Rightarrow>
          bindE (computeAnchor ts) (\<lambda>anc.
          bindE (foldE (positionStep F anc True time)
                   \<lparr>pl_trains = ts, pl_positions = replicate (length ts * 5) (Some 0),
                    pl_progress = replicate (length ts) (Fin 0), pl_upload = False\<rparr> [0..<length ts]) (\<lambda>s.
            Inr (pl_trains s,
                 a\<lparr>anchor := Some anc, positionData := Some (pl_positions s), progressData := Some (pl_progress s),
                   positionBuffer := pl_positions s, progressBuffer := pl_progress s\<rparr>))))"

section \<open>Colours\<close>

type_synonym colour = "8 word list"

definition categoryColors :: "colour list" where
  "categoryColors =
    [[0x90, 0xa4, 0xae], [0x9c, 0x27, 0xb0], [0xe9, 0x1e, 0x63], [0x9c, 0xcc, 0x65], [0x1a, 0x23, 0x7e],
     [0xf4, 0x43, 0x36], [0xf4, 0x43, 0x36], [0x4c, 0xaf, 0x50], [0x3f, 0x51, 0xb5], [0xf5, 0x7c, 0x00],
     [0xff, 0x98, 0x00], [0x00, 0xac, 0xc1], [0x9e, 0x9e, 0x9e]]"

definition getCategoryColor :: "Train \<Rightarrow> colour option" where
  "getCategoryColor t =
     (if clasz t = 9 \<or> clasz t = 10 then
        elem categoryColors (if route_distance t > 10000 then 9 else 10)
      else elem categoryColors (clasz t))"

definition getDelayColor :: "Train \<Rightarrow> colour" where
  "getDelayColor t =
     (let delay = (d_time t - sched_d_time t) / 60
      in if d_time_reason t = ''SCHEDULE'' then [100, 100, 100]
         else if delay \<le> 3 then [69, 209, 74]
         else if delay \<le> 5 then [255, 237, 0]
         else if delay \<le> 10 then [255, 102, 0]
         else if delay \<le> 15 then [255, 48, 71]
         else [163, 0, 10])"

text \<open>\<^verbatim>\<open>>>>\<close>, \<^verbatim>\<open>&\<close> and \<^verbatim>\<open><<\<close> act on 32 bits.\<close>

definition trainIndexToPickColor :: "nat \<Rightarrow> 32 word list" where
  "trainIndexToPickColor i =
     [of_nat i AND 255, drop_bit 8 (of_nat i) AND 255, drop_bit 16 (of_nat i) AND 255]"

definition pickColorToTrainIndex :: "nat \<Rightarrow> colour option \<Rightarrow> int option" where
  "pickColorToTrainIndex cnt color =
     (case color of
        None \<Rightarrow> None
      | Some c \<Rightarrow>
          if c ! 3 = 0 then None
          else
            (let index = uint (c ! 0) + sint (push_bit 8 (ucast (c ! 1) :: 32 word)) +
                         sint (push_bit 16 (ucast (c ! 2) :: 32 word))
             in if 0 \<le> index \<and> index < int cnt then Some index else None))"

record ColorAttributes =
  ca_trainCount :: "nat option"
  ca_bufferDirty :: bool
  ca_buffer :: "8 word list"

definition ca_setData :: "Train list \<Rightarrow> ColorAttributes \<Rightarrow> ColorAttributes" where
  "ca_setData ts a = a\<lparr>ca_trainCount := Some (length ts), ca_bufferDirty := True\<rparr>"

text \<open>A class without a colour makes the loop throw (\<^verbatim>\<open>undefined[0]\<close>).\<close>

definition colorStep :: "8 word list \<Rightarrow> nat \<times> Train \<Rightarrow> model_error + 8 word list" where
  "colorStep data e =
     (let (i, t) = e in
      case getCategoryColor t of
        None \<Rightarrow> Inl (NoSuchPoint (clasz t))
      | Some cat \<Rightarrow>
          Inr (write_at (i * 12 + 8) (map ucast (trainIndexToPickColor i))
                (write_at (i * 12 + 4) cat (write_at (i * 12) (getDelayColor t) data))))"

definition ca_update :: "Train list \<Rightarrow> ColorAttributes \<Rightarrow> model_error + ColorAttributes" where
  "ca_update ts a =
     (if \<not> ca_bufferDirty a \<or> ca_trainCount a = None then Inr a
      else bindE (foldE colorStep (replicate (length ts * 12) 0) (enumerate 0 ts))
             (\<lambda>d. Inr (a\<lparr>ca_buffer := d, ca_bufferDirty := False\<rparr>)))"

text \<open>What an attribute with this stride, offset and size reads for an instance.\<close>

definition read_attribute :: "nat \<Rightarrow> nat \<Rightarrow> nat \<Rightarrow> 'a list \<Rightarrow> nat \<Rightarrow> 'a list" where
  "read_attribute stride off len buf i = take len (drop (i * stride + off) buf)"

text \<open>The attributes a program run has enabled: size in elements, stride and offset in bytes,
  divisor (0 for one value per corner, 1 for one per train).\<close>

record AttribPointer =
  ap_name :: string
  ap_size :: nat
  ap_stride :: nat
  ap_offset :: nat
  ap_divisor :: nat

definition pointer :: "string \<Rightarrow> nat \<Rightarrow> nat \<Rightarrow> nat \<Rightarrow> nat \<Rightarrow> AttribPointer" where
  "pointer n sz stride off divisor =
     \<lparr>ap_name = n, ap_size = sz, ap_stride = stride, ap_offset = off, ap_divisor = divisor\<rparr>"

definition va_enable :: "AttribPointer list" where
  "va_enable = [pointer ''a_vertex'' 1 0 0 0]"

definition pa_enable :: "AttribPointer list" where
  "pa_enable =
     [pointer ''a_startPos'' 2 20 0 1, pointer ''a_endPos'' 2 20 8 1, pointer ''a_angle'' 1 20 16 1,
      pointer ''a_progress'' 1 0 0 1]"

definition ca_enable :: "AttribPointer list" where
  "ca_enable =
     [pointer ''a_delayColor'' 3 12 0 1, pointer ''a_categoryColor'' 3 12 4 1, pointer ''a_pickColor'' 3 12 8 1]"

text \<open>Byte attributes: one byte per element.\<close>

definition read_bytes :: "AttribPointer \<Rightarrow> 8 word list \<Rightarrow> nat \<Rightarrow> 8 word list" where
  "read_bytes p buf i = read_attribute (ap_stride p) (ap_offset p) (ap_size p) buf i"

section \<open>The layer\<close>

record TrainLayer =
  lay_trains :: "Train list"
  lay_initialized :: bool
  vertexAttributes :: VertexAttributes
  positionAttributes :: PositionAttributes
  colorAttributes :: ColorAttributes
  useCategoryColor :: bool

definition lay_setup :: "TrainLayer \<Rightarrow> TrainLayer" where
  "lay_setup l = l\<lparr>lay_initialized := False,
     vertexAttributes := \<lparr>trainCount = None, va_bufferDirty = False, va_buffer = []\<rparr>,
     positionAttributes :=
       \<lparr>positionData = None, progressData = None, anchor = None, positionBuffer = [], progressBuffer = []\<rparr>,
     colorAttributes := \<lparr>ca_trainCount = None, ca_bufferDirty = False, ca_buffer = []\<rparr>\<rparr>"

definition lay_setData :: "Train list option \<Rightarrow> TrainLayer \<Rightarrow> TrainLayer" where
  "lay_setData ts l = l\<lparr>lay_trains := (case ts of None \<Rightarrow> [] | Some ts \<Rightarrow> ts), lay_initialized := False\<rparr>"

definition preRender :: "FloatOps \<Rightarrow> rat \<Rightarrow> TrainLayer \<Rightarrow> model_error + TrainLayer" where
  "preRender F time l =
     (let l1 = (if lay_initialized l then l
                else l\<lparr>lay_initialized := True,
                       vertexAttributes := va_setData (lay_trains l) (vertexAttributes l),
                       positionAttributes := pa_setData (positionAttributes l),
                       colorAttributes := ca_setData (lay_trains l) (colorAttributes l)\<rparr>)
      in bindE (pa_update F (lay_trains l1) time (positionAttributes l1)) (\<lambda>p.
         bindE (ca_update (fst p) (colorAttributes l1)) (\<lambda>c.
           Inr (l1\<lparr>lay_trains := fst p, vertexAttributes := va_update (lay_trains l1) (vertexAttributes l1),
                   positionAttributes := snd p, colorAttributes := c\<rparr>))))"

text \<open>The draw call: corners and instances, with the attributes enabled and the uniforms the layer
  computes (radius, off-screen flag, category colours); none without trains.
  \<^verbatim>\<open>Style.interpolateTrainScale\<close> is the parameter \<open>scale\<close>.\<close>

record TrainDraw =
  td_radius :: rat
  td_offscreen :: bool
  td_useCategoryColor :: bool
  td_anchor :: "(num \<times> num) option"
  td_attributes :: "AttribPointer list"
  td_vertices :: nat
  td_instances :: nat

definition lay_render :: "(rat \<Rightarrow> rat) \<Rightarrow> (rat \<Rightarrow> rat) \<Rightarrow> rat \<Rightarrow> rat \<Rightarrow> bool \<Rightarrow> TrainLayer \<Rightarrow> TrainDraw option" where
  "lay_render pow2 scale zoom pre_scale isOffscreen l =
     (if lay_trains l = [] then None
      else
        (let px_size = 1 / (512 * pow2 zoom)
         in Some \<lparr>td_radius = 32 * pre_scale * px_size * scale zoom, td_offscreen = isOffscreen,
                  td_useCategoryColor = useCategoryColor l, td_anchor = anchor (positionAttributes l),
                  td_attributes = va_enable @ pa_enable @ ca_enable,
                  td_vertices = 6, td_instances = length (lay_trains l)\<rparr>))"

text \<open>Picking uses the trains the colour attributes were last given; before that there are none
  and a visible colour makes the length access throw.\<close>

definition getPickedTrainIndex :: "TrainLayer \<Rightarrow> colour option \<Rightarrow> model_error + int option" where
  "getPickedTrainIndex l c =
     (case ca_trainCount (colorAttributes l) of
        Some n \<Rightarrow> Inr (pickColorToTrainIndex n c)
      | None \<Rightarrow> (case c of None \<Rightarrow> Inr None | Some d \<Rightarrow> if d ! 3 = 0 then Inr None else Inl (NoSuchPoint 0)))"

definition setUseCategoryColor :: "bool \<Rightarrow> TrainLayer \<Rightarrow> TrainLayer" where
  "setUseCategoryColor b l = l\<lparr>useCategoryColor := b\<rparr>"

end
