(* ===== verification/Railviz_Render.thy ===== *)
theory Railviz_Render
  imports Connection_Manager Railviz_Trains
begin

text \<open>
  The renderer (\<^verbatim>\<open>render.js\<close>): when frames are drawn, what the train layer is told, the
  off-screen buffer used for picking and the evaluation of mouse events. WebGL is the state it
  is left in: the frame buffers that exist and the draw calls issued.
\<close>

section \<open>State\<close>

text \<open>The environment: the pixel ratio of the window, powers of two, the symbol scale, and the
  rounding of the float buffers.\<close>

record Env =
  pixelRatio :: rat
  pow2 :: "rat \<Rightarrow> rat"
  floats :: FloatOps

text \<open>Train data carries the number of the call it came with, so that a train is identified by
  that number and its index.\<close>

record Render = ConnectionManager +
  rd_data :: "(nat \<times> TrainData) option"
  rd_timeOffset :: rat
  rd_map :: bool
  rafRequest :: bool
  offscreen :: "(nat \<times> nat \<times> nat) option"
  framebuffers :: "nat list"
  next_framebuffer :: nat
  minZoom :: rat
  lastFrame :: "rat option"
  targetFrameTime :: "rat option"
  forceDraw :: bool
  rd_trainsEnabled :: bool
  train_layer :: TrainLayer

section \<open>Settings\<close>

definition rd_setData :: "(nat \<times> TrainData) option \<Rightarrow> 'a Render_scheme \<Rightarrow> 'a Render_scheme" where
  "rd_setData newData s =
     s\<lparr>rd_data := newData,
       train_layer := lay_setData (Some (case newData of None \<Rightarrow> [] | Some d \<Rightarrow> td_trains (snd d))) (train_layer s),
       forceDraw := True\<rparr>"

definition rd_init :: "'a Render_scheme \<Rightarrow> 'a Render_scheme" where
  "rd_init s = rd_setData None s"

definition rd_setTrainsEnabled :: "bool \<Rightarrow> 'a Render_scheme \<Rightarrow> 'a Render_scheme" where
  "rd_setTrainsEnabled b s = s\<lparr>forceDraw := (b \<noteq> rd_trainsEnabled s), rd_trainsEnabled := b\<rparr>"

definition rd_setTimeOffset :: "rat \<Rightarrow> 'a Render_scheme \<Rightarrow> 'a Render_scheme" where
  "rd_setTimeOffset t s = s\<lparr>rd_timeOffset := t, forceDraw := True\<rparr>"

definition rd_setMinZoom :: "rat \<Rightarrow> 'a Render_scheme \<Rightarrow> 'a Render_scheme" where
  "rd_setMinZoom z s = s\<lparr>minZoom := z, forceDraw := True\<rparr>"

definition rd_setTargetFps :: "rat option \<Rightarrow> 'a Render_scheme \<Rightarrow> 'a Render_scheme" where
  "rd_setTargetFps fps s =
     s\<lparr>targetFrameTime := (case fps of None \<Rightarrow> None | Some f \<Rightarrow> if f = 0 then None else Some (1000 / f))\<rparr>"

definition rd_setup :: "'a Render_scheme \<Rightarrow> 'a Render_scheme" where
  "rd_setup s =
     s\<lparr>rd_map := True, offscreen := None, train_layer := lay_setup (train_layer s), lastFrame := None,
       forceDraw := True, rafRequest := True\<rparr>"

definition rd_stop :: "'a Render_scheme \<Rightarrow> 'a Render_scheme" where
  "rd_stop s = s\<lparr>rafRequest := False\<rparr>"

section \<open>Frames\<close>

text \<open>The animation frame callback: the browser has taken the request that led to it.\<close>

definition maybe_render :: "rat \<Rightarrow> 'a Render_scheme \<Rightarrow> 'a Render_scheme" where
  "maybe_render now s =
     (let s0 = s\<lparr>rafRequest := False\<rparr>;
          too_early = (case (targetFrameTime s, lastFrame s) of
             (Some target, Some lst) \<Rightarrow> \<not> forceDraw s \<and> now - lst < target
           | _ \<Rightarrow> False)
      in if too_early then s0\<lparr>rafRequest := True\<rparr>
         else
           (let s1 = s0\<lparr>forceDraw := False\<rparr>
            in if rd_map s then map_call TriggerRepaint s1 else s1))"

definition rd_prerender :: "Env \<Rightarrow> rat \<Rightarrow> 'a Render_scheme \<Rightarrow> 'a Render_scheme exec" where
  "rd_prerender env now s =
     (let time = rd_timeOffset s + now in
      if rd_trainsEnabled s then
        (case preRender (floats env) time (train_layer s) of
           Inl e \<Rightarrow> Thrown s
         | Inr l \<Rightarrow> Done (s\<lparr>train_layer := l\<rparr>))
      else Done s)"

definition createOffscreenBuffer :: "nat \<Rightarrow> nat \<Rightarrow> 'a Render_scheme \<Rightarrow> 'a Render_scheme" where
  "createOffscreenBuffer width height s =
     (let fresh = next_framebuffer s;
          alive = (case offscreen s of None \<Rightarrow> framebuffers s | Some (w, h, fb) \<Rightarrow> removeAll fb (framebuffers s));
          s1 = s\<lparr>offscreen := Some (width, height, fresh), framebuffers := alive @ [fresh], next_framebuffer := Suc fresh\<rparr>
      in case offscreen s of
           Some (w, h, fb) \<Rightarrow> if w = width \<and> h = height then s else s1
         | None \<Rightarrow> s1)"

definition pre_scale :: "Env \<Rightarrow> rat \<Rightarrow> 'a Render_scheme \<Rightarrow> rat" where
  "pre_scale env zoom s = min 1 (max (minZoom s) zoom * pixelRatio env / 10)"

text \<open>The two passes, into the off-screen buffer and to the screen. The draw calls are returned.\<close>

definition rd_render :: "Env \<Rightarrow> rat \<Rightarrow> rat \<Rightarrow> nat \<Rightarrow> nat \<Rightarrow> 'a Render_scheme \<Rightarrow> TrainDraw option list \<times> 'a Render_scheme" where
  "rd_render env zoom now width height s =
     (let s1 = createOffscreenBuffer width height s;
          draws = (if rd_trainsEnabled s1
                   then map (\<lambda>isOffscreen. lay_render (pow2 env) interpolateTrainScale zoom (pre_scale env zoom s1) isOffscreen (train_layer s1)) [True, False]
                   else [])
      in (draws, s1\<lparr>lastFrame := Some now, rafRequest := True\<rparr>))"

section \<open>Picking\<close>

text \<open>Reading a pixel of the off-screen buffer: \<open>pixel\<close> is what \<^verbatim>\<open>readPixels\<close> delivers
  for a column and a row counted from the bottom.\<close>

definition readOffscreenPixel :: "(rat \<Rightarrow> rat \<Rightarrow> colour) \<Rightarrow> nat \<Rightarrow> nat \<Rightarrow> rat \<Rightarrow> rat \<Rightarrow> 'a Render_scheme \<Rightarrow> colour option" where
  "readOffscreenPixel pixel width height x y s =
     (case offscreen s of
        None \<Rightarrow> None
      | Some (w, h, fb) \<Rightarrow>
          if fb \<notin> set (framebuffers s) then None
          else if x < 0 \<or> y < 0 \<or> x \<ge> of_nat width \<or> y \<ge> of_nat height then None
          else Some (pixel x (of_nat height - y)))"

record MouseInput =
  mi_type :: string
  mi_button :: int
  mi_x :: rat
  mi_y :: rat
  mi_features :: "PickedFeature list"
  mi_pixel :: "rat \<Rightarrow> rat \<Rightarrow> colour"
  mi_width :: nat
  mi_height :: nat

record PickResult =
  pickedTrain :: "((nat \<times> nat) \<times> Train) option"
  pickedStation :: "(string \<times> string) option"
  pickedConnection :: "Picked option"
  cursor_pointer :: bool

definition pick_train :: "'a Render_scheme \<Rightarrow> int option \<Rightarrow> ((nat \<times> nat) \<times> Train) option" where
  "pick_train s i =
     (case (i, rd_data s) of
        (Some k, Some (call, d)) \<Rightarrow> map_option (\<lambda>t. ((call, nat k), t)) (elem (td_trains d) k)
      | _ \<Rightarrow> None)"

definition pick :: "Env \<Rightarrow> MouseInput \<Rightarrow> 'a Render_scheme \<Rightarrow> model_error + PickResult" where
  "pick env e s =
     (let offscreenColor = readOffscreenPixel (mi_pixel e) (mi_width e) (mi_height e)
                             (mi_x e * pixelRatio env) (mi_y e * pixelRatio env) s
      in bindE (getPickedTrainIndex (train_layer s) offscreenColor) (\<lambda>i.
           let tr = pick_train s i;
               st = map_option pk_station (find (\<lambda>f. endsWith (pk_layer f) ''-stations'') (mi_features e))
           in bindE (getPickedConnections (mi_features e) s) (\<lambda>pc.
                Inr \<lparr>pickedTrain = tr, pickedStation = st, pickedConnection = pc,
                     cursor_pointer = ((tr \<noteq> None \<or> st \<noteq> None) \<and> mi_type e \<noteq> ''mouseout'')\<rparr>)))"

text \<open>The handler is the one \<^verbatim>\<open>init\<close> was given.\<close>

definition rd_handleMouseEvent ::
  "Env \<Rightarrow> (MouseInput \<Rightarrow> PickResult \<Rightarrow> 'a Render_scheme \<Rightarrow> 'a Render_scheme exec) \<Rightarrow> MouseInput \<Rightarrow>
     'a Render_scheme \<Rightarrow> 'a Render_scheme exec" where
  "rd_handleMouseEvent env mouseHandler e s =
     (if \<not> rd_map s then Done s
      else (case pick env e s of Inl err \<Rightarrow> Thrown s | Inr r \<Rightarrow> mouseHandler e r s))"

end
