(* ===== verification/Railviz_Main.thy ===== *)
theory Railviz_Main
  imports Railviz_Render
begin

text \<open>
  The main module of the map view (\<^verbatim>\<open>ui/web/js/railviz/main.js\<close>): it decides between all
  trains and one journey, requests their data again and again, and passes what the user does to
  the other modules. A timer is the flag that it is armed. Train objects are handed to the layers by
  value; the position state a layer computes stays with the layer.
\<close>

section \<open>State\<close>

record MapInfo =
  mi_zoom :: int
  mi_north :: rat
  mi_west :: rat
  mi_south :: rat
  mi_east :: rat

record HoverInfo =
  hv_x :: rat
  hv_y :: rat
  hv_train :: "((nat \<times> nat) \<times> Train) option"
  hv_station :: "(string \<times> string) option"
  hv_connection :: "Picked option"
  hv_highlighted :: "int list"

record Main = Render +
  mapInfo :: "MapInfo option"
  timeOffset :: rat
  debounceTimer :: bool
  trainUpdateTimer :: bool
  tripsUpdateTimer :: bool
  fullData :: "(nat \<times> TrainData) option"
  showingDetailData :: bool
  lastTrainsRequest :: "nat option"
  lastTrainsCount :: nat
  main_lastTripsRequest :: "nat option"
  useFpsLimiter :: bool
  trainsEnabled :: bool
  hoverInfo :: HoverInfo

definition FILTERED_MIN_ZOOM :: rat where
  "FILTERED_MIN_ZOOM = 14"

section \<open>Switching between all trains and one journey\<close>

definition main_highlightConnections :: "int list \<Rightarrow> 'a Main_scheme \<Rightarrow> 'a Main_scheme" where
  "main_highlightConnections ids s = highlightConnections (Some ids) s"

definition showFullData :: "'a Main_scheme \<Rightarrow> 'a Main_scheme exec" where
  "showFullData s =
     (let s1 = base_setEnabled (trainsEnabled s) (s\<lparr>showingDetailData := False\<rparr>)
      in after (extra_setData (map_option snd (fullData s1)) s1) (\<lambda>s.
           let s2 = conn_setEnabled True (detail_setEnabled False (extra_setEnabled (trainsEnabled s) s));
               s3 = rd_setMinZoom 0 (rd_setData (fullData s2) s2)
           in Done (rd_setTrainsEnabled (trainsEnabled s3) s3)))"

definition detail_data_for_render :: "'a Main_scheme \<Rightarrow> (nat \<times> TrainData) option" where
  "detail_data_for_render s = map_option (\<lambda>d. (dt_call d, dt_data d)) (detailTrips s)"

definition showDetailData :: "'a Main_scheme \<Rightarrow> 'a Main_scheme exec" where
  "showDetailData s =
     (let s1 = extra_setEnabled False (base_setEnabled False (s\<lparr>showingDetailData := True\<rparr>))
      in after (detail_setData s1) (\<lambda>s.
           let s2 = conn_setEnabled False (detail_setEnabled True s);
               s3 = rd_setMinZoom FILTERED_MIN_ZOOM (rd_setData (detail_data_for_render s2) s2)
           in Done (main_highlightConnections [] (rd_setTrainsEnabled True s3))))"

definition showTrains :: "bool \<Rightarrow> 'a Main_scheme \<Rightarrow> 'a Main_scheme" where
  "showTrains b s =
     (let s1 = s\<lparr>trainsEnabled := b\<rparr>;
          s2 = base_setEnabled (\<not> showingDetailData s1 \<and> b) s1;
          s3 = extra_setEnabled (\<not> showingDetailData s2 \<and> b) s2;
          s4 = detail_setEnabled (showingDetailData s3 \<and> b) s3
      in rd_setTrainsEnabled b s4)"

section \<open>Requests\<close>

text \<open>\<^verbatim>\<open>now\<close> is the clock in seconds. The bounds are read from the last map update:
  without one, reading them throws.\<close>

definition main_makeTrainsRequest :: "rat \<Rightarrow> MapInfo \<Rightarrow> 'a Main_scheme \<Rightarrow> jsval" where
  "main_makeTrainsRequest now m s =
     makeTrainsRequest (min (mi_zoom m) 18) (position (mi_north m) (mi_west m)) (position (mi_south m) (mi_east m))
       (timeOffset s + now) (timeOffset s + now + 120) 2500 (lastTrainsCount s)"

definition sendTrainsRequest :: "rat \<Rightarrow> 'a Main_scheme \<Rightarrow> 'a Main_scheme exec" where
  "sendTrainsRequest now s =
     (let s1 = setLoading 1 (s\<lparr>trainUpdateTimer := True\<rparr>) in
      case mapInfo s1 of
        None \<Rightarrow> Thrown s1
      | Some m \<Rightarrow>
          (let (i, s2) = sendRequest (apiEndpoint s1) (main_makeTrainsRequest now m s1) TrainsReply s1
           in Done (s2\<lparr>lastTrainsRequest := Some i\<rparr>)))"

definition main_makeTripsRequest :: "DetailFilter \<Rightarrow> jsval" where
  "main_makeTripsRequest f = makeTripsRequest (map ct_trip (df_trains f))"

definition sendTripsRequest :: "'a Main_scheme \<Rightarrow> 'a Main_scheme" where
  "sendTripsRequest s =
     (let s1 = s\<lparr>tripsUpdateTimer := False\<rparr> in
      case detailFilter s1 of
        None \<Rightarrow> s1
      | Some f \<Rightarrow>
          (let (i, s2) = sendRequest (apiEndpoint s1) (main_makeTripsRequest f) TripsReply
                           (setLoading 1 (s1\<lparr>tripsUpdateTimer := True\<rparr>))
           in s2\<lparr>main_lastTripsRequest := Some i\<rparr>))"

definition dataReceived :: "Geo \<Rightarrow> RawData \<Rightarrow> bool \<Rightarrow> nat \<Rightarrow> 'a Main_scheme \<Rightarrow> 'a Main_scheme exec" where
  "dataReceived G content onlyFilteredTrips callId s =
     (let s1 = setLoading (-1) s;
          lastRequest = (if onlyFilteredTrips then main_lastTripsRequest s else lastTrainsRequest s)
      in if Some callId \<noteq> lastRequest then Done s1
         else
           (case preprocess G content of
              Inl e \<Rightarrow> Thrown s1
            | Inr d \<Rightarrow>
                after
                  (if onlyFilteredTrips then
                     (let s2 = s1\<lparr>detailTrips := Some (detail_trips callId d)\<rparr>
                      in if detailFilter s2 \<noteq> None then showDetailData s2 else Done s2)
                   else
                     (let s2 = s1\<lparr>lastTrainsCount := length (td_trains d),
                                  fullData := Some (callId, d\<lparr>td_stations := []\<rparr>)\<rparr>
                      in if detailFilter s2 = None then showFullData s2 else Done s2))
                  (\<lambda>s. Done (send_port ClearRailVizError s))))"

text \<open>The debounced request: every call restarts the one timer.\<close>

definition debouncedSendTrainsRequest :: "'a Main_scheme \<Rightarrow> 'a Main_scheme" where
  "debouncedSendTrainsRequest s = s\<lparr>debounceTimer := True\<rparr>"

definition debounce_fires :: "rat \<Rightarrow> 'a Main_scheme \<Rightarrow> 'a Main_scheme exec" where
  "debounce_fires now s = sendTrainsRequest now (s\<lparr>debounceTimer := False\<rparr>)"

section \<open>What the user interface calls\<close>

definition setupFpsLimiter :: "'a Main_scheme \<Rightarrow> 'a Main_scheme" where
  "setupFpsLimiter s =
     rd_setTargetFps
       (case mapInfo s of
          None \<Rightarrow> None
        | Some m \<Rightarrow>
            if \<not> useFpsLimiter s then None
            else if mi_zoom m \<le> 10 then Some 2
            else if mi_zoom m \<le> 12 then Some 5
            else if mi_zoom m \<le> 14 then Some 10
            else if mi_zoom m \<le> 15 then Some 30
            else None) s"

definition mapUpdate :: "MapInfo \<Rightarrow> 'a Main_scheme \<Rightarrow> 'a Main_scheme" where
  "mapUpdate newMapInfo s = debouncedSendTrainsRequest (setupFpsLimiter (s\<lparr>mapInfo := Some newMapInfo\<rparr>))"

definition main_setTimeOffset :: "rat \<Rightarrow> 'a Main_scheme \<Rightarrow> 'a Main_scheme" where
  "main_setTimeOffset newTimeOffset s =
     (let s1 = s\<lparr>timeOffset := newTimeOffset / 1000\<rparr>
      in debouncedSendTrainsRequest (rd_setTimeOffset (timeOffset s1) s1))"

definition setDetailFilter :: "DetailFilter option \<Rightarrow> 'a Main_scheme \<Rightarrow> 'a Main_scheme exec" where
  "setDetailFilter f s =
     (let s1 = s\<lparr>detailFilter := f\<rparr>
      in if f = None then showFullData (s1\<lparr>detailTrips := None\<rparr>) else Done (sendTripsRequest s1))"

definition isSameStation :: "MapStation \<Rightarrow> MapStation \<Rightarrow> bool" where
  "isSameStation a b = (ms_id a = ms_id b \<and> ms_lat a = ms_lat b \<and> ms_lng a = ms_lng b)"

definition isSameWalk :: "Walk \<Rightarrow> Walk \<Rightarrow> bool" where
  "isSameWalk a b = (isSameStation (w_from a) (w_from b) \<and> isSameStation (w_to a) (w_to b))"

definition update_walk :: "Geo \<Rightarrow> Walk list \<times> bool \<Rightarrow> Walk \<Rightarrow> Walk list \<times> bool" where
  "update_walk G st walk =
     (let (ws, updated) = st; walk1 = prepareWalk G walk; k = find_index (\<lambda>w. isSameWalk w walk1) ws
      in if k = -1 then st
         else (ws[nat k := (ws ! nat k)\<lparr>w_polyline := w_polyline walk1, w_coordinates := w_coordinates walk1\<rparr>], True))"

definition setDetailWalks :: "Geo \<Rightarrow> Walk list \<Rightarrow> 'a Main_scheme \<Rightarrow> 'a Main_scheme exec" where
  "setDetailWalks G walks s =
     (case detailFilter s of
        None \<Rightarrow> Done s
      | Some f \<Rightarrow>
          (let (ws, updated) = foldl (update_walk G) (df_walks f, False) walks;
               s1 = s\<lparr>detailFilter := Some (f\<lparr>df_walks := ws\<rparr>)\<rparr>
           in if updated \<and> showingDetailData s1 then showDetailData s1 else Done s1))"

definition setPPRSearchOptions :: "jsval \<Rightarrow> 'a Main_scheme \<Rightarrow> 'a Main_scheme" where
  "setPPRSearchOptions options s =
     (if deepEqual options (pprSearchOptions s) then s else resetPPRCache s)\<lparr>pprSearchOptions := options\<rparr>"

definition setUseFpsLimiter :: "bool \<Rightarrow> 'a Main_scheme \<Rightarrow> 'a Main_scheme" where
  "setUseFpsLimiter b s = setupFpsLimiter (s\<lparr>useFpsLimiter := b\<rparr>)"

section \<open>Mouse\<close>

text \<open>\<^verbatim>\<open>==\<close> on objects is identity: trains by response and index, picked connections by
  their numbers. A picked station is a new object at every event and equals no earlier one.\<close>

definition same_picked :: "Picked option \<Rightarrow> Picked option \<Rightarrow> bool" where
  "same_picked a b =
     (case (a, b) of
        (None, None) \<Rightarrow> True
      | (Some (PickedTrains c i ts), Some (PickedTrains c' i' ts')) \<Rightarrow> c = c' \<and> i = i'
      | (Some (PickedWalk k w), Some (PickedWalk k' w')) \<Rightarrow> k = k'
      | _ \<Rightarrow> False)"

definition same_hover :: "HoverInfo \<Rightarrow> rat \<Rightarrow> rat \<Rightarrow> PickResult \<Rightarrow> bool" where
  "same_hover h x y r =
     (hv_x h = x \<and> hv_y h = y \<and> map_option fst (hv_train h) = map_option fst (pickedTrain r) \<and>
      hv_station h = None \<and> pickedStation r = None \<and> same_picked (hv_connection h) (pickedConnection r))"

definition has_delay_info :: "string \<Rightarrow> bool" where
  "has_delay_info reason = (reason \<noteq> [] \<and> reason \<noteq> ''SCHEDULE'')"

text \<open>The tooltip of a train; without its stations reading their names throws.\<close>

definition rvTrain :: "Train \<Rightarrow> jsval option" where
  "rvTrain t =
     (case (dStation t, aStation t) of
        (Some d, Some a) \<Rightarrow> Some (JObj
          [(''names'', JArr (map JStr (tr_names t))),
           (''departureTime'', JNum (Fin (d_time t * 1000))), (''arrivalTime'', JNum (Fin (a_time t * 1000))),
           (''scheduledDepartureTime'', JNum (Fin (sched_d_time t * 1000))),
           (''scheduledArrivalTime'', JNum (Fin (sched_a_time t * 1000))),
           (''hasDepartureDelayInfo'', JBool (has_delay_info (d_time_reason t))),
           (''hasArrivalDelayInfo'', JBool (has_delay_info (a_time_reason t))),
           (''departureStation'', JStr (st_name d)), (''arrivalStation'', JStr (st_name a))])
      | _ \<Rightarrow> None)"

definition trip_segment :: "TripTrain \<Rightarrow> jsval" where
  "trip_segment pc = JObj
     [(''connectionIds'', JArr (map JInt (tt_connectionIds pc))), (''trip'', JArr (trip (tt_train pc))),
      (''d_station_id'', JStr (d_station_id (tt_train pc))), (''a_station_id'', JStr (a_station_id (tt_train pc)))]"

text \<open>The connection ids of a hovered segment, each once.\<close>

definition hovered_ids :: "Picked option \<Rightarrow> int list" where
  "hovered_ids p =
     (case p of
        None \<Rightarrow> []
      | Some (PickedTrains c i ts) \<Rightarrow> foldl (\<lambda>acc k. if k \<in> set acc then acc else acc @ [k]) [] (concat (map tt_connectionIds ts))
      | Some (PickedWalk a w) \<Rightarrow> we_connectionIds w)"

definition setTooltip :: "rat \<Rightarrow> rat \<Rightarrow> PickResult \<Rightarrow> 'a Main_scheme \<Rightarrow> 'a Main_scheme exec" where
  "setTooltip x y r s =
     (if same_hover (hoverInfo s) x y r then Done s
      else
        (let s1 = s\<lparr>hoverInfo := (hoverInfo s)\<lparr>hv_x := x, hv_y := y, hv_train := pickedTrain r,
                     hv_station := pickedStation r, hv_connection := pickedConnection r\<rparr>\<rparr>;
             tooltip = (case pickedTrain r of None \<Rightarrow> Some JNull | Some t \<Rightarrow> rvTrain (snd t))
         in case tooltip of
              None \<Rightarrow> Thrown s1
            | Some train_tip \<Rightarrow>
                (let ids = hovered_ids (pickedConnection r);
                     s2 = (if ids = hv_highlighted (hoverInfo s1) then s1
                           else main_highlightConnections ids (s1\<lparr>hoverInfo := (hoverInfo s1)\<lparr>hv_highlighted := ids\<rparr>\<rparr>));
                     station_tip = (case pickedStation r of None \<Rightarrow> JNull | Some st \<Rightarrow> JStr (snd st));
                     trip_tip = (case pickedConnection r of Some (PickedTrains c i ts) \<Rightarrow> JArr (map trip_segment ts) | _ \<Rightarrow> JNull);
                     walk_tip = (case pickedConnection r of Some (PickedWalk a w) \<Rightarrow> Some a | _ \<Rightarrow> None)
                 in Done (send_port (MapSetTooltip x y train_tip station_tip trip_tip walk_tip) s2))))"

definition nothing_picked :: PickResult where
  "nothing_picked = \<lparr>pickedTrain = None, pickedStation = None, pickedConnection = None, cursor_pointer = False\<rparr>"

definition main_handleMouseEvent :: "MouseInput \<Rightarrow> PickResult \<Rightarrow> 'a Main_scheme \<Rightarrow> 'a Main_scheme exec" where
  "main_handleMouseEvent e r s =
     (if mi_type e = ''click'' then
        (let s1 = (case pickedTrain r of
               Some t \<Rightarrow> (case trip (snd t) of [] \<Rightarrow> s | trp # _ \<Rightarrow> send_port (ShowTripDetails trp) s)
             | None \<Rightarrow> (case pickedStation r of None \<Rightarrow> s | Some st \<Rightarrow> send_port (ShowStationDetails (fst st)) s))
         in Done (if mi_button e = 0 then send_port MapCloseContextMenu s1 else s1))
      else if mi_type e \<noteq> ''mouseout'' then setTooltip (mi_x e) (mi_y e) r s
      else setTooltip (-1) (-1) nothing_picked s)"

section \<open>Initialisation\<close>

definition main_init :: "string \<Rightarrow> 'a Main_scheme \<Rightarrow> 'a Main_scheme" where
  "main_init endpoint s = rd_init (s\<lparr>apiEndpoint := endpoint\<rparr>)"

text \<open>The variables of the modules when the scripts have been loaded.\<close>

definition start :: Main where
  "start = \<lparr>lastCallId = 0, pending = [], sent = [], map_log = [], ports = [], loadingCount = 0, spinner = False,
     gbfs_map = False, gbfs_tilesEndpoint = [], gbfs_enabled = True, gbfsOptions = [], missedUpdate = None, gbfs_loaded = 0,
     markerSettings = \<lparr>startPosition = None, destinationPosition = None, startName = None, destinationName = None\<rparr>,
     startText = [], destinationText = [], startMarker = None, destinationMarker = None, markers_visible = True,
     base_map = False, base_enabled = True, extra_map = False, extra_data = None, extra_enabled = True,
     detail_map = False, detail_data = None, detail_enabled = True, detailFilter = None, detailTrips = None,
     connection_heap = [], walk_heap = [], conn_map = False, conn_data = None, conn_enabled = True,
     pc_connections = None, pc_tripData = None, pc_walkData = None,
     connections = [], tripData = None, walkData = [], cm_lastTripsRequest = None, tripsComplete = False,
     osrmCache = [], pprCache = [], apiEndpoint = [], pprSearchOptions = JObj [],
     rd_data = None, rd_timeOffset = 0, rd_map = False, rafRequest = False, offscreen = None, framebuffers = [],
     next_framebuffer = 0, minZoom = 0, lastFrame = None, targetFrameTime = None, forceDraw = True,
     rd_trainsEnabled = True,
     train_layer = \<lparr>lay_trains = [], lay_initialized = False,
       vertexAttributes = \<lparr>trainCount = None, va_bufferDirty = False, va_buffer = []\<rparr>,
       positionAttributes = \<lparr>positionData = None, progressData = None, anchor = None, positionBuffer = [], progressBuffer = []\<rparr>,
       colorAttributes = \<lparr>ca_trainCount = None, ca_bufferDirty = False, ca_buffer = []\<rparr>, useCategoryColor = True\<rparr>,
     mapInfo = None, timeOffset = 0, debounceTimer = False, trainUpdateTimer = False, tripsUpdateTimer = False,
     fullData = None, showingDetailData = False, lastTrainsRequest = None, lastTrainsCount = 0,
     main_lastTripsRequest = None, useFpsLimiter = True, trainsEnabled = True,
     hoverInfo = \<lparr>hv_x = -1, hv_y = -1, hv_train = None, hv_station = None, hv_connection = None, hv_highlighted = []\<rparr>\<rparr>"

end
