(* ===== verification/Railviz_Events.thy ===== *)
theory Railviz_Events
  imports Railviz_Main
begin

text \<open>
  The map view as a whole: the events that reach its modules (the ports subscribed to in
  \<^verbatim>\<open>map.js\<close>, timers, answers of the server, animation frames and the mouse) and the states
  a run of events leads to. Any pending call may be answered at any time, in any order. An event
  that cannot happen in a state (a timer that is not armed, an answer to no call or of the wrong
  schema) leaves it unchanged.
\<close>

section \<open>Events\<close>

datatype Event =
    MapLoaded string string MapInfo
  | ViewportMoved MapInfo
  | ContextLost
  | ContextRestored
  | ImageLoaded string
  | PortDetailFilter "DetailFilter option"
  | PortDetailWalks "Walk list"
  | PortConnections "Connection list"
  | PortHighlight "int list"
  | PortTimeOffset rat
  | PortPPROptions jsval
  | PortCategoryColors bool
  | PortShowTrains bool
  | PortMarkers MarkerSettings
  | PortLocale string string
  | PortGbfsOptions "GbfsOption list"
  | FpsLimiter bool
  | DebounceTimer rat
  | TrainUpdateTimer
  | TripsUpdateTimer
  | Answer nat RawData
  | RouteAnswer nat RouterResponse
  | Failure nat jsval
  | AnimationFrame rat
  | Prerender rat
  | RenderFrame rat rat nat nat
  | MouseEvent MouseInput

text \<open>\<^verbatim>\<open>onAdd\<close> of the custom layer and the load handler of the map. The numbers in style
  expressions are printed with \<open>show_int\<close>.\<close>

definition custom_layer_added :: "MapInfo \<Rightarrow> 'a Main_scheme \<Rightarrow> 'a Main_scheme" where
  "custom_layer_added m s = mapUpdate m (rd_setup s)"

definition map_loaded :: "(int \<Rightarrow> string) \<Rightarrow> string \<Rightarrow> MapInfo \<Rightarrow> 'a Main_scheme \<Rightarrow> 'a Main_scheme" where
  "map_loaded show_int endpoint m s =
     (let s1 = gbfs_init endpoint (base_init endpoint s);
          s2 = custom_layer_added m s1;
          before = Some ''railviz-base-stations''
      in conn_init before (detail_init show_int before (extra_init before s2)))"

record World =
  geo :: Geo
  env :: Env
  show_int :: "int \<Rightarrow> string"

fun handle :: "World \<Rightarrow> Event \<Rightarrow> Main \<Rightarrow> Main exec" where
  "handle W (MapLoaded te ae m) s = Done (map_loaded (show_int W) ae m s)"
| "handle W (ViewportMoved m) s = Done (mapUpdate m s)"
| "handle W ContextLost s = Done (rd_stop s)"
| "handle W ContextRestored s = Done (rd_setup (map_call TriggerRepaint s))"
| "handle W (ImageLoaded icon) s = Done (if gbfs_map s \<and> gbfs_loaded s < 2 then image_loaded icon s else s)"
| "handle W (PortDetailFilter f) s = setDetailFilter f s"
| "handle W (PortDetailWalks ws) s = setDetailWalks (geo W) ws s"
| "handle W (PortConnections cs) s = setConnections cs s"
| "handle W (PortHighlight ids) s = Done (main_highlightConnections ids s)"
| "handle W (PortTimeOffset t) s = Done (main_setTimeOffset t s)"
| "handle W (PortPPROptions v) s = Done (setPPRSearchOptions v s)"
| "handle W (PortCategoryColors b) s = Done (s\<lparr>train_layer := setUseCategoryColor b (train_layer s)\<rparr>)"
| "handle W (PortShowTrains b) s = Done (showTrains b s)"
| "handle W (PortMarkers m) s = Done (setMarkers m s)"
| "handle W (PortLocale a b) s = Done (setLocale a b s)"
| "handle W (PortGbfsOptions os) s = Done (updateLayers os s)"
| "handle W (FpsLimiter b) s = Done (setUseFpsLimiter b s)"
| "handle W (DebounceTimer now) s = (if debounceTimer s then debounce_fires now s else Done s)"
| "handle W TrainUpdateTimer s =
     Done (if trainUpdateTimer s then debouncedSendTrainsRequest (s\<lparr>trainUpdateTimer := False\<rparr>) else s)"
| "handle W TripsUpdateTimer s = Done (if tripsUpdateTimer s then sendTripsRequest s else s)"
| "handle W (Answer i d) s =
     (case map_get (pending s) i of
        Some TrainsReply \<Rightarrow> dataReceived (geo W) d False i (finish i s)
      | Some TripsReply \<Rightarrow> dataReceived (geo W) d True i (finish i s)
      | Some ConnectionTripsReply \<Rightarrow> tripDataReceived (geo W) d i (finish i s)
      | _ \<Rightarrow> Done s)"
| "handle W (RouteAnswer i r) s =
     (case map_get (pending s) i of
        Some (ConnectionWalkReply a) \<Rightarrow> walkDataReceived a r (finish i s)
      | _ \<Rightarrow> Done s)"
| "handle W (Failure i v) s =
     (case map_get (pending s) i of
        None \<Rightarrow> Done s
      | Some (ConnectionWalkReply a) \<Rightarrow> walkRequestFailed a v (finish i s)
      | Some _ \<Rightarrow> Done (handleApiError v (finish i s)))"
| "handle W (AnimationFrame now) s = Done (if rafRequest s then maybe_render now s else s)"
| "handle W (Prerender now) s = (if rd_map s then rd_prerender (env W) now s else Done s)"
| "handle W (RenderFrame zoom now w h) s = Done (if rd_map s then snd (rd_render (env W) zoom now w h s) else s)"
| "handle W (MouseEvent e) s = rd_handleMouseEvent (env W) main_handleMouseEvent e s"

section \<open>Runs\<close>

text \<open>States after the page was set up: \<open>reachable\<close> by any events, and \<open>quietly\<close> when no
  handler threw on the way.\<close>

inductive reachable :: "World \<Rightarrow> Main \<Rightarrow> bool" for W where
  boot: "reachable W (main_init endpoint start)"
| event: "reachable W s \<Longrightarrow> reachable W (state_of (handle W e s))"

inductive quietly :: "World \<Rightarrow> Main \<Rightarrow> bool" for W where
  quiet_boot: "quietly W (main_init endpoint start)"
| quiet_event: "quietly W s \<Longrightarrow> handle W e s = Done s' \<Longrightarrow> quietly W s'"

lemma quietly_reachable: "quietly W s \<Longrightarrow> reachable W s"
proof (induction rule: quietly.induct)
  case (quiet_event s e s')
  then show ?case using event [of W s e] by simp
qed (rule boot)

primrec run :: "World \<Rightarrow> Event list \<Rightarrow> Main \<Rightarrow> Main" where
  "run W [] s = s"
| "run W (e # es) s = run W es (state_of (handle W e s))"

lemma reachable_run: "reachable W s \<Longrightarrow> reachable W (run W es s)"
  by (induction es arbitrary: s) (auto intro: event)

section \<open>Invariants of the event loop\<close>

text \<open>A property of the states that holds at the start and is kept by every event, whether its handler
  throws or not, holds in every reachable state; one kept by the events that do not throw holds in
  every state reached quietly.\<close>

locale loop_invariant =
  fixes W :: World and inv :: "Main \<Rightarrow> bool"
  assumes inv_boot: "inv (main_init endpoint start)"
    and inv_event: "keeps inv (handle W e)"
begin

lemma always: "reachable W s \<Longrightarrow> inv s"
  by (induction rule: reachable.induct) (auto intro: inv_boot keepsD [OF inv_event])

end

locale quiet_invariant =
  fixes W :: World and inv :: "Main \<Rightarrow> bool"
  assumes quiet_start: "inv (main_init endpoint start)"
    and quiet_step: "inv s \<Longrightarrow> handle W e s = Done s' \<Longrightarrow> inv s'"
begin

lemma always_quiet: "quietly W s \<Longrightarrow> inv s"
  by (induction rule: quietly.induct) (auto intro: quiet_start quiet_step)

end

sublocale loop_invariant \<subseteq> quiet_invariant
proof
  show "inv (main_init endpoint start)" for endpoint by (rule inv_boot)
  show "inv s'" if "inv s" "handle W e s = Done s'" for s e s'
    using keepsD [OF inv_event that(1), of e] that(2) by simp
qed

end
