(* ===== verification/Railviz_Trains_Properties.thy ===== *)
theory Railviz_Trains_Properties
  imports Railviz_Trains
begin

unbundle bit_operations_syntax

text \<open>
  The properties of the train layer: a pick colour leads back to its train, the colour buffer holds
  for every train what the attribute layouts read, and the position buffer is in step with the
  trains although only changed trains are rewritten.
\<close>

section \<open>Writing and reading arrays\<close>

lemma length_write_at [simp]: "length (write_at off vs data) = length data"
  by (induction off vs data rule: write_at.induct) auto

lemma write_at_nth:
  "off + length vs \<le> length data \<Longrightarrow> j < length data \<Longrightarrow>
     write_at off vs data ! j = (if off \<le> j \<and> j < off + length vs then vs ! (j - off) else data ! j)"
proof (induction off vs data rule: write_at.induct)
  case (2 off v vs data)
  then show ?case by (cases "j = off") (auto simp: nth_Cons' not_le less_Suc_eq_le)
qed auto

lemma read_write:
  assumes "off + length vs \<le> length data"
  shows "take (length vs) (drop off (write_at off vs data)) = vs"
  using assms by (intro nth_equalityI) (auto simp: write_at_nth)

lemma read_other:
  assumes "off + length vs \<le> length data" and "b + n \<le> off \<or> off + length vs \<le> b"
  shows "take n (drop b (write_at off vs data)) = take n (drop b data)"
  using assms by (intro nth_equalityI) (auto simp: write_at_nth)

section \<open>Pick colours\<close>

lemma byte_of: "uint (ucast (drop_bit n (of_nat i :: 32 word) AND 255) :: 8 word) = int ((i div 2 ^ n) mod 256)"
  if "n + 8 \<le> 32"
proof -
  have m: "(255 :: 32 word) = mask 8" by (simp add: mask_eq_exp_minus_1)
  have "uint (ucast (drop_bit n (of_nat i :: 32 word) AND 255) :: 8 word) =
      take_bit 8 (drop_bit n (take_bit 32 (int i)))"
    unfolding m by (simp add: unsigned_ucast_eq unsigned_take_bit_eq unsigned_drop_bit_eq unsigned_of_nat
        take_bit_drop_bit take_bit_of_nat min.commute flip: take_bit_eq_mask)
  also have "\<dots> = take_bit 8 (drop_bit n (int i))"
    using that by (simp add: take_bit_drop_bit min_def)
  finally show ?thesis by (simp add: take_bit_eq_mod drop_bit_eq_div zdiv_int zmod_int)
qed

lemma shifted_byte:
  assumes "n \<le> 16"
  shows "sint (push_bit n (ucast (c :: 8 word) :: 32 word)) = uint c * 2 ^ n"
proof -
  have c: "uint c < 256" "0 \<le> uint c" using unsigned_less [of c, where 'a = int] by auto
  have "uint c * 2 ^ n \<le> 255 * 2 ^ 16"
    by (rule mult_mono) (use c power_increasing [OF assms, of "2 :: int"] in auto)
  then have b: "uint c * 2 ^ n < 2 ^ 31" by simp
  have u: "uint (push_bit n (ucast c :: 32 word)) = uint c * 2 ^ n"
  proof -
    have "uint (ucast c :: 32 word) = uint c" using c by (simp add: unsigned_ucast_eq take_bit_int_eq_self)
    then show ?thesis using b c unfolding unsigned_push_bit_eq by (simp add: push_bit_eq_mult take_bit_int_eq_self)
  qed
  have "signed_take_bit 31 (uint (push_bit n (ucast c :: 32 word))) = uint (push_bit n (ucast c :: 32 word))"
  proof (rule signed_take_bit_int_eq_self)
    show "- (2 ^ 31) \<le> uint (push_bit n (ucast c :: 32 word))"
      by (rule order_trans [OF _ unsigned_greater_eq]) simp
    show "uint (push_bit n (ucast c :: 32 word)) < 2 ^ 31" using b unfolding u .
  qed
  then show ?thesis using u by (simp add: sint_uint)
qed

lemma pick_index:
  assumes "i < cnt" and "cnt \<le> 2 ^ 24"
  shows "pickColorToTrainIndex cnt (Some (map ucast (trainIndexToPickColor i) @ [255])) = Some (int i)"
proof -
  let ?c = "map ucast (trainIndexToPickColor i) :: 8 word list"
  have b0: "uint (?c ! 0) = int (i mod 256)" using byte_of [of 0 i] by (simp add: trainIndexToPickColor_def)
  have b1: "uint (?c ! 1) = int ((i div 256) mod 256)" using byte_of [of 8 i] by (simp add: trainIndexToPickColor_def)
  have b2: "uint (?c ! 2) = int ((i div 65536) mod 256)" using byte_of [of 16 i] by (simp add: trainIndexToPickColor_def)
  have len: "length ?c = 3" by (simp add: trainIndexToPickColor_def)
  have "i mod 256 + (i div 256) mod 256 * 256 + (i div 65536) mod 256 * 65536 = i"
  proof -
    have "i div 65536 < 256" using assms by (simp add: div_less_iff_less_mult)
    then have "(i div 65536) mod 256 = i div 256 div 256" by (simp add: div_mult2_eq)
    then show ?thesis using div_mult_mod_eq [of i 256] div_mult_mod_eq [of "i div 256" 256] by linarith
  qed
  moreover have "sint (push_bit 8 (ucast (?c ! 1) :: 32 word)) = int ((i div 256) mod 256 * 256)"
    using shifted_byte [of 8 "?c ! 1"] b1 by simp
  moreover have "sint (push_bit 16 (ucast (?c ! 2) :: 32 word)) = int ((i div 65536) mod 256 * 65536)"
    using shifted_byte [of 16 "?c ! 2"] b2 by simp
  ultimately have "uint (?c ! 0) + sint (push_bit 8 (ucast (?c ! 1) :: 32 word)) +
      sint (push_bit 16 (ucast (?c ! 2) :: 32 word)) = int i"
    unfolding b0 by (metis of_nat_add)
  then show ?thesis
    using assms(1) len by (simp add: pickColorToTrainIndex_def Let_def nth_append)
qed

text \<open>C31: a pick colour leads back to its train: for up to \<open>2 ^ 24\<close> trains, the colour written
  for a train and read back with full opacity gives the train's index, and a transparent pixel gives
  none.\<close>

theorem pick_color_roundtrip:
  assumes "i < cnt" and "cnt \<le> 2 ^ 24"
  shows "pickColorToTrainIndex cnt (Some (map ucast (trainIndexToPickColor i) @ [255])) = Some (int i) \<and>
    pickColorToTrainIndex cnt (Some [r, g, b, 0]) = None"
  using pick_index [OF assms] by (simp add: pickColorToTrainIndex_def)

theorem pick_color_roundtrip_witness:
  "pickColorToTrainIndex 70000 (Some (map ucast (trainIndexToPickColor 65793) @ [255])) = Some 65793"
  using pick_color_roundtrip [of 65793 70000] by simp

section \<open>The colour buffer\<close>

definition colours_at :: "Train list \<Rightarrow> 8 word list \<Rightarrow> nat \<Rightarrow> bool" where
  "colours_at ts buf i =
     (read_attribute 12 0 3 buf i = getDelayColor (ts ! i) \<and>
      Some (read_attribute 12 4 3 buf i) = getCategoryColor (ts ! i) \<and>
      read_attribute 12 8 3 buf i = map ucast (trainIndexToPickColor i))"

lemma colour_lengths [simp]:
  "length (getDelayColor t) = 3" "length (trainIndexToPickColor i) = 3"
  by (simp_all add: getDelayColor_def trainIndexToPickColor_def Let_def)

lemma category_length: "getCategoryColor t = Some c \<Longrightarrow> length c = 3"
proof -
  assume "getCategoryColor t = Some c"
  then have "c \<in> set categoryColors" by (auto simp: getCategoryColor_def elem_mem split: if_splits)
  moreover have "list_all (\<lambda>c. length c = 3) categoryColors" by (simp add: categoryColors_def)
  ultimately show ?thesis by (auto simp: list_all_iff)
qed

lemma colorStep_spec:
  assumes "colorStep data (i, t) = Inr data'" and "length data = n * 12" and "i < n"
  shows "length data' = n * 12" "read_attribute 12 0 3 data' i = getDelayColor t"
    "Some (read_attribute 12 4 3 data' i) = getCategoryColor t"
    "read_attribute 12 8 3 data' i = map ucast (trainIndexToPickColor i)"
    "\<And>j off. j \<noteq> i \<Longrightarrow> off + 3 \<le> 12 \<Longrightarrow> read_attribute 12 off 3 data' j = read_attribute 12 off 3 data j"
proof -
  obtain cat where cat: "getCategoryColor t = Some cat" and d: "data' = write_at (i * 12 + 8) (map ucast (trainIndexToPickColor i))
                (write_at (i * 12 + 4) cat (write_at (i * 12) (getDelayColor t) data))"
    using assms(1) by (auto simp: colorStep_def split: option.splits)
  note lc = category_length [OF cat]
  have fit: "i * 12 + 12 \<le> length data" using assms(2,3) by (metis Suc_leI add.commute mult_Suc mult_le_mono1)
  show "length data' = n * 12" using assms(2) by (simp add: d)
  show "read_attribute 12 8 3 data' i = map ucast (trainIndexToPickColor i)"
    using fit read_write [of "i * 12 + 8" "map ucast (trainIndexToPickColor i)"
        "write_at (i * 12 + 4) cat (write_at (i * 12) (getDelayColor t) data)"]
    unfolding read_attribute_def d by simp
  show "Some (read_attribute 12 4 3 data' i) = getCategoryColor t"
    using fit lc read_write [of "i * 12 + 4" cat "write_at (i * 12) (getDelayColor t) data"]
    unfolding read_attribute_def d cat by (simp add: read_other)
  show "read_attribute 12 0 3 data' i = getDelayColor t"
    using fit lc read_write [of "i * 12" "getDelayColor t" data]
    unfolding read_attribute_def d by (simp add: read_other)
  show "read_attribute 12 off 3 data' j = read_attribute 12 off 3 data j" if "j \<noteq> i" "off + 3 \<le> 12" for j off
  proof -
    have "j * 12 + off + 3 \<le> i * 12 \<or> i * 12 + 12 \<le> j * 12 + off" using that by linarith
    then show ?thesis using fit lc by (auto simp: read_attribute_def d read_other)
  qed
qed

text \<open>C32: the colour buffer is laid out as its attributes read it: after an upload, the delay,
  category and pick colour attributes of every instance read the colours of its train.\<close>

theorem colour_buffer_layout:
  assumes "ca_update ts (ca_setData ts a) = Inr a'" and "i < length ts"
  shows "map (\<lambda>p. Some (read_bytes p (ca_buffer a') i)) ca_enable =
    [Some (getDelayColor (ts ! i)), getCategoryColor (ts ! i), Some (map ucast (trainIndexToPickColor i))]"
proof -
  obtain d where d: "foldE colorStep (replicate (length ts * 12) 0) (enumerate 0 ts) = Inr d" "ca_buffer a' = d"
    using assms(1) by (auto simp: ca_update_def ca_setData_def bindE_Inr_iff)
  let ?P = "\<lambda>es d. length d = length ts * 12 \<and> (\<forall>i < length es. colours_at ts d i)"
  have "?P (enumerate 0 ts) d"
  proof (rule foldE_inv_prefix [OF d(1), where P = ?P])
    fix pre x post s s'
    assume xs: "enumerate 0 ts = pre @ x # post" and P: "?P pre s" and st: "colorStep s x = Inr s'"
    let ?k = "length pre"
    have k: "?k < length ts" using arg_cong [OF xs, of length] by simp
    have "x = enumerate 0 ts ! ?k" using xs by simp
    then have x: "x = (?k, ts ! ?k)" using k by (simp add: nth_enumerate_eq)
    note spec = colorStep_spec [OF st [unfolded x] _ k]
    show "?P (pre @ [x]) s'"
      using spec P by (auto simp: colours_at_def less_Suc_eq)
  qed simp
  with d(2) assms(2) show ?thesis by (simp add: colours_at_def ca_enable_def read_bytes_def pointer_def)
qed

theorem colour_buffer_layout_witness:
  "\<exists>a'. ca_update [demo_train] (ca_setData [demo_train] \<lparr>ca_trainCount = None, ca_bufferDirty = False, ca_buffer = []\<rparr>) = Inr a' \<and>
     map (\<lambda>p. Some (read_bytes p (ca_buffer a') 0)) ca_enable ! 1 = Some [0x9c, 0x27, 0xb0]"
proof -
  let ?a = "ca_setData [demo_train] \<lparr>ca_trainCount = None, ca_bufferDirty = False, ca_buffer = []\<rparr>"
  have cat: "getCategoryColor demo_train = Some [0x9c, 0x27, 0xb0]" by code_simp
  then obtain a' where a': "ca_update [demo_train] ?a = Inr a'"
    by (simp add: ca_update_def ca_setData_def colorStep_def)
  from colour_buffer_layout [OF this, of 0] a' cat show ?thesis by simp
qed

section \<open>The position buffer\<close>

text \<open>An update that reports no change has left the train on its line.\<close>

lemma mercator_set_progress: "getMercatorLine (set_progress t p pos) = getMercatorLine t"
  unfolding getMercatorLine_def polyline_at_def updates_keep ..

lemma unchanged_line:
  assumes "updatePosition t time = (t', False)"
  shows "getMercatorLine t' = getMercatorLine t"
proof (cases "time < d_time t \<or> a_time t < time")
  case True
  with assms show ?thesis by (auto simp: updatePosition_def getMercatorLine_def no_position_def)
next
  case False
  with assms have "on_current_line t (train_pos t time)"
    by (auto simp: updatePosition_def Let_def split: if_splits option.splits)
  with False assms have "t' = t \<or> (\<exists>p pos. t' = set_progress t p pos)"
    by (auto simp: updatePosition_def Let_def split: option.splits)
  then show ?thesis by (auto simp: mercator_set_progress)
qed

definition position_at :: "FloatOps \<Rightarrow> num \<times> num \<Rightarrow> Train list \<Rightarrow> num list \<Rightarrow> nat \<Rightarrow> bool" where
  "position_at F anc ts buf i =
     (\<exists>line. getMercatorLine (ts ! i) = Inr line \<and> read_attribute 5 0 5 buf i = position_values F anc line)"

text \<open>The uploaded buffers are those of the trains as they are.\<close>

definition in_step :: "FloatOps \<Rightarrow> Train list \<Rightarrow> PositionAttributes \<Rightarrow> bool" where
  "in_step F ts a =
     (case anchor a of None \<Rightarrow> False
      | Some anc \<Rightarrow>
          positionData a = Some (positionBuffer a) \<and> progressData a = Some (progressBuffer a) \<and>
          length (positionBuffer a) = length ts * 5 \<and>
          (\<forall>i < length ts. position_at F anc ts (positionBuffer a) i) \<and>
          progressBuffer a = map progress_value ts)"

lemma position_values_length [simp]: "length (position_values F anc line) = 5"
  by (auto simp: position_values_def split: option.splits prod.splits)

lemma writePosition_spec:
  assumes "writePositionToBuffer F anc t i data = Inr data'" and "length data = n * 5" and "i < n"
  shows "length data' = n * 5"
    "\<exists>line. getMercatorLine t = Inr line \<and> read_attribute 5 0 5 data' i = position_values F anc line"
    "\<And>j. j \<noteq> i \<Longrightarrow> read_attribute 5 0 5 data' j = read_attribute 5 0 5 data j"
proof -
  obtain line where l: "getMercatorLine t = Inr line" "data' = write_at (i * 5) (position_values F anc line) data"
    using assms(1) by (auto simp: writePositionToBuffer_def bindE_Inr_iff)
  have fit: "i * 5 + 5 \<le> length data" using assms(2,3) by (metis Suc_leI add.commute mult_Suc mult_le_mono1)
  show "length data' = n * 5" using assms(2) l by simp
  show "\<exists>line. getMercatorLine t = Inr line \<and> read_attribute 5 0 5 data' i = position_values F anc line"
    using fit l read_write [of "i * 5" "position_values F anc line"] by (simp add: read_attribute_def)
  show "read_attribute 5 0 5 data' j = read_attribute 5 0 5 data j" if "j \<noteq> i" for j
  proof -
    have "j * 5 + 5 \<le> i * 5 \<or> i * 5 + 5 \<le> j * 5" using that by linarith
    then show ?thesis using fit l(2) by (auto simp: read_attribute_def read_other)
  qed
qed

text \<open>The loop keeps the trains it has visited in step; when it rewrites changed trains only, the
  buffer held the earlier lines of the others.\<close>

definition loop_ok :: "FloatOps \<Rightarrow> num \<times> num \<Rightarrow> bool \<Rightarrow> Train list \<Rightarrow> nat \<Rightarrow> PosLoop \<Rightarrow> bool" where
  "loop_ok F anc always ts k s =
     (length (pl_trains s) = length ts \<and> length (pl_positions s) = length ts * 5 \<and>
      length (pl_progress s) = length ts \<and>
      (\<forall>i < length ts. (always \<longrightarrow> i < k) \<longrightarrow> position_at F anc (pl_trains s) (pl_positions s) i) \<and>
      (\<forall>i < k. pl_progress s ! i = progress_value (pl_trains s ! i)))"

lemma positionStep_ok:
  assumes "positionStep F anc always time s k = Inr s'" and "loop_ok F anc always ts k s" and "k < length ts"
  shows "loop_ok F anc always ts (Suc k) s'"
proof -
  obtain t changed where u: "updatePosition (pl_trains s ! k) time = (t, changed)" by fastforce
  note ok = assms(2)[unfolded loop_ok_def]
  have progress: "writeProgressToBuffer t k (pl_progress s) ! i = progress_value ((pl_trains s)[k := t] ! i)" if "i < Suc k" for i
    using that ok assms(3) by (auto simp: writeProgressToBuffer_def nth_list_update less_Suc_eq)
  show ?thesis
  proof (cases "always \<or> changed")
    case True
    with assms(1) u obtain d where d: "writePositionToBuffer F anc t k (pl_positions s) = Inr d"
      "s' = s\<lparr>pl_trains := (pl_trains s)[k := t], pl_progress := writeProgressToBuffer t k (pl_progress s),
        pl_positions := d, pl_upload := True\<rparr>"
      by (auto simp: positionStep_def bindE_Inr_iff)
    note w = writePosition_spec [OF d(1) _ assms(3)]
    have "position_at F anc ((pl_trains s)[k := t]) d i" if "i < length ts" "always \<longrightarrow> i < Suc k" for i
    proof (cases "i = k")
      case True
      then show ?thesis using w(2) ok that by (auto simp: position_at_def)
    next
      case False
      then show ?thesis using w(3) [of i] ok that by (auto simp: position_at_def)
    qed
    then show ?thesis using ok w(1) progress d(2) by (simp add: loop_ok_def writeProgressToBuffer_def)
  next
    case False
    with assms(1) u have s': "s' = s\<lparr>pl_trains := (pl_trains s)[k := t], pl_progress := writeProgressToBuffer t k (pl_progress s)\<rparr>"
      by (auto simp: positionStep_def)
    have "getMercatorLine t = getMercatorLine (pl_trains s ! k)" using unchanged_line u False by simp
    then have "position_at F anc ((pl_trains s)[k := t]) (pl_positions s) i" if "i < length ts" for i
      using ok that False by (cases "i = k") (auto simp: position_at_def)
    then show ?thesis using ok progress s' by (simp add: loop_ok_def writeProgressToBuffer_def)
  qed
qed

lemma position_loop:
  assumes "foldE (positionStep F anc always time) s [0..<length ts] = Inr s'" and "loop_ok F anc always ts 0 s"
  shows "loop_ok F anc always ts (length ts) s'"
proof -
  let ?P = "\<lambda>is s. loop_ok F anc always ts (length is) s"
  have "?P [0..<length ts] s'"
  proof (rule foldE_inv_prefix [OF assms(1), where P = ?P])
    show "?P [] s" using assms(2) by simp
    fix pre x post s1 s2
    assume xs: "[0..<length ts] = pre @ x # post" and P: "?P pre s1" and st: "positionStep F anc always time s1 x = Inr s2"
    have "length pre < length ts" using arg_cong [OF xs, of length] by simp
    moreover have "x = [0..<length ts] ! length pre" using xs by simp
    ultimately have "x = length pre" by simp
    with positionStep_ok [OF st [unfolded this] P] \<open>length pre < length ts\<close> show "?P (pre @ [x]) s2" by simp
  qed
  then show ?thesis by simp
qed

lemma progress_all:
  assumes "loop_ok F anc always ts (length ts) s"
  shows "pl_progress s = map progress_value (pl_trains s)"
  using assms by (intro nth_equalityI) (auto simp: loop_ok_def)

lemma position_upload:
  assumes "foldE (positionStep F anc always time) s xs = Inr s'"
  shows "pl_upload s' \<or> (pl_positions s' = pl_positions s \<and> pl_upload s' = pl_upload s)"
proof (rule foldE_inv [OF assms])
  fix u x u'
  assume "pl_upload u \<or> (pl_positions u = pl_positions s \<and> pl_upload u = pl_upload s)"
    and "positionStep F anc always time u x = Inr u'"
  then show "pl_upload u' \<or> (pl_positions u' = pl_positions s \<and> pl_upload u' = pl_upload s)"
    by (auto simp: positionStep_def bindE_Inr_iff Let_def split: if_splits prod.splits)
qed simp

lemma pa_update_in_step:
  assumes "pa_update F ts time a = Inr (ts', a')"
    and "anchor a = None \<or> in_step F ts a"
  shows "in_step F ts' a'"
proof (cases "in_step F ts a")
  case True
  then obtain anc where anc: "anchor a = Some anc" and now: "positionData a = Some (positionBuffer a)"
    "progressData a = Some (progressBuffer a)" "length (positionBuffer a) = length ts * 5"
    "\<And>i. i < length ts \<Longrightarrow> position_at F anc ts (positionBuffer a) i" "progressBuffer a = map progress_value ts"
    by (auto simp: in_step_def split: option.splits)
  let ?s = "\<lparr>pl_trains = ts, pl_positions = positionBuffer a, pl_progress = progressBuffer a, pl_upload = False\<rparr>"
  from assms(1) anc now obtain s where s: "foldE (positionStep F anc False time) ?s [0..<length ts] = Inr s"
    "ts' = pl_trains s" "a' = a\<lparr>positionData := Some (pl_positions s), progressData := Some (pl_progress s),
        positionBuffer := (if pl_upload s then pl_positions s else positionBuffer a), progressBuffer := pl_progress s\<rparr>"
    by (auto simp: pa_update_def bindE_Inr_iff)
  have "loop_ok F anc False ts 0 ?s" using now by (simp add: loop_ok_def)
  then have ok: "loop_ok F anc False ts (length ts) s" by (rule position_loop [OF s(1)])
  have "positionBuffer a' = pl_positions s" using position_upload [OF s(1)] s(3) by auto
  with ok progress_all [OF ok] s anc show ?thesis by (auto simp: in_step_def loop_ok_def)
next
  case False
  with assms(2) have a: "anchor a = None" by simp
  let ?s = "\<lparr>pl_trains = ts, pl_positions = replicate (length ts * 5) (Some 0), pl_progress = replicate (length ts) (Fin 0), pl_upload = False\<rparr>"
  from assms(1) a obtain anc s where s: "foldE (positionStep F anc True time) ?s [0..<length ts] = Inr s"
    "ts' = pl_trains s" "a' = a\<lparr>anchor := Some anc, positionData := Some (pl_positions s), progressData := Some (pl_progress s),
        positionBuffer := pl_positions s, progressBuffer := pl_progress s\<rparr>"
    by (auto simp: pa_update_def bindE_Inr_iff)
  have "loop_ok F anc True ts 0 ?s" by (simp add: loop_ok_def)
  then have ok: "loop_ok F anc True ts (length ts) s" by (rule position_loop [OF s(1)])
  with progress_all [OF ok] s show ?thesis by (auto simp: in_step_def loop_ok_def)
qed

definition frame :: "FloatOps \<Rightarrow> TrainLayer \<Rightarrow> rat \<Rightarrow> model_error + TrainLayer" where
  "frame F l time = preRender F time l"

lemma frame_in_step:
  assumes "frame F l time = Inr l'" and "lay_initialized l \<Longrightarrow> in_step F (lay_trains l) (positionAttributes l)"
  shows "lay_initialized l' \<and> in_step F (lay_trains l') (positionAttributes l')"
proof (cases "lay_initialized l")
  case True
  with assms obtain p where "pa_update F (lay_trains l) time (positionAttributes l) = Inr p" "lay_initialized l'"
    "lay_trains l' = fst p" "positionAttributes l' = snd p"
    by (auto simp: frame_def preRender_def Let_def bindE_Inr_iff)
  then show ?thesis using pa_update_in_step [of F "lay_trains l" time "positionAttributes l" "fst p" "snd p"] assms(2) True by simp
next
  case False
  with assms obtain p where p: "pa_update F (lay_trains l) time (pa_setData (positionAttributes l)) = Inr p" "lay_initialized l'"
    "lay_trains l' = fst p" "positionAttributes l' = snd p"
    by (auto simp: frame_def preRender_def Let_def bindE_Inr_iff)
  moreover have "anchor (pa_setData (positionAttributes l)) = None" by (simp add: pa_setData_def)
  ultimately show ?thesis
    using pa_update_in_step [of F "lay_trains l" time "pa_setData (positionAttributes l)" "fst p" "snd p"] by simp
qed

text \<open>C15: although a frame rewrites the entries of changed trains only and uploads positions only when
  a train changed, after every run of frames that follows new data the uploaded position and
  progress buffers are those of all trains as they are now.\<close>

theorem buffers_in_step:
  assumes "foldE (frame F) (lay_setData ts l) (tms @ [time]) = Inr l'"
  shows "case anchor (positionAttributes l') of None \<Rightarrow> False
    | Some anc \<Rightarrow> list_all (position_at F anc (lay_trains l') (positionBuffer (positionAttributes l'))) [0..<length (lay_trains l')] \<and>
        progressBuffer (positionAttributes l') = map progress_value (lay_trains l')"
proof -
  obtain l1 where l1: "foldE (frame F) (lay_setData ts l) tms = Inr l1" "frame F l1 time = Inr l'"
    using assms by (auto simp: foldE_append bindE_Inr_iff)
  have "lay_initialized l1 \<longrightarrow> in_step F (lay_trains l1) (positionAttributes l1)"
    by (rule foldE_inv [OF l1(1)]) (use frame_in_step in \<open>auto simp: lay_setData_def\<close>)
  with frame_in_step [OF l1(2)] have "in_step F (lay_trains l') (positionAttributes l')" by blast
  then show ?thesis by (auto simp: in_step_def list_all_iff split: option.splits)
qed

definition demo_layer :: TrainLayer where
  "demo_layer = \<lparr>lay_trains = [], lay_initialized = False,
     vertexAttributes = \<lparr>trainCount = None, va_bufferDirty = False, va_buffer = []\<rparr>,
     positionAttributes = \<lparr>positionData = None, progressData = None, anchor = None, positionBuffer = [], progressBuffer = []\<rparr>,
     colorAttributes = \<lparr>ca_trainCount = None, ca_bufferDirty = False, ca_buffer = []\<rparr>, useCategoryColor = True\<rparr>"

definition demo_floats :: FloatOps where
  "demo_floats = \<lparr>fround = (\<lambda>x. x), math_atan2 = (\<lambda>y x. if y = 0 then 0 else 1)\<rparr>"

theorem buffers_in_step_witness:
  "\<exists>l'. foldE (frame demo_floats) (lay_setData (Some [demo_train]) demo_layer) ([1, 5] @ [9]) = Inr l' \<and>
     progressBuffer (positionAttributes l') = map progress_value (lay_trains l')"
proof -
  have "case foldE (frame demo_floats) (lay_setData (Some [demo_train]) demo_layer) ([1, 5] @ [9]) of Inr _ \<Rightarrow> True | Inl _ \<Rightarrow> False"
    by code_simp
  then obtain l' where l': "foldE (frame demo_floats) (lay_setData (Some [demo_train]) demo_layer) ([1, 5] @ [9]) = Inr l'"
    by (auto split: sum.splits)
  from buffers_in_step [OF this] l' show ?thesis by (auto split: option.splits)
qed

end
