(* ===== verification/Railviz_Loading.thy ===== *)
theory Railviz_Loading
  imports Railviz_Events Railviz_Trains_Properties
begin

text \<open>
  The loading spinner and the server calls. A handler changes the pending calls and the loading count
  only by sending a request (count up, one call more), by finishing one (count down, one call less)
  or by throwing in between; everything else leaves this part of the state alone.
\<close>

section \<open>The part of the state that matters\<close>

definition core :: "'a Shell_scheme \<Rightarrow> nat \<times> (nat \<times> Callback) list \<times> int \<times> bool" where
  "core s = (lastCallId s, pending s, loadingCount s, spinner s)"

named_theorems core_simps \<open>operations that leave the calls and the spinner alone\<close>

lemma core_updates [core_simps]:
  "core (sent_update g x0) = core x0" "core (map_log_update g3 a1) = core a1" "core (ports_update g4 a1) = core a1"
  "core (gbfs_map_update g7 a2) = core a2" "core (gbfs_tilesEndpoint_update g8 a2) = core a2" "core (gbfs_enabled_update g9 a2) = core a2"
  "core (gbfsOptions_update g10 a2) = core a2" "core (missedUpdate_update g11 a2) = core a2" "core (gbfs_loaded_update g12 a2) = core a2"
  "core (markerSettings_update g13 a3) = core a3" "core (startText_update g14 a3) = core a3" "core (destinationText_update g15 a3) = core a3"
  "core (startMarker_update g16 a3) = core a3" "core (destinationMarker_update g17 a3) = core a3" "core (markers_visible_update g18 a3) = core a3"
  "core (base_map_update g19 a4) = core a4" "core (base_enabled_update g20 a4) = core a4" "core (extra_map_update g21 a4) = core a4"
  "core (extra_data_update g22 a4) = core a4" "core (extra_enabled_update g23 a4) = core a4" "core (detail_map_update g24 a4) = core a4"
  "core (detail_data_update g25 a4) = core a4" "core (detail_enabled_update g26 a4) = core a4" "core (detailFilter_update g27 a4) = core a4"
  "core (detailTrips_update g28 a4) = core a4" "core (connection_heap_update g29 a5) = core a5" "core (walk_heap_update g30 a5) = core a5"
  "core (conn_map_update g31 a5) = core a5" "core (conn_data_update g32 a5) = core a5" "core (conn_enabled_update g33 a5) = core a5"
  "core (pc_connections_update g34 a5) = core a5" "core (pc_tripData_update g35 a5) = core a5" "core (pc_walkData_update g36 a5) = core a5"
  "core (connections_update g37 a6) = core a6" "core (tripData_update g38 a6) = core a6" "core (walkData_update g39 a6) = core a6"
  "core (cm_lastTripsRequest_update g40 a6) = core a6" "core (tripsComplete_update g41 a6) = core a6" "core (osrmCache_update g42 a6) = core a6"
  "core (pprCache_update g43 a6) = core a6" "core (apiEndpoint_update g44 a6) = core a6" "core (pprSearchOptions_update g45 a6) = core a6"
  "core (rd_data_update g46 a7) = core a7" "core (rd_timeOffset_update g47 a7) = core a7" "core (rd_map_update g48 a7) = core a7"
  "core (rafRequest_update g49 a7) = core a7" "core (offscreen_update g50 a7) = core a7" "core (framebuffers_update g51 a7) = core a7"
  "core (next_framebuffer_update g52 a7) = core a7" "core (minZoom_update g53 a7) = core a7" "core (lastFrame_update g54 a7) = core a7"
  "core (targetFrameTime_update g55 a7) = core a7" "core (forceDraw_update g56 a7) = core a7" "core (rd_trainsEnabled_update g57 a7) = core a7"
  "core (train_layer_update g58 a7) = core a7" "core (mapInfo_update g59 a8) = core a8" "core (timeOffset_update g60 a8) = core a8"
  "core (debounceTimer_update g61 a8) = core a8" "core (trainUpdateTimer_update g62 a8) = core a8" "core (tripsUpdateTimer_update g63 a8) = core a8"
  "core (fullData_update g64 a8) = core a8" "core (showingDetailData_update g65 a8) = core a8" "core (lastTrainsRequest_update g66 a8) = core a8"
  "core (lastTrainsCount_update g67 a8) = core a8" "core (main_lastTripsRequest_update g68 a8) = core a8" "core (useFpsLimiter_update g69 a8) = core a8"
  "core (trainsEnabled_update g70 a8) = core a8" "core (hoverInfo_update g71 a8) = core a8"
  by (simp_all add: core_def)

lemma core_map_call [core_simps]: "core (map_call c s) = core s"
  by (simp add: core_def)

lemma core_send_port [core_simps]: "core (send_port p s) = core s"
  by (simp add: core_def)

lemma core_give_data [core_simps]: "core (give_data src d s) = core s"
  by (simp add: give_data_def core_simps split: option.splits)

lemma core_foldl: "(\<And>s x. core (f s x) = core s) \<Longrightarrow> core (foldl f s xs) = core s"
  by (induction xs arbitrary: s) simp_all

lemma core_forX: "(\<And>x s. core (state_of (f x s)) = core s) \<Longrightarrow> core (state_of (forX f xs s)) = core s"
proof (induction xs arbitrary: s)
  case (Cons x xs)
  have "core (state_of (f x s)) = core s" by (rule Cons.prems)
  then show ?case using Cons by (cases "f x s") auto
qed simp

lemma core_after:
  "core (state_of m) = core s \<Longrightarrow> (\<And>t. m = Done t \<Longrightarrow> core (state_of (f t)) = core t) \<Longrightarrow> core (state_of (after m f)) = core s"
  by (cases m) auto

text \<open>Layers.\<close>

lemma core_set [core_simps]:
  "core (base_setEnabled b s) = core s" "core (extra_setEnabled b s') = core s'"
  "core (detail_setEnabled b s') = core s'" "core (conn_setEnabled b t) = core t"
  by (simp_all add: base_setEnabled_def extra_setEnabled_def detail_setEnabled_def conn_setEnabled_def core_simps)

lemma core_gbfs [core_simps]: "core (updateLayers os s) = core s" "core (gbfs_init te s) = core s"
  by (simp_all add: updateLayers_def gbfs_init_def Let_def core_foldl remove_provider_def add_provider_def core_simps)

lemma core_image [core_simps]: "core (image_loaded icon s) = core s"
  by (simp add: image_loaded_def Let_def core_simps split: option.splits)

lemma core_markers [core_simps]: "core (setMarkers m s) = core s" "core (setLocale a b s) = core s"
  by (simp_all add: setMarkers_def setLocale_def updateMarkers_def Let_def core_simps)

lemma core_inits [core_simps]:
  "core (base_init te s) = core s" "core (extra_init b s) = core s" "core (detail_init sh b s) = core s" "core (conn_init b t) = core t"
  by (simp_all add: base_init_def extra_init_def detail_init_def conn_init_def Let_def core_simps)

lemma core_extra_setData [core_simps]: "core (state_of (extra_setData d s)) = core s"
proof -
  have push: "core (state_of (extra_push d e s)) = core s" for d e and s :: "'a PathLayers_scheme"
    by (simp add: extra_push_def core_simps split: option.splits)
  show ?thesis
    by (auto simp: extra_setData_def core_simps core_forX push intro!: core_after split: option.splits)
qed

lemma core_detail_setData [core_simps]: "core (state_of (detail_setData s)) = core s"
proof -
  have walk: "core (state_of (detail_walk d e s)) = core s" for d e and s :: "'a PathLayers_scheme"
    by (auto simp: detail_walk_def set_walk_path_def push_detail_def Let_def core_simps split: option.splits prod.splits)
  show ?thesis
    by (auto simp: detail_setData_def Let_def core_simps core_forX walk push_detail_def intro!: core_after split: option.splits)
qed

lemma core_conn_setData [core_simps]: "core (state_of (conn_setData cs td ws s)) = core s"
proof -
  have trip: "core (state_of (push_trip e s)) = core s" for e and s :: "'a PathConnections_scheme"
    by (auto simp: push_trip_def push_conn_def core_simps split: option.splits prod.splits)
  have walk: "core (state_of (push_walk a s)) = core s" for a and s :: "'a PathConnections_scheme"
    by (auto simp: push_walk_def push_conn_def core_simps Let_def split: option.splits WalkPath.splits)
  show ?thesis
    by (auto simp: conn_setData_def Let_def core_simps core_forX trip walk intro!: core_after)
qed

lemma core_highlight [core_simps]: "core (highlightConnections ids s) = core s"
proof -
  have step: "core (foldl (\<lambda>s (i, m). map_call (c i m) s) s xs) = core s" for c xs and s :: "'a PathConnections_scheme"
    by (rule core_foldl) (auto simp: core_simps)
  show ?thesis by (simp add: highlightConnections_def Let_def core_simps step split: option.splits)
qed

text \<open>Renderer.\<close>

lemma core_render [core_simps]:
  "core (rd_setData d s) = core s" "core (rd_setMinZoom z s) = core s" "core (rd_setTrainsEnabled b s) = core s"
  "core (rd_setTimeOffset o' s) = core s" "core (rd_setTargetFps f s) = core s" "core (rd_setup s) = core s" "core (rd_stop s) = core s"
  by (simp_all add: rd_setData_def rd_setMinZoom_def rd_setTrainsEnabled_def rd_setTimeOffset_def rd_setTargetFps_def
      rd_setup_def rd_stop_def core_simps)

lemma core_frames [core_simps]:
  "core (maybe_render now s) = core s" "core (state_of (rd_prerender E now s)) = core s" "core (snd (rd_render E z now w h s)) = core s"
  by (auto simp: maybe_render_def rd_prerender_def rd_render_def createOffscreenBuffer_def Let_def core_simps
      split: option.splits sum.splits prod.splits)

section \<open>Requests and answers\<close>

type_synonym Calls = "nat \<times> (nat \<times> Callback) list \<times> int \<times> bool"

fun load :: "int \<Rightarrow> Calls \<Rightarrow> Calls" where
  "load n (i, p, l, sp) = (i, p, l + n, if (l > 0) \<noteq> (l + n > 0) then l + n > 0 else sp)"

fun issue :: "Callback \<Rightarrow> Calls \<Rightarrow> Calls" where
  "issue cb (i, p, l, sp) = (Suc i, p @ [(Suc i, cb)], l, sp)"

fun retire :: "nat \<Rightarrow> Calls \<Rightarrow> Calls" where
  "retire k (i, p, l, sp) = (i, map_delete k p, l, sp)"

lemma core_calls [core_simps]:
  "core (setLoading n s) = load n (core s)" "core (snd (sendRequest u r cb s)) = issue cb (core s)"
  "core (finish k s) = retire k (core s)"
  by (simp_all add: core_def setLoading_def toggleLoadingSpinner_def finish_def Let_def)

text \<open>Call numbers are distinct and not from the future, the spinner shows a positive count, and the
  count is \<open>d\<close> above the number of pending calls.\<close>

fun calls_at :: "int \<Rightarrow> Calls \<Rightarrow> bool" where
  "calls_at d (i, p, l, sp) =
     (distinct (map_keys p) \<and> list_all (\<lambda>k. k \<le> i) (map_keys p) \<and> l = int (length p) + d \<and> sp = (l > 0))"

definition loading_ok :: "int \<Rightarrow> 'a Shell_scheme \<Rightarrow> bool" where
  "loading_ok d s = calls_at d (core s)"

lemma calls_at_load: "calls_at d c \<Longrightarrow> calls_at (d + n) (load n c)"
  by (cases c) auto

lemma calls_at_unload: "calls_at (d + 1) c \<Longrightarrow> calls_at d (load (-1) c)"
  using calls_at_load [of "d + 1" c "-1"] by simp

lemma calls_at_issue: "calls_at d c \<Longrightarrow> calls_at (d - 1) (issue cb c)"
  by (cases c) (auto simp: list_all_iff)

lemma calls_at_request: "calls_at d c \<Longrightarrow> calls_at d (issue cb (load 1 c))"
  using calls_at_issue [OF calls_at_load [of d c 1], of cb] by simp

lemma calls_at_retire: "calls_at d (core s) \<Longrightarrow> map_get (pending s) k = Some cb \<Longrightarrow> calls_at (d + 1) (retire k (core s))"
  using length_finish [of s k cb]
  by (auto simp: core_def calls_ok_def finish_def list_all_iff delete_keys distinct_removeAll)

text \<open>An operation that ends with the count at \<open>d\<close> above the pending calls; one that throws may
  leave it higher.\<close>

definition balanced :: "int \<Rightarrow> 'a Shell_scheme exec \<Rightarrow> bool" where
  "balanced d m = (case m of Done t \<Rightarrow> loading_ok d t | Thrown t \<Rightarrow> \<exists>e \<ge> d. loading_ok e t)"

lemma balanced_Done [simp]: "balanced d (Done t) = calls_at d (core t)"
  by (simp add: balanced_def loading_ok_def)

lemma balanced_Thrown: "calls_at e (core t) \<Longrightarrow> d \<le> e \<Longrightarrow> balanced d (Thrown t)"
  by (auto simp: balanced_def loading_ok_def)

lemma balanced_core: "core (state_of m) = c \<Longrightarrow> calls_at d c \<Longrightarrow> balanced d m"
  by (cases m) (auto simp: balanced_def loading_ok_def)

lemma balanced_after:
  "balanced e m \<Longrightarrow> d \<le> e \<Longrightarrow> (\<And>t. calls_at e (core t) \<Longrightarrow> balanced d (f t)) \<Longrightarrow> balanced d (after m f)"
  by (cases m) (auto simp: balanced_def loading_ok_def intro: order_trans)

text \<open>The connection manager.\<close>

lemma core_change_walk [core_simps]: "core (change_walk a f s) = core s"
  by (simp add: change_walk_def core_simps)

lemma core_showConnections [core_simps]: "core (state_of (showConnections s)) = core s"
  by (simp add: showConnections_def core_simps)

lemma requestTrips_balanced: "calls_at d (core s) \<Longrightarrow> balanced d (requestTrips s)"
  by (auto simp: requestTrips_def Let_def split_beta core_simps intro!: calls_at_request intro: balanced_core)

lemma core_collect_connection [core_simps]: "core (snd (collect_connection st c)) = core (snd st)"
proof -
  have walk: "core (snd (collect_walk c st jw)) = core (snd st)"
    for st :: "(WalkKey, nat) jsmap \<times> 'a ConnectionManager_scheme" and jw
    by (auto simp: collect_walk_def Let_def core_simps split: prod.splits option.splits)
  have "core (snd (foldl (collect_walk c) st jws)) = core (snd st)"
    for st :: "(WalkKey, nat) jsmap \<times> 'a ConnectionManager_scheme" and jws
    by (induction jws arbitrary: st) (simp_all add: walk)
  then show ?thesis by (simp add: collect_connection_def)
qed

lemma core_collect: "core (snd (foldl collect_connection st cs)) = core (snd st)"
  by (induction cs arbitrary: st) (simp_all add: core_simps)

lemma finish_entry_calls: "calls_at d (core s) \<Longrightarrow> calls_at d (core (finish_entry s a))"
  by (auto simp: finish_entry_def requestWalkSegment_def Let_def core_simps intro!: calls_at_request split: option.splits)

lemma requestWalks_balanced:
  assumes "calls_at d (core s)"
  shows "balanced d (requestWalks s)"
proof -
  have "calls_at d (core (foldl finish_entry t as))" if "calls_at d (core t)" for t :: "'a ConnectionManager_scheme" and as
    using that by (induction as arbitrary: t) (simp_all add: finish_entry_calls)
  moreover have "core (snd (foldl collect_connection ([], s\<lparr>walkData := []\<rparr>) (connections s))) = core s"
    by (simp add: core_collect core_simps)
  ultimately show ?thesis
    using assms by (auto simp: requestWalks_def split_beta core_simps intro!: balanced_core)
qed

lemma setConnections_balanced: "calls_at d (core s) \<Longrightarrow> balanced d (setConnections cs s)"
  unfolding setConnections_def Let_def
  by (rule balanced_after [of d]) (auto intro!: requestTrips_balanced requestWalks_balanced simp: core_simps)

lemma core_match [core_simps]: "core (fst (foldl match_train st ts)) = core (fst st)"
proof (induction ts arbitrary: st)
  case (Cons t ts)
  have "core (fst (match_train st t)) = core (fst st)"
    by (auto simp: match_train_def Let_def core_simps split: prod.splits)
  then show ?case using Cons by simp
qed simp

lemma tripDataReceived_balanced: "calls_at (d + 1) (core s) \<Longrightarrow> balanced d (tripDataReceived G c i s)"
  using calls_at_load [of "d + 1" "core s" "-1"]
  by (auto simp: tripDataReceived_def Let_def split_beta core_simps intro!: balanced_core balanced_Thrown split: sum.splits)

lemma walkDataReceived_balanced: "calls_at (d + 1) (core s) \<Longrightarrow> balanced d (walkDataReceived a r s)"
  using calls_at_load [of "d + 1" "core s" "-1"]
  by (auto simp: walkDataReceived_def handlePPRResponse_def handleOSRMResponse_def Let_def core_simps
      intro!: balanced_core balanced_Thrown split: option.splits RouterResponse.splits RouterType.splits list.splits)

lemma core_handleApiError [core_simps]: "core (handleApiError v s) = load (-1) (core s)"
  by (simp add: handleApiError_def core_simps)

lemma walkRequestFailed_balanced: "calls_at (d + 1) (core s) \<Longrightarrow> balanced d (walkRequestFailed a v s)"
  unfolding walkRequestFailed_def
  by (rule balanced_after [of "d + 1"], rule balanced_core) (simp_all add: core_simps calls_at_unload)

text \<open>The main module.\<close>

lemma core_main [core_simps]:
  "core (setupFpsLimiter s) = core s" "core (mapUpdate m s) = core s" "core (main_setTimeOffset t s) = core s"
  "core (debouncedSendTrainsRequest s) = core s" "core (setPPRSearchOptions v s) = core s" "core (setUseFpsLimiter b s) = core s"
  "core (showTrains b s) = core s" "core (main_highlightConnections ids s) = core s" "core (map_loaded sh te m s) = core s"
  by (simp_all add: setupFpsLimiter_def mapUpdate_def main_setTimeOffset_def debouncedSendTrainsRequest_def setPPRSearchOptions_def
      resetPPRCache_def setUseFpsLimiter_def showTrains_def main_highlightConnections_def map_loaded_def custom_layer_added_def
      Let_def core_simps)

lemma core_showFullData [core_simps]: "core (state_of (showFullData s)) = core s"
  unfolding showFullData_def Let_def by (rule core_after) (simp_all add: core_simps)

lemma core_showDetailData [core_simps]: "core (state_of (showDetailData s)) = core s"
  unfolding showDetailData_def Let_def by (rule core_after) (simp_all add: core_simps)

lemma core_setDetailWalks [core_simps]: "core (state_of (setDetailWalks G ws s)) = core s"
  by (auto simp: setDetailWalks_def Let_def core_simps split: option.splits prod.splits)

lemma core_setTooltip [core_simps]: "core (state_of (setTooltip x y r s)) = core s"
  by (auto simp: setTooltip_def Let_def core_simps split: option.splits)

lemma core_mouse [core_simps]: "core (state_of (rd_handleMouseEvent E main_handleMouseEvent e s)) = core s"
  by (auto simp: rd_handleMouseEvent_def main_handleMouseEvent_def Let_def core_simps split: sum.splits option.splits list.splits)

lemma sendTripsRequest_calls: "calls_at d (core s) \<Longrightarrow> calls_at d (core (sendTripsRequest s))"
  by (auto simp: sendTripsRequest_def Let_def split_beta core_simps intro!: calls_at_request split: option.splits)

lemma setDetailFilter_balanced: "calls_at d (core s) \<Longrightarrow> balanced d (setDetailFilter f s)"
  by (auto simp: setDetailFilter_def Let_def core_simps intro!: sendTripsRequest_calls balanced_core)

lemma sendTrainsRequest_balanced: "calls_at d (core s) \<Longrightarrow> balanced d (sendTrainsRequest now s)"
  using calls_at_load [of d "core s" 1]
  by (auto simp: sendTrainsRequest_def Let_def split_beta core_simps intro!: calls_at_request balanced_Thrown split: option.splits)

lemma dataReceived_balanced: "calls_at (d + 1) (core s) \<Longrightarrow> balanced d (dataReceived G c b i s)"
  by (auto simp: dataReceived_def Let_def core_simps intro!: balanced_Thrown [of d] calls_at_unload
      balanced_after [of d] intro: balanced_core split: sum.splits)

lemma handle_balanced:
  assumes "calls_at d (core s)"
  shows "balanced d (handle W e s)"
proof (cases e)
  case (Answer i c)
  then show ?thesis
    using assms calls_at_retire [of d s i]
    by (auto intro!: dataReceived_balanced tripDataReceived_balanced simp: core_simps split: option.splits Callback.splits)
next
  case (RouteAnswer i r)
  then show ?thesis
    using assms calls_at_retire [of d s i]
    by (auto intro!: walkDataReceived_balanced simp: core_simps split: option.splits Callback.splits)
next
  case (Failure i v)
  then show ?thesis
    using assms calls_at_retire [of d s i]
    by (auto intro!: walkRequestFailed_balanced calls_at_unload simp: core_simps split: option.splits Callback.splits)
qed (use assms in \<open>auto simp: core_simps debounce_fires_def intro!: setDetailFilter_balanced setConnections_balanced
      sendTrainsRequest_balanced sendTripsRequest_calls intro: balanced_core\<close>)

section \<open>The spinner\<close>

lemma boot_calls: "calls_at 0 (core (main_init endpoint start))"
  by (simp add: main_init_def rd_init_def core_simps) (simp add: core_def start_def)

definition never_below :: "Main \<Rightarrow> bool" where
  "never_below s = (\<exists>d \<ge> 0. calls_at d (core s))"

interpretation spinner: loop_invariant W never_below for W
proof
  show "never_below (main_init endpoint start)" for endpoint using boot_calls by (auto simp: never_below_def)
  show "keeps never_below (handle W e)" for e
  proof
    fix s assume "never_below s"
    then obtain d where d: "0 \<le> d" "calls_at d (core s)" by (auto simp: never_below_def)
    have "balanced d (handle W e s)" by (rule handle_balanced) (rule d(2))
    with d(1) show "never_below (state_of (handle W e s))"
      by (cases "handle W e s") (auto simp: never_below_def balanced_def loading_ok_def intro: order_trans)
  qed
qed

interpretation count: quiet_invariant W "\<lambda>s. calls_at 0 (core s)" for W
proof
  show "calls_at 0 (core (main_init endpoint start))" for endpoint by (rule boot_calls)
  show "calls_at 0 (core s')" if "calls_at 0 (core s)" "handle W e s = Done s'" for s e s'
    using handle_balanced [OF that(1), of W e] that(2) by simp
qed

text \<open>C17: the loading spinner never lies towards the user: in every reachable state, whatever handlers
  threw and in whatever order calls were answered, the spinner is visible while a call is
  pending.\<close>

theorem spinner_while_pending:
  assumes "reachable W s" and "pending s \<noteq> []"
  shows "spinner s"
  using spinner.always [OF assms(1)] assms(2) by (cases "pending s") (auto simp: never_below_def core_def)

text \<open>C18: as long as no handler has thrown, the loading count is the number of pending calls, so the
  spinner disappears exactly when the last one is answered.\<close>

theorem loading_counts_pending:
  assumes "quietly W s"
  shows "loadingCount s = int (length (pending s)) \<and> (spinner s \<longleftrightarrow> pending s \<noteq> [])"
  using count.always_quiet [OF assms] by (auto simp: core_def)

definition demo_world :: World where
  "demo_world = \<lparr>geo = demo_geo, env = \<lparr>pixelRatio = 1, pow2 = (\<lambda>x. 1), floats = demo_floats\<rparr>, show_int = (\<lambda>i. [])\<rparr>"

definition demo_info :: MapInfo where
  "demo_info = \<lparr>mi_zoom = 12, mi_north = 50, mi_west = 8, mi_south = 49, mi_east = 9\<rparr>"

definition demo_run :: "Event list \<Rightarrow> Main" where
  "demo_run es = run demo_world es (main_init ''http://localhost/'' start)"

lemma demo_reachable: "reachable demo_world (demo_run es)"
  unfolding demo_run_def by (rule reachable_run) (rule boot)

text \<open>A run in which no handler throws.\<close>

primrec quiet_run :: "World \<Rightarrow> Event list \<Rightarrow> Main \<Rightarrow> Main option" where
  "quiet_run W [] s = Some s"
| "quiet_run W (e # es) s = (case handle W e s of Done t \<Rightarrow> quiet_run W es t | Thrown t \<Rightarrow> None)"

lemma quietly_run: "quietly W s \<Longrightarrow> quiet_run W es s = Some t \<Longrightarrow> quietly W t"
  by (induction es arbitrary: s) (auto split: exec.splits intro: quiet_event)

definition demo_started :: "Event list" where
  "demo_started = [ViewportMoved demo_info, DebounceTimer 1000]"

theorem spinner_while_pending_witness: "spinner (demo_run demo_started)"
proof (rule spinner_while_pending [OF demo_reachable])
  show "pending (demo_run demo_started) \<noteq> []" by code_simp
qed

theorem loading_counts_pending_witness:
  "\<exists>s. quiet_run demo_world demo_started (main_init ''http://localhost/'' start) = Some s \<and> loadingCount s = 1"
proof -
  have "case quiet_run demo_world demo_started (main_init ''http://localhost/'' start) of None \<Rightarrow> False | Some s \<Rightarrow> length (pending s) = 1"
    by code_simp
  then obtain s where s: "quiet_run demo_world demo_started (main_init ''http://localhost/'' start) = Some s" "length (pending s) = 1"
    by (auto split: option.splits)
  with loading_counts_pending [OF quietly_run [OF quiet_boot s(1)]] show ?thesis by auto
qed

lemma request_without_map:
  "mapInfo s = None \<Longrightarrow> sendTrainsRequest now s = Thrown (setLoading 1 (s\<lparr>trainUpdateTimer := True\<rparr>))"
  by (simp add: sendTrainsRequest_def Let_def setLoading_def toggleLoadingSpinner_def)


end
