(* ===== verification/Railviz_Mode.thy ===== *)
theory Railviz_Mode
  imports Railviz_Loading
begin

text \<open>
  What is on the map. The layer switches of the modules agree with the mode (all trains or one
  journey) and with the train switch, and the map was told so.
\<close>

section \<open>The switches\<close>

text \<open>The visibility a layer was last given.\<close>

definition vis_step :: "string \<Rightarrow> bool option \<Rightarrow> MapCmd \<Rightarrow> bool option" where
  "vis_step l v c = (case c of SetVisibility k b \<Rightarrow> if k = l then Some b else v | _ \<Rightarrow> v)"

definition last_vis :: "string \<Rightarrow> MapCmd list \<Rightarrow> bool option" where
  "last_vis l cs = foldl (vis_step l) None cs"

lemma last_vis_append [simp]: "last_vis l (cs @ ds) = foldl (vis_step l) (last_vis l cs) ds"
  by (simp add: last_vis_def)

lemma vis_step_set [simp]: "vis_step l v (SetVisibility k b) = (if k = l then Some b else v)"
  by (simp add: vis_step_def)

definition view where
  "view s =
     ((\<lambda>l. last_vis l (map_log s), base_map s, base_enabled s, extra_map s, extra_enabled s, detail_map s, detail_enabled s,
       conn_map s, conn_enabled s, showingDetailData s, trainsEnabled s, rd_trainsEnabled s, minZoom s), detail_data s = None)"

definition shown_as :: "'a Main_scheme \<Rightarrow> bool" where
  "shown_as s =
     ((base_map s \<longrightarrow> last_vis ''railviz-base-line'' (map_log s) = Some (base_enabled s) \<and>
        last_vis ''railviz-base-stations'' (map_log s) = Some (base_enabled s)) \<and>
      (extra_map s \<longrightarrow> last_vis ''railviz-extra-line'' (map_log s) = Some (extra_enabled s)) \<and>
      (detail_map s \<longrightarrow> last_vis ''railviz-detail-line'' (map_log s) = Some (detail_enabled s) \<and>
        last_vis ''railviz-detail-stations'' (map_log s) = Some (detail_enabled s)) \<and>
      (conn_map s \<longrightarrow> last_vis ''railviz-connections-line'' (map_log s) = Some (conn_enabled s)))"

definition mode_ok :: "'a Main_scheme \<Rightarrow> bool" where
  "mode_ok s =
     (base_enabled s = (\<not> showingDetailData s \<and> trainsEnabled s) \<and> extra_enabled s = base_enabled s \<and>
      conn_enabled s = (\<not> showingDetailData s) \<and> (detail_enabled s \<longrightarrow> showingDetailData s \<or> detail_data s = None) \<and>
      (\<not> showingDetailData s \<longrightarrow> rd_trainsEnabled s = trainsEnabled s) \<and>
      minZoom s = (if showingDetailData s then FILTERED_MIN_ZOOM else 0))"

definition view_ok :: "'a Main_scheme \<Rightarrow> bool" where
  "view_ok s = (mode_ok s \<and> shown_as s)"

lemma view_ok_view: "view t = view s \<Longrightarrow> view_ok t = view_ok s"
  by (simp add: view_ok_def mode_ok_def shown_as_def view_def fun_eq_iff)

lemma view_fields:
  assumes "fst (view t) = fst (view s)"
  shows "last_vis l (map_log t) = last_vis l (map_log s)" "base_map t = base_map s" "base_enabled t = base_enabled s"
    "extra_map t = extra_map s" "extra_enabled t = extra_enabled s" "detail_map t = detail_map s" "detail_enabled t = detail_enabled s"
    "conn_map t = conn_map s" "conn_enabled t = conn_enabled s" "showingDetailData t = showingDetailData s"
    "trainsEnabled t = trainsEnabled s" "rd_trainsEnabled t = rd_trainsEnabled s" "minZoom t = minZoom s"
  using assms by (simp_all add: view_def fun_eq_iff)

section \<open>Operations that leave the view alone\<close>

named_theorems view_simps \<open>operations that leave the view alone\<close>

lemma view_updates [view_simps]:
  "view (lastCallId_update g0 s0) = view s0" "view (pending_update g1 s1) = view s1" "view (sent_update g2 s2) = view s2"
  "view (ports_update g4 s4) = view s4" "view (loadingCount_update g5 s5) = view s5" "view (spinner_update g6 s6) = view s6"
  "view (gbfs_map_update g7 s7) = view s7" "view (gbfs_tilesEndpoint_update g8 s8) = view s8" "view (gbfs_enabled_update g9 s9) = view s9"
  "view (gbfsOptions_update g10 s10) = view s10" "view (missedUpdate_update g11 s11) = view s11" "view (gbfs_loaded_update g12 s12) = view s12"
  "view (markerSettings_update g13 s13) = view s13" "view (startText_update g14 s14) = view s14" "view (destinationText_update g15 s15) = view s15"
  "view (startMarker_update g16 s16) = view s16" "view (destinationMarker_update g17 s17) = view s17" "view (markers_visible_update g18 s18) = view s18"
  "view (extra_data_update g22 s22) = view s22" "view (detailFilter_update g27 s27) = view s27" "view (detailTrips_update g28 s28) = view s28"
  "view (connection_heap_update g29 s29) = view s29" "view (walk_heap_update g30 s30) = view s30" "view (conn_data_update g32 s32) = view s32"
  "view (pc_connections_update g34 s34) = view s34" "view (pc_tripData_update g35 s35) = view s35" "view (pc_walkData_update g36 s36) = view s36"
  "view (connections_update g37 s37) = view s37" "view (tripData_update g38 s38) = view s38" "view (walkData_update g39 s39) = view s39"
  "view (cm_lastTripsRequest_update g40 s40) = view s40" "view (tripsComplete_update g41 s41) = view s41" "view (osrmCache_update g42 s42) = view s42"
  "view (pprCache_update g43 s43) = view s43" "view (apiEndpoint_update g44 s44) = view s44" "view (pprSearchOptions_update g45 s45) = view s45"
  "view (rd_data_update g46 s46) = view s46" "view (rd_timeOffset_update g47 s47) = view s47" "view (rd_map_update g48 s48) = view s48"
  "view (rafRequest_update g49 s49) = view s49" "view (offscreen_update g50 s50) = view s50" "view (framebuffers_update g51 s51) = view s51"
  "view (next_framebuffer_update g52 s52) = view s52" "view (lastFrame_update g54 s54) = view s54" "view (targetFrameTime_update g55 s55) = view s55"
  "view (forceDraw_update g56 s56) = view s56" "view (train_layer_update g58 s58) = view s58" "view (mapInfo_update g59 s59) = view s59"
  "view (timeOffset_update g60 s60) = view s60" "view (debounceTimer_update g61 s61) = view s61" "view (trainUpdateTimer_update g62 s62) = view s62"
  "view (tripsUpdateTimer_update g63 s63) = view s63" "view (fullData_update g64 s64) = view s64" "view (lastTrainsRequest_update g66 s66) = view s66"
  "view (lastTrainsCount_update g67 s67) = view s67" "view (main_lastTripsRequest_update g68 s68) = view s68" "view (useFpsLimiter_update g69 s69) = view s69"
  "view (hoverInfo_update g71 s71) = view s71"
  by (simp_all add: view_def)

definition no_visibility :: "MapCmd \<Rightarrow> bool" where
  "no_visibility c = (case c of SetVisibility l b \<Rightarrow> False | _ \<Rightarrow> True)"

lemma no_visibility_simps [simp]:
  "no_visibility (AddSource i v)" "no_visibility (SetData i fs)" "no_visibility (AddLayer v b)" "no_visibility (RemoveFeatureState i)"
  "no_visibility (SetFeatureState i k c)" "no_visibility (AddImage i)" "no_visibility (RemoveLayer i)" "no_visibility (RemoveSource i)"
  "no_visibility TriggerRepaint"
  by (simp_all add: no_visibility_def)

lemma view_map_call [view_simps]: "no_visibility c \<Longrightarrow> view (map_call c s) = view s"
  by (cases c) (auto simp: view_def map_call_def no_visibility_def vis_step_def fun_eq_iff)

lemma view_shell [view_simps]: "view (send_port p s) = view s" "view (setLoading n s) = view s"
  "view (snd (sendRequest u r cb s)) = view s" "view (finish i s) = view s"
  by (simp_all add: send_port_def setLoading_def toggleLoadingSpinner_def sendRequest_def finish_def Let_def view_simps)

lemma view_foldl: "(\<And>s x. view (f s x) = view s) \<Longrightarrow> view (foldl f s xs) = view s"
  by (induction xs arbitrary: s) simp_all

lemma view_forX: "(\<And>x s. view (state_of (f x s)) = view s) \<Longrightarrow> view (state_of (forX f xs s)) = view s"
proof (induction xs arbitrary: s)
  case (Cons x xs)
  have "view (state_of (f x s)) = view s" by (rule Cons.prems)
  then show ?case using Cons by (cases "f x s") auto
qed simp

lemma view_after:
  "view (state_of m) = view s \<Longrightarrow> (\<And>t. m = Done t \<Longrightarrow> view (state_of (f t)) = view t) \<Longrightarrow> view (state_of (after m f)) = view s"
  by (cases m) auto

lemma view_gbfs [view_simps]: "view (updateLayers os s) = view s" "view (gbfs_init te s) = view s"
  by (simp_all add: updateLayers_def gbfs_init_def Let_def view_foldl remove_provider_def add_provider_def view_simps)

lemma view_image [view_simps]: "view (image_loaded icon s) = view s"
  by (simp add: image_loaded_def Let_def view_simps split: option.splits)

lemma view_markers [view_simps]: "view (setMarkers m s) = view s" "view (setLocale a b s) = view s"
  by (simp_all add: setMarkers_def setLocale_def updateMarkers_def Let_def view_simps)

lemma view_give_data [view_simps]: "view (give_data src d s) = view s"
  by (simp add: give_data_def view_simps split: option.splits)

lemma view_extra_setData [view_simps]: "view (state_of (extra_setData d s)) = view s"
proof -
  have push: "view (state_of (extra_push d e s)) = view s" for d e and s :: "'a Main_scheme"
    by (simp add: extra_push_def view_simps split: option.splits)
  show ?thesis
    by (auto simp: extra_setData_def view_simps view_forX push intro!: view_after split: option.splits)
qed

lemma view_conn_setData [view_simps]: "view (state_of (conn_setData cs td ws s)) = view s"
proof -
  have trip: "view (state_of (push_trip e s)) = view s" for e and s :: "'a Main_scheme"
    by (auto simp: push_trip_def push_conn_def view_simps split: option.splits prod.splits)
  have walk: "view (state_of (push_walk a s)) = view s" for a and s :: "'a Main_scheme"
    by (auto simp: push_walk_def push_conn_def view_simps Let_def split: option.splits WalkPath.splits)
  show ?thesis
    by (auto simp: conn_setData_def Let_def view_simps view_forX trip walk intro!: view_after)
qed

lemma view_highlight [view_simps]: "view (highlightConnections ids s) = view s"
proof -
  have step: "view (foldl (\<lambda>s (i, m). map_call (SetFeatureState l i (c m)) s) s xs) = view s" for c l xs and s :: "'a Main_scheme"
    by (rule view_foldl) (auto simp: view_simps)
  show ?thesis by (simp add: highlightConnections_def Let_def view_simps step split: option.splits)
qed

lemma view_manager [view_simps]: "view (change_walk a f s) = view s" "view (state_of (showConnections s)) = view s"
  by (simp_all add: change_walk_def showConnections_def view_simps)

lemma view_requestTrips [view_simps]: "view (state_of (requestTrips s)) = view s"
  by (auto simp: requestTrips_def Let_def split_beta view_simps)

lemma view_collect: "view (snd (foldl collect_connection st cs)) = view (snd st)"
proof -
  have walk: "view (snd (collect_walk c st jw)) = view (snd st)" for st :: "(WalkKey, nat) jsmap \<times> 'a Main_scheme" and c jw
    by (auto simp: collect_walk_def Let_def view_simps split: prod.splits option.splits)
  have conn: "view (snd (collect_connection st c)) = view (snd st)" for st :: "(WalkKey, nat) jsmap \<times> 'a Main_scheme" and c
  proof -
    have "view (snd (foldl (collect_walk c) st jws)) = view (snd st)" for st :: "(WalkKey, nat) jsmap \<times> 'a Main_scheme" and jws
      by (induction jws arbitrary: st) (simp_all add: walk)
    then show ?thesis by (simp add: collect_connection_def)
  qed
  then show ?thesis by (induction cs arbitrary: st) simp_all
qed

lemma view_finish_entry: "view (finish_entry s a) = view s"
  by (auto simp: finish_entry_def requestWalkSegment_def Let_def view_simps split: option.splits)

lemma view_requestWalks [view_simps]: "view (state_of (requestWalks s)) = view s"
  by (simp add: requestWalks_def split_beta view_simps view_foldl view_finish_entry view_collect)

lemma view_setConnections [view_simps]: "view (state_of (setConnections cs s)) = view s"
  unfolding setConnections_def Let_def by (rule view_after) (simp_all add: view_simps)

lemma view_answers [view_simps]:
  "view (state_of (tripDataReceived G c i s)) = view s" "view (state_of (walkDataReceived a r s)) = view s"
  "view (handleApiError v s) = view s"
proof -
  have match: "view (fst (foldl match_train st ts)) = view (fst st)" for st :: "'a Main_scheme \<times> TripPolyline list \<times> TripTrain list" and ts
  proof (induction ts arbitrary: st)
    case (Cons t ts)
    have "view (fst (match_train st t)) = view (fst st)"
      by (auto simp: match_train_def Let_def view_simps split: prod.splits)
    then show ?case using Cons by simp
  qed simp
  show "view (state_of (tripDataReceived G c i s)) = view s"
    by (auto simp: tripDataReceived_def Let_def split_beta view_simps match split: sum.splits)
  show "view (state_of (walkDataReceived a r s)) = view s"
    by (auto simp: walkDataReceived_def handlePPRResponse_def handleOSRMResponse_def Let_def view_simps
        split: option.splits RouterResponse.splits RouterType.splits list.splits)
  show "view (handleApiError v s) = view s" by (simp add: handleApiError_def view_simps)
qed

lemma view_walk_failed [view_simps]: "view (state_of (walkRequestFailed a v s)) = view s"
  unfolding walkRequestFailed_def by (rule view_after) (simp_all add: view_simps)

lemma view_render [view_simps]:
  "view (rd_setData d s) = view s" "view (rd_setTimeOffset o' s) = view s" "view (rd_setTargetFps f s) = view s"
  "view (rd_setup s) = view s" "view (rd_stop s) = view s" "view (maybe_render now s) = view s"
  "view (state_of (rd_prerender E now s)) = view s" "view (snd (rd_render E z now w h s)) = view s"
  by (auto simp: rd_setData_def rd_setTimeOffset_def rd_setTargetFps_def rd_setup_def rd_stop_def maybe_render_def rd_prerender_def
      rd_render_def createOffscreenBuffer_def Let_def view_simps split: option.splits sum.splits prod.splits)

lemma view_main [view_simps]:
  "view (setupFpsLimiter s) = view s" "view (mapUpdate m s) = view s" "view (main_setTimeOffset t s) = view s"
  "view (debouncedSendTrainsRequest s) = view s" "view (setPPRSearchOptions v s) = view s" "view (setUseFpsLimiter b s) = view s"
  "view (main_highlightConnections ids s) = view s" "view (custom_layer_added m s) = view s"
  "view (state_of (sendTrainsRequest now s)) = view s" "view (sendTripsRequest s) = view s"
  by (auto simp: setupFpsLimiter_def mapUpdate_def main_setTimeOffset_def debouncedSendTrainsRequest_def setPPRSearchOptions_def
      resetPPRCache_def setUseFpsLimiter_def main_highlightConnections_def custom_layer_added_def sendTrainsRequest_def
      sendTripsRequest_def Let_def split_beta view_simps split: option.splits)

lemma view_mouse [view_simps]: "view (state_of (rd_handleMouseEvent E main_handleMouseEvent e s)) = view s"
  by (auto simp: rd_handleMouseEvent_def main_handleMouseEvent_def setTooltip_def Let_def view_simps
      split: sum.splits option.splits list.splits)

lemma view_detail_data: "fst (view (s\<lparr>detail_data := d\<rparr>)) = fst (view s)"
  by (simp add: view_def)

lemma view_fst_step: "view t = view s \<Longrightarrow> fst (view t) = fst (view s)"
  by simp

lemma view_detail_setData: "fst (view (state_of (detail_setData s))) = fst (view s)"
proof -
  have push: "fst (view (push_detail fs s)) = fst (view s)" for fs and s :: "'a Main_scheme"
    unfolding push_detail_def by (rule view_detail_data)
  have walk: "fst (view (state_of (detail_walk d e s))) = fst (view s)" for d e and s :: "'a Main_scheme"
    by (auto simp: detail_walk_def set_walk_path_def Let_def push view_simps split: option.splits prod.splits)
  have walks: "fst (view (state_of (forX (detail_walk d) es s))) = fst (view s)" for d es and s :: "'a Main_scheme"
  proof (induction es arbitrary: s)
    case (Cons e es)
    have "fst (view (state_of (detail_walk d e s))) = fst (view s)" by (rule walk)
    then show ?case using Cons by (cases "detail_walk d e s") auto
  qed simp
  show ?thesis
  proof (cases "detailFilter s")
    case (Some f)
    show ?thesis
    proof (cases "detailTrips s")
      case d: (Some d)
      let ?d = "mark_trains f d"
      let ?s = "s\<lparr>detailTrips := Some ?d, detail_data := Some (detail_lines ?d @ map detail_station (td_stations (dt_data ?d)))\<rparr>"
      have s: "fst (view ?s) = fst (view s)" by (simp add: view_simps view_detail_data)
      let ?m = "forX (detail_walk ?d) (enumerate 0 (df_walks f)) ?s"
      have "fst (view (state_of ?m)) = fst (view s)" using walks [of ?d _ ?s] s by simp
      with Some d show ?thesis
        by (cases ?m) (auto simp: detail_setData_def Let_def view_simps push)
    qed (use Some in \<open>simp add: detail_setData_def\<close>)
  qed (simp add: detail_setData_def)
qed

section \<open>Switching the mode\<close>

lemma setEnabled_fields [simp]:
  "base_enabled (base_setEnabled b s) = b" "base_enabled (extra_setEnabled b s) = base_enabled s" "base_enabled (detail_setEnabled b s) = base_enabled s"
  "base_enabled (conn_setEnabled b t) = base_enabled t" "extra_enabled (base_setEnabled b s) = extra_enabled s" "extra_enabled (extra_setEnabled b s) = b"
  "extra_enabled (detail_setEnabled b s) = extra_enabled s" "extra_enabled (conn_setEnabled b t) = extra_enabled t" "detail_enabled (base_setEnabled b s) = detail_enabled s"
  "detail_enabled (extra_setEnabled b s) = detail_enabled s" "detail_enabled (detail_setEnabled b s) = b" "detail_enabled (conn_setEnabled b t) = detail_enabled t"
  "base_map (base_setEnabled b s) = base_map s" "base_map (extra_setEnabled b s) = base_map s" "base_map (detail_setEnabled b s) = base_map s"
  "base_map (conn_setEnabled b t) = base_map t" "extra_map (base_setEnabled b s) = extra_map s" "extra_map (extra_setEnabled b s) = extra_map s"
  "extra_map (detail_setEnabled b s) = extra_map s" "extra_map (conn_setEnabled b t) = extra_map t" "detail_map (base_setEnabled b s) = detail_map s"
  "detail_map (extra_setEnabled b s) = detail_map s" "detail_map (detail_setEnabled b s) = detail_map s" "detail_map (conn_setEnabled b t) = detail_map t"
  "detail_data (base_setEnabled b s) = detail_data s" "detail_data (extra_setEnabled b s) = detail_data s" "detail_data (detail_setEnabled b s) = detail_data s"
  "detail_data (conn_setEnabled b t) = detail_data t" "conn_enabled (base_setEnabled b t) = conn_enabled t" "conn_enabled (extra_setEnabled b t) = conn_enabled t"
  "conn_enabled (detail_setEnabled b t) = conn_enabled t" "conn_enabled (conn_setEnabled b t) = b" "conn_map (base_setEnabled b t) = conn_map t"
  "conn_map (extra_setEnabled b t) = conn_map t" "conn_map (detail_setEnabled b t) = conn_map t" "conn_map (conn_setEnabled b t) = conn_map t"
  "showingDetailData (base_setEnabled b u) = showingDetailData u" "showingDetailData (extra_setEnabled b u) = showingDetailData u" "showingDetailData (detail_setEnabled b u) = showingDetailData u"
  "showingDetailData (conn_setEnabled b u) = showingDetailData u" "trainsEnabled (base_setEnabled b u) = trainsEnabled u" "trainsEnabled (extra_setEnabled b u) = trainsEnabled u"
  "trainsEnabled (detail_setEnabled b u) = trainsEnabled u" "trainsEnabled (conn_setEnabled b u) = trainsEnabled u" "rd_trainsEnabled (base_setEnabled b u) = rd_trainsEnabled u"
  "rd_trainsEnabled (extra_setEnabled b u) = rd_trainsEnabled u" "rd_trainsEnabled (detail_setEnabled b u) = rd_trainsEnabled u" "rd_trainsEnabled (conn_setEnabled b u) = rd_trainsEnabled u"
  "minZoom (base_setEnabled b u) = minZoom u" "minZoom (extra_setEnabled b u) = minZoom u" "minZoom (detail_setEnabled b u) = minZoom u"
  "minZoom (conn_setEnabled b u) = minZoom u" "fullData (base_setEnabled b u) = fullData u" "fullData (extra_setEnabled b u) = fullData u"
  "fullData (detail_setEnabled b u) = fullData u" "fullData (conn_setEnabled b u) = fullData u"
  by (auto simp: base_setEnabled_def extra_setEnabled_def detail_setEnabled_def conn_setEnabled_def map_call_def)

lemma setEnabled_vis [simp]:
  "last_vis l (map_log (base_setEnabled b s)) = (if base_map s \<and> l \<in> {''railviz-base-line'', ''railviz-base-stations''} then Some b else last_vis l (map_log s))"
  "last_vis l (map_log (extra_setEnabled b s)) = (if extra_map s \<and> l \<in> {''railviz-extra-line''} then Some b else last_vis l (map_log s))"
  "last_vis l (map_log (detail_setEnabled b s)) = (if detail_map s \<and> l \<in> {''railviz-detail-line'', ''railviz-detail-stations''} then Some b else last_vis l (map_log s))"
  "last_vis l (map_log (conn_setEnabled b t)) = (if conn_map t \<and> l \<in> {''railviz-connections-line''} then Some b else last_vis l (map_log t))"
  by (auto simp: base_setEnabled_def extra_setEnabled_def detail_setEnabled_def conn_setEnabled_def map_call_def)

lemma rd_fields [simp]:
  "rd_trainsEnabled (rd_setTrainsEnabled b s) = b" "minZoom (rd_setMinZoom z s) = z"
  by (simp_all add: rd_setTrainsEnabled_def rd_setMinZoom_def)

text \<open>Both switches end in the mode they set, and leave the flags of the map alone.\<close>

lemma showFullData_ok:
  assumes "showFullData s = Done t" and "shown_as s"
  shows "view_ok t"
proof -
  let ?s = "base_setEnabled (trainsEnabled s) (s\<lparr>showingDetailData := False\<rparr>)"
  obtain u where u: "extra_setData (map_option snd (fullData ?s)) ?s = Done u"
    using assms(1) by (cases "extra_setData (map_option snd (fullData ?s)) ?s") (auto simp: showFullData_def Let_def)
  have "view u = view ?s" using view_extra_setData [of "map_option snd (fullData ?s)" ?s] u by simp
  note f = view_fields [OF view_fst_step [OF this]]
  from assms(1) u have t: "t = rd_setTrainsEnabled (trainsEnabled u) (rd_setMinZoom 0 (rd_setData (fullData u)
      (conn_setEnabled True (detail_setEnabled False (extra_setEnabled (trainsEnabled u) u)))))"
    by (auto simp: showFullData_def Let_def rd_setData_def rd_setMinZoom_def)
  show ?thesis
    using assms(2)
    by (simp add: t view_ok_def mode_ok_def shown_as_def f rd_setTrainsEnabled_def rd_setMinZoom_def rd_setData_def)
qed

lemma showDetailData_ok:
  assumes "showDetailData s = Done t" and "shown_as s"
  shows "view_ok t"
proof -
  let ?s = "extra_setEnabled False (base_setEnabled False (s\<lparr>showingDetailData := True\<rparr>))"
  obtain u where u: "detail_setData ?s = Done u"
    using assms(1) by (cases "detail_setData ?s") (auto simp: showDetailData_def Let_def)
  have "fst (view u) = fst (view ?s)" using view_detail_setData [of ?s] u by simp
  note f = view_fields [OF this]
  let ?v = "rd_setTrainsEnabled True (rd_setMinZoom FILTERED_MIN_ZOOM (rd_setData
      (detail_data_for_render (conn_setEnabled False (detail_setEnabled True u))) (conn_setEnabled False (detail_setEnabled True u))))"
  from assms(1) u have t: "t = main_highlightConnections [] ?v" by (auto simp: showDetailData_def Let_def)
  have "view_ok ?v"
    using assms(2)
    by (simp add: view_ok_def mode_ok_def shown_as_def f rd_setTrainsEnabled_def rd_setMinZoom_def rd_setData_def)
  then show ?thesis using view_ok_view [of t ?v] by (simp add: t view_simps)
qed

lemma showTrains_ok: "view_ok s \<Longrightarrow> view_ok (showTrains b s)"
  by (simp add: view_ok_def mode_ok_def shown_as_def showTrains_def Let_def rd_setTrainsEnabled_def)

lemma inits_ok:
  "view_ok s \<Longrightarrow> view_ok (base_init te s)" "view_ok s \<Longrightarrow> view_ok (extra_init b s)"
  "view_ok s \<Longrightarrow> view_ok (detail_init sh b s)" "view_ok s \<Longrightarrow> view_ok (conn_init b s)"
proof -
  have v: "view_ok s = (mode_ok s \<and> shown_as s)" for s :: "'a Main_scheme" by (simp add: view_ok_def)
  have data: "view (give_data i d s) = view s" for i d and s :: "'a Main_scheme" by (rule view_give_data)
  show "view_ok (base_init te s)" if "view_ok s"
    using that by (simp add: v mode_ok_def shown_as_def base_init_def Let_def map_call_def vis_step_def)
  show "view_ok (extra_init b s)" if "view_ok s"
    using that
    by (cases "extra_data s") (simp_all add: v mode_ok_def shown_as_def extra_init_def give_data_def Let_def map_call_def vis_step_def)
  show "view_ok (detail_init sh b s)" if "view_ok s"
    using that
    by (cases "detail_data s") (simp_all add: v mode_ok_def shown_as_def detail_init_def give_data_def Let_def map_call_def vis_step_def)
  show "view_ok (conn_init b s)" if "view_ok s"
    using that
    by (cases "conn_data s") (simp_all add: v mode_ok_def shown_as_def conn_init_def give_data_def Let_def map_call_def vis_step_def)
qed

lemma map_loaded_ok: "view_ok s \<Longrightarrow> view_ok (map_loaded sh te m s)"
  unfolding map_loaded_def Let_def
  by (intro inits_ok) (metis inits_ok(1) view_gbfs(2) view_main(8) view_ok_view)

lemma view_ok_shown: "view_ok s \<Longrightarrow> shown_as s"
  by (simp add: view_ok_def)

lemma shown_same: "shown_as s \<Longrightarrow> view t = view s \<Longrightarrow> shown_as t"
  by (simp add: shown_as_def view_def fun_eq_iff)

lemma view_same: "view_ok s \<Longrightarrow> view t = view s \<Longrightarrow> view_ok t"
  using view_ok_view by blast

lemma view_state: "view_ok s \<Longrightarrow> m = Done t \<Longrightarrow> view (state_of m) = view s \<Longrightarrow> view_ok t"
  using view_same by simp

lemma dataReceived_ok:
  assumes "dataReceived G c b i s = Done t" and ok: "view_ok s"
  shows "view_ok t"
proof -
  note sh = view_ok_shown [OF ok]
  let ?s = "setLoading (-1) s"
  have after_port: "\<exists>v. m = Done v \<and> t = send_port ClearRailVizError v" if "after m (\<lambda>s. Done (send_port ClearRailVizError s)) = Done t" for m
    using that by (cases m) auto
  consider (stale) "t = ?s" | (trips) x v where "(if detailFilter (?s\<lparr>detailTrips := x\<rparr>) \<noteq> None then showDetailData (?s\<lparr>detailTrips := x\<rparr>)
        else Done (?s\<lparr>detailTrips := x\<rparr>)) = Done v" "t = send_port ClearRailVizError v"
    | (trains) n y v where "(if detailFilter (?s\<lparr>lastTrainsCount := n, fullData := y\<rparr>) = None
        then showFullData (?s\<lparr>lastTrainsCount := n, fullData := y\<rparr>) else Done (?s\<lparr>lastTrainsCount := n, fullData := y\<rparr>)) = Done v"
        "t = send_port ClearRailVizError v"
    using assms(1) unfolding dataReceived_def Let_def
    by (cases "Some i = (if b then main_lastTripsRequest s else lastTrainsRequest s)"; cases "preprocess G c"; cases b)
      (auto dest!: after_port)
  then show ?thesis
  proof cases
    case stale
    then show ?thesis using view_same [OF ok, of t] by (simp add: view_simps)
  next
    case (trips x v)
    have "shown_as (?s\<lparr>detailTrips := x\<rparr>)" by (rule shown_same [OF sh]) (simp add: view_simps)
    moreover have "view_ok (?s\<lparr>detailTrips := x\<rparr>)" by (rule view_same [OF ok]) (simp add: view_simps)
    ultimately have "view_ok v" using trips(1) showDetailData_ok by (auto split: if_splits)
    then show ?thesis using trips(2) by (auto intro: view_same simp: view_simps)
  next
    case (trains n y v)
    have "shown_as (?s\<lparr>lastTrainsCount := n, fullData := y\<rparr>)" by (rule shown_same [OF sh]) (simp add: view_simps)
    moreover have "view_ok (?s\<lparr>lastTrainsCount := n, fullData := y\<rparr>)" by (rule view_same [OF ok]) (simp add: view_simps)
    ultimately have "view_ok v" using trains(1) showFullData_ok by (auto split: if_splits)
    then show ?thesis using trains(2) by (auto intro: view_same simp: view_simps)
  qed
qed

lemma setDetailFilter_ok:
  assumes "setDetailFilter f s = Done t" and "view_ok s"
  shows "view_ok t"
proof (cases f)
  case None
  have "shown_as (s\<lparr>detailFilter := None, detailTrips := None\<rparr>)"
    by (rule shown_same [OF view_ok_shown [OF assms(2)]]) (simp add: view_simps)
  with assms(1) None show ?thesis by (auto simp: setDetailFilter_def Let_def intro: showFullData_ok)
next
  case (Some g)
  with assms(1) have "t = sendTripsRequest (s\<lparr>detailFilter := Some g\<rparr>)" by (simp add: setDetailFilter_def)
  then show ?thesis using view_same [OF assms(2), of t] by (simp add: view_simps)
qed

lemma setDetailWalks_ok:
  assumes "setDetailWalks G ws s = Done t" and "view_ok s"
  shows "view_ok t"
proof -
  have f: "shown_as (s\<lparr>detailFilter := x\<rparr>)" for x by (rule shown_same [OF view_ok_shown [OF assms(2)]]) (simp add: view_simps)
  have "view_ok (s\<lparr>detailFilter := x\<rparr>)" for x by (rule view_same [OF assms(2)]) (simp add: view_simps)
  then show ?thesis
    using assms f by (auto simp: setDetailWalks_def Let_def split: option.splits prod.splits if_splits intro: showDetailData_ok)
qed

section \<open>The mode is shown\<close>

lemma view_finish: "view_ok s \<Longrightarrow> view_ok (finish i s)"
  by (erule view_same) (simp add: view_simps)

text \<open>Events whose handlers never touch the view.\<close>

definition may_switch :: "Event \<Rightarrow> bool" where
  "may_switch e =
     (case e of MapLoaded te ae m \<Rightarrow> True | PortDetailFilter f \<Rightarrow> True | PortDetailWalks ws \<Rightarrow> True
      | PortShowTrains b \<Rightarrow> True | Answer i c \<Rightarrow> True | _ \<Rightarrow> False)"

lemma view_handle: "\<not> may_switch e \<Longrightarrow> view (state_of (handle W e s)) = view s"
  by (cases e) (auto simp: may_switch_def view_simps debounce_fires_def split: option.splits Callback.splits)

lemma handle_view:
  assumes "handle W e s = Done t" and ok: "view_ok s"
  shows "view_ok t"
proof (cases "may_switch e")
  case False
  then show ?thesis using view_state [OF ok assms(1)] view_handle by simp
next
  case True
  show ?thesis
  proof (cases e)
    case (Answer i c)
    have "view_ok u" if "tripDataReceived (geo W) c i (finish i s) = Done u" for u
      by (rule view_state [OF view_finish [OF ok] that]) (simp add: view_simps)
    with Answer assms view_finish [OF ok, of i] show ?thesis
      by (auto split: option.splits Callback.splits intro: dataReceived_ok)
  qed (use True assms in \<open>auto simp: may_switch_def intro: map_loaded_ok setDetailFilter_ok setDetailWalks_ok showTrains_ok\<close>)
qed

interpretation view: quiet_invariant W view_ok for W
proof
  show "view_ok (main_init endpoint start)" for endpoint
    by (simp add: view_ok_def mode_ok_def shown_as_def main_init_def rd_init_def rd_setData_def start_def)
  show "view_ok t" if "view_ok s" "handle W e s = Done t" for s e t by (rule handle_view [OF that(2,1)])
qed



end
