(* ===== verification/Connection_Requests.thy ===== *)
theory Connection_Requests
  imports Connection_Highlight
begin

text \<open>
  What the connection manager requests: the path of every trip and walk of the connections once, and
  nothing that is cached.
\<close>

section \<open>Deep equality is an equivalence\<close>

text \<open>Values that came out of JSON: no \<^verbatim>\<open>NaN\<close>, no repeated keys.\<close>

fun json_ok :: "jsval \<Rightarrow> bool" where
  "json_ok (JNum x) = (x \<noteq> NaN)"
| "json_ok (JArr xs) = list_all json_ok xs"
| "json_ok (JObj ps) = (distinct (map_keys ps) \<and> list_all (\<lambda>(k, v). json_ok v) ps)"
| "json_ok _ = True"

lemma json_induct [case_names JArr JObj other]:
  assumes "\<And>xs. (\<And>x. x \<in> set xs \<Longrightarrow> P x) \<Longrightarrow> P (JArr xs)"
    and "\<And>ps. (\<And>k v. (k, v) \<in> set ps \<Longrightarrow> P v) \<Longrightarrow> P (JObj ps)"
    and "\<And>v. (\<And>xs. v \<noteq> JArr xs) \<Longrightarrow> (\<And>ps. v \<noteq> JObj ps) \<Longrightarrow> P v"
  shows "P v"
proof (induction v)
  case (JArr xs)
  then show ?case by (rule assms(1))
next
  case (JObj ps)
  then show ?case by (intro assms(2)) (auto simp: snds.simps)
qed (rule assms(3); simp)+

lemma obj_get_mem: "distinct (map_keys ps) \<Longrightarrow> (k, v) \<in> set ps \<Longrightarrow> obj_get (JObj ps) k = v"
  by (simp add: map_get_distinct)

lemma deepEqual_refl: "json_ok v \<Longrightarrow> deepEqual v v"
proof (induction v rule: json_induct)
  case (JArr xs)
  then show ?case by (auto simp: list_all_iff zip_same_conv_map)
next
  case (JObj ps)
  then show ?case by (auto simp: list_all_iff map_has_iff map_get_distinct intro!: rev_image_eqI split: option.splits)
next
  case (other v)
  then show ?case by (cases v) auto
qed

lemma deepEqual_arr: "deepEqual (JArr xs) b \<longleftrightarrow> (\<exists>ys. b = JArr ys \<and> list_all2 deepEqual xs ys)"
  by (cases b) (auto simp: list_all2_iff list_all_iff)

lemma keys_same:
  assumes "distinct (map_keys ps)" and "distinct (map_keys qs)" and "length ps = length qs"
    and "set (map_keys ps) \<subseteq> set (map_keys qs)"
  shows "set (map_keys ps) = set (map_keys qs)"
proof (rule card_subset_eq)
  show "card (set (map_keys ps)) = card (set (map_keys qs))"
    using distinct_card [OF assms(1)] distinct_card [OF assms(2)] assms(3) by (simp del: set_map)
qed (use assms(4) in \<open>simp_all del: set_map\<close>)

text \<open>On objects with distinct keys: the same keys, and equal values under each.\<close>

lemma deepEqual_obj:
  assumes "distinct (map_keys ps)" and "json_ok b"
  shows "deepEqual (JObj ps) b \<longleftrightarrow>
    (\<exists>qs. b = JObj qs \<and> distinct (map_keys qs) \<and> set (map_keys ps) = set (map_keys qs) \<and>
       (\<forall>k v w. (k, v) \<in> set ps \<longrightarrow> (k, w) \<in> set qs \<longrightarrow> deepEqual v w))" (is "_ = ?R")
proof
  assume eq: "deepEqual (JObj ps) b"
  then obtain qs where qs: "b = JObj qs" "length ps = length qs" "\<forall>(k, v) \<in> set ps. map_has qs k"
    "\<forall>(k, v) \<in> set ps. deepEqual v (obj_get b k)"
    by (cases b) (auto simp: list_all_iff)
  have d: "distinct (map_keys qs)" using assms(2) qs(1) by simp
  have "set (map_keys ps) \<subseteq> set (map_keys qs)" using qs(3) by (auto simp: map_has_iff)
  then have "set (map_keys ps) = set (map_keys qs)" by (rule keys_same [OF assms(1) d qs(2)])
  moreover have "deepEqual v w" if "(k, v) \<in> set ps" "(k, w) \<in> set qs" for k v w
    using qs(1,4) that(1) obj_get_mem [OF d that(2)] by auto
  ultimately show ?R using qs(1) d by blast
next
  assume ?R
  then obtain qs where qs: "b = JObj qs" "distinct (map_keys qs)" "set (map_keys ps) = set (map_keys qs)"
    "\<And>k v w. (k, v) \<in> set ps \<Longrightarrow> (k, w) \<in> set qs \<Longrightarrow> deepEqual v w" by blast
  have "length ps = length qs"
    using distinct_card [OF assms(1)] distinct_card [OF qs(2)] qs(3) by (simp del: set_map)
  moreover have "map_has qs k \<and> deepEqual v (obj_get b k)" if "(k, v) \<in> set ps" for k v
  proof -
    have "k \<in> set (map_keys qs)" using that qs(3) by (metis fst_conv image_eqI set_map)
    then obtain w where "(k, w) \<in> set qs" by auto
    with qs(1,4) that show ?thesis using obj_get_mem [OF qs(2)] by (auto simp: map_has_iff intro: rev_image_eqI)
  qed
  ultimately show "deepEqual (JObj ps) b" using qs(1) by (auto simp: list_all_iff)
qed

lemma json_ok_field: "json_ok (JObj ps) \<Longrightarrow> (k, v) \<in> set ps \<Longrightarrow> json_ok v"
  by (auto simp: list_all_iff)

lemma deepEqual_sym: "json_ok a \<Longrightarrow> json_ok b \<Longrightarrow> deepEqual a b \<Longrightarrow> deepEqual b a"
proof (induction a arbitrary: b rule: json_induct)
  case (JArr xs)
  obtain ys where ys: "b = JArr ys" "list_all2 deepEqual xs ys" using JArr.prems(3) unfolding deepEqual_arr by blast
  have "list_all2 deepEqual ys xs"
    using ys JArr.IH JArr.prems(1,2) by (auto simp: list_all2_conv_all_nth list_all_length)
  then show ?case unfolding ys(1) deepEqual_arr by blast
next
  case (JObj ps)
  have d: "distinct (map_keys ps)" using JObj.prems(1) by simp
  obtain qs where qs: "b = JObj qs" "distinct (map_keys qs)" "set (map_keys ps) = set (map_keys qs)"
    "\<And>k v w. (k, v) \<in> set ps \<Longrightarrow> (k, w) \<in> set qs \<Longrightarrow> deepEqual v w"
    using JObj.prems(3) unfolding deepEqual_obj [OF d JObj.prems(2)] by blast
  have "deepEqual w v" if "(k, v) \<in> set ps" "(k, w) \<in> set qs" for k v w
  proof (rule JObj.IH [OF that(1)])
    show "json_ok v" by (rule json_ok_field [OF JObj.prems(1) that(1)])
    show "json_ok w" by (rule json_ok_field [OF JObj.prems(2) [unfolded qs(1)] that(2)])
  qed (rule qs(4) [OF that])
  then show ?case unfolding qs(1) deepEqual_obj [OF qs(2) JObj.prems(1)] using d qs(3) by blast
next
  case (other v)
  then show ?case by (cases v) auto
qed

lemma deepEqual_trans: "json_ok a \<Longrightarrow> json_ok b \<Longrightarrow> json_ok c \<Longrightarrow> deepEqual a b \<Longrightarrow> deepEqual b c \<Longrightarrow> deepEqual a c"
proof (induction a arbitrary: b c rule: json_induct)
  case (JArr xs)
  obtain ys where ys: "b = JArr ys" "list_all2 deepEqual xs ys" using JArr.prems(4) unfolding deepEqual_arr by blast
  obtain zs where zs: "c = JArr zs" "list_all2 deepEqual ys zs" using JArr.prems(5) unfolding ys(1) deepEqual_arr by blast
  have "deepEqual (xs ! i) (zs ! i)" if "i < length xs" for i
  proof (rule JArr.IH [of _ "ys ! i"])
    show "xs ! i \<in> set xs" using that by simp
  qed (use that ys zs JArr.prems(1-3) in \<open>auto simp: list_all2_conv_all_nth list_all_length\<close>)
  then have "list_all2 deepEqual xs zs" using ys(2) zs(2) by (auto simp: list_all2_conv_all_nth)
  then show ?case unfolding zs(1) deepEqual_arr by blast
next
  case (JObj ps)
  have d: "distinct (map_keys ps)" using JObj.prems(1) by simp
  obtain qs where qs: "b = JObj qs" "distinct (map_keys qs)" "set (map_keys ps) = set (map_keys qs)"
    "\<And>k v w. (k, v) \<in> set ps \<Longrightarrow> (k, w) \<in> set qs \<Longrightarrow> deepEqual v w"
    using JObj.prems(4) unfolding deepEqual_obj [OF d JObj.prems(2)] by blast
  obtain rs where rs: "c = JObj rs" "distinct (map_keys rs)" "set (map_keys qs) = set (map_keys rs)"
    "\<And>k v w. (k, v) \<in> set qs \<Longrightarrow> (k, w) \<in> set rs \<Longrightarrow> deepEqual v w"
    using JObj.prems(5) unfolding qs(1) deepEqual_obj [OF qs(2) JObj.prems(3)] by blast
  have "deepEqual v u" if "(k, v) \<in> set ps" "(k, u) \<in> set rs" for k v u
  proof -
    have "k \<in> set (map_keys qs)" using that(1) qs(3) by (metis fst_conv image_eqI set_map)
    then obtain w where w: "(k, w) \<in> set qs" by auto
    show ?thesis
    proof (rule JObj.IH [OF that(1), of w])
      show "json_ok v" by (rule json_ok_field [OF JObj.prems(1) that(1)])
      show "json_ok w" by (rule json_ok_field [OF JObj.prems(2) [unfolded qs(1)] w])
      show "json_ok u" by (rule json_ok_field [OF JObj.prems(3) [unfolded rs(1)] that(2)])
    qed (rule qs(4) [OF that(1) w], rule rs(4) [OF w that(2)])
  qed
  then show ?case unfolding rs(1) deepEqual_obj [OF d JObj.prems(3) [unfolded rs(1)]] using rs(2,3) qs(3) by blast
next
  case (other v)
  then show ?case by (cases v; cases b) auto
qed

section \<open>Trips\<close>

lemma find_index_first:
  assumes "find_index P xs = int i"
  shows "i < length xs" "P (xs ! i)" "\<And>j. j < i \<Longrightarrow> \<not> P (xs ! j)"
proof -
  let ?n = "length (takeWhile (\<lambda>x. \<not> P x) xs)"
  have n: "?n < length xs" "i = ?n" using assms by (auto simp: find_index_def Let_def split: if_splits)
  show "i < length xs" using n by simp
  show "P (xs ! i)" using nth_length_takeWhile [of "\<lambda>x. \<not> P x" xs] n by simp
  show "\<not> P (xs ! j)" if "j < i" for j
    using that n(2) takeWhile_nth [of j "\<lambda>x. \<not> P x" xs] set_takeWhileD [of "xs ! j" "\<lambda>x. \<not> P x" xs] by (metis nth_mem)
qed

lemma find_index_exists:
  assumes "x \<in> set xs" and "P x"
  shows "\<exists>i. find_index P xs = int i"
proof -
  have "length (takeWhile (\<lambda>x. \<not> P x) xs) < length xs"
    using assms by (metis (mono_tags, lifting) length_takeWhile_le linorder_neqE_nat not_le set_takeWhileD takeWhile_eq_all_conv takeWhile_eq_take take_all order_refl)
  then show ?thesis by (auto simp: find_index_def Let_def)
qed

lemma unique_trips_mem:
  "t \<in> set (unique_trips trips) \<longleftrightarrow> (\<exists>i < length trips. t = trips ! i \<and> find_index (deepEqual t) trips = int i)"
  by (force simp: unique_trips_def in_set_enumerate_eq)

text \<open>Every trip of the connections is requested, once: each is deeply equal to a requested trip, and
  no two requested trips are deeply equal.\<close>

theorem trips_requested_once:
  assumes "list_all json_ok trips"
  shows "list_all (\<lambda>t. list_ex (deepEqual t) (unique_trips trips)) trips \<and>
    distinct (unique_trips trips) \<and>
    (a \<in> set (unique_trips trips) \<longrightarrow> b \<in> set (unique_trips trips) \<longrightarrow> deepEqual a b \<longrightarrow> a = b)"
proof (intro conjI impI)
  have ok: "json_ok t" if "t \<in> set trips" for t using assms that by (simp add: list_all_iff)
  have "list_ex (deepEqual t) (unique_trips trips)" if t: "t \<in> set trips" for t
  proof -
    obtain i where i: "find_index (deepEqual t) trips = int i"
      using find_index_exists [OF t] deepEqual_refl [OF ok [OF t]] by blast
    note f = find_index_first [OF i]
    let ?u = "trips ! i"
    have u: "?u \<in> set trips" "deepEqual t ?u" using f by auto
    have sym: "deepEqual ?u t" by (rule deepEqual_sym [OF ok [OF t] ok [OF u(1)] u(2)])
    obtain k where k: "find_index (deepEqual ?u) trips = int k"
      using find_index_exists [OF u(1)] deepEqual_refl [OF ok [OF u(1)]] by blast
    note g = find_index_first [OF k]
    have "deepEqual t (trips ! k)"
      using deepEqual_trans [OF ok [OF t] ok [OF u(1)] _ u(2) g(2)] g(1) ok by simp
    then have "\<not> k < i" using f(3) by blast
    moreover have "\<not> i < k" using g(3) [of i] deepEqual_refl [OF ok [OF u(1)]] by blast
    ultimately have "find_index (deepEqual ?u) trips = int i" using k by simp
    then have "?u \<in> set (unique_trips trips)" using f(1) by (auto simp: unique_trips_mem)
    with u(2) show ?thesis by (auto simp: list_ex_iff)
  qed
  then show "list_all (\<lambda>t. list_ex (deepEqual t) (unique_trips trips)) trips" by (simp add: list_all_iff)
  show eq: "a = b" if a: "a \<in> set (unique_trips trips)" and b: "b \<in> set (unique_trips trips)" and ab: "deepEqual a b" for a b
  proof -
    obtain i where i: "i < length trips" "a = trips ! i" "find_index (deepEqual a) trips = int i"
      using a by (auto simp: unique_trips_mem)
    obtain j where j: "j < length trips" "b = trips ! j" "find_index (deepEqual b) trips = int j"
      using b by (auto simp: unique_trips_mem)
    have "deepEqual b a" using deepEqual_sym [OF _ _ ab] i j ok by simp
    then have "\<not> i < j" using find_index_first(3) [OF j(3)] i(2) by blast
    moreover have "\<not> j < i" using find_index_first(3) [OF i(3)] j(2) ab by blast
    ultimately show ?thesis using i(2) j(2) by simp
  qed
  show "distinct (unique_trips trips)"
    unfolding unique_trips_def
  proof (subst distinct_map, intro conjI inj_onI)
    fix x y assume x: "x \<in> set (filter (\<lambda>(i, v). int i = find_index (deepEqual v) trips) (enumerate 0 trips))"
      and y: "y \<in> set (filter (\<lambda>(i, v). int i = find_index (deepEqual v) trips) (enumerate 0 trips))" and eq: "snd x = snd y"
    have "int (fst x) = find_index (deepEqual (snd x)) trips" "int (fst y) = find_index (deepEqual (snd y)) trips"
      using x y by (simp_all add: case_prod_beta)
    with eq show "x = y" by (intro prod_eqI) simp_all
  qed (simp add: distinct_enumerate)
qed

theorem trips_requested_once_witness:
  "unique_trips [JInt 1, JObj [(''a'', JInt 1), (''b'', JNull)], JInt 1, JObj [(''b'', JNull), (''a'', JInt 1)]] =
     [JInt 1, JObj [(''a'', JInt 1), (''b'', JNull)]] \<and>
   distinct (unique_trips [JInt 1, JObj [(''a'', JInt 1), (''b'', JNull)], JInt 1, JObj [(''b'', JNull), (''a'', JInt 1)]])"
proof
  show "unique_trips [JInt 1, JObj [(''a'', JInt 1), (''b'', JNull)], JInt 1, JObj [(''b'', JNull), (''a'', JInt 1)]] =
     [JInt 1, JObj [(''a'', JInt 1), (''b'', JNull)]]" by code_simp
  show "distinct (unique_trips [JInt 1, JObj [(''a'', JInt 1), (''b'', JNull)], JInt 1, JObj [(''b'', JNull), (''a'', JInt 1)]])"
    by (rule trips_requested_once [THEN conjunct2, THEN conjunct1]) simp
qed

end
