(* ===== verification/Connection_Walks.thy ===== *)
theory Connection_Walks
  imports Connection_Requests
begin

text \<open>
  How the walks of the connections become entries of the connection manager, and what late answers
  do to what it shows.
\<close>

section \<open>Shared walks\<close>

text \<open>The entry at address \<open>a\<close> is the one of the \<open>j\<close>-th walk of connection \<open>c\<close>; the
  entries of this search start at \<open>n0\<close>.\<close>

definition entry_of :: "nat \<Rightarrow> 'a ConnectionManager_scheme \<Rightarrow> nat \<Rightarrow> nat \<Rightarrow> nat \<Rightarrow> bool" where
  "entry_of n0 s a c j =
     (let walk = c_walks (connection_heap s ! c) ! j; w = walk_heap s ! a
      in w_id walk = Some (a - n0) \<and> walkId (we_walk w) = walkId walk \<and> c_id (connection_heap s ! c) \<in> set (we_connectionIds w))"

definition current :: "nat \<Rightarrow> 'a ConnectionManager_scheme \<Rightarrow> nat \<Rightarrow> bool" where
  "current n0 s a = (n0 \<le> a \<and> a < length (walk_heap s))"

definition keys_ok :: "nat \<Rightarrow> (WalkKey, nat) jsmap \<Rightarrow> 'a ConnectionManager_scheme \<Rightarrow> bool" where
  "keys_ok n0 km s = (\<forall>k a. map_get km k = Some a \<longleftrightarrow> current n0 s a \<and> walkId (we_walk (walk_heap s ! a)) = k)"

definition numbered :: "nat \<Rightarrow> (nat \<times> nat) set \<Rightarrow> 'a ConnectionManager_scheme \<Rightarrow> bool" where
  "numbered n0 D s = (\<forall>p \<in> D. \<exists>a. current n0 s a \<and> entry_of n0 s a (fst p) (snd p))"

text \<open>The state of the collection after the walks in \<open>D\<close>; an entry at \<open>b\<close> may have been made
  and not have its connection yet.\<close>

definition nearly :: "nat \<Rightarrow> (nat \<times> nat) set \<Rightarrow> (WalkKey, nat) jsmap \<Rightarrow> 'a ConnectionManager_scheme \<Rightarrow> nat option \<Rightarrow> bool" where
  "nearly n0 D km s b =
     (n0 \<le> length (walk_heap s) \<and> walkData s = [n0..<length (walk_heap s)] \<and>
      (\<forall>a. current n0 s a \<longrightarrow> we_id (walk_heap s ! a) = a - n0 \<and> (b = Some a \<or> we_connectionIds (walk_heap s ! a) \<noteq> [])) \<and>
      keys_ok n0 km s \<and> numbered n0 D s)"

definition collected :: "nat \<Rightarrow> (nat \<times> nat) set \<Rightarrow> (WalkKey, nat) jsmap \<Rightarrow> 'a ConnectionManager_scheme \<Rightarrow> bool" where
  "collected n0 D km s = nearly n0 D km s None"

lemma keys_okD: "keys_ok n0 km s \<Longrightarrow> map_get km k = Some a \<longleftrightarrow> current n0 s a \<and> walkId (we_walk (walk_heap s ! a)) = k"
  unfolding keys_ok_def by blast

lemma nearlyD:
  assumes "nearly n0 D km s b"
  shows "n0 \<le> length (walk_heap s)" "walkData s = [n0..<length (walk_heap s)]"
    "current n0 s a \<Longrightarrow> we_id (walk_heap s ! a) = a - n0" "current n0 s a \<Longrightarrow> b = Some a \<or> we_connectionIds (walk_heap s ! a) \<noteq> []"
    "keys_ok n0 km s" "numbered n0 D s"
  using assms by (auto simp: nearly_def)

text \<open>What collecting does not change: the ids of the connections and the keys of their walks.\<close>

definition shape :: "'a ConnectionManager_scheme \<Rightarrow> (int \<times> WalkKey list) list" where
  "shape s = map (\<lambda>c. (c_id c, map walkId (c_walks c))) (connection_heap s)"

lemma shape_fields:
  assumes "shape t = shape s" and "c < length (connection_heap s)"
  shows "length (connection_heap t) = length (connection_heap s)" "c_id (connection_heap t ! c) = c_id (connection_heap s ! c)"
    "map walkId (c_walks (connection_heap t ! c)) = map walkId (c_walks (connection_heap s ! c))"
    "length (c_walks (connection_heap t ! c)) = length (c_walks (connection_heap s ! c))"
proof -
  show l: "length (connection_heap t) = length (connection_heap s)"
    using arg_cong [OF assms(1), of length] by (simp add: shape_def)
  have "shape t ! c = shape s ! c" using assms(1) by simp
  then show "c_id (connection_heap t ! c) = c_id (connection_heap s ! c)"
    and m: "map walkId (c_walks (connection_heap t ! c)) = map walkId (c_walks (connection_heap s ! c))"
    using l assms(2) by (simp_all add: shape_def)
  show "length (c_walks (connection_heap t ! c)) = length (c_walks (connection_heap s ! c))"
    using arg_cong [OF m, of length] by simp
qed

lemma walkId_numbered [simp]: "walkId (w\<lparr>w_id := i\<rparr>) = walkId w"
  by (simp add: walkId_def)

text \<open>Finding or making the entry.\<close>

definition find_entry :: "Walk \<Rightarrow> (WalkKey, nat) jsmap \<Rightarrow> 'a ConnectionManager_scheme \<Rightarrow> nat \<times> (WalkKey, nat) jsmap \<times> 'a ConnectionManager_scheme" where
  "find_entry walk km s =
     (case map_get km (walkId walk) of
        Some a \<Rightarrow> (a, km, s)
      | None \<Rightarrow> (length (walk_heap s), map_set (walkId walk) (length (walk_heap s)) km,
          s\<lparr>walk_heap := walk_heap s @ [new_entry (length (walkData s)) walk],
            walkData := walkData s @ [length (walk_heap s)]\<rparr>))"

text \<open>Numbering the walk and noting the connection.\<close>

definition note_walk :: "nat \<Rightarrow> nat \<Rightarrow> Walk \<Rightarrow> nat \<Rightarrow> 'a ConnectionManager_scheme \<Rightarrow> 'a ConnectionManager_scheme" where
  "note_walk c j walk a s =
     (let con = connection_heap s ! c in
      change_walk a (\<lambda>w. w\<lparr>we_connectionIds := we_connectionIds w @ [c_id con],
          we_polyline := (if we_polyline w = None then map_option PathArray (w_polyline walk) else we_polyline w)\<rparr>)
        (s\<lparr>connection_heap := (connection_heap s)[c := con\<lparr>c_walks :=
             (c_walks con)[j := walk\<lparr>w_id := Some (we_id (walk_heap s ! a))\<rparr>]\<rparr>]\<rparr>))"

lemma collect_walk_parts:
  "collect_walk c (km, s) (j, walk) = (case find_entry walk km s of (a, km1, s1) \<Rightarrow> (km1, note_walk c j walk a s1))"
  by (auto simp: collect_walk_def find_entry_def note_walk_def Let_def change_walk_def split: option.splits)

lemma find_entry_ok:
  assumes "collected n0 D km s" and "find_entry walk km s = (a, km1, s1)"
  shows "nearly n0 D km1 s1 (Some a)" "map_get km1 (walkId walk) = Some a" "connection_heap s1 = connection_heap s"
proof -
  note inv = nearlyD [OF assms(1)[unfolded collected_def]]
  have "nearly n0 D km1 s1 (Some a) \<and> map_get km1 (walkId walk) = Some a \<and> connection_heap s1 = connection_heap s"
  proof (cases "map_get km (walkId walk)")
    case (Some b)
    with assms(2) have "a = b" "km1 = km" "s1 = s" by (simp_all add: find_entry_def)
    with Some assms(1) show ?thesis by (simp add: collected_def nearly_def)
  next
    case None
    let ?n = "length (walk_heap s)"
    from None assms(2) have r: "a = ?n" "km1 = map_set (walkId walk) ?n km"
      "s1 = s\<lparr>walk_heap := walk_heap s @ [new_entry (length (walkData s)) walk], walkData := walkData s @ [?n]\<rparr>"
      by (auto simp: find_entry_def)
    have old: "walk_heap s1 ! b = walk_heap s ! b" if "b < ?n" for b using that by (simp add: r nth_append)
    have new: "walk_heap s1 ! ?n = new_entry (?n - n0) walk" using inv(2) by (simp add: r)
    have cur: "current n0 s1 b \<longleftrightarrow> current n0 s b \<or> b = ?n" for b using inv(1) by (auto simp: current_def r(3))
    have lt: "current n0 s b \<Longrightarrow> b < ?n" for b by (simp add: current_def)
    have "map_get km1 k = Some b \<longleftrightarrow> current n0 s1 b \<and> walkId (we_walk (walk_heap s1 ! b)) = k" for k b
    proof (cases "b = ?n")
      case True
      moreover have "map_get km k \<noteq> Some ?n" using keys_okD [OF inv(5)] lt by blast
      ultimately show ?thesis using new by (auto simp: r(2) map_get_set cur new_entry_def)
    next
      case False
      moreover have "map_get km (walkId walk) \<noteq> Some b" using None by simp
      ultimately show ?thesis using keys_okD [OF inv(5), of _ b] old [of b] lt [of b] by (auto simp: r(2) map_get_set cur)
    qed
    then have keys: "keys_ok n0 km1 s1" unfolding keys_ok_def by blast
    have ent: "entry_of n0 s1 b c j = entry_of n0 s b c j" if "b < ?n" for b c j
    proof -
      have "connection_heap s1 = connection_heap s" by (simp add: r(3))
      then show ?thesis unfolding entry_of_def old [OF that] by simp
    qed
    have num: "numbered n0 D s1" using inv(6) ent lt cur unfolding numbered_def by meson
    have "nearly n0 D km1 s1 (Some a)"
      unfolding nearly_def
    proof (intro conjI allI impI)
      show "n0 \<le> length (walk_heap s1)" "walkData s1 = [n0..<length (walk_heap s1)]" using inv(1,2) by (simp_all add: r(3))
      fix b assume b: "current n0 s1 b"
      show "we_id (walk_heap s1 ! b) = b - n0" "Some a = Some b \<or> we_connectionIds (walk_heap s1 ! b) \<noteq> []"
        using b inv(3,4) [of b] old [of b] lt [of b] new r(1) by (auto simp: cur new_entry_def)
    qed (rule keys, rule num)
    then show ?thesis by (simp add: r map_get_set)
  qed
  then show "nearly n0 D km1 s1 (Some a)" "map_get km1 (walkId walk) = Some a" "connection_heap s1 = connection_heap s" by auto
qed

lemma note_walk_ok:
  assumes "nearly n0 D km s (Some a)" and "map_get km (walkId walk) = Some a"
    and "c < length (connection_heap s)" "j < length (c_walks (connection_heap s ! c))"
    and "walkId walk = walkId (c_walks (connection_heap s ! c) ! j)"
  shows "collected n0 (insert (c, j) D) km (note_walk c j walk a s) \<and> shape (note_walk c j walk a s) = shape s"
proof -
  note inv = nearlyD [OF assms(1)]
  let ?t = "note_walk c j walk a s"
  have a: "current n0 s a" "walkId (we_walk (walk_heap s ! a)) = walkId walk" using keys_okD [OF inv(5)] assms(2) by blast+
  have heap: "length (walk_heap ?t) = length (walk_heap s)" "walkData ?t = walkData s"
    "we_id (walk_heap ?t ! b) = we_id (walk_heap s ! b)" "we_walk (walk_heap ?t ! b) = we_walk (walk_heap s ! b)"
    "we_connectionIds (walk_heap ?t ! b) = we_connectionIds (walk_heap s ! b) @ (if b = a then [c_id (connection_heap s ! c)] else [])" for b
    using a(1) by (auto simp: note_walk_def change_walk_def Let_def nth_list_update current_def)
  have con: "c_id (connection_heap ?t ! d) = c_id (connection_heap s ! d)"
    "c_walks (connection_heap ?t ! d) = (if d = c then (c_walks (connection_heap s ! c))[j := walk\<lparr>w_id := Some (we_id (walk_heap s ! a))\<rparr>]
       else c_walks (connection_heap s ! d))" for d
    using assms(3) by (auto simp: note_walk_def change_walk_def Let_def nth_list_update)
  have cur: "current n0 ?t b = current n0 s b" for b by (simp add: current_def heap)
  have ent: "entry_of n0 ?t b d i" if "entry_of n0 s b d i" "(d, i) \<noteq> (c, j)" for b d i
    using that unfolding entry_of_def Let_def heap con by (auto simp: nth_list_update)
  have here: "entry_of n0 ?t a c j"
    using assms(4) a(2) inv(3) [OF a(1)] unfolding entry_of_def Let_def heap con by simp
  have "\<exists>b. current n0 ?t b \<and> entry_of n0 ?t b (fst p) (snd p)" if "p \<in> insert (c, j) D" for p
  proof (cases "p = (c, j)")
    case True
    then show ?thesis using here a(1) cur by auto
  next
    case False
    with that inv(6) obtain b where "current n0 s b" "entry_of n0 s b (fst p) (snd p)" unfolding numbered_def by blast
    with ent [of b "fst p" "snd p"] cur False show ?thesis by auto
  qed
  then have "numbered n0 (insert (c, j) D) ?t" unfolding numbered_def by blast
  moreover have "keys_ok n0 km ?t" using inv(5) unfolding keys_ok_def cur heap .
  moreover have "we_id (walk_heap ?t ! b) = b - n0 \<and> we_connectionIds (walk_heap ?t ! b) \<noteq> []" if "current n0 s b" for b
    using inv(3,4) [OF that] by (auto simp: heap)
  ultimately have "collected n0 (insert (c, j) D) km ?t"
    using inv(1,2) by (simp add: collected_def nearly_def heap cur)
  moreover have "shape ?t = shape s"
    using assms(3-5) by (intro nth_equalityI)
      (auto simp: shape_def note_walk_def change_walk_def Let_def nth_list_update map_update list_update_same_conv)
  ultimately show ?thesis ..
qed

lemma collect_walk_ok:
  assumes "collected n0 D km s" and "c < length (connection_heap s)" and "j < length (c_walks (connection_heap s ! c))"
    and "walkId walk = walkId (c_walks (connection_heap s ! c) ! j)"
  shows "case collect_walk c (km, s) (j, walk) of (km', s') \<Rightarrow> collected n0 (insert (c, j) D) km' s' \<and> shape s' = shape s"
proof -
  obtain a km1 s1 where f: "find_entry walk km s = (a, km1, s1)" by (cases "find_entry walk km s") auto
  note e = find_entry_ok [OF assms(1) f]
  have "shape s1 = shape s" by (simp add: shape_def e(3))
  with note_walk_ok [OF e(1,2)] assms(2-4) show ?thesis by (simp add: collect_walk_parts f e(3))
qed

lemma collect_connection_ok:
  assumes "collected n0 D km s" and "c < length (connection_heap s)"
  shows "case collect_connection (km, s) c of (km', s') \<Rightarrow>
    collected n0 (D \<union> {c} \<times> {..<length (c_walks (connection_heap s ! c))}) km' s' \<and> shape s' = shape s"
proof -
  let ?ws = "c_walks (connection_heap s ! c)"
  have "case foldl (collect_walk c) (km, s) (take n (enumerate 0 ?ws)) of (km', s') \<Rightarrow>
    collected n0 (D \<union> {c} \<times> {..<n}) km' s' \<and> shape s' = shape s" if "n \<le> length ?ws" for n
    using that
  proof (induction n)
    case 0
    then show ?case using assms(1) by simp
  next
    case (Suc n)
    obtain km1 s1 where st: "foldl (collect_walk c) (km, s) (take n (enumerate 0 ?ws)) = (km1, s1)" by fastforce
    with Suc have inv: "collected n0 (D \<union> {c} \<times> {..<n}) km1 s1" "shape s1 = shape s" by auto
    note f = shape_fields [OF inv(2) assms(2)]
    have n: "n < length ?ws" using Suc.prems by simp
    then have "take (Suc n) (enumerate 0 ?ws) = take n (enumerate 0 ?ws) @ [(n, ?ws ! n)]"
      by (simp add: take_Suc_conv_app_nth nth_enumerate_eq)
    moreover have "walkId (?ws ! n) = walkId (c_walks (connection_heap s1 ! c) ! n)"
      using f(3) n f(4) by (metis nth_map)
    then have "case collect_walk c (km1, s1) (n, ?ws ! n) of (km', s') \<Rightarrow>
        collected n0 (insert (c, n) (D \<union> {c} \<times> {..<n})) km' s' \<and> shape s' = shape s1"
      using collect_walk_ok [OF inv(1), of c n "?ws ! n"] assms(2) f n by simp
    moreover have "insert (c, n) (D \<union> {c} \<times> {..<n}) = D \<union> {c} \<times> {..<Suc n}" by auto
    ultimately show ?case using st inv(2) by (auto split: prod.splits)
  qed
  from this [of "length ?ws"] show ?thesis by (simp add: collect_connection_def)
qed

text \<open>C26: equal walks are requested once and shared: collecting the walks of the connections leaves one
  entry per walk key, with at least one connection each, and every walk carries the number of the entry of
  its key, which lists the walk's connection.\<close>

theorem walks_collected:
  assumes "list_all (\<lambda>c. c < length (connection_heap s)) cs"
    and "foldl collect_connection ([], s\<lparr>walkData := []\<rparr>) cs = (km, t)"
  shows "distinct (map (\<lambda>a. walkId (we_walk (walk_heap t ! a))) (walkData t)) \<and>
    list_all (\<lambda>a. we_connectionIds (walk_heap t ! a) \<noteq> []) (walkData t) \<and>
    (c \<in> set cs \<longrightarrow> j < length (c_walks (connection_heap t ! c)) \<longrightarrow>
      (\<exists>k < length (walkData t). w_id (c_walks (connection_heap t ! c) ! j) = Some k \<and>
         walkId (we_walk (walk_heap t ! (walkData t ! k))) = walkId (c_walks (connection_heap t ! c) ! j) \<and>
         c_id (connection_heap t ! c) \<in> set (we_connectionIds (walk_heap t ! (walkData t ! k)))))"
proof -
  let ?n0 = "length (walk_heap s)"
  let ?s = "s\<lparr>walkData := []\<rparr>"
  have start: "collected ?n0 {} [] ?s"
    by (auto simp: collected_def nearly_def keys_ok_def numbered_def current_def)
  have "case foldl collect_connection (km0, s0) cs of (km', s') \<Rightarrow>
      collected ?n0 (D \<union> (SIGMA c : set cs. {..<length (c_walks (connection_heap s ! c))})) km' s' \<and> shape s' = shape s"
    if "collected ?n0 D km0 s0" "shape s0 = shape s" "list_all (\<lambda>c. c < length (connection_heap s)) cs" for D km0 cs
      and s0 :: "'a ConnectionManager_scheme"
    using that
  proof (induction cs arbitrary: D km0 s0)
    case (Cons c cs)
    obtain km1 s1 where st: "collect_connection (km0, s0) c = (km1, s1)" by fastforce
    have c: "c < length (connection_heap s)" using Cons.prems(3) by simp
    note f = shape_fields [OF Cons.prems(2) c]
    have inv: "collected ?n0 (D \<union> {c} \<times> {..<length (c_walks (connection_heap s ! c))}) km1 s1" "shape s1 = shape s"
      using collect_connection_ok [OF Cons.prems(1), of c] st f c Cons.prems(2) by auto
    have "D \<union> {c} \<times> {..<length (c_walks (connection_heap s ! c))} \<union> (SIGMA c : set cs. {..<length (c_walks (connection_heap s ! c))}) =
        D \<union> (SIGMA c : set (c # cs). {..<length (c_walks (connection_heap s ! c))})" by auto
    with Cons.IH [OF inv] Cons.prems(3) st show ?case by simp
  qed simp
  from this [OF start _ assms(1)] assms(2) have inv:
    "collected ?n0 (SIGMA c : set cs. {..<length (c_walks (connection_heap s ! c))}) km t" "shape t = shape s"
    by (auto simp: shape_def)
  note i = nearlyD [OF inv(1)[unfolded collected_def]]
  have cur: "set (walkData t) = {a. current ?n0 t a}" using i(2) by (auto simp: current_def)
  have "inj_on (\<lambda>a. walkId (we_walk (walk_heap t ! a))) (set (walkData t))"
  proof (rule inj_onI)
    fix a b assume "a \<in> set (walkData t)" "b \<in> set (walkData t)" "walkId (we_walk (walk_heap t ! a)) = walkId (we_walk (walk_heap t ! b))"
    then have "map_get km (walkId (we_walk (walk_heap t ! b))) = Some a" "map_get km (walkId (we_walk (walk_heap t ! b))) = Some b"
      using keys_okD [OF i(5)] cur by auto
    then show "a = b" by simp
  qed
  then have "distinct (map (\<lambda>a. walkId (we_walk (walk_heap t ! a))) (walkData t))"
    using i(2) by (simp add: distinct_map)
  moreover have "list_all (\<lambda>a. we_connectionIds (walk_heap t ! a) \<noteq> []) (walkData t)"
    using i(4) cur by (auto simp: list_all_iff)
  moreover have "\<exists>k < length (walkData t). w_id (c_walks (connection_heap t ! c) ! j) = Some k \<and>
         walkId (we_walk (walk_heap t ! (walkData t ! k))) = walkId (c_walks (connection_heap t ! c) ! j) \<and>
         c_id (connection_heap t ! c) \<in> set (we_connectionIds (walk_heap t ! (walkData t ! k)))"
    if "c \<in> set cs" "j < length (c_walks (connection_heap t ! c))"
  proof -
    have "c < length (connection_heap s)" using that(1) assms(1) by (simp add: list_all_iff)
    from shape_fields [OF inv(2) this] that have "(c, j) \<in> (SIGMA c : set cs. {..<length (c_walks (connection_heap s ! c))})" by simp
    then obtain a where a: "current ?n0 t a" "entry_of ?n0 t a c j" using i(6) unfolding numbered_def by fastforce
    then have "walkData t ! (a - ?n0) = a" "a - ?n0 < length (walkData t)" using i(2) by (auto simp: current_def)
    with a(2) show ?thesis by (intro exI [of _ "a - ?n0"]) (auto simp: entry_of_def Let_def)
  qed
  ultimately show ?thesis by blast
qed

definition demo_searched :: Main where
  "demo_searched = start\<lparr>connection_heap := [demo_connection 0 7, demo_connection 1 8, demo_connection 2 7]\<rparr>"

theorem walks_collected_witness:
  "\<exists>km t. foldl collect_connection ([], demo_searched\<lparr>walkData := []\<rparr>) [0, 1, 2] = (km, t) \<and> length (walkData t) = 2 \<and>
     distinct (map (\<lambda>a. walkId (we_walk (walk_heap t ! a))) (walkData t))"
proof -
  let ?r = "foldl collect_connection ([], demo_searched\<lparr>walkData := []\<rparr>) [0, 1, 2]"
  have "length (walkData (snd ?r)) = 2" by code_simp
  moreover have "list_all (\<lambda>c. c < length (connection_heap demo_searched)) [0, 1, 2]" by code_simp
  note walks_collected [OF this, of "fst ?r" "snd ?r", THEN conjunct1]
  ultimately show ?thesis by (intro exI [of _ "fst ?r"] exI [of _ "snd ?r"]) simp
qed

section \<open>Late answers\<close>

definition is_walk_feature :: "Feature \<Rightarrow> bool" where
  "is_walk_feature f = (case f of ConnectionFeature c \<Rightarrow> \<not> cf_trip c | _ \<Rightarrow> False)"

lemma walk_feature [simp]: "is_walk_feature (conn_feature i False m cs)"
  by (simp add: is_walk_feature_def conn_feature_def Let_def)

lemma push_walk_features:
  "forX push_walk ws s = Done t \<Longrightarrow> pred_option (list_all is_walk_feature) (conn_data s) \<Longrightarrow>
     pred_option (list_all is_walk_feature) (conn_data t)"
proof (induction ws arbitrary: s)
  case (Cons a ws)
  then obtain u where u: "push_walk a s = Done u" "forX push_walk ws u = Done t" by (cases "push_walk a s") auto
  have "pred_option (list_all is_walk_feature) (conn_data u)"
    using u(1) Cons.prems(2)
    by (cases "conn_data s")
      (auto simp: push_walk_def push_conn_def Let_def split: if_splits option.splits WalkPath.splits)
  then show ?case using Cons.IH u(2) by blast
qed simp

lemma raw_trips_skipped: "forX push_trip (enumerate n (trip_polylines (RawTrips d))) s = Done s"
proof -
  have "forX push_trip (enumerate n (map (\<lambda>_. \<lparr>tp_line = None, tp_trains = None, tp_minCId = None\<rparr>) xs)) s = Done s" for xs n
    by (induction xs arbitrary: n) (simp_all add: push_trip_def)
  then show ?thesis by simp
qed

text \<open>C40: an answer to an outdated trips request removes the trips from the map. The handler stores the
  answer before it checks its number; when the connections are shown again, by the next walk that
  arrives, only walks are drawn.\<close>

theorem outdated_answer_erases_trips:
  assumes "cm_lastTripsRequest s \<noteq> Some i" and "tripDataReceived G content i s = Done s'"
    and "dataIsComplete s'" and "showConnections s' = Done t"
  shows "pred_option (list_all is_walk_feature) (conn_data t)"
proof -
  have s': "tripData s' = Some (RawTrips content)"
    using assms(1,2) by (auto simp: tripDataReceived_def setLoading_def toggleLoadingSpinner_def Let_def split: if_splits)
  let ?s = "s'\<lparr>conn_data := Some [], pc_connections := Some (connections s'), pc_tripData := tripData s', pc_walkData := Some (walkData s')\<rparr>"
  have "forX push_trip (enumerate 0 (trip_polylines (RawTrips content))) ?s = Done ?s" by (rule raw_trips_skipped)
  with assms(3,4) s' obtain u where u: "forX push_walk (walkData s') ?s = Done u"
    "t = (if conn_map u then give_data ''railviz-connections'' (conn_data u) u else u)"
    by (cases "forX push_walk (walkData s') ?s") (auto simp: showConnections_def conn_setData_def Let_def simp del: trip_polylines.simps)
  have "pred_option (list_all is_walk_feature) (conn_data u)" by (rule push_walk_features [OF u(1)]) simp
  moreover have "conn_data t = conn_data u" by (auto simp: u(2) give_data_def map_call_def split: option.splits)
  ultimately show ?thesis by simp
qed

theorem outdated_answer_erases_trips_witness:
  "\<exists>s' t. tripDataReceived demo_geo demo_raw 1 (start\<lparr>cm_lastTripsRequest := Some 2, tripsComplete := True\<rparr>) = Done s' \<and>
     showConnections s' = Done t \<and> pred_option (list_all is_walk_feature) (conn_data t)"
proof -
  let ?s = "start\<lparr>cm_lastTripsRequest := Some 2, tripsComplete := True\<rparr>"
  let ?s' = "state_of (tripDataReceived demo_geo demo_raw 1 ?s)" let ?t = "state_of (showConnections ?s')"
  have "(case tripDataReceived demo_geo demo_raw 1 ?s of Done u \<Rightarrow> True | Thrown u \<Rightarrow> False) \<and> dataIsComplete ?s' \<and>
      (case showConnections ?s' of Done u \<Rightarrow> True | Thrown u \<Rightarrow> False)" by code_simp
  then have r: "tripDataReceived demo_geo demo_raw 1 ?s = Done ?s'" "dataIsComplete ?s'" "showConnections ?s' = Done ?t"
    by (auto split: exec.splits)
  have "cm_lastTripsRequest ?s \<noteq> Some 1" by simp
  from outdated_answer_erases_trips [OF this r] r show ?thesis by blast
qed

text \<open>A foot route computed for outdated search options is used for the new ones. A call that is under
  way when the options change, and the cache is cleared, stores its route in the cache afterwards; a
  later walk of the same key takes that route and sends no request.\<close>

theorem outdated_route_cached:
  assumes "we_routerType (walk_heap s ! a) = Some Ppr" and "a < length (walk_heap s)"
    and "w_mumoType (we_walk (walk_heap s ! a)) = ''foot''" and "b < length (walk_heap s)"
    and "walkId (we_walk (walk_heap s ! b)) = walkId (we_walk (walk_heap s ! a))"
  shows "let t = handlePPRResponse a ((r # rs) # rss) (setPPRSearchOptions options s) in
    sent (requestWalkSegment b t) = sent t \<and> we_polyline (walk_heap (requestWalkSegment b t) ! b) \<noteq> None"
proof -
  let ?s = "setPPRSearchOptions options s"
  let ?t = "handlePPRResponse a ((r # rs) # rss) ?s"
  have s: "walk_heap ?s = walk_heap s" by (simp add: setPPRSearchOptions_def resetPPRCache_def)
  have t: "length (walk_heap ?t) = length (walk_heap s)" "\<And>c. we_walk (walk_heap ?t ! c) = we_walk (walk_heap s ! c)"
    using assms(2) by (auto simp: handlePPRResponse_def change_walk_def Let_def s nth_list_update)
  have "w_mumoType (we_walk (walk_heap s ! b)) = ''foot''" using assms(3,5) by (simp add: walkId_def)
  moreover have "map_get (pprCache ?t) (walkId (we_walk (walk_heap s ! b))) =
      Some \<lparr>cache_polyline = Some (PathObject (fr_path (hd (array_sort (compare_routes (we_walk (walk_heap s ! a))) (map default_duration (r # rs)))))),
            cache_route = fr_json (hd (array_sort (compare_routes (we_walk (walk_heap s ! a))) (map default_duration (r # rs))))\<rparr>"
    by (simp add: handlePPRResponse_def change_walk_def Let_def s map_get_set assms(5))
  ultimately show ?thesis
    using assms(4) by (simp add: requestWalkSegment_def Let_def t change_walk_def)
qed

definition demo_entry :: WalkEntry where
  "demo_entry = (new_entry 0 ((hd (c_walks (demo_connection 0 7)))\<lparr>w_mumoType := ''foot''\<rparr>))\<lparr>we_routerType := Some Ppr\<rparr>"

theorem outdated_route_cached_witness:
  "let t = handlePPRResponse 0 [[\<lparr>fr_duration = None, fr_accessibility = None, fr_path = [1, 2, 3, 4], fr_json = JNull\<rparr>]]
       (setPPRSearchOptions (JInt 5) (start\<lparr>walk_heap := [demo_entry, demo_entry]\<rparr>)) in
   sent (requestWalkSegment 1 t) = sent t \<and> we_polyline (walk_heap (requestWalkSegment 1 t) ! 1) \<noteq> None"
  by (rule outdated_route_cached) (simp_all add: demo_entry_def new_entry_def)

end
