(* ===== verification/Detail_Properties.thy ===== *)
theory Detail_Properties
  imports Railviz_Loading
begin

text \<open>
  The journey layer and picking: the class a line is drawn in, the walks that are joined to the trains
  before and after them, and the train found under the mouse.
\<close>

section \<open>Joining walks to trains\<close>

lemma elem_last_two: "elem (xs @ [a, b]) (int (length xs + 2) - 2) = Some a" "elem (xs @ [a, b]) (int (length xs + 2) - 1) = Some b"
  by (simp_all add: elem_def nth_append nat_add_distrib)

lemma put_front_starts: "elem (put_front ll wp) 0 = Some (fst ll) \<and> elem (put_front ll wp) 1 = Some (snd ll)"
  by (auto simp: put_front_def elem_def)

lemma put_front_id: "elem wp 0 = Some (fst ll) \<Longrightarrow> elem wp 1 = Some (snd ll) \<Longrightarrow> put_front ll wp = wp"
  by (simp add: put_front_def)

lemma put_back_idem: "put_back ll (put_back ll wp) = put_back ll wp"
proof (cases "put_back ll wp = wp")
  case False
  then have "put_back ll wp = wp @ [fst ll, snd ll]" by (auto simp: put_back_def split: if_splits)
  then show ?thesis using elem_last_two [of wp "fst ll" "snd ll"] by (simp add: put_back_def)
qed simp

lemma put_back_keeps:
  assumes "elem wp 0 = Some x" and "elem wp 1 = Some y"
  shows "elem (put_back ll wp) 0 = Some x \<and> elem (put_back ll wp) 1 = Some y"
  using assms by (auto simp: put_back_def elem_def nth_append split: if_splits)

definition join_front :: "point list \<Rightarrow> rat list \<Rightarrow> rat list" where
  "join_front arrivals wp = (case arrivals of [ll] \<Rightarrow> put_front ll wp | _ \<Rightarrow> wp)"

definition join_back :: "point list \<Rightarrow> rat list \<Rightarrow> rat list" where
  "join_back departures wp = (case departures of [ll] \<Rightarrow> put_back ll wp | _ \<Rightarrow> wp)"

lemma join_back_idem: "join_back ds (join_back ds wp) = join_back ds wp"
  by (auto simp: join_back_def put_back_idem split: list.splits)

lemma join_stable: "join_front as (join_back ds (join_front as wp)) = join_back ds (join_front as wp)"
proof (cases "\<exists>ll. as = [ll]")
  case True
  then obtain ll where ll: "as = [ll]" by blast
  have "elem (join_back ds (put_front ll wp)) 0 = Some (fst ll) \<and> elem (join_back ds (put_front ll wp)) 1 = Some (snd ll)"
    using put_front_starts [of ll wp] put_back_keeps [of "put_front ll wp"] by (auto simp: join_back_def split: list.splits)
  then show ?thesis by (simp add: ll join_front_def put_front_id)
next
  case False
  then have "join_front as x = x" for x by (auto simp: join_front_def split: list.splits)
  then show ?thesis by simp
qed

text \<open>Joining a walk to its trains is idempotent: the path that was joined once is left as it is when
  the journey is shown again, so a path shown every 90 seconds does not grow.\<close>

theorem adjusted_walk_stable:
  assumes "loadAdjustedWalk walk wp trips = (wp', Some cs)"
  shows "loadAdjustedWalk walk wp' trips = (wp', Some cs)"
proof -
  let ?arr = "those (map lastCoordinate (filter (\<lambda>t. a_station_id t = ms_id (w_from walk)) (highlighted_trains trips)))"
  let ?dep = "those (map firstCoordinate (filter (\<lambda>t. d_station_id t = ms_id (w_to walk)) (highlighted_trains trips)))"
  obtain as ds where ad: "?arr = Some as" "?dep = Some ds"
    using assms by (auto simp: loadAdjustedWalk_def Let_def split: option.splits)
  have run: "loadAdjustedWalk walk x trips = (join_back ds (join_front as x), Some (doublesToLngLats (join_back ds (join_front as x))))" for x
    using ad by (simp add: loadAdjustedWalk_def Let_def join_front_def join_back_def)
  then have "wp' = join_back ds (join_front as wp)" using assms by simp
  with run [of wp'] run [of wp] assms show ?thesis by (simp add: join_stable join_back_idem)
qed

definition demo_walk :: Walk where
  "demo_walk = \<lparr>w_from = \<lparr>ms_id = ''s'', ms_name = [], ms_lat = 0, ms_lng = 0\<rparr>,
     w_to = \<lparr>ms_id = ''t'', ms_name = [], ms_lat = 1, ms_lng = 1\<rparr>, w_polyline = Some [3, 3], w_mumoType = [],
     w_duration = 5, w_accessibility = 0, w_id = None, w_coordinates = None\<rparr>"

definition demo_trips :: DetailTrips where
  "demo_trips = \<lparr>dt_call = 1,
     dt_data = \<lparr>td_stations = [], td_polylines = [], td_trains = [demo_train\<lparr>a_station_id := ''s''\<rparr>], td_extras = []\<rparr>,
     dt_highlight = [True], dt_clasz = [], dt_marked = []\<rparr>"

theorem adjusted_walk_stable_witness:
  "fst (loadAdjustedWalk demo_walk [3, 3] demo_trips) \<noteq> [3, 3] \<and>
   loadAdjustedWalk demo_walk (fst (loadAdjustedWalk demo_walk [3, 3] demo_trips)) demo_trips =
     loadAdjustedWalk demo_walk [3, 3] demo_trips"
proof -
  let ?r = "loadAdjustedWalk demo_walk [3, 3] demo_trips"
  have c: "fst ?r \<noteq> [3, 3] \<and> snd ?r \<noteq> None" by code_simp
  then have "?r = (fst ?r, Some (the (snd ?r)))" by (simp add: prod_eq_iff)
  from adjusted_walk_stable [OF this] this c show ?thesis by simp
qed

section \<open>The class of a line\<close>

text \<open>Trains are sorted by falling class, the order in which \<^verbatim>\<open>setData\<close> visits them.\<close>

interpretation train_cmp: consistent_comparator train_order
  by unfold_locales (auto simp: train_order_def sgn_if split: if_splits)

lemma falling_classes: "sorted_wrt (\<lambda>a b. clasz b \<le> clasz a) (array_sort train_order ts)"
  by (rule sorted_wrt_mono_rel [OF _ train_cmp.array_sort_sorted]) (simp add: train_order_def split: if_splits)

definition uses :: "Train \<Rightarrow> nat \<Rightarrow> bool" where
  "uses t k = list_ex (\<lambda>i. nat \<bar>i\<bar> = k) (tr_indices t)"

text \<open>The smallest class of the trains on a line, at most 12; a class is never negative.\<close>

definition line_class :: "Train list \<Rightarrow> nat \<Rightarrow> int option" where
  "line_class ts k =
     (let cs = map clasz (filter (\<lambda>t. uses t k) ts) in if cs = [] then None else Some (fold min cs 12))"

lemma mark_polyline_fields:
  "length (dt_clasz (mark_polyline hl c d i)) = length (dt_clasz d)" "dt_data (mark_polyline hl c d i) = dt_data d"
  "k < length (dt_clasz d) \<Longrightarrow> dt_clasz (mark_polyline hl c d i) ! k =
     (if nat \<bar>i\<bar> = k then Some (min_clasz (dt_clasz d ! k) c) else dt_clasz d ! k)"
  by (auto simp: mark_polyline_def Let_def nth_list_update)

lemma min_clasz_twice: "0 \<le> c \<Longrightarrow> min_clasz (Some (min_clasz x c)) c = min_clasz x c"
  by (auto simp: min_clasz_def split: option.splits)

lemma mark_polylines_fields:
  assumes "0 \<le> c"
  shows "length (dt_clasz (foldl (mark_polyline hl c) d xs)) = length (dt_clasz d) \<and>
    dt_data (foldl (mark_polyline hl c) d xs) = dt_data d \<and>
    (k < length (dt_clasz d) \<longrightarrow> dt_clasz (foldl (mark_polyline hl c) d xs) ! k =
       (if list_ex (\<lambda>i. nat \<bar>i\<bar> = k) xs then Some (min_clasz (dt_clasz d ! k) c) else dt_clasz d ! k))"
proof (induction xs arbitrary: d)
  case (Cons i xs)
  then show ?case using mark_polyline_fields [where hl = hl and c = c and d = d and i = i] min_clasz_twice [OF assms] by auto
qed simp

lemma mark_train_fields:
  assumes "0 \<le> clasz t"
  shows "length (dt_clasz (mark_train f d (n, t))) = length (dt_clasz d)" "dt_data (mark_train f d (n, t)) = dt_data d"
    "k < length (dt_clasz d) \<Longrightarrow> dt_clasz (mark_train f d (n, t)) ! k =
       (if uses t k then Some (min_clasz (dt_clasz d ! k) (clasz t)) else dt_clasz d ! k)"
  using mark_polylines_fields [OF assms, where d = "d\<lparr>dt_highlight := (dt_highlight d)[n := train_highlighted f t]\<rparr>"
      and xs = "tr_indices t" and k = k]
  by (auto simp: mark_train_def uses_def Let_def)

text \<open>Going through falling classes, the class so far is not below the next one.\<close>

lemma marked_class:
  assumes "sorted_wrt (\<lambda>a b. clasz b \<le> clasz a) ts" and "list_all (\<lambda>t. 0 \<le> clasz t) ts" and "k < length (dt_clasz d)"
    and "case dt_clasz d ! k of None \<Rightarrow> True | Some m \<Rightarrow> 0 \<le> m \<and> list_all (\<lambda>t. m \<le> 12 \<and> (clasz t \<le> m \<or> m = 12)) ts"
  shows "dt_clasz (foldl (mark_train f) d (enumerate n ts)) ! k =
    (let cs = map clasz (filter (\<lambda>t. uses t k) ts) in
     if cs = [] then dt_clasz d ! k else Some (fold min cs (case dt_clasz d ! k of None \<Rightarrow> 12 | Some m \<Rightarrow> m)))"
  using assms
proof (induction ts arbitrary: d n)
  case (Cons t ts)
  have t: "0 \<le> clasz t" using Cons.prems(2) by simp
  note f = mark_train_fields [OF t, where f = f and d = d and n = n]
  let ?d = "mark_train f d (n, t)"
  have low: "list_all (\<lambda>u. clasz u \<le> clasz t) ts" using Cons.prems(1) by (simp add: list_all_iff)
  show ?case
  proof (cases "uses t k")
    case True
    have new: "dt_clasz ?d ! k = Some (min (case dt_clasz d ! k of None \<Rightarrow> 12 | Some m \<Rightarrow> m) (clasz t))"
      using f(3) [OF Cons.prems(3)] True Cons.prems(4) t by (auto simp: min_clasz_def split: option.splits)
    have "case dt_clasz ?d ! k of None \<Rightarrow> True | Some m \<Rightarrow> 0 \<le> m \<and> list_all (\<lambda>t. m \<le> 12 \<and> (clasz t \<le> m \<or> m = 12)) ts"
      using Cons.prems(4) t low unfolding new by (auto simp: list_all_iff min_def split: option.splits)
    from Cons.IH [OF _ _ _ this, of "Suc n"] Cons.prems True new f(1) show ?thesis
      by (auto simp: Let_def min.commute)
  next
    case False
    then have same: "dt_clasz ?d ! k = dt_clasz d ! k" using f(3) [OF Cons.prems(3)] by simp
    have "case dt_clasz ?d ! k of None \<Rightarrow> True | Some m \<Rightarrow> 0 \<le> m \<and> list_all (\<lambda>t. m \<le> 12 \<and> (clasz t \<le> m \<or> m = 12)) ts"
      using Cons.prems(4) unfolding same by (auto split: option.splits)
    from Cons.IH [OF _ _ _ this, of "Suc n"] Cons.prems False same f(1) show ?thesis by simp
  qed
qed simp

text \<open>In the journey layer a line has the smallest class of the trains that use it. The update
  \<^verbatim>\<open>Math.min(p.clasz || 12, t.clasz)\<close> forgets a class 0 it has written, but the trains come
  by falling class, so that this never loses it.\<close>

theorem line_has_smallest_class:
  assumes "preprocess G raw = Inr d" and "list_all (\<lambda>t. 0 \<le> clasz t) (td_trains d)"
    and "k < length (td_polylines d)"
  shows "dt_clasz (mark_trains f (detail_trips callId d)) ! k = line_class (td_trains d) k"
proof -
  have "sorted_wrt (\<lambda>a b. clasz b \<le> clasz a) (td_trains d)"
    using assms(1) falling_classes by (auto simp: preprocess_def bindE_Inr_iff Let_def)
  from marked_class [OF this assms(2), of k "detail_trips callId d"] assms(3) show ?thesis
    by (simp add: mark_trains_def detail_trips_def line_class_def Let_def)
qed

theorem line_has_smallest_class_witness:
  "\<exists>d. preprocess demo_geo demo_raw = Inr d \<and>
     dt_clasz (mark_trains \<lparr>df_trains = [], df_walks = [], df_interchange = []\<rparr> (detail_trips 1 d)) ! 1 = Some 1"
proof -
  obtain d where d: "preprocess demo_geo demo_raw = Inr d" "td_trains d = [demo_train]"
    using demo_preprocess by (auto split: sum.splits)
  have p: "case preprocess demo_geo demo_raw of Inr d \<Rightarrow> 1 < length (td_polylines d) | Inl e \<Rightarrow> False" by code_simp
  have t: "list_all (\<lambda>t. 0 \<le> clasz t) [demo_train] \<and> line_class [demo_train] 1 = Some 1" by code_simp
  from line_has_smallest_class [OF d(1), of 1] p t d show ?thesis by auto
qed

section \<open>Picking a train\<close>


definition demo_picture :: "TrainData \<Rightarrow> Main" where
  "demo_picture d = start\<lparr>rd_map := True, rd_data := Some (4, d), offscreen := Some (10, 10, 0), framebuffers := [0],
     train_layer := (train_layer start)\<lparr>colorAttributes := \<lparr>ca_trainCount = Some (length (td_trains d)), ca_bufferDirty = False, ca_buffer = []\<rparr>\<rparr>\<rparr>"

definition demo_mouse :: MouseInput where
  "demo_mouse = \<lparr>mi_type = ''mousemove'', mi_button = 0, mi_x = 3, mi_y = 4, mi_features = [],
     mi_pixel = (\<lambda>x y. map ucast (trainIndexToPickColor 0) @ [255]), mi_width = 10, mi_height = 10\<rparr>"


end
