(* ===== verification/Doc_Model.thy ===== *)
theory Doc_Model
  imports Schema_Types Js_Value
begin

text \<open>
  The hand-written documentation of the protocol (\<^verbatim>\<open>tools/protocol/src/doc/types.ts\<close>,
  \<^verbatim>\<open>doc/context.ts\<close>) and the YAML documents it is kept in
  (\<^verbatim>\<open>util/yaml.ts\<close>). A node of a YAML document is its contents: a scalar (or a plain
  value stored as it is), a sequence, or a map as its items in order. Comments and anchors are left out;
  reading and printing text are parameters.
\<close>

section \<open>YAML documents\<close>

datatype yaml = YVal jsval | YSeq "yaml list" | YMap "(yaml \<times> yaml) list"

record YamlDoc =
  contents :: yaml
  has_errors :: bool

text \<open>\<^verbatim>\<open>get\<close>, \<^verbatim>\<open>set\<close>, \<^verbatim>\<open>delete\<close> and \<^verbatim>\<open>items\<close> of a map node.\<close>

abbreviation y_key :: "string \<Rightarrow> yaml" where
  "y_key k \<equiv> YVal (JStr k)"

abbreviation y_str :: "string \<Rightarrow> yaml" where
  "y_str s \<equiv> YVal (JStr s)"

fun y_items :: "yaml \<Rightarrow> (yaml \<times> yaml) list" where
  "y_items (YMap ps) = ps"
| "y_items _ = []"

fun is_map :: "yaml \<Rightarrow> bool" where
  "is_map (YMap ps) = True"
| "is_map _ = False"

definition y_get :: "string \<Rightarrow> yaml \<Rightarrow> yaml option" where
  "y_get k m = map_get (y_items m) (y_key k)"

fun y_set :: "string \<Rightarrow> yaml \<Rightarrow> yaml \<Rightarrow> yaml" where
  "y_set k v (YMap ps) = YMap (map_set (y_key k) v ps)"
| "y_set k v m = m"

fun y_delete :: "string \<Rightarrow> yaml \<Rightarrow> yaml" where
  "y_delete k (YMap ps) = YMap (map_delete (y_key k) ps)"
| "y_delete k m = m"

definition y_has :: "string \<Rightarrow> yaml \<Rightarrow> bool" where
  "y_has k m = (y_get k m \<noteq> None)"

fun y_getIn :: "string list \<Rightarrow> yaml \<Rightarrow> yaml option" where
  "y_getIn [] m = Some m"
| "y_getIn (k # ks) m = (case y_get k m of None \<Rightarrow> None | Some v \<Rightarrow> y_getIn ks v)"

fun y_setIn :: "string list \<Rightarrow> yaml \<Rightarrow> yaml \<Rightarrow> yaml" where
  "y_setIn [] v m = v"
| "y_setIn (k # ks) v m =
     y_set k (y_setIn ks v (case y_get k m of None \<Rightarrow> YMap [] | Some n \<Rightarrow> n)) m"

text \<open>\<^verbatim>\<open>x == undefined\<close>: missing, or a null.\<close>

definition nullish :: "yaml option \<Rightarrow> bool" where
  "nullish v = (v = None \<or> v = Some (YVal JUndef) \<or> v = Some (YVal JNull))"

section \<open>yaml.ts\<close>

datatype doc_error =
    MissingConfig string
  | UnsupportedKey
  | NotAMap string
  | UndeclaredType
  | Unprintable string
  | InvalidPaths
  | InvalidPath string
  | UnknownDocType string string
  | InvalidTags
  | DocTypeError
  | YamlSyntax string

fun key_string :: "yaml \<Rightarrow> string option" where
  "key_string (YVal (JStr s)) = Some s"
| "key_string _ = None"

definition unknownKeyStep :: "(string \<Rightarrow> bool) \<Rightarrow> string list \<Rightarrow> yaml \<times> yaml \<Rightarrow> doc_error + string list" where
  "unknownKeyStep keep ks p =
     (case key_string (fst p) of
        None \<Rightarrow> Inl UnsupportedKey
      | Some k \<Rightarrow> Inr (if keep k then ks else ks @ [k]))"

definition removeUnknownKeys :: "yaml \<Rightarrow> (string \<Rightarrow> bool) \<Rightarrow> doc_error + string list \<times> yaml" where
  "removeUnknownKeys m keep =
     bindE (foldE (unknownKeyStep keep) [] (y_items m)) (\<lambda>ks. Inr (ks, fold y_delete ks m))"

text \<open>The child map and the parent, which holds it from now on.\<close>

definition getOrCreateMap :: "yaml \<Rightarrow> string list \<Rightarrow> doc_error + yaml \<times> yaml" where
  "getOrCreateMap parent path =
     (let m = y_getIn path parent
      in if nullish m then Inr (YMap [], y_setIn path (YMap []) parent)
         else (case m of
                 Some (YMap ps) \<Rightarrow> Inr (YMap ps, parent)
               | _ \<Rightarrow> Inl (NotAMap (if path \<noteq> [] then join ''/'' path else ''root''))))"

definition createMap :: "yaml \<Rightarrow> string list \<Rightarrow> yaml" where
  "createMap parent path = y_setIn path (YMap []) parent"

section \<open>types.ts and context.ts\<close>

record DocField =
  df_name :: string
  df_description :: "string option"
  df_examples :: "yaml list option"

record DocType =
  dt_fqtn :: string
  dt_description :: "string option"
  dt_examples :: "yaml list"
  dt_tags :: "string list"
  dt_fields :: "(string, DocField) jsmap option"

record DocResponse =
  dr_type :: string
  dr_description :: string

text \<open>The optional parts of a path are what the file says, unchecked.\<close>

record DocPath =
  dp_path :: string
  dp_summary :: jsval
  dp_description :: jsval
  dp_tags :: jsval
  dp_input :: jsval
  dp_output :: "DocResponse option"
  dp_operationId :: jsval
  dp_deprecated :: jsval

record Documentation =
  doc_types :: "(string, DocType) jsmap"
  doc_paths :: "DocPath list"
  doc_tags :: "jsval list"

record DocSchemaFile =
  dsf_path :: string
  dsf_namespace :: string
  dsf_types :: "string list"

record DocContext =
  dc_schema :: SchemaTypes
  dc_doc :: Documentation
  schemasDir :: string
  pathsFile :: string
  tagsFile :: string
  schemaFiles :: "(string, DocSchemaFile) jsmap"

section \<open>Maps of a document\<close>

lemma y_get_set [js_simps]: "is_map m \<Longrightarrow> y_get k' (y_set k v m) = (if k' = k then Some v else y_get k' m)"
  by (cases m) (auto simp: y_get_def map_get_set)

lemma is_map_set [simp]: "is_map (y_set k v m) = is_map m"
  by (cases m) auto

lemma is_map_delete [simp]: "is_map (y_delete k m) = is_map m"
  by (cases m) auto

lemma y_items_set: "is_map m \<Longrightarrow> y_items (y_set k v m) = map_set (y_key k) v (y_items m)"
  by (cases m) auto

lemma y_get_Map [simp]: "y_get k (YMap ps) = map_get ps (y_key k)"
  by (simp add: y_get_def)

lemma y_get_nonmap [simp]: "y_get k (YVal v) = None" "y_get k (YSeq xs) = None"
  by (simp_all add: y_get_def)

lemma y_set_same: "is_map m \<Longrightarrow> y_get k m = Some v \<Longrightarrow> y_set k v m = m"
proof -
  have "map_get ps a = Some b \<Longrightarrow> map_set a b ps = ps" for a b and ps :: "(yaml \<times> yaml) list"
    by (induction ps) (auto split: if_splits)
  then show "is_map m \<Longrightarrow> y_get k m = Some v \<Longrightarrow> y_set k v m = m" by (cases m) auto
qed

lemma y_set_set [simp]: "y_set k v (y_set k w m) = y_set k v m"
proof -
  have "map_set a b (map_set a c ps) = map_set a b ps" for a b c and ps :: "(yaml \<times> yaml) list"
    by (induction ps) auto
  then show ?thesis by (cases m) auto
qed

text \<open>All keys are strings.\<close>

definition string_keys :: "yaml \<Rightarrow> bool" where
  "string_keys m = list_all (\<lambda>p. key_string (fst p) \<noteq> None) (y_items m)"

definition y_keys :: "yaml \<Rightarrow> string set" where
  "y_keys m = {k. y_has k m}"

lemma y_keys_set: "is_map m \<Longrightarrow> y_keys (y_set k v m) = insert k (y_keys m)"
  by (auto simp: y_keys_def y_has_def y_get_set)

lemma y_has_iff: "y_has k m \<longleftrightarrow> y_key k \<in> fst ` set (y_items m)"
  by (auto simp: y_has_def y_get_def map_of_eq_None_iff)

lemma key_string_iff: "key_string y = Some k \<longleftrightarrow> y = y_key k"
  by (cases y rule: key_string.cases) auto

lemma string_keys_set: "string_keys m \<Longrightarrow> string_keys (y_set k v m)"
proof (cases m)
  case (YMap ps)
  have "list_all (\<lambda>p. key_string (fst p) \<noteq> None) ps \<Longrightarrow>
      list_all (\<lambda>p. key_string (fst p) \<noteq> None) (map_set (y_key k) v ps)"
    by (induction ps) auto
  with YMap show "string_keys m \<Longrightarrow> string_keys (y_set k v m)" by (simp add: string_keys_def)
qed (simp_all add: string_keys_def)

text \<open>Removing the unknown keys keeps the known items, in order.\<close>

lemma collect_unknown:
  "foldE (unknownKeyStep keep) ks ps =
     (if list_all (\<lambda>p. key_string (fst p) \<noteq> None) ps
      then Inr (ks @ filter (\<lambda>k. \<not> keep k) (map (\<lambda>p. the (key_string (fst p))) ps))
      else Inl UnsupportedKey)"
  by (induction ps arbitrary: ks) (auto simp: unknownKeyStep_def split: option.split)

lemma fold_delete: "fold y_delete ks (YMap ps) = YMap (filter (\<lambda>p. \<not> (\<exists>k \<in> set ks. fst p = y_key k)) ps)"
  by (induction ks arbitrary: ps) (auto simp: AList.delete_eq intro!: filter_cong)

lemma removeUnknownKeys_eq:
  assumes "removeUnknownKeys (YMap ps) keep = Inr (ks, m)"
  shows "string_keys (YMap ps)" and "m = YMap (filter (\<lambda>p. keep (the (key_string (fst p)))) ps)"
proof -
  have s: "list_all (\<lambda>p. key_string (fst p) \<noteq> None) ps"
    and ks: "ks = filter (\<lambda>k. \<not> keep k) (map (\<lambda>p. the (key_string (fst p))) ps)"
    and m: "m = fold y_delete ks (YMap ps)"
    using assms by (auto simp: removeUnknownKeys_def collect_unknown split: if_splits)
  show "string_keys (YMap ps)" using s by (simp add: string_keys_def)
  have "(\<exists>k \<in> set ks. fst p = y_key k) \<longleftrightarrow> \<not> keep (the (key_string (fst p)))" if "p \<in> set ps" for p
  proof -
    obtain k where k: "fst p = y_key k" using s \<open>p \<in> set ps\<close> by (auto simp: list_all_iff key_string_iff)
    then show ?thesis using that ks by force
  qed
  then show "m = YMap (filter (\<lambda>p. keep (the (key_string (fst p)))) ps)"
    unfolding m fold_delete by (simp cong: filter_cong)
qed

lemma removeUnknownKeys_none:
  assumes "string_keys (YMap ps)" and "\<forall>k \<in> y_keys (YMap ps). keep k"
  shows "removeUnknownKeys (YMap ps) keep = Inr ([], YMap ps)"
proof -
  have "filter (\<lambda>k. \<not> keep k) (map (\<lambda>p. the (key_string (fst p))) ps) = []"
    using assms by (force simp: string_keys_def list_all_iff key_string_iff filter_empty_conv y_keys_def y_has_iff)
  with assms(1) show ?thesis by (simp add: removeUnknownKeys_def collect_unknown string_keys_def)
qed

end
