(* ===== verification/Doc_Inout.thy ===== *)
theory Doc_Inout
  imports Doc_Model Resolver_Properties Type_Filter
begin

text \<open>
  Reading the documentation and bringing its files up to date with the schema
  (\<^verbatim>\<open>tools/protocol/src/doc/inout.ts\<close>). The files are a table of contents; the YAML
  reader and printer, \<^verbatim>\<open>path.resolve\<close> and the decimal notation of an array index are
  parameters. The result is the documentation with the files written, in order; what is printed to the
  console is left out. Files are read as they were at the start: the output streams are asynchronous.
\<close>

record DocHost =
  doc_files :: "(string, string) jsmap"
  doc_resolve :: "string list \<Rightarrow> string"
  parseDocument :: "string \<Rightarrow> YamlDoc"
  yaml_text :: "yaml \<Rightarrow> string"
  parse_yaml :: "string \<Rightarrow> jsval option"
  index_text :: "nat \<Rightarrow> string"

section \<open>Types\<close>

definition getOptStr :: "yaml \<Rightarrow> string \<Rightarrow> string option \<times> yaml" where
  "getOptStr m key =
     (let val = y_get key m
      in ((case val of
             Some (YVal (JStr s)) \<Rightarrow> if s \<noteq> '''' \<and> s \<noteq> ''TODO'' then Some s else None
           | _ \<Rightarrow> None),
          if nullish val then y_set key (y_str ''TODO'') m else m))"

text \<open>The items of a collection; an item of a map is a map of one entry when it stands alone.\<close>

fun collection_items :: "yaml option \<Rightarrow> yaml list option" where
  "collection_items (Some (YSeq xs)) = Some xs"
| "collection_items (Some (YMap ps)) = Some (map (\<lambda>p. YMap [p]) ps)"
| "collection_items _ = None"

fun string_items :: "yaml option \<Rightarrow> string list" where
  "string_items (Some (YSeq xs)) = List.map_filter key_string xs"
| "string_items _ = []"

definition getFqtn :: "DocSchemaFile \<Rightarrow> string \<Rightarrow> string" where
  "getFqtn file key = (if dsf_namespace file \<noteq> '''' then dsf_namespace file @ ''.'' @ key else key)"

definition readField :: "yaml \<times> (string, DocField) jsmap \<Rightarrow> TableField \<Rightarrow> doc_error + yaml \<times> (string, DocField) jsmap" where
  "readField st f =
     (let (fields, docs) = st in
      bindE (getOrCreateMap fields [fld_name f]) (\<lambda>(yf, fields).
        let (descr, yf) = getOptStr yf ''description'';
            docField = \<lparr>df_name = fld_name f, df_description = descr,
                        df_examples = collection_items (y_get ''examples'' yf)\<rparr>
        in Inr (y_set (fld_name f) yf fields, map_set (fld_name f) docField docs)))"

definition readFields :: "yaml \<Rightarrow> TableType \<Rightarrow> doc_error + yaml \<times> (string, DocField) jsmap" where
  "readFields yt t =
     bindE (getOrCreateMap yt [''fields'']) (\<lambda>(fields, yt).
     bindE (removeUnknownKeys fields (\<lambda>key. \<exists>f \<in> set (tbl_fields t). fld_name f = key)) (\<lambda>(_, fields).
     bindE (foldE readField (fields, []) (tbl_fields t)) (\<lambda>(fields, docs).
       Inr (y_set ''fields'' fields yt, docs))))"

definition readAndUpdateType :: "yaml \<Rightarrow> SchemaType \<Rightarrow> doc_error + yaml \<times> DocType" where
  "readAndUpdateType yt t =
     (let (descr, yt) = getOptStr yt ''description'';
          docType = \<lparr>dt_fqtn = dot_join (tb_ns (type_base t) @ [tb_name (type_base t)]), dt_description = descr,
                     dt_examples = (case collection_items (y_get ''examples'' yt) of None \<Rightarrow> [] | Some xs \<Rightarrow> xs),
                     dt_tags = string_items (y_get ''tags'' yt), dt_fields = None\<rparr>
      in case t of
           STable tt \<Rightarrow>
             bindE (readFields yt tt) (\<lambda>(yt, docs). Inr (yt, docType\<lparr>dt_fields := Some docs\<rparr>))
         | _ \<Rightarrow> Inr (yt, docType))"

section \<open>Schema files\<close>

definition add_type_doc :: "DocType \<Rightarrow> DocContext \<Rightarrow> DocContext" where
  "add_type_doc d ctx = ctx\<lparr>dc_doc := (dc_doc ctx)\<lparr>doc_types := map_set (dt_fqtn d) d (doc_types (dc_doc ctx))\<rparr>\<rparr>"

definition typeDocStep :: "DocSchemaFile \<Rightarrow> yaml \<times> DocContext \<Rightarrow> string \<Rightarrow> doc_error + yaml \<times> DocContext" where
  "typeDocStep file st tn =
     (let (root, ctx) = st in
      bindE (getOrCreateMap root [tn]) (\<lambda>(yt, root).
        case map_get (types (dc_schema ctx)) (getFqtn file tn) of
          None \<Rightarrow> Inl UndeclaredType
        | Some t \<Rightarrow>
            bindE (readAndUpdateType yt t) (\<lambda>(yt, d).
              Inr (y_set tn yt root, add_type_doc d ctx))))"

definition updateRoot :: "DocContext \<Rightarrow> DocSchemaFile \<Rightarrow> yaml \<Rightarrow> doc_error + yaml \<times> DocContext" where
  "updateRoot ctx file yd =
     bindE (getOrCreateMap yd []) (\<lambda>(root, _).
     bindE (removeUnknownKeys root (\<lambda>key. map_has (types (dc_schema ctx)) (getFqtn file key))) (\<lambda>(_, root).
       foldE (typeDocStep file) (root, ctx) (dsf_types file)))"

definition readAndUpdateSchemaFile ::
  "DocHost \<Rightarrow> DocContext \<times> (string \<times> string) list \<Rightarrow> DocSchemaFile \<Rightarrow> doc_error + DocContext \<times> (string \<times> string) list" where
  "readAndUpdateSchemaFile H st file =
     (let (ctx, written) = st;
          yd = (case map_get (doc_files H) (dsf_path file) of
                  None \<Rightarrow> \<lparr>contents = YVal JNull, has_errors = False\<rparr>
                | Some text \<Rightarrow> parseDocument H text)
      in bindE (updateRoot ctx file (contents yd)) (\<lambda>(root, ctx).
           if has_errors yd then Inl (Unprintable (dsf_path file))
           else Inr (ctx, written @ [(dsf_path file, yaml_text H root)])))"

definition addSchemaFile :: "DocHost \<Rightarrow> string \<times> SchemaType \<Rightarrow> DocContext \<Rightarrow> DocContext" where
  "addSchemaFile H e ctx =
     (let b = type_base (snd e); ns = dot_join (tb_ns b);
          file = (case map_get (schemaFiles ctx) ns of
                    Some f \<Rightarrow> f
                  | None \<Rightarrow> \<lparr>dsf_path = doc_resolve H (schemasDir ctx # tb_ns b) @ ''.yaml'',
                             dsf_namespace = ns, dsf_types = []\<rparr>)
      in ctx\<lparr>schemaFiles := map_set ns (file\<lparr>dsf_types := dsf_types file @ [tb_name b]\<rparr>) (schemaFiles ctx)\<rparr>)"

definition readAndUpdateSchemas :: "DocHost \<Rightarrow> DocContext \<Rightarrow> doc_error + DocContext \<times> (string \<times> string) list" where
  "readAndUpdateSchemas H ctx =
     (let ctx = fold (addSchemaFile H) (types (dc_schema ctx)) ctx
      in foldE (readAndUpdateSchemaFile H) (ctx, []) (map snd (schemaFiles ctx)))"

section \<open>Paths and tags\<close>

definition array_entries :: "DocHost \<Rightarrow> jsval list \<Rightarrow> (string \<times> jsval) list" where
  "array_entries H xs = map (\<lambda>(i, v). (index_text H i, v)) (enumerate 0 xs)"

text \<open>\<^verbatim>\<open>for (const path in yd)\<close> on anything whose \<^verbatim>\<open>typeof\<close> is object.\<close>

fun for_in :: "DocHost \<Rightarrow> jsval \<Rightarrow> (string \<times> jsval) list option" where
  "for_in H JNull = Some []"
| "for_in H (JObj ps) = Some ps"
| "for_in H (JArr xs) = Some (array_entries H xs)"
| "for_in H _ = None"

fun doc_response :: "jsval \<Rightarrow> DocResponse option" where
  "doc_response (JObj ps) =
     (case (map_get ps ''type'', map_get ps ''description'') of
        (Some (JStr t), Some (JStr d)) \<Rightarrow> Some \<lparr>dr_type = t, dr_description = d\<rparr>
      | _ \<Rightarrow> None)"
| "doc_response _ = None"

definition known_type :: "DocContext \<Rightarrow> jsval \<Rightarrow> bool" where
  "known_type ctx v = (case v of JStr s \<Rightarrow> map_has (types (dc_schema ctx)) s | _ \<Rightarrow> False)"

definition raw_path :: "string \<Rightarrow> jsval \<Rightarrow> DocPath" where
  "raw_path path props =
     (let p = obj_get props in
      \<lparr>dp_path = path, dp_summary = p ''summary'', dp_description = p ''description'',
       dp_tags = js_coalesce (p ''tags'') (JArr []), dp_input = p ''input'', dp_output = None,
       dp_operationId = p ''operationId'', dp_deprecated = p ''deprecated''\<rparr>)"

definition readPath :: "DocContext \<Rightarrow> string \<times> jsval \<Rightarrow> doc_error + DocPath" where
  "readPath ctx e =
     (let (path, props) = e; dp = raw_path path props in
      if props = JNull then Inl DocTypeError
      else if \<not> object_valued props then Inl (InvalidPath path)
      else if truthy (dp_input dp) \<and> \<not> known_type ctx (dp_input dp) then
        Inl (UnknownDocType (case dp_input dp of JStr s \<Rightarrow> s | _ \<Rightarrow> ''?'') path)
      else if truthy (obj_get props ''output'') then
        (case doc_response (obj_get props ''output'') of
           None \<Rightarrow> Inl (InvalidPath path)
         | Some o' \<Rightarrow>
             if map_has (types (dc_schema ctx)) (dr_type o') then Inr (dp\<lparr>dp_output := Some o'\<rparr>)
             else Inl (UnknownDocType (dr_type o') path))
      else Inr dp)"

definition readPaths :: "DocHost \<Rightarrow> DocContext \<Rightarrow> doc_error + DocContext" where
  "readPaths H ctx =
     (case map_get (doc_files H) (pathsFile ctx) of
        None \<Rightarrow> Inr ctx
      | Some text \<Rightarrow>
          (case parse_yaml H text of
             None \<Rightarrow> Inl (YamlSyntax (pathsFile ctx))
           | Some yd \<Rightarrow>
               (case for_in H yd of
                  None \<Rightarrow> Inl InvalidPaths
                | Some es \<Rightarrow>
                    bindE (mapE (readPath ctx) es) (\<lambda>ps.
                      Inr (ctx\<lparr>dc_doc := (dc_doc ctx)\<lparr>doc_paths := doc_paths (dc_doc ctx) @ ps\<rparr>\<rparr>)))))"

text \<open>The loop over the tags only throws, on a tag that is null: what it collects is replaced by all tags
  afterwards, whatever they are.\<close>

definition readTags :: "DocHost \<Rightarrow> DocContext \<Rightarrow> doc_error + DocContext" where
  "readTags H ctx =
     (case map_get (doc_files H) (tagsFile ctx) of
        None \<Rightarrow> Inr ctx
      | Some text \<Rightarrow>
          (case parse_yaml H text of
             None \<Rightarrow> Inl (YamlSyntax (tagsFile ctx))
           | Some (JArr yd) \<Rightarrow>
               if list_ex (\<lambda>tag. tag = JNull \<or> tag = JUndef) yd then Inl DocTypeError
               else Inr (ctx\<lparr>dc_doc := (dc_doc ctx)\<lparr>doc_tags := yd\<rparr>\<rparr>)
           | Some _ \<Rightarrow> Inl InvalidTags))"

section \<open>The whole update\<close>

definition config_string :: "jsval \<Rightarrow> string \<Rightarrow> doc_error + string" where
  "config_string config key =
     (case obj_get config key of JStr s \<Rightarrow> Inr s | _ \<Rightarrow> Inl (MissingConfig key))"

definition readAndUpdateDoc ::
  "DocHost \<Rightarrow> SchemaTypes \<Rightarrow> string \<Rightarrow> jsval \<Rightarrow> doc_error + Documentation \<times> (string \<times> string) list" where
  "readAndUpdateDoc H schema baseDir config =
     bindE (config_string config ''schemas'') (\<lambda>schemas.
     bindE (config_string config ''paths'') (\<lambda>paths.
     bindE (config_string config ''tags'') (\<lambda>tags.
       let ctx = \<lparr>dc_schema = schema, dc_doc = \<lparr>doc_types = [], doc_paths = [], doc_tags = []\<rparr>,
                  schemasDir = doc_resolve H [baseDir, schemas], pathsFile = doc_resolve H [baseDir, paths],
                  tagsFile = doc_resolve H [baseDir, tags], schemaFiles = []\<rparr>
       in bindE (readTags H ctx) (\<lambda>ctx.
          bindE (readAndUpdateSchemas H ctx) (\<lambda>(ctx, written).
          bindE (readPaths H ctx) (\<lambda>ctx. Inr (dc_doc ctx, written)))))))"

end
