(* ===== verification/Doc_Properties.thy ===== *)
theory Doc_Properties
  imports Doc_Inout "HOL-Library.Countable"
begin

text \<open>
  What the update of the documentation files achieves: it settles after one run, and the
  documentation covers the schema. Both loops, over the types of a file and over the fields of a
  table, bring the children of a map up to date one by one; the locale states what they need of a child.
\<close>

section \<open>Updating the children of a map\<close>

locale node_update =
  fixes update :: "string \<Rightarrow> yaml option \<Rightarrow> doc_error + yaml \<times> 'd"
    and put :: "string \<Rightarrow> 'd \<Rightarrow> 'acc \<Rightarrow> 'acc"
  assumes settled: "update k v = Inr (y, d) \<Longrightarrow> update k (Some y) = Inr (y, d)"
begin

definition step :: "yaml \<times> 'acc \<Rightarrow> string \<Rightarrow> doc_error + yaml \<times> 'acc" where
  "step st k =
     bindE (update k (y_get k (fst st))) (\<lambda>(y, d). Inr (y_set k y (fst st), put k d (snd st)))"

lemma step_ok:
  assumes "step (m, a) k = Inr (m1, a1)"
  obtains y d where "update k (y_get k m) = Inr (y, d)" "m1 = y_set k y m" "a1 = put k d a"
  using assms by (auto simp: step_def bindE_Inr_iff)

lemma run_map: "foldE step (m, a) ks = Inr (m', a') \<Longrightarrow> is_map m' = is_map m"
proof (induction ks arbitrary: m a)
  case (Cons k ks)
  then obtain m1 a1 where s: "step (m, a) k = Inr (m1, a1)" "foldE step (m1, a1) ks = Inr (m', a')"
    by (auto simp: bindE_Inr_iff)
  with Cons.IH [OF s(2)] show ?case by (auto elim!: step_ok)
qed simp

lemma run_keys:
  "foldE step (m, a) ks = Inr (m', a') \<Longrightarrow> is_map m \<Longrightarrow> y_keys m' = y_keys m \<union> set ks"
  by (induction ks arbitrary: m a) (auto simp: bindE_Inr_iff y_keys_set elim!: step_ok)

lemma run_string_keys: "foldE step (m, a) ks = Inr (m', a') \<Longrightarrow> string_keys m \<Longrightarrow> string_keys m'"
  by (induction ks arbitrary: m a) (auto simp: bindE_Inr_iff string_keys_set elim!: step_ok)

lemma run_keeps:
  assumes "foldE step (m, a) ks = Inr (m', a')" and "is_map m"
    and "y_get k m = Some y" and "update k (Some y) = Inr (y, d)"
  shows "y_get k m' = Some y"
  using assms
proof (induction ks arbitrary: m a)
  case (Cons k1 ks)
  obtain m1 a1 where s: "step (m, a) k1 = Inr (m1, a1)" "foldE step (m1, a1) ks = Inr (m', a')"
    using Cons.prems(1) by (auto simp: bindE_Inr_iff)
  obtain y1 d1 where u: "update k1 (y_get k1 m) = Inr (y1, d1)" "m1 = y_set k1 y1 m"
    using s(1) by (rule step_ok)
  have "y_get k m1 = Some y"
    using Cons.prems(2-4) u by (cases "k = k1") (auto simp: y_get_set)
  with Cons.IH [OF s(2)] Cons.prems(2,4) u(2) show ?case by simp
qed simp

lemma run_settled:
  assumes "foldE step (m, a) ks = Inr (m', a')" and "is_map m" and "is_map n"
    and "\<forall>k \<in> set ks. y_get k n = y_get k m'"
  shows "foldE step (n, a) ks = Inr (n, a')"
  using assms
proof (induction ks arbitrary: m a)
  case (Cons k ks)
  obtain m1 a1 where s: "step (m, a) k = Inr (m1, a1)" "foldE step (m1, a1) ks = Inr (m', a')"
    using Cons.prems(1) by (auto simp: bindE_Inr_iff)
  obtain y d where u: "update k (y_get k m) = Inr (y, d)" "m1 = y_set k y m" "a1 = put k d a"
    using s(1) by (rule step_ok)
  note fixed = settled [OF u(1)]
  have "y_get k m1 = Some y" "is_map m1" using u(2) Cons.prems(2) by (simp_all add: y_get_set)
  then have y: "y_get k n = Some y"
    using run_keeps [OF s(2) _ _ fixed] Cons.prems(4) by simp
  have "step (n, a) k = Inr (n, a1)"
    using fixed y y_set_same [OF Cons.prems(3) y] u(3) by (simp add: step_def)
  then show ?case using Cons.IH [OF s(2) \<open>is_map m1\<close> Cons.prems(3)] Cons.prems(4) by simp
qed simp

lemma run_again:
  "foldE step (m, a) ks = Inr (m', a') \<Longrightarrow> is_map m \<Longrightarrow> foldE step (m', a) ks = Inr (m', a')"
  using run_settled [of m a ks m' a' m'] run_map by simp

end

section \<open>Fields\<close>

lemma foldE_map: "foldE f s (map g xs) = foldE (\<lambda>s x. f s (g x)) s xs"
  by (induction xs arbitrary: s) (auto intro: bindE_cong)

text \<open>A child that is to be a map.\<close>

definition child_map :: "string \<Rightarrow> yaml option \<Rightarrow> doc_error + yaml" where
  "child_map k v =
     (if nullish v then Inr (YMap [])
      else case v of Some (YMap ps) \<Rightarrow> Inr (YMap ps) | _ \<Rightarrow> Inl (NotAMap k))"

lemma child_map_is_map: "child_map k v = Inr m \<Longrightarrow> is_map m"
  by (auto simp: child_map_def split: if_splits option.splits yaml.splits)

lemma child_map_Some [simp]: "is_map m \<Longrightarrow> child_map k (Some m) = Inr m"
  by (cases m) (auto simp: child_map_def nullish_def)

lemma getOrCreate_child:
  "is_map m \<Longrightarrow> bindE (getOrCreateMap m [k]) (\<lambda>(c, m). f c m) =
     bindE (child_map k (y_get k m)) (\<lambda>c. f c (if nullish (y_get k m) then y_set k (YMap []) m else m))"
  by (auto simp: getOrCreateMap_def child_map_def Let_def nullish_def split: option.splits yaml.splits)

lemma bindE_assoc [simp]: "bindE (bindE m f) g = bindE m (\<lambda>x. bindE (f x) g)"
  by (cases m) simp_all

lemma bindE_split: "bindE (case p of (x, y) \<Rightarrow> f x y) g = (case p of (x, y) \<Rightarrow> bindE (f x y) g)"
  by (cases p) simp

lemma y_set_if [simp]: "y_set k v (if b then y_set k w m else m) = y_set k v m"
  by simp

lemma getOptStr_again:
  assumes "getOptStr m k = (d, m')" and "is_map m"
  shows "y_get k n = y_get k m' \<Longrightarrow> getOptStr n k = (d, n)" and "is_map m'"
    and "k' \<noteq> k \<Longrightarrow> y_get k' m' = y_get k' m"
  using assms by (auto simp: getOptStr_def Let_def y_get_set nullish_def split: if_splits option.splits yaml.splits jsval.splits)

definition field_update :: "string \<Rightarrow> yaml option \<Rightarrow> doc_error + yaml \<times> DocField" where
  "field_update k v =
     bindE (child_map k v) (\<lambda>yf.
       let (descr, yf) = getOptStr yf ''description''
       in Inr (yf, \<lparr>df_name = k, df_description = descr, df_examples = collection_items (y_get ''examples'' yf)\<rparr>))"

interpretation fields: node_update field_update "map_set"
proof
  fix k v y and d :: DocField
  assume "field_update k v = Inr (y, d)"
  then obtain m where m: "child_map k v = Inr m" "snd (getOptStr m ''description'') = y"
    "d = \<lparr>df_name = k, df_description = fst (getOptStr m ''description''), df_examples = collection_items (y_get ''examples'' y)\<rparr>"
    by (auto simp: field_update_def bindE_Inr_iff case_prod_unfold Let_def)
  then have "getOptStr m ''description'' = (fst (getOptStr m ''description''), y)" by auto
  from getOptStr_again [OF this child_map_is_map [OF m(1)]] m(3)
  show "field_update k (Some y) = Inr (y, d)" by (simp add: field_update_def)
qed

lemma readField_step:
  "is_map m \<Longrightarrow> readField (m, docs) f = fields.step (m, docs) (fld_name f)"
  unfolding readField_def fields.step_def field_update_def
  by (simp add: getOrCreate_child bindE_split)

lemma foldE_readField:
  "is_map m \<Longrightarrow> foldE readField (m, docs) fs = foldE fields.step (m, docs) (map fld_name fs)"
proof (induction fs arbitrary: m docs)
  case (Cons f fs)
  show ?case
  proof (cases "fields.step (m, docs) (fld_name f)")
    case (Inr st)
    obtain m1 docs1 where st: "st = (m1, docs1)" by (cases st)
    have "is_map m1" using Inr Cons.prems st by (auto elim!: fields.step_ok)
    with Cons Inr st show ?thesis by (simp add: readField_step)
  qed (use Cons.prems in \<open>simp add: readField_step\<close>)
qed simp

lemma readFields_child:
  "is_map yt \<Longrightarrow> readFields yt t =
     bindE (child_map ''fields'' (y_get ''fields'' yt)) (\<lambda>fields.
     bindE (removeUnknownKeys fields (\<lambda>key. \<exists>f \<in> set (tbl_fields t). fld_name f = key)) (\<lambda>(_, fields).
     bindE (foldE readField (fields, []) (tbl_fields t)) (\<lambda>(fields, docs).
       Inr (y_set ''fields'' fields yt, docs))))"
  unfolding readFields_def by (simp add: getOrCreate_child)

lemma known_keys:
  assumes "removeUnknownKeys (YMap ps) keep = Inr (ks, m)"
  shows "is_map m" and "string_keys m" and "y_keys m \<subseteq> {k. keep k}"
proof -
  note r = removeUnknownKeys_eq [OF assms]
  show "is_map m" using r(2) by simp
  show "string_keys m" using r by (auto simp: string_keys_def list_all_iff)
  show "y_keys m \<subseteq> {k. keep k}" using r(2) by (auto simp: y_keys_def y_has_iff)
qed

lemma removeUnknownKeys_id:
  "is_map m \<Longrightarrow> string_keys m \<Longrightarrow> y_keys m \<subseteq> {k. keep k} \<Longrightarrow> removeUnknownKeys m keep = Inr ([], m)"
  by (cases m) (auto intro!: removeUnknownKeys_none)

lemma readFields_again:
  assumes "readFields yt t = Inr (yt', docs)" and "is_map yt"
  shows "y_get ''fields'' n = y_get ''fields'' yt' \<Longrightarrow> is_map n \<Longrightarrow> readFields n t = Inr (n, docs)"
    and "is_map yt'" and "k \<noteq> ''fields'' \<Longrightarrow> y_get k yt' = y_get k yt"
proof -
  let ?keep = "\<lambda>key. \<exists>f \<in> set (tbl_fields t). fld_name f = key"
  obtain c ks m m' where c: "child_map ''fields'' (y_get ''fields'' yt) = Inr c"
    and r: "removeUnknownKeys c ?keep = Inr (ks, m)"
    and f: "foldE fields.step (m, []) (map fld_name (tbl_fields t)) = Inr (m', docs)"
    and yt': "yt' = y_set ''fields'' m' yt"
  proof -
    obtain c ks m m' where o: "child_map ''fields'' (y_get ''fields'' yt) = Inr c"
      "removeUnknownKeys c ?keep = Inr (ks, m)" "foldE readField (m, []) (tbl_fields t) = Inr (m', docs)"
      "yt' = y_set ''fields'' m' yt"
      using assms(1,2) by (auto simp: readFields_child bindE_Inr_iff)
    obtain ps where "c = YMap ps" using child_map_is_map [OF o(1)] by (cases c) auto
    then have "is_map m" using known_keys(1) o(2) by blast
    from that [OF o(1,2) o(3) [unfolded foldE_readField [OF this]] o(4)] show thesis .
  qed
  obtain ps where "c = YMap ps" using child_map_is_map [OF c] by (cases c) auto
  note k = known_keys [OF r [unfolded this]]
  have m': "is_map m'" "string_keys m'" "y_keys m' \<subseteq> {k. ?keep k}"
    using fields.run_map [OF f] fields.run_string_keys [OF f] fields.run_keys [OF f] k by auto
  show "readFields n t = Inr (n, docs)" if n: "y_get ''fields'' n = y_get ''fields'' yt'" "is_map n"
  proof -
    have "y_get ''fields'' n = Some m'" using assms(2) n yt' by (simp add: y_get_set)
    then show ?thesis
      using m' fields.run_again [OF f k(1)] y_set_same [OF n(2)] n(2)
      by (simp add: readFields_child removeUnknownKeys_id foldE_readField)
  qed
  show "is_map yt'" "k \<noteq> ''fields'' \<Longrightarrow> y_get k yt' = y_get k yt"
    using assms(2) yt' by (simp_all add: y_get_set)
qed

lemma readAndUpdateType_again:
  assumes "readAndUpdateType yt t = Inr (yt', d)" and "is_map yt"
  shows "readAndUpdateType yt' t = Inr (yt', d)" and "is_map yt'"
proof -
  obtain descr y1 where o: "getOptStr yt ''description'' = (descr, y1)" by (cases "getOptStr yt ''description''")
  note g = getOptStr_again [OF o assms(2)]
  have "readAndUpdateType yt' t = Inr (yt', d) \<and> is_map yt'"
  proof (cases t)
    case (STable tt)
    then obtain docs where r: "readFields y1 tt = Inr (yt', docs)"
      using assms(1) o by (auto simp: readAndUpdateType_def bindE_Inr_iff)
    note f = readFields_again [OF r g(2)]
    have "y_get ''description'' yt' = y_get ''description'' y1" "y_get ''examples'' yt' = y_get ''examples'' y1"
      "y_get ''tags'' yt' = y_get ''tags'' y1" by (simp_all add: f(3))
    with assms(1) o r g(1) [of yt'] f(1) [of yt'] f(2) STable show ?thesis
      by (simp add: readAndUpdateType_def)
  next
    case (SEnum e)
    then show ?thesis using assms(1) o g(1,2) by (auto simp: readAndUpdateType_def)
  next
    case (SUnion u)
    then show ?thesis using assms(1) o g(1,2) by (auto simp: readAndUpdateType_def)
  qed
  then show "readAndUpdateType yt' t = Inr (yt', d)" "is_map yt'" by simp_all
qed

section \<open>Types of a file\<close>

definition type_update :: "SchemaTypes \<Rightarrow> DocSchemaFile \<Rightarrow> string \<Rightarrow> yaml option \<Rightarrow> doc_error + yaml \<times> DocType" where
  "type_update S file k v =
     bindE (child_map k v) (\<lambda>yt.
       case map_get (types S) (getFqtn file k) of None \<Rightarrow> Inl UndeclaredType | Some t \<Rightarrow> readAndUpdateType yt t)"

interpretation type_docs: node_update "type_update S sf" "\<lambda>k. add_type_doc" for S sf
proof
  fix k v y d
  assume "type_update S sf k v = Inr (y, d)"
  then obtain m t where m: "child_map k v = Inr m" "map_get (types S) (getFqtn sf k) = Some t"
    "readAndUpdateType m t = Inr (y, d)"
    by (auto simp: type_update_def bindE_Inr_iff split: option.splits)
  from readAndUpdateType_again [OF m(3) child_map_is_map [OF m(1)]] m(2)
  show "type_update S sf k (Some y) = Inr (y, d)" by (simp add: type_update_def)
qed

lemma dc_schema_add [simp]: "dc_schema (add_type_doc d ctx) = dc_schema ctx"
  by (simp add: add_type_doc_def)

lemma typeDocStep_step:
  "is_map rt \<Longrightarrow> typeDocStep file (rt, ctx) tn = type_docs.step (dc_schema ctx) file (rt, ctx) tn"
  unfolding typeDocStep_def type_docs.step_def type_update_def
  by (auto simp: getOrCreate_child bindE_split intro!: bindE_cong split: option.split)

lemma foldE_typeDocStep:
  "is_map rt \<Longrightarrow> foldE (typeDocStep file) (rt, ctx) tns = foldE (type_docs.step (dc_schema ctx) file) (rt, ctx) tns"
proof (induction tns arbitrary: rt ctx)
  case (Cons tn tns)
  show ?case
  proof (cases "type_docs.step (dc_schema ctx) file (rt, ctx) tn")
    case (Inr st)
    obtain m1 c1 where st: "st = (m1, c1)" by (cases st)
    have "is_map m1" "dc_schema c1 = dc_schema ctx" using Inr Cons.prems st by (auto elim!: type_docs.step_ok)
    with Cons Inr st show ?thesis by (simp add: typeDocStep_step)
  qed (use Cons.prems in \<open>simp add: typeDocStep_step\<close>)
qed simp

lemma type_run_known:
  "foldE (type_docs.step S file) (rt, ctx) tns = Inr (rt', ctx') \<Longrightarrow> tn \<in> set tns \<Longrightarrow>
     map_has (types S) (getFqtn file tn)"
proof (induction tns arbitrary: rt ctx)
  case (Cons k tns)
  obtain m1 c1 where s: "type_docs.step S file (rt, ctx) k = Inr (m1, c1)"
    "foldE (type_docs.step S file) (m1, c1) tns = Inr (rt', ctx')"
    using Cons.prems(1) by (auto simp: bindE_Inr_iff)
  have "map_has (types S) (getFqtn file k)"
    using s(1) by (auto simp: type_update_def bindE_Inr_iff map_has_def elim!: type_docs.step_ok split: option.splits)
  with Cons.IH [OF s(2)] Cons.prems(2) show ?case by auto
qed simp

text \<open>The root of a file after the update: the loop ran on the known keys of the old root.\<close>

lemma updateRoot_ok:
  assumes "updateRoot ctx file yd = Inr (rt, ctx')"
  obtains m where "foldE (type_docs.step (dc_schema ctx) file) (m, ctx) (dsf_types file) = Inr (rt, ctx')"
    and "is_map m" and "string_keys m" and "y_keys m \<subseteq> {k. map_has (types (dc_schema ctx)) (getFqtn file k)}"
proof -
  obtain ps ks m where "removeUnknownKeys (YMap ps) (\<lambda>key. map_has (types (dc_schema ctx)) (getFqtn file key)) = Inr (ks, m)"
    and f: "foldE (typeDocStep file) (m, ctx) (dsf_types file) = Inr (rt, ctx')"
    using assms by (auto simp: updateRoot_def getOrCreateMap_def bindE_Inr_iff Let_def split: if_splits yaml.splits)
  note k = known_keys [OF this(1)]
  from that [OF f [unfolded foldE_typeDocStep [OF k(1)]] k] show thesis .
qed

lemma getOrCreate_root [simp]: "is_map m \<Longrightarrow> getOrCreateMap m [] = Inr (m, m)"
  by (cases m) (auto simp: getOrCreateMap_def nullish_def)

lemma updateRoot_again:
  assumes "updateRoot ctx file yd = Inr (rt, ctx')"
  shows "updateRoot ctx file rt = Inr (rt, ctx')"
    and "y_keys rt \<subseteq> {k. map_has (types (dc_schema ctx)) (getFqtn file k)}"
    and "set (dsf_types file) \<subseteq> y_keys rt" and "is_map rt"
proof -
  let ?known = "{k. map_has (types (dc_schema ctx)) (getFqtn file k)}"
  obtain m where m: "foldE (type_docs.step (dc_schema ctx) file) (m, ctx) (dsf_types file) = Inr (rt, ctx')"
    "is_map m" "string_keys m" "y_keys m \<subseteq> ?known"
    using assms by (rule updateRoot_ok)
  have r: "is_map rt" "string_keys rt" "y_keys rt = y_keys m \<union> set (dsf_types file)"
    using type_docs.run_map [OF m(1)] type_docs.run_string_keys [OF m(1)] type_docs.run_keys [OF m(1)] m(2,3) by auto
  moreover have "set (dsf_types file) \<subseteq> ?known" using type_run_known [OF m(1)] by blast
  ultimately show "is_map rt" "set (dsf_types file) \<subseteq> y_keys rt" "y_keys rt \<subseteq> ?known"
    using m(4) by auto
  with r(1,2) type_docs.run_again [OF m(1,2)] show "updateRoot ctx file rt = Inr (rt, ctx')"
    by (simp add: updateRoot_def removeUnknownKeys_id foldE_typeDocStep)
qed

section \<open>All files\<close>

definition overwrite :: "(string \<times> string) list \<Rightarrow> DocHost \<Rightarrow> DocHost" where
  "overwrite w H = H\<lparr>doc_files := fold (\<lambda>(f, text). map_set f text) w (doc_files H)\<rparr>"

lemma overwrite_get:
  "map_get (doc_files (overwrite w H)) f =
     (case map_of (rev w) f of Some text \<Rightarrow> Some text | None \<Rightarrow> map_get (doc_files H) f)"
proof -
  have "map_get (fold (\<lambda>(f, text). map_set f text) w m) f =
      (case map_of (rev w) f of Some text \<Rightarrow> Some text | None \<Rightarrow> map_get m f)" for m
    by (induction w arbitrary: m rule: rev_induct) (auto simp: map_get_set)
  then show ?thesis by (simp add: overwrite_def)
qed

lemma overwrite_written: "distinct (map fst w) \<Longrightarrow> (f, text) \<in> set w \<Longrightarrow> map_get (doc_files (overwrite w H)) f = Some text"
  by (simp add: overwrite_get map_of_is_SomeI rev_map [symmetric])

lemma overwrite_other: "f \<notin> fst ` set w \<Longrightarrow> map_get (doc_files (overwrite w H)) f = map_get (doc_files H) f"
  using map_of_eq_None_iff [of "rev w" f] by (simp add: overwrite_get)

lemma overwrite_fields [simp]:
  "doc_resolve (overwrite w H) = doc_resolve H" "parseDocument (overwrite w H) = parseDocument H"
  "yaml_text (overwrite w H) = yaml_text H" "parse_yaml (overwrite w H) = parse_yaml H"
  "index_text (overwrite w H) = index_text H"
  by (simp_all add: overwrite_def)

text \<open>The YAML package reads back what it has printed.\<close>

definition reads_back :: "DocHost \<Rightarrow> bool" where
  "reads_back H \<longleftrightarrow> (\<forall>y. parseDocument H (yaml_text H y) = \<lparr>contents = y, has_errors = False\<rparr>)"

lemma files_again:
  assumes "foldE (readAndUpdateSchemaFile H) (ctx, w0) fs = Inr (ctx', w1)"
  obtains w where "w1 = w0 @ w" and "map fst w = map dsf_path fs"
    and "\<And>H'. reads_back H' \<Longrightarrow> yaml_text H' = yaml_text H \<Longrightarrow>
      list_all (\<lambda>(f, text). map_get (doc_files H') f = Some text) w \<Longrightarrow>
      foldE (readAndUpdateSchemaFile H') (ctx, w0) fs = Inr (ctx', w1)"
  using assms
proof (induction fs arbitrary: ctx w0 thesis)
  case (Cons sf fs)
  obtain c1 wm where s: "readAndUpdateSchemaFile H (ctx, w0) sf = Inr (c1, wm)"
    "foldE (readAndUpdateSchemaFile H) (c1, wm) fs = Inr (ctx', w1)"
    using Cons.prems(2) by (auto simp: bindE_Inr_iff)
  obtain yd rt where u: "updateRoot ctx sf yd = Inr (rt, c1)" "wm = w0 @ [(dsf_path sf, yaml_text H rt)]"
    using s(1) by (auto simp: readAndUpdateSchemaFile_def Let_def bindE_Inr_iff split: if_splits)
  obtain w where w: "w1 = wm @ w" "map fst w = map dsf_path fs"
    "\<And>H'. reads_back H' \<Longrightarrow> yaml_text H' = yaml_text H \<Longrightarrow>
      list_all (\<lambda>(f, text). map_get (doc_files H') f = Some text) w \<Longrightarrow>
      foldE (readAndUpdateSchemaFile H') (c1, wm) fs = Inr (ctx', w1)"
    using Cons.IH [OF _ s(2)] by metis
  show ?case
  proof (rule Cons.prems(1) [of "(dsf_path sf, yaml_text H rt) # w"])
    fix H' assume H': "reads_back H'" "yaml_text H' = yaml_text H"
      "list_all (\<lambda>(f, text). map_get (doc_files H') f = Some text) ((dsf_path sf, yaml_text H rt) # w)"
    have "parseDocument H' (yaml_text H rt) = \<lparr>contents = rt, has_errors = False\<rparr>"
      using H'(1) unfolding reads_back_def H'(2) by blast
    with H' u(2) updateRoot_again(1) [OF u(1)]
    have "readAndUpdateSchemaFile H' (ctx, w0) sf = Inr (c1, wm)"
      by (simp add: readAndUpdateSchemaFile_def)
    with w(3) [OF H'(1,2)] H'(3) show "foldE (readAndUpdateSchemaFile H') (ctx, w0) (sf # fs) = Inr (ctx', w1)"
      by simp
  qed (use w u(2) in simp_all)
qed simp

lemma addSchemaFile_overwrite [simp]: "addSchemaFile (overwrite w H) = addSchemaFile H"
  by (intro ext) (simp add: addSchemaFile_def Let_def cong: option.case_cong)

text \<open>The file system of a later run: what was written is there, and perhaps more.\<close>

definition holds_files :: "DocHost \<Rightarrow> (string \<times> string) list \<Rightarrow> bool" where
  "holds_files H w = list_all (\<lambda>(f, text). map_get (doc_files H) f = Some text) w"

lemma overwrite_holds: "distinct (map fst v) \<Longrightarrow> set w \<subseteq> set v \<Longrightarrow> holds_files (overwrite v H) w"
  using overwrite_written [of v] by (fastforce simp: holds_files_def list_all_iff)

lemma schemas_again:
  assumes "readAndUpdateSchemas H ctx = Inr (ctx', w)" and "reads_back H" and "holds_files (overwrite v H) w"
  shows "readAndUpdateSchemas (overwrite v H) ctx = Inr (ctx', w)"
proof -
  let ?c = "fold (addSchemaFile H) (types (dc_schema ctx)) ctx"
  have f: "foldE (readAndUpdateSchemaFile H) (?c, []) (map snd (schemaFiles ?c)) = Inr (ctx', w)"
    using assms(1) by (simp add: readAndUpdateSchemas_def Let_def)
  obtain u where u: "w = [] @ u" "\<And>H'. reads_back H' \<Longrightarrow> yaml_text H' = yaml_text H \<Longrightarrow>
      list_all (\<lambda>(f, text). map_get (doc_files H') f = Some text) u \<Longrightarrow>
      foldE (readAndUpdateSchemaFile H') (?c, []) (map snd (schemaFiles ?c)) = Inr (ctx', w)"
    using files_again [OF f] by metis
  have "list_all (\<lambda>(f, text). map_get (doc_files (overwrite v H)) f = Some text) u"
    using u(1) assms(3) by (simp add: holds_files_def)
  moreover have "reads_back (overwrite v H)" using assms(2) by (simp add: reads_back_def)
  ultimately show ?thesis using u(2) by (simp add: readAndUpdateSchemas_def Let_def)
qed

lemma for_in_overwrite [simp]: "for_in (overwrite w H) v = for_in H v"
  by (cases v) (simp_all add: array_entries_def)

lemma readTags_overwrite: "tagsFile ctx \<notin> fst ` set w \<Longrightarrow> readTags (overwrite w H) ctx = readTags H ctx"
  by (simp add: readTags_def overwrite_other cong: option.case_cong)

lemma readPaths_overwrite: "pathsFile ctx \<notin> fst ` set w \<Longrightarrow> readPaths (overwrite w H) ctx = readPaths H ctx"
  by (simp add: readPaths_def overwrite_other cong: option.case_cong)

text \<open>The settings of the context never change.\<close>

definition same_files :: "DocContext \<Rightarrow> DocContext \<Rightarrow> bool" where
  "same_files c c' \<longleftrightarrow> dc_schema c' = dc_schema c \<and> pathsFile c' = pathsFile c \<and> tagsFile c' = tagsFile c"

lemma same_files_refl [simp]: "same_files c c"
  by (simp add: same_files_def)

lemma same_files_trans: "same_files a b \<Longrightarrow> same_files b c \<Longrightarrow> same_files a c"
  by (simp add: same_files_def)

lemma type_run_same_files:
  "foldE (type_docs.step S sf) (rt, ctx) tns = Inr (rt', ctx') \<Longrightarrow> same_files ctx ctx'"
proof (induction tns arbitrary: rt ctx)
  case (Cons k tns)
  obtain m1 c1 where s: "type_docs.step S sf (rt, ctx) k = Inr (m1, c1)"
    "foldE (type_docs.step S sf) (m1, c1) tns = Inr (rt', ctx')"
    using Cons.prems(1) by (auto simp: bindE_Inr_iff)
  have "same_files ctx c1"
    using s(1) by (auto simp: same_files_def add_type_doc_def elim!: type_docs.step_ok)
  from same_files_trans [OF this Cons.IH [OF s(2)]] show ?case .
qed simp

lemma file_same_files: "readAndUpdateSchemaFile H (ctx, w) sf = Inr (ctx', w') \<Longrightarrow> same_files ctx ctx'"
  by (auto simp: readAndUpdateSchemaFile_def Let_def bindE_Inr_iff split: if_splits
      elim!: updateRoot_ok type_run_same_files)

lemma files_same_files:
  "foldE (readAndUpdateSchemaFile H) (ctx, w) fs = Inr (ctx', w') \<Longrightarrow> same_files ctx ctx'"
proof (induction fs arbitrary: ctx w)
  case (Cons sf fs)
  obtain c1 w1 where s: "readAndUpdateSchemaFile H (ctx, w) sf = Inr (c1, w1)"
    "foldE (readAndUpdateSchemaFile H) (c1, w1) fs = Inr (ctx', w')"
    using Cons.prems(1) by (auto simp: bindE_Inr_iff)
  from same_files_trans [OF file_same_files [OF s(1)] Cons.IH [OF s(2)]] show ?case .
qed simp

lemma addSchemaFiles_same [simp]:
  "same_files ctx (fold (addSchemaFile H) ts ctx)" "dc_doc (fold (addSchemaFile H) ts ctx) = dc_doc ctx"
  by (induction ts arbitrary: ctx; simp add: addSchemaFile_def Let_def same_files_def)+

lemma schemas_same_files: "readAndUpdateSchemas H ctx = Inr (ctx', w) \<Longrightarrow> same_files ctx ctx'"
  unfolding readAndUpdateSchemas_def Let_def
  by (rule same_files_trans [OF addSchemaFiles_same(1) files_same_files])

lemma readTags_same_files: "readTags H ctx = Inr ctx' \<Longrightarrow> same_files ctx ctx' \<and> doc_types (dc_doc ctx') = doc_types (dc_doc ctx)
    \<and> schemaFiles ctx' = schemaFiles ctx"
  by (auto simp: readTags_def same_files_def split: option.splits jsval.splits if_splits)

text \<open>The runs of the three readers.\<close>

definition doc_start :: "DocHost \<Rightarrow> SchemaTypes \<Rightarrow> string \<Rightarrow> string \<Rightarrow> string \<Rightarrow> string \<Rightarrow> DocContext" where
  "doc_start H S baseDir schemas paths tags =
     \<lparr>dc_schema = S, dc_doc = \<lparr>doc_types = [], doc_paths = [], doc_tags = []\<rparr>,
      schemasDir = doc_resolve H [baseDir, schemas], pathsFile = doc_resolve H [baseDir, paths],
      tagsFile = doc_resolve H [baseDir, tags], schemaFiles = []\<rparr>"

lemma readAndUpdateDoc_run:
  "readAndUpdateDoc H S baseDir config = Inr (doc, w) \<longleftrightarrow>
     (\<exists>schemas paths tags c1 c2 c3. obj_get config ''schemas'' = JStr schemas \<and> obj_get config ''paths'' = JStr paths \<and>
       obj_get config ''tags'' = JStr tags \<and> readTags H (doc_start H S baseDir schemas paths tags) = Inr c1 \<and>
       readAndUpdateSchemas H c1 = Inr (c2, w) \<and> readPaths H c2 = Inr c3 \<and> doc = dc_doc c3)"
  by (auto simp: readAndUpdateDoc_def bindE_Inr_iff config_string_def doc_start_def Let_def split: jsval.splits)

text \<open>The files named in the configuration are not among the files written.\<close>

definition apart :: "DocHost \<Rightarrow> string \<Rightarrow> jsval \<Rightarrow> (string \<times> string) list \<Rightarrow> bool" where
  "apart H baseDir config w \<longleftrightarrow>
     list_all (\<lambda>key. case obj_get config key of JStr f \<Rightarrow> doc_resolve H [baseDir, f] \<notin> fst ` set w | _ \<Rightarrow> True)
       [''paths'', ''tags'']"

lemma docs_again:
  assumes "readAndUpdateDoc H S baseDir config = Inr (doc, w)"
    and "reads_back H" and "holds_files (overwrite v H) w" and "apart H baseDir config v"
  shows "readAndUpdateDoc (overwrite v H) S baseDir config = Inr (doc, w)"
proof -
  obtain schemas paths tags c1 c2 c3 where cfg: "obj_get config ''schemas'' = JStr schemas"
    "obj_get config ''paths'' = JStr paths" "obj_get config ''tags'' = JStr tags"
    and tg: "readTags H (doc_start H S baseDir schemas paths tags) = Inr c1"
    and sc: "readAndUpdateSchemas H c1 = Inr (c2, w)" and ps: "readPaths H c2 = Inr c3" and d: "doc = dc_doc c3"
    using assms(1) unfolding readAndUpdateDoc_run by blast
  have fs: "pathsFile c2 = doc_resolve H [baseDir, paths]"
    using schemas_same_files [OF sc] readTags_same_files [OF tg] by (simp add: same_files_def doc_start_def)
  have start: "doc_start (overwrite v H) S baseDir schemas paths tags = doc_start H S baseDir schemas paths tags"
    by (simp add: doc_start_def)
  have "readTags (overwrite v H) (doc_start H S baseDir schemas paths tags) = Inr c1"
    using assms(4) cfg tg by (subst readTags_overwrite) (simp_all add: apart_def doc_start_def)
  moreover have "readPaths (overwrite v H) c2 = Inr c3"
    using assms(4) cfg fs ps by (subst readPaths_overwrite) (simp_all add: apart_def)
  ultimately show ?thesis
    unfolding readAndUpdateDoc_run using cfg d start schemas_again [OF sc assms(2,3)] by metis
qed


section \<open>The documentation covers the schema\<close>

text \<open>A documentation entry for the type \<open>t\<close> under the name \<open>k\<close>: a table has one entry per
  field.\<close>

definition describes :: "string \<Rightarrow> SchemaType \<Rightarrow> DocType \<Rightarrow> bool" where
  "describes k t d \<longleftrightarrow> dt_fqtn d = k \<and>
     (case t of
        STable tt \<Rightarrow> (case dt_fields d of None \<Rightarrow> False
          | Some fs \<Rightarrow> set (map_keys fs) = fld_name ` set (tbl_fields tt))
      | _ \<Rightarrow> dt_fields d = None)"

lemma field_docs: "foldE fields.step (m, docs) ks = Inr (m', docs') \<Longrightarrow> set (map_keys docs') = set (map_keys docs) \<union> set ks"
proof (induction ks arbitrary: m docs)
  case (Cons k ks)
  then obtain m1 docs1 where s: "fields.step (m, docs) k = Inr (m1, docs1)" "foldE fields.step (m1, docs1) ks = Inr (m', docs')"
    by (auto simp: bindE_Inr_iff)
  then have "set (map_keys docs1) = insert k (set (map_keys docs))" by (auto elim!: fields.step_ok simp del: set_map)
  with Cons.IH [OF s(2)] show ?case by (simp del: set_map)
qed (simp del: set_map)

lemma readAndUpdateType_describes:
  assumes "readAndUpdateType yt t = Inr (yt', d)" and "is_map yt"
  shows "describes (dot_join (tb_ns (type_base t) @ [tb_name (type_base t)])) t d"
proof -
  obtain descr y1 where o: "getOptStr yt ''description'' = (descr, y1)" by (cases "getOptStr yt ''description''")
  note g = getOptStr_again(2) [OF o assms(2)]
  show ?thesis
  proof (cases t)
    case (STable tt)
    then obtain docs where r: "readFields y1 tt = Inr (yt', docs)" and d: "dt_fields d = Some docs"
      "dt_fqtn d = dot_join (tb_ns (type_base t) @ [tb_name (type_base t)])"
      using assms(1) o by (auto simp: readAndUpdateType_def bindE_Inr_iff)
    obtain c ks m m' where c: "child_map ''fields'' (y_get ''fields'' y1) = Inr c" "foldE readField (m, []) (tbl_fields tt) = Inr (m', docs)"
      "removeUnknownKeys c (\<lambda>key. \<exists>f \<in> set (tbl_fields tt). fld_name f = key) = Inr (ks, m)"
      using r g by (auto simp: readFields_child bindE_Inr_iff)
    obtain ps where "c = YMap ps" using child_map_is_map [OF c(1)] by (cases c) auto
    then have "is_map m" using known_keys(1) c(3) by blast
    from field_docs [OF c(2) [unfolded foldE_readField [OF this]]] d STable show ?thesis
      by (simp add: describes_def)
  qed (use assms(1) o in \<open>auto simp: readAndUpdateType_def describes_def\<close>)
qed

lemma join_append: "xs \<noteq> [] \<Longrightarrow> ys \<noteq> [] \<Longrightarrow> join sep (xs @ ys) = join sep xs @ sep @ join sep ys"
  by (induction xs rule: list_nonempty_induct) (auto simp: join_Cons)

lemma own_name: "own_fqtn t = dot_join (tb_ns (type_base t) @ [tb_name (type_base t)])"
  by (cases "tb_ns (type_base t) = []") (auto simp: own_fqtn_def join_append)

definition covers :: "SchemaTypes \<Rightarrow> string set \<Rightarrow> DocContext \<Rightarrow> bool" where
  "covers S K ctx \<longleftrightarrow> K \<subseteq> set (map_keys (doc_types (dc_doc ctx))) \<and>
     (\<forall>k d. map_get (doc_types (dc_doc ctx)) k = Some d \<longrightarrow>
        (\<exists>t. map_get (types S) k = Some t \<and> describes k t d))"

definition own_names :: "SchemaTypes \<Rightarrow> bool" where
  "own_names S \<longleftrightarrow> (\<forall>k t. map_get (types S) k = Some t \<longrightarrow> k = own_fqtn t)"

lemma type_step_covers:
  assumes "type_docs.step S sf (rt, ctx) k = Inr (rt', ctx')" and "own_names S" and "covers S K ctx"
  shows "covers S (insert (getFqtn sf k) K) ctx'"
proof -
  obtain y d where u: "type_update S sf k (y_get k rt) = Inr (y, d)" "ctx' = add_type_doc d ctx"
    using assms(1) by (rule type_docs.step_ok)
  then obtain m t where m: "child_map k (y_get k rt) = Inr m" "map_get (types S) (getFqtn sf k) = Some t"
    "readAndUpdateType m t = Inr (y, d)"
    by (auto simp: type_update_def bindE_Inr_iff split: option.splits)
  have own: "getFqtn sf k = own_fqtn t" using assms(2) m(2) by (auto simp: own_names_def)
  have d: "describes (getFqtn sf k) t d"
    using readAndUpdateType_describes [OF m(3) child_map_is_map [OF m(1)]] own by (simp add: own_name)
  then have "dt_fqtn d = getFqtn sf k" by (simp add: describes_def)
  with u(2) assms(3) d m(2) show ?thesis
    by (auto simp: covers_def add_type_doc_def map_get_set simp del: set_map split: if_splits)
qed

lemma type_run_covers:
  "foldE (type_docs.step S sf) (rt, ctx) tns = Inr (rt', ctx') \<Longrightarrow> own_names S \<Longrightarrow> covers S K ctx \<Longrightarrow>
     covers S (K \<union> getFqtn sf ` set tns) ctx'"
proof (induction tns arbitrary: rt ctx K)
  case (Cons k tns)
  obtain m1 c1 where s: "type_docs.step S sf (rt, ctx) k = Inr (m1, c1)"
    "foldE (type_docs.step S sf) (m1, c1) tns = Inr (rt', ctx')"
    using Cons.prems(1) by (auto simp: bindE_Inr_iff)
  from Cons.IH [OF s(2) Cons.prems(2) type_step_covers [OF s(1) Cons.prems(2,3)]] show ?case by simp
qed simp

definition file_types :: "DocSchemaFile \<Rightarrow> string set" where
  "file_types sf = getFqtn sf ` set (dsf_types sf)"

lemma files_cover:
  "foldE (readAndUpdateSchemaFile H) (ctx, w) fs = Inr (ctx', w') \<Longrightarrow> dc_schema ctx = S \<Longrightarrow> own_names S \<Longrightarrow>
     covers S K ctx \<Longrightarrow> covers S (K \<union> (\<Union>sf \<in> set fs. file_types sf)) ctx'"
proof (induction fs arbitrary: ctx w K)
  case (Cons sf fs)
  obtain c1 w1 where s: "readAndUpdateSchemaFile H (ctx, w) sf = Inr (c1, w1)"
    "foldE (readAndUpdateSchemaFile H) (c1, w1) fs = Inr (ctx', w')"
    using Cons.prems(1) by (auto simp: bindE_Inr_iff)
  obtain yd rt where u: "updateRoot ctx sf yd = Inr (rt, c1)"
    using s(1) by (auto simp: readAndUpdateSchemaFile_def Let_def bindE_Inr_iff split: if_splits)
  obtain m where "foldE (type_docs.step S sf) (m, ctx) (dsf_types sf) = Inr (rt, c1)"
    using u Cons.prems(2) by (auto elim!: updateRoot_ok)
  from type_run_covers [OF this Cons.prems(3,4)]
  have "covers S (K \<union> file_types sf) c1" by (simp add: file_types_def)
  moreover have "dc_schema c1 = S" using file_same_files [OF s(1)] Cons.prems(2) by (simp add: same_files_def)
  ultimately have "covers S (K \<union> file_types sf \<union> (\<Union>sf \<in> set fs. file_types sf)) ctx'"
    using Cons.IH [OF s(2) _ Cons.prems(3)] by blast
  then show ?case by (simp add: Un_assoc)
qed simp

text \<open>Grouping the types by namespace loses none. A namespace that is one empty name would be taken for
  the global one.\<close>

definition grouped :: "DocContext \<Rightarrow> (string \<times> SchemaType) list \<Rightarrow> bool" where
  "grouped ctx es \<longleftrightarrow>
     (\<forall>ns sf. map_get (schemaFiles ctx) ns = Some sf \<longrightarrow> dsf_namespace sf = ns) \<and>
     (\<forall>(k, t) \<in> set es. \<exists>sf. map_get (schemaFiles ctx) (dot_join (tb_ns (type_base t))) = Some sf \<and>
        tb_name (type_base t) \<in> set (dsf_types sf))"

lemma addSchemaFile_grouped: "grouped ctx es \<Longrightarrow> grouped (addSchemaFile H e ctx) (es @ [e])"
  by (cases e) (auto simp: grouped_def addSchemaFile_def Let_def map_get_set split: option.split if_splits)

lemma all_grouped: "grouped ctx es \<Longrightarrow> grouped (fold (addSchemaFile H) fs ctx) (es @ fs)"
proof (induction fs arbitrary: ctx es)
  case (Cons e fs)
  from Cons.IH [OF addSchemaFile_grouped [OF Cons.prems]] show ?case by simp
qed simp

definition named_namespaces :: "SchemaTypes \<Rightarrow> bool" where
  "named_namespaces S = list_all (\<lambda>(k, t). tb_ns (type_base t) \<noteq> ['''']) (types S)"

lemma join_empty: "join ''.'' xs = [] \<longleftrightarrow> xs = [] \<or> xs = [[]]"
  by (induction "''.''" xs rule: join.induct) auto

lemma getFqtn_own:
  "dsf_namespace sf = dot_join (tb_ns (type_base t)) \<Longrightarrow> tb_ns (type_base t) \<noteq> [''''] \<Longrightarrow>
     getFqtn sf (tb_name (type_base t)) = own_fqtn t"
  by (cases "tb_ns (type_base t) = []") (auto simp: getFqtn_def own_name join_empty join_append)

text \<open>C13: the documentation covers the schema. After an update there is exactly one entry for every type
  of the resolved schema, under its name, with one entry per field for a table, and no other entry,
  whatever was in the files before.\<close>

theorem documentation_covers:
  assumes "resolveSchemaTypes G dir rootFile = Inr S" and "named_namespaces S"
    and "readAndUpdateDoc H S baseDir config = Inr (doc, w)"
  shows "case map_get (types S) k of
      None \<Rightarrow> map_get (doc_types doc) k = None
    | Some t \<Rightarrow> (case map_get (doc_types doc) k of None \<Rightarrow> False | Some d \<Rightarrow> describes k t d)"
proof -
  obtain schemas paths tags c1 c2 c3 where tg: "readTags H (doc_start H S baseDir schemas paths tags) = Inr c1"
    and sc: "readAndUpdateSchemas H c1 = Inr (c2, w)" and ps: "readPaths H c2 = Inr c3" and d: "doc = dc_doc c3"
    using assms(3) unfolding readAndUpdateDoc_run by blast
  have S: "dc_schema c1 = S" "doc_types (dc_doc c1) = []" "schemaFiles c1 = []"
    using readTags_same_files [OF tg] by (simp_all add: same_files_def doc_start_def)
  have own: "own_names S" using resolver.named [OF assms(1)] by (simp add: own_names_def)
  let ?c = "fold (addSchemaFile H) (types S) c1"
  have f: "foldE (readAndUpdateSchemaFile H) (?c, []) (map snd (schemaFiles ?c)) = Inr (c2, w)"
    using sc S(1) by (simp add: readAndUpdateSchemas_def Let_def)
  have "covers S {} ?c" using S(2) by (simp add: covers_def)
  moreover have "dc_schema ?c = S" using addSchemaFiles_same(1) [of c1 H "types S"] S(1) by (simp add: same_files_def)
  ultimately have c: "covers S ({} \<union> (\<Union>sf \<in> set (map snd (schemaFiles ?c)). file_types sf)) c2"
    using files_cover [OF f _ own] by blast
  have g: "grouped ?c (types S)" using all_grouped [of c1 "[]" H "types S"] S(3) by (simp add: grouped_def)
  have t3: "doc_types (dc_doc c3) = doc_types (dc_doc c2)"
    using ps by (auto simp: readPaths_def bindE_Inr_iff split: option.splits)
  have mem: "k \<in> set (map_keys (doc_types (dc_doc c2)))" if "map_get (types S) k = Some t" for t
  proof -
    have e: "(k, t) \<in> set (types S)" using that by (rule map_get_mem)
    then obtain sf where sf: "map_get (schemaFiles ?c) (dot_join (tb_ns (type_base t))) = Some sf"
      "tb_name (type_base t) \<in> set (dsf_types sf)"
      using g by (auto simp: grouped_def)
    then have "dsf_namespace sf = dot_join (tb_ns (type_base t))" using g by (simp add: grouped_def)
    moreover have "tb_ns (type_base t) \<noteq> ['''']" using assms(2) e by (auto simp: named_namespaces_def list_all_iff)
    ultimately have "getFqtn sf (tb_name (type_base t)) = k" using own that by (simp add: getFqtn_own own_names_def)
    then have "k \<in> file_types sf" using sf(2) by (auto simp: file_types_def)
    with c map_get_mem [OF sf(1)] show ?thesis by (force simp: covers_def)
  qed
  show ?thesis
  proof (cases "map_get (types S) k")
    case None
    with c have "map_get (doc_types (dc_doc c2)) k = None"
      unfolding covers_def by (metis option.exhaust option.simps(3))
    with None t3 d show ?thesis by simp
  next
    case (Some t)
    then obtain e where "map_get (doc_types (dc_doc c2)) k = Some e"
      using mem [OF Some] unfolding map_has_iff [symmetric] map_has_def by blast
    with Some c t3 d show ?thesis by (fastforce simp: covers_def)
  qed
qed

section \<open>An example\<close>

instance jsnum :: countable by countable_datatype

instance jsval :: countable by countable_datatype

instance yaml :: countable by countable_datatype

text \<open>Text in unary notation, so that what is printed can be read back; \<^verbatim>\<open>motis.yaml\<close> has a
  type that the schema has no more.\<close>

definition demo_text :: "yaml \<Rightarrow> string" where
  "demo_text y = replicate (to_nat y) CHR ''1''"

definition demo_old :: yaml where
  "demo_old = YMap [(y_key ''Gone'', YMap []), (y_key ''Position'', YMap [(y_key ''description'', y_str ''A place'')])]"

definition demo_docs :: "(yaml \<Rightarrow> string) \<Rightarrow> (string \<Rightarrow> YamlDoc) \<Rightarrow> DocHost" where
  "demo_docs printer reader = \<lparr>doc_files = [(''doc/schemas/motis.yaml'', ''old'')],
     doc_resolve = join ''/'',
     parseDocument = (\<lambda>s. if s = ''old'' then \<lparr>contents = demo_old, has_errors = False\<rparr> else reader s),
     yaml_text = printer, parse_yaml = (\<lambda>s. None), index_text = (\<lambda>n. ''0'')\<rparr>"

definition demo_doc_config :: jsval where
  "demo_doc_config = JObj [(''schemas'', JStr ''schemas''), (''paths'', JStr ''paths''), (''tags'', JStr ''tags'')]"

definition demo_schema_types :: SchemaTypes where
  "demo_schema_types = (case resolveSchemaTypes demo_host ''/'' ''root'' of Inr S \<Rightarrow> S | Inl _ \<Rightarrow> \<lparr>types = [], rootType = None\<rparr>)"

definition demo_reader :: "string \<Rightarrow> YamlDoc" where
  "demo_reader s = \<lparr>contents = from_nat (length s), has_errors = False\<rparr>"

lemma demo_doc_run:
  obtains doc w where "readAndUpdateDoc (demo_docs g r) demo_schema_types ''doc'' demo_doc_config = Inr (doc, w)"
    and "map fst w = [''doc/schemas/motis.yaml'', ''doc/schemas/motis/lookup.yaml'']"
    and "map_option dt_description (map_get (doc_types doc) ''motis.Position'') = Some (Some ''A place'')"
proof -
  have "case readAndUpdateDoc (demo_docs g r) demo_schema_types ''doc'' demo_doc_config of Inl _ \<Rightarrow> False
    | Inr (doc, w) \<Rightarrow> map fst w = [''doc/schemas/motis.yaml'', ''doc/schemas/motis/lookup.yaml''] \<and>
       map_option dt_description (map_get (doc_types doc) ''motis.Position'') = Some (Some ''A place'')"
    by code_simp
  then show thesis using that by (auto split: sum.splits)
qed

text \<open>No text in unary notation is the text of the old file.\<close>

lemma demo_reads_back: "reads_back (demo_docs demo_text demo_reader)"
proof -
  have "replicate n CHR ''1'' \<noteq> ''old''" for n by (cases n) simp_all
  then show ?thesis by (simp add: reads_back_def demo_docs_def demo_text_def demo_reader_def)
qed


theorem documentation_covers_witness:
  "\<exists>doc w d. readAndUpdateDoc (demo_docs demo_text demo_reader) demo_schema_types ''doc'' demo_doc_config = Inr (doc, w) \<and>
     map_get (doc_types doc) ''motis.Gone'' = None \<and>
     map_get (doc_types doc) ''motis.Position'' = Some d \<and> dt_fqtn d = ''motis.Position'' \<and> dt_fields d \<noteq> None"
proof -
  obtain doc w where r: "readAndUpdateDoc (demo_docs demo_text demo_reader) demo_schema_types ''doc'' demo_doc_config = Inr (doc, w)"
    by (rule demo_doc_run)
  have S: "resolveSchemaTypes demo_host ''/'' ''root'' = Inr demo_schema_types"
    by (simp add: demo_schema_types_def demo_schema)
  have n: "named_namespaces demo_schema_types" by code_simp
  have "map_get (types demo_schema_types) ''motis.Gone'' = None" by code_simp
  with documentation_covers [OF S n r, of "''motis.Gone''"] have "map_get (doc_types doc) ''motis.Gone'' = None" by simp
  moreover have "case map_get (types demo_schema_types) ''motis.Position'' of Some (STable t) \<Rightarrow> True | _ \<Rightarrow> False" by code_simp
  then obtain t where "map_get (types demo_schema_types) ''motis.Position'' = Some (STable t)"
    by (auto split: option.splits SchemaType.splits)
  with documentation_covers [OF S n r, of "''motis.Position''"]
  obtain d where "map_get (doc_types doc) ''motis.Position'' = Some d" "describes ''motis.Position'' (STable t) d"
    by (auto split: option.splits)
  ultimately show ?thesis using r by (auto simp: describes_def split: option.splits)
qed

end
