(* ===== verification/Markdown_Output.thy ===== *)
theory Markdown_Output
  imports Doc_Properties Json_Schema
begin

text \<open>
  The Markdown output (\<^verbatim>\<open>tools/protocol/src/output/markdown\<close>): one file per
  namespace with a section for every type, and one for the paths of the API. A file is the text that is
  written to it; \<open>resolve\<close> is \<^verbatim>\<open>path.resolve\<close>.
\<close>

record MarkdownFile =
  mdf_path :: string
  mdf_namespace :: string
  mdf_types :: "string list"

record MarkdownContext =
  md_schema :: SchemaTypes
  md_typeFilter :: TypeFilter
  md_doc :: Documentation
  md_files :: "(string, MarkdownFile) jsmap"
  md_types :: "string set"
  md_outputDir :: string

datatype md_error = MdMissingDir | MdUndefinedType string | MdTypeError

section \<open>Text\<close>

definition newline :: string where
  "newline = [CHR 0x0A]"

text \<open>\<^verbatim>\<open>toLowerCase\<close> on 8-bit code units.\<close>

definition to_lower :: "char \<Rightarrow> char" where
  "to_lower c =
     (let n = of_char c :: nat
      in if 65 \<le> n \<and> n \<le> 90 \<or> 192 \<le> n \<and> n \<le> 222 \<and> n \<noteq> 215 then char_of (n + 32) else c)"

text \<open>\<^verbatim>\<open>replace\<close> of the first run of a class of characters, and of every run.\<close>

definition replace_run :: "(char \<Rightarrow> bool) \<Rightarrow> string \<Rightarrow> string \<Rightarrow> string" where
  "replace_run P r s =
     (case dropWhile (\<lambda>c. \<not> P c) s of
        [] \<Rightarrow> s
      | c # cs \<Rightarrow> takeWhile (\<lambda>c. \<not> P c) s @ r @ dropWhile P cs)"

function replace_runs :: "(char \<Rightarrow> bool) \<Rightarrow> string \<Rightarrow> string \<Rightarrow> string" where
  "replace_runs P r [] = []"
| "replace_runs P r (c # cs) =
     (if P c then r @ replace_runs P r (dropWhile P cs) else c # replace_runs P r cs)"
  by pat_completeness auto
termination
  by (relation "measure (\<lambda>(P, r, s). length s)") (auto simp: le_imp_less_Suc length_dropWhile_le)

definition toSingleLine :: "string \<Rightarrow> string" where
  "toSingleLine input = replace_runs (\<lambda>c. c = CHR 0x0A \<or> c = CHR 0x0D) '' '' (trim input)"

definition anchor_char :: "char \<Rightarrow> bool" where
  "anchor_char c = (c = CHR ''-'' \<or> in_range CHR ''a'' CHR ''z'' c \<or> in_range CHR ''0'' CHR ''9'' c \<or> is_space c)"

definition getGFMHeadingAnchor :: "string \<Rightarrow> string" where
  "getGFMHeadingAnchor heading =
     replace_run (\<lambda>c. c = CHR ''-'' \<or> is_space c) ''-'' (filter anchor_char (map to_lower heading))"

section \<open>Links\<close>

definition md_getFilename :: "(string list \<Rightarrow> string) \<Rightarrow> MarkdownContext \<Rightarrow> string list \<Rightarrow> string" where
  "md_getFilename resolve ctx ns = resolve (md_outputDir ctx # ns) @ ''.md''"

definition getTypeHref :: "MarkdownContext \<Rightarrow> string list \<Rightarrow> string option \<Rightarrow> string option" where
  "getTypeHref ctx fqtn currentNamespace =
     (if dot_join fqtn \<notin> md_types ctx then None
      else if Some (dot_join (butlast fqtn)) = currentNamespace then Some (''#'' @ getGFMHeadingAnchor (last_part fqtn))
      else None)"

definition getTypeLink :: "MarkdownContext \<Rightarrow> string list \<Rightarrow> string option \<Rightarrow> string" where
  "getTypeLink ctx fqtn currentNamespace =
     (case getTypeHref ctx fqtn currentNamespace of
        Some h \<Rightarrow> ''['' @ last_part fqtn @ '']('' @ h @ '')''
      | None \<Rightarrow> ''`'' @ dot_join fqtn @ ''`'')"

section \<open>Types\<close>

fun show_nat :: "nat \<Rightarrow> string" where
  "show_nat n = (if n < 10 then [char_of (48 + n)] else show_nat (n div 10) @ [char_of (48 + n mod 10)])"

declare show_nat.simps [simp del]

definition basic_name :: "BasicType \<Rightarrow> string" where
  "basic_name b =
     (case b of
        BoolType \<Rightarrow> ''bool''
      | IntType n p \<Rightarrow> (if unsigned p then ''u'' else '''') @ ''int'' @ show_nat (bits p)
      | FloatType n p \<Rightarrow> if fbits p = 32 then ''float'' else ''double''
      | StringType \<Rightarrow> ''string'')"

fun fieldTypeToMarkdown :: "MarkdownContext \<Rightarrow> MarkdownFile \<Rightarrow> FieldType \<Rightarrow> string" where
  "fieldTypeToMarkdown ctx mf (FBasic b) = basic_name b"
| "fieldTypeToMarkdown ctx mf (FVector t) = ''array of '' @ fieldTypeToMarkdown ctx mf t"
| "fieldTypeToMarkdown ctx mf (FCustom r) = getTypeLink ctx (resolvedFqtn r) (Some (mdf_namespace mf))"

definition heading :: "string \<Rightarrow> string" where
  "heading s = ''## '' @ s @ newline @ newline"

definition md_fieldLine :: "MarkdownContext \<Rightarrow> MarkdownFile \<Rightarrow> DocType option \<Rightarrow> TableField \<Rightarrow> string" where
  "md_fieldLine ctx mf typeDoc f =
     (let fieldDoc = Option.bind (Option.bind typeDoc dt_fields) (\<lambda>fs. map_get fs (fld_name f))
      in ''- `'' @ fld_name f @ ''` ('' @ fieldTypeToMarkdown ctx mf (fld_type f) @ '')'' @
         (if isRequired (fld_metadata f) True then '''' else '' (optional)'') @
         (case Option.bind fieldDoc df_description of
            Some d \<Rightarrow> if d = '''' then '''' else '': '' @ toSingleLine d
          | None \<Rightarrow> '''') @ newline)"

definition md_writeType :: "MarkdownContext \<Rightarrow> MarkdownFile \<Rightarrow> string \<Rightarrow> md_error + string" where
  "md_writeType ctx mf fqtn =
     (case map_get (types (md_schema ctx)) fqtn of
        None \<Rightarrow> Inl (MdUndefinedType fqtn)
      | Some t \<Rightarrow>
          (let typeDoc = map_get (doc_types (md_doc ctx)) fqtn;
               descr = (case Option.bind typeDoc dt_description of None \<Rightarrow> '''' | Some d \<Rightarrow> d);
               body =
                 (case t of
                    SEnum e \<Rightarrow>
                      if descr = '''' then
                        ''Possible values:'' @ newline @ newline @
                        concat (map (\<lambda>v. ''- `'' @ ev_id v @ ''`'' @ newline) (enum_values e))
                      else ''''
                  | SUnion u \<Rightarrow>
                      ''One of:'' @ newline @ newline @
                      concat (map (\<lambda>v. ''- '' @ dot_join (resolvedFqtn (uv_typeRef v)) @ newline) (union_values u))
                  | STable tt \<Rightarrow> concat (map (md_fieldLine ctx mf typeDoc) (tbl_fields tt)))
           in Inr (heading (tb_name (type_base t)) @
                   (if descr = '''' then '''' else trim descr @ newline @ newline) @
                   body @ newline @ newline)))"

definition writeSchemaFile :: "MarkdownContext \<Rightarrow> MarkdownFile \<Rightarrow> md_error + string \<times> string" where
  "writeSchemaFile ctx mf =
     bindE (mapE (md_writeType ctx mf) (mdf_types mf)) (\<lambda>secs. Inr (mdf_path mf, concat secs))"

section \<open>Paths\<close>

text \<open>A string method on a value that is no string throws.\<close>

definition as_text :: "(string \<Rightarrow> string) \<Rightarrow> jsval \<Rightarrow> md_error + string" where
  "as_text f v =
     (if \<not> truthy v then Inr '''' else case v of JStr s \<Rightarrow> Inr (f s) | _ \<Rightarrow> Inl MdTypeError)"

definition own_link :: "MarkdownContext \<Rightarrow> string \<Rightarrow> string" where
  "own_link ctx t = (let fqtn = dot_split t in getTypeLink ctx fqtn (Some (dot_join (butlast fqtn))))"

definition noMessage :: "string list" where
  "noMessage = [''motis'', ''MotisNoMessage'']"

definition requestText :: "MarkdownContext \<Rightarrow> DocPath \<Rightarrow> md_error + string" where
  "requestText ctx p =
     (if truthy (dp_input p) then
        as_text (\<lambda>t. ''Type: '' @ own_link ctx t @ newline @ newline) (dp_input p)
      else Inr (''Type: '' @ getTypeLink ctx noMessage None @ '' (or HTTP GET request)'' @ newline @ newline))"

definition responseText :: "MarkdownContext \<Rightarrow> DocPath \<Rightarrow> string" where
  "responseText ctx p =
     (case dp_output p of
        Some r \<Rightarrow> ''Type: '' @ own_link ctx (dr_type r) @ newline @ newline @ trim (dr_description r) @ newline @ newline
      | None \<Rightarrow> ''Type: '' @ getTypeLink ctx noMessage None @ newline @ newline)"

definition pathSection :: "MarkdownContext \<Rightarrow> DocPath \<Rightarrow> md_error + string" where
  "pathSection ctx p =
     bindE (as_text (\<lambda>s. '': '' @ toSingleLine s) (dp_summary p)) (\<lambda>summary.
     bindE (as_text (\<lambda>s. trim s @ newline @ newline) (dp_description p)) (\<lambda>descr.
     bindE (requestText ctx p) (\<lambda>request.
       Inr (''## '' @ dp_path p @ summary @ newline @ newline @ descr @
            ''### Request'' @ newline @ newline @ request @
            ''### Response'' @ newline @ newline @ responseText ctx p))))"

definition writePathsFile :: "(string list \<Rightarrow> string) \<Rightarrow> MarkdownContext \<Rightarrow> md_error + (string \<times> string) list" where
  "writePathsFile resolve ctx =
     (if doc_paths (md_doc ctx) = [] then Inr []
      else bindE (mapE (pathSection ctx) (doc_paths (md_doc ctx))) (\<lambda>secs.
             Inr [(resolve [md_outputDir ctx, ''paths.md''], concat secs)]))"

section \<open>The output\<close>

definition md_addToFile :: "(string list \<Rightarrow> string) \<Rightarrow> string \<times> SchemaType \<Rightarrow> MarkdownContext \<Rightarrow> MarkdownContext" where
  "md_addToFile resolve e ctx =
     (let (fqtn, t) = e in
      if \<not> includeType (md_typeFilter ctx) fqtn then ctx
      else
        (let ns = dot_join (tb_ns (type_base t));
             mf = (case map_get (md_files ctx) ns of
                     Some f \<Rightarrow> f
                   | None \<Rightarrow> \<lparr>mdf_path = md_getFilename resolve ctx (tb_ns (type_base t)), mdf_namespace = ns, mdf_types = []\<rparr>)
         in ctx\<lparr>md_files := map_set ns (mf\<lparr>mdf_types := mdf_types mf @ [fqtn]\<rparr>) (md_files ctx),
                md_types := insert fqtn (md_types ctx)\<rparr>))"

definition markdownContext :: "(string list \<Rightarrow> string) \<Rightarrow> SchemaTypes \<Rightarrow> TypeFilter \<Rightarrow> Documentation \<Rightarrow> string \<Rightarrow> MarkdownContext" where
  "markdownContext resolve schema flt doc dir =
     fold (md_addToFile resolve) (types schema)
       \<lparr>md_schema = schema, md_typeFilter = flt, md_doc = doc, md_files = [], md_types = {}, md_outputDir = dir\<rparr>"

definition writeMarkdownOutput ::
  "(string list \<Rightarrow> string) \<Rightarrow> SchemaTypes \<Rightarrow> TypeFilter \<Rightarrow> Documentation \<Rightarrow> string \<Rightarrow> jsval \<Rightarrow>
   md_error + (string \<times> string) list" where
  "writeMarkdownOutput resolve schema flt doc baseDir config =
     (case obj_get config ''dir'' of
        JStr dir \<Rightarrow>
          (let ctx = markdownContext resolve schema flt doc (resolve [baseDir, dir])
           in bindE (mapE (writeSchemaFile ctx) (map snd (md_files ctx))) (\<lambda>files.
              bindE (writePathsFile resolve ctx) (\<lambda>paths. Inr (files @ paths))))
      | _ \<Rightarrow> Inl MdMissingDir)"

section \<open>Links lead to headings\<close>

text \<open>The context after the types in \<open>es\<close>: each included one is listed in the file of its
  namespace.\<close>

definition listed :: "MarkdownContext \<Rightarrow> (string \<times> SchemaType) list \<Rightarrow> bool" where
  "listed ctx es \<longleftrightarrow>
     (\<forall>ns mf. map_get (md_files ctx) ns = Some mf \<longrightarrow> mdf_namespace mf = ns) \<and>
     (\<forall>k \<in> md_types ctx. \<exists>t mf. (k, t) \<in> set es \<and>
        map_get (md_files ctx) (dot_join (tb_ns (type_base t))) = Some mf \<and> k \<in> set (mdf_types mf))"

lemma md_addToFile_listed:
  assumes "listed ctx es"
  shows "listed (md_addToFile resolve e ctx) (es @ [e])"
proof -
  obtain k t where e: "e = (k, t)" by (cases e)
  let ?ns = "dot_join (tb_ns (type_base t))"
  show ?thesis
  proof (cases "includeType (md_typeFilter ctx) k")
    case False
    with assms show ?thesis unfolding e by (fastforce simp: md_addToFile_def listed_def)
  next
    case True
    obtain mf where mf: "mdf_namespace mf = ?ns" "k \<in> set (mdf_types mf)"
      "md_addToFile resolve e ctx = ctx\<lparr>md_files := map_set ?ns mf (md_files ctx), md_types := insert k (md_types ctx)\<rparr>"
      "\<And>f. map_get (md_files ctx) ?ns = Some f \<Longrightarrow> set (mdf_types f) \<subseteq> set (mdf_types mf)"
    proof (cases "map_get (md_files ctx) ?ns")
      case None
      show thesis
        by (rule that [of "\<lparr>mdf_path = md_getFilename resolve ctx (tb_ns (type_base t)), mdf_namespace = ?ns, mdf_types = [k]\<rparr>"])
          (use True None e in \<open>simp_all add: md_addToFile_def Let_def\<close>)
    next
      case (Some f)
      show thesis
        by (rule that [of "f\<lparr>mdf_types := mdf_types f @ [k]\<rparr>"])
          (use True Some e assms in \<open>auto simp: md_addToFile_def listed_def Let_def\<close>)
    qed
    have "\<exists>t' mf'. (k', t') \<in> set (es @ [e]) \<and>
        map_get (map_set ?ns mf (md_files ctx)) (dot_join (tb_ns (type_base t'))) = Some mf' \<and> k' \<in> set (mdf_types mf')"
      if "k' \<in> insert k (md_types ctx)" for k'
    proof (cases "k' = k")
      case True
      then show ?thesis using mf(2) e by (intro exI [of _ t] exI [of _ mf]) (simp add: map_get_set)
    next
      case False
      then obtain t' f where f: "(k', t') \<in> set es" "map_get (md_files ctx) (dot_join (tb_ns (type_base t'))) = Some f"
        "k' \<in> set (mdf_types f)"
        using \<open>k' \<in> insert k (md_types ctx)\<close> assms by (auto simp: listed_def)
      show ?thesis
      proof (cases "dot_join (tb_ns (type_base t')) = ?ns")
        case True
        with f mf(4) show ?thesis by (intro exI [of _ t'] exI [of _ mf]) (auto simp: map_get_set)
      next
        case False
        with f show ?thesis by (intro exI [of _ t'] exI [of _ f]) (auto simp: map_get_set)
      qed
    qed
    then show ?thesis using assms mf(1,3) by (auto simp: listed_def map_get_set)
  qed
qed

lemma markdownContext_listed: "listed (markdownContext resolve schema flt doc dir) (types schema)"
proof -
  have "listed ctx es \<Longrightarrow> listed (fold (md_addToFile resolve) fs ctx) (es @ fs)" for ctx es fs
  proof (induction fs arbitrary: ctx es)
    case (Cons e fs)
    from Cons.IH [OF md_addToFile_listed [OF Cons.prems]] show ?case by simp
  qed simp
  note run = this [where es = "[]", unfolded append_Nil]
  show ?thesis unfolding markdownContext_def by (rule run) (simp add: listed_def)
qed

lemma markdownContext_schema [simp]: "md_schema (markdownContext resolve schema flt doc dir) = schema"
proof -
  have "md_schema (md_addToFile resolve e ctx) = md_schema ctx" for e ctx
    by (cases e) (simp add: md_addToFile_def Let_def)
  then have "md_schema (fold (md_addToFile resolve) es ctx) = md_schema ctx" for es ctx
    by (induction es arbitrary: ctx) simp_all
  then show ?thesis by (simp add: markdownContext_def)
qed

text \<open>Every listed type has its heading in the file.\<close>

lemma mapE_mem: "mapE f xs = Inr ys \<Longrightarrow> x \<in> set xs \<Longrightarrow> \<exists>y. f x = Inr y \<and> y \<in> set ys"
  by (induction xs arbitrary: ys) (auto simp: bindE_Inr_iff)

lemma section_heading:
  assumes "writeSchemaFile ctx mf = Inr (path, content)" and "k \<in> set (mdf_types mf)"
    and "map_get (types (md_schema ctx)) k = Some t"
  shows "\<exists>pre post. content = pre @ heading (tb_name (type_base t)) @ post"
proof -
  obtain secs where secs: "mapE (md_writeType ctx mf) (mdf_types mf) = Inr secs" "content = concat secs"
    using assms(1) by (auto simp: writeSchemaFile_def bindE_Inr_iff)
  obtain sec where sec: "md_writeType ctx mf k = Inr sec" "sec \<in> set secs" using mapE_mem [OF secs(1) assms(2)] by blast
  then obtain rest where "sec = heading (tb_name (type_base t)) @ rest"
    using assms(3) by (auto simp: md_writeType_def Let_def)
  moreover obtain xs ys where "secs = xs @ sec # ys" using sec(2) split_list by metis
  ultimately show ?thesis using secs(2) by simp blast
qed

definition plain_names :: "SchemaTypes \<Rightarrow> bool" where
  "plain_names S = list_all (\<lambda>(k, t). CHR ''.'' \<notin> set (tb_name (type_base t))) (types S)"


definition demo_markdown :: MarkdownContext where
  "demo_markdown = markdownContext (join ''/'') demo_schema_types \<lparr>tf_includes = [], tf_excludes = []\<rparr>
     \<lparr>doc_types = [], doc_paths = [], doc_tags = []\<rparr> ''out''"


text \<open>The sections of \<^verbatim>\<open>paths.md\<close> link to the anchors of their types, too, as if the
  headings of the types were in that file.\<close>

lemma own_link_local:
  "t \<in> md_types ctx \<Longrightarrow>
     own_link ctx t = ''['' @ last_part (dot_split t) @ ''](#'' @ getGFMHeadingAnchor (last_part (dot_split t)) @ '')''"
  by (simp add: own_link_def getTypeLink_def getTypeHref_def Let_def)

end
