(* ===== verification/Openapi_Output.thy ===== *)
theory Openapi_Output
  imports Doc_Inout Json_Schema
begin

text \<open>
  The OpenAPI output (\<^verbatim>\<open>tools/protocol/src/output/openapi\<close>): one YAML document with the
  paths of the API and, under \<^verbatim>\<open>components/schemas\<close>, the JSON Schemas of the types
  with their documentation. The result is the file with the contents of the document that is printed into
  it.

  Maps that the code creates and then fills in place are built and then stored; the map is reachable from
  its parent only in between. Whether the YAML package wraps the keys it is given in nodes is a parameter,
  as are \<^verbatim>\<open>path.resolve\<close> and the \<^verbatim>\<open>URL\<close> class.
\<close>

section \<open>Context\<close>

definition OPEN_API_VERSIONS :: "string list" where
  "OPEN_API_VERSIONS = [''3.0.3'', ''3.1.0'']"

record OpenApiContext =
  oa_schema :: SchemaTypes
  oa_typeFilter :: TypeFilter
  oa_baseUri :: URL
  openApiVersion :: string
  oa_jsonSchema :: JSONSchemaTypes
  oa_doc :: Documentation
  includeIds :: bool
  oa_typesInUnions :: bool
  msgContentOnly :: bool

record OpenApiHost =
  oa_newURL :: "string \<Rightarrow> URL"
  oa_resolve :: "string list \<Rightarrow> string"
  key_nodes :: bool

datatype openapi_error =
    OaMissing string
  | OaVersion string
  | OaSchema js_error
  | OaNoTaggedType string

definition oa_getRefUrl :: "string list \<Rightarrow> string" where
  "oa_getRefUrl fqtn = ''#/components/schemas/'' @ dot_join fqtn"

section \<open>Schemas\<close>

text \<open>The local function \<^verbatim>\<open>setKey\<close>.\<close>

definition setKey :: "jsval \<Rightarrow> string \<Rightarrow> yaml \<Rightarrow> yaml" where
  "setKey js key m = (if obj_has js key then y_set key (YVal (obj_get js key)) m else m)"

definition setKeys :: "jsval \<Rightarrow> string list \<Rightarrow> yaml \<Rightarrow> yaml" where
  "setKeys js keys m = fold (setKey js) keys m"

definition y_strings :: "string list \<Rightarrow> yaml" where
  "y_strings xs = YVal (JArr (map JStr xs))"

definition writeExamples :: "OpenApiContext \<Rightarrow> yaml list \<Rightarrow> yaml \<Rightarrow> yaml" where
  "writeExamples ctx exs m =
     (if exs = [] then m
      else if openApiVersion ctx = ''3.0.3'' then y_set ''example'' (hd exs) m
      else y_set ''examples'' (YSeq exs) m)"

definition writeDescription :: "string option \<Rightarrow> yaml \<Rightarrow> yaml" where
  "writeDescription d m = (case d of Some s \<Rightarrow> if s = '''' then m else y_set ''description'' (y_str s) m | None \<Rightarrow> m)"

definition writeTypeDoc :: "OpenApiContext \<Rightarrow> DocType option \<Rightarrow> yaml \<Rightarrow> yaml" where
  "writeTypeDoc ctx typeDoc m =
     (case typeDoc of
        None \<Rightarrow> m
      | Some d \<Rightarrow>
          (let m = writeDescription (dt_description d) m;
               m = (if dt_tags d \<noteq> [] then y_set ''tags'' (y_strings (dt_tags d)) m else m)
           in writeExamples ctx (dt_examples d) m))"

definition writeFieldDoc :: "OpenApiContext \<Rightarrow> DocField option \<Rightarrow> yaml \<Rightarrow> yaml" where
  "writeFieldDoc ctx fieldDoc m =
     (case fieldDoc of
        None \<Rightarrow> m
      | Some d \<Rightarrow>
          writeExamples ctx (case df_examples d of None \<Rightarrow> [] | Some xs \<Rightarrow> xs) (writeDescription (df_description d) m))"

text \<open>The documentation of a property; the tag of an untyped union documents itself.\<close>

definition propertyDoc :: "OpenApiContext \<Rightarrow> DocType option \<Rightarrow> string \<Rightarrow> DocField option" where
  "propertyDoc ctx typeDoc key =
     (case Option.bind (Option.bind typeDoc dt_fields) (\<lambda>fs. map_get fs key) of
        Some d \<Rightarrow> Some d
      | None \<Rightarrow>
          if \<not> oa_typesInUnions ctx \<and> endsWith key ''_type'' then
            Some \<lparr>df_name = key,
              df_description = Some (''Type of the `'' @ take (length key - 5) key @ ''` field''), df_examples = None\<rparr>
          else None)"

fun object_entries :: "jsval \<Rightarrow> (string \<times> jsval) list" where
  "object_entries (JObj ps) = ps"
| "object_entries _ = []"

lemma size_entry: "(k, v) \<in> set (object_entries js) \<Longrightarrow> size v < size js"
  by (cases js) (auto dest: size_jobj)

lemma size_obj_get: "truthy (obj_get js k) \<Longrightarrow> size (obj_get js k) < size js"
proof (cases js)
  case (JObj ps)
  assume "truthy (obj_get js k)"
  then obtain v where v: "map_get ps k = Some v" "obj_get js k = v" using JObj by (auto split: option.splits)
  from size_jobj [OF map_get_mem [OF v(1)]] v(2) JObj show ?thesis by simp
qed simp_all

definition writeId :: "OpenApiContext \<Rightarrow> jsval \<Rightarrow> yaml \<Rightarrow> yaml" where
  "writeId ctx js m = (if includeIds ctx then setKey js ''$id'' m else m)"

definition writeTitle :: "string option \<Rightarrow> yaml \<Rightarrow> yaml" where
  "writeTitle fqtn m = (case fqtn of Some f \<Rightarrow> if f = '''' then m else y_set ''title'' (y_str f) m | None \<Rightarrow> m)"

text \<open>A schema is an object; nothing is written for another value.\<close>

function writeSchema ::
  "OpenApiContext \<Rightarrow> yaml \<Rightarrow> jsval \<Rightarrow> DocType option \<Rightarrow> DocField option \<Rightarrow> string option \<Rightarrow> yaml" where
  "writeSchema ctx m (JObj ps) typeDoc fieldDoc fqtn =
     (if openApiVersion ctx = ''3.0.3'' \<and> obj_has (JObj ps) ''$ref'' then setKey (JObj ps) ''$ref'' m
      else
        setKeys (JObj ps) [''allOf'', ''anyOf'', ''oneOf'', ''discriminator'', ''not'', ''if'', ''then'', ''else'', ''additionalProperties'']
          ((if truthy (obj_get (JObj ps) ''items'') then
              y_set ''items'' (writeSchema ctx (YMap []) (obj_get (JObj ps) ''items'') None None None)
            else id)
          ((if truthy (obj_get (JObj ps) ''properties'') then
              y_set ''properties''
                (fold (\<lambda>p. y_set (fst p) (writeSchema ctx (YMap []) (snd p) None (propertyDoc ctx typeDoc (fst p)) None))
                   (object_entries (obj_get (JObj ps) ''properties'')) (YMap []))
            else id)
          (setKeys (JObj ps) [''required'', ''enum'', ''const'', ''format'', ''minimum'', ''maximum'']
          (writeFieldDoc ctx fieldDoc (writeTypeDoc ctx typeDoc
          (setKey (JObj ps) ''type'' (writeTitle fqtn (writeId ctx (JObj ps) (setKey (JObj ps) ''$ref'' m))))))))))"
| "writeSchema ctx m JUndef typeDoc fieldDoc fqtn = m"
| "writeSchema ctx m JNull typeDoc fieldDoc fqtn = m"
| "writeSchema ctx m (JBool b) typeDoc fieldDoc fqtn = m"
| "writeSchema ctx m (JNum n) typeDoc fieldDoc fqtn = m"
| "writeSchema ctx m (JStr s) typeDoc fieldDoc fqtn = m"
| "writeSchema ctx m (JArr xs) typeDoc fieldDoc fqtn = m"
  by pat_completeness auto
termination
proof (relation "measure (\<lambda>(ctx, m, js, typeDoc, fieldDoc, fqtn). size js)")
  fix ps and p :: "string \<times> jsval"
  assume t: "truthy (obj_get (JObj ps) ''properties'')" and p: "p \<in> set (object_entries (obj_get (JObj ps) ''properties''))"
  have "size (snd p) < size (obj_get (JObj ps) ''properties'')" using size_entry [of "fst p" "snd p"] p by simp
  with size_obj_get [OF t] show "((ctx', YMap [], snd p, a, b, c), (ctx, m, JObj ps, d, e, f)) \<in>
      measure (\<lambda>(ctx, m, js, typeDoc, fieldDoc, fqtn). size js)" for ctx' ctx m a b c d e f
    by simp
next
  fix ctx :: OpenApiContext and m ps and typeDoc :: "DocType option" and fieldDoc :: "DocField option" and fqtn :: "string option"
  assume "truthy (obj_get (JObj ps) ''items'')"
  from size_obj_get [OF this]
  show "((ctx, YMap [], obj_get (JObj ps) ''items'', None, None, None), ctx, m, JObj ps, typeDoc, fieldDoc, fqtn) \<in>
      measure (\<lambda>(ctx, m, js, typeDoc, fieldDoc, fqtn). size js)" by simp
qed simp

declare writeSchema.simps [simp del]

section \<open>Paths\<close>

definition y_object :: "(string \<times> yaml) list \<Rightarrow> yaml" where
  "y_object ps = YMap (map (\<lambda>(k, v). (y_key k, v)) ps)"

definition js_enum :: "string \<Rightarrow> jsval" where
  "js_enum s = JObj [(''type'', JStr ''string''), (''enum'', JArr [JStr s])]"

definition js_required :: "string list \<Rightarrow> jsval" where
  "js_required xs = JArr (map JStr xs)"

text \<open>The object schema of a message that is sent with its destination and content type.\<close>

definition messageProperties :: "string \<Rightarrow> string list \<Rightarrow> jsval" where
  "messageProperties target t = JObj
     [(''destination'', JObj
        [(''type'', JStr ''object''), (''required'', js_required [''target'']),
         (''properties'', JObj [(''target'', js_enum target), (''type'', js_enum ''Module'')])]),
      (''content_type'', js_enum (last_part t)),
      (''content'', js_ref (oa_getRefUrl t)),
      (''id'', JObj [(''type'', JStr ''integer''), (''format'', JStr ''int32'')])]"

definition messageSchema :: "OpenApiContext \<Rightarrow> string list \<Rightarrow> string \<Rightarrow> string \<Rightarrow> openapi_error + yaml" where
  "messageSchema ctx required target fqtn =
     (if msgContentOnly ctx then
        (case map_get (jst_untaggedToTaggedType (oa_jsonSchema ctx)) fqtn of
           Some t \<Rightarrow>
             if t = '''' then Inl (OaNoTaggedType fqtn)
             else Inr (y_object [(''$ref'', y_str (oa_getRefUrl (dot_split t)))])
         | None \<Rightarrow> Inl (OaNoTaggedType fqtn))
      else Inr (y_object
        [(''type'', y_str ''object''), (''required'', YVal (js_required required)),
         (''properties'', YVal (messageProperties target (dot_split fqtn)))]))"

definition jsonContent :: "yaml \<Rightarrow> yaml \<Rightarrow> yaml" where
  "jsonContent schema m = y_setIn [''content'', ''application/json'', ''schema''] schema m"

definition writeResponse :: "OpenApiContext \<Rightarrow> string \<Rightarrow> string \<Rightarrow> openapi_error + yaml" where
  "writeResponse ctx fqtn description =
     bindE (messageSchema ctx [''content_type'', ''content''] '''' fqtn) (\<lambda>schema.
       Inr (jsonContent schema (y_object [(''description'', y_str description)])))"

definition writeRequest :: "OpenApiContext \<Rightarrow> string \<Rightarrow> string \<Rightarrow> openapi_error + yaml" where
  "writeRequest ctx path fqtn =
     bindE (messageSchema ctx [''destination'', ''content_type'', ''content''] path fqtn) (\<lambda>schema.
       Inr (jsonContent schema (y_object [(''required'', YVal (JBool True))])))"

text \<open>\<^verbatim>\<open>toUpperCase\<close>; the micro sign and the small y with diaeresis, whose upper cases are
  no 8-bit code units, are left as they are.\<close>

definition to_upper :: "char \<Rightarrow> string" where
  "to_upper c =
     (let n = of_char c :: nat
      in if n = 223 then ''SS''
         else if 97 \<le> n \<and> n \<le> 122 \<or> 224 \<le> n \<and> n \<le> 254 \<and> n \<noteq> 247 then [char_of (n - 32)] else [c])"

definition path_sep :: "char \<Rightarrow> bool" where
  "path_sep c = (c = CHR ''/'' \<or> c = CHR ''_'')"

definition line_end :: "char \<Rightarrow> bool" where
  "line_end c = (c = CHR 0x0A \<or> c = CHR 0x0D)"

text \<open>\<^verbatim>\<open>replaceAll(/[/_]+(.)/g, upper case)\<close>: a run of separators goes with the character
  after it; at the end of a line its own last separator is that character.\<close>

function camelCase :: "string \<Rightarrow> string" where
  "camelCase [] = []"
| "camelCase (c # cs) =
     (if path_sep c then
        (case dropWhile path_sep cs of
           d # ds \<Rightarrow>
             if \<not> line_end d then to_upper d @ camelCase ds
             else if takeWhile path_sep cs = [] then c # camelCase cs
             else last (takeWhile path_sep cs) # camelCase (d # ds)
         | [] \<Rightarrow> if cs = [] then [c] else [last cs])
      else c # camelCase cs)"
  by pat_completeness auto
termination
proof (relation "measure length")
  fix c d :: char and cs ds
  assume "dropWhile path_sep cs = d # ds"
  then have l: "length (d # ds) \<le> length cs" by (metis length_dropWhile_le)
  then show "(ds, c # cs) \<in> measure length" "(d # ds, c # cs) \<in> measure length" by simp_all
qed auto

definition operationId :: "DocPath \<Rightarrow> yaml" where
  "operationId p = YVal (js_coalesce (dp_operationId p) (JStr (camelCase (tl (dp_path p)))))"

definition setTruthy :: "string \<Rightarrow> jsval \<Rightarrow> yaml \<Rightarrow> yaml" where
  "setTruthy key v m = (if truthy v then y_set key (YVal v) m else m)"

definition has_length :: "jsval \<Rightarrow> bool" where
  "has_length v = (case v of JArr xs \<Rightarrow> xs \<noteq> [] | JStr s \<Rightarrow> s \<noteq> '''' | _ \<Rightarrow> False)"

text \<open>The input of a path is a type name or falsy (\<^const>\<open>readPath\<close>).\<close>

definition path_input :: "DocPath \<Rightarrow> string option" where
  "path_input p = (if truthy (dp_input p) then (case dp_input p of JStr s \<Rightarrow> Some s | _ \<Rightarrow> None) else None)"

definition operationHead :: "DocPath \<Rightarrow> yaml" where
  "operationHead p =
     (let m = y_object [(''operationId'', operationId p)];
          m = setTruthy ''description'' (dp_description p) (setTruthy ''summary'' (dp_summary p) m);
          m = (if has_length (dp_tags p) then y_set ''tags'' (YVal (dp_tags p)) m else m)
      in if truthy (dp_deprecated p) then y_set ''deprecated'' (YVal (JBool True)) m else m)"

definition operationRequest :: "OpenApiContext \<Rightarrow> DocPath \<Rightarrow> yaml \<Rightarrow> openapi_error + yaml" where
  "operationRequest ctx p m =
     (case path_input p of
        None \<Rightarrow> Inr m
      | Some t \<Rightarrow> bindE (writeRequest ctx (dp_path p) t) (\<lambda>r. Inr (y_set ''requestBody'' r m)))"

definition operationResponse :: "OpenApiContext \<Rightarrow> DocPath \<Rightarrow> openapi_error + yaml" where
  "operationResponse ctx p =
     (case dp_output p of
        Some r \<Rightarrow> writeResponse ctx (dr_type r) (dr_description r)
      | None \<Rightarrow> writeResponse ctx ''motis.MotisSuccess'' ''Empty response'')"

definition writeOperation :: "OpenApiContext \<Rightarrow> DocPath \<Rightarrow> openapi_error + yaml" where
  "writeOperation ctx p =
     bindE (operationRequest ctx p (operationHead p)) (\<lambda>m.
     bindE (operationResponse ctx p) (\<lambda>ok.
     bindE (writeResponse ctx ''motis.MotisError'' ''Error'') (\<lambda>failed.
       Inr (y_set ''responses'' (y_object [(''200'', ok), (''500'', failed)]) m))))"

definition writePathStep :: "OpenApiContext \<Rightarrow> yaml \<Rightarrow> DocPath \<Rightarrow> openapi_error + yaml" where
  "writePathStep ctx m p =
     bindE (writeOperation ctx p) (\<lambda>oaOperation.
       Inr (y_set (dp_path p)
              (y_object [(if truthy (dp_input p) then ''post'' else ''get'', oaOperation)]) m))"

definition writePaths :: "OpenApiContext \<Rightarrow> openapi_error + yaml" where
  "writePaths ctx = foldE (writePathStep ctx) (YMap []) (doc_paths (oa_doc ctx))"

definition writeTags :: "OpenApiContext \<Rightarrow> yaml \<Rightarrow> yaml" where
  "writeTags ctx yd = (if doc_tags (oa_doc ctx) \<noteq> [] then y_set ''tags'' (YVal (JArr (doc_tags (oa_doc ctx)))) yd else yd)"

section \<open>The document\<close>

definition schemaEntry :: "OpenApiContext \<Rightarrow> string \<Rightarrow> yaml" where
  "schemaEntry ctx fqtn =
     (let js = oa_jsonSchema ctx;
          origFqtn = (case map_get (jst_taggedToUntaggedType js) fqtn of
                        Some u \<Rightarrow> if u = '''' then fqtn else u | None \<Rightarrow> fqtn)
      in writeSchema ctx (YMap []) (obj_get (JObj (jst_types js)) fqtn)
           (map_get (doc_types (oa_doc ctx)) origFqtn) None (Some fqtn))"

definition writeSchemas :: "OpenApiContext \<Rightarrow> yaml" where
  "writeSchemas ctx =
     fold (\<lambda>fqtn. y_set fqtn (schemaEntry ctx fqtn)) (sortTypes (map_keys (jst_types (oa_jsonSchema ctx)))) (YMap [])"

text \<open>\<^verbatim>\<open>items.sort\<close> compares keys that are nodes and takes all others as equal.\<close>

definition compareItems :: "OpenApiHost \<Rightarrow> yaml \<times> yaml \<Rightarrow> yaml \<times> yaml \<Rightarrow> int" where
  "compareItems H a b =
     (if key_nodes H then
        (case (key_string (fst a), key_string (fst b)) of (Some x, Some y) \<Rightarrow> compareFqtns x y | _ \<Rightarrow> 0)
      else 0)"

definition sortItems :: "OpenApiHost \<Rightarrow> yaml \<Rightarrow> yaml" where
  "sortItems H m = YMap (array_sort (compareItems H) (y_items m))"

definition copyBlock :: "jsval \<Rightarrow> string \<Rightarrow> yaml \<Rightarrow> yaml" where
  "copyBlock config key = setTruthy key (obj_get config key)"

definition writeDocument :: "OpenApiHost \<Rightarrow> jsval \<Rightarrow> OpenApiContext \<Rightarrow> openapi_error + yaml" where
  "writeDocument H config ctx =
     (let yd = y_object [(''openapi'', y_str (openApiVersion ctx))];
          yd = copyBlock config ''servers'' (copyBlock config ''externalDocs'' (copyBlock config ''info'' yd));
          yd = writeTags ctx yd
      in bindE (writePaths ctx) (\<lambda>paths.
           Inr (y_setIn [''components'', ''schemas''] (sortItems H (writeSchemas ctx)) (y_set ''paths'' paths yd))))"

fun object_like :: "jsval \<Rightarrow> bool" where
  "object_like JNull = True"
| "object_like (JObj _) = True"
| "object_like (JArr _) = True"
| "object_like _ = False"

definition oa_string :: "jsval \<Rightarrow> string \<Rightarrow> openapi_error + string" where
  "oa_string config key = (case obj_get config key of JStr s \<Rightarrow> Inr s | _ \<Rightarrow> Inl (OaMissing key))"

definition openapiJSContext :: "SchemaTypes \<Rightarrow> TypeFilter \<Rightarrow> URL \<Rightarrow> jsval \<Rightarrow> JSContext" where
  "openapiJSContext schema flt baseUri config =
     (let typesIn = (obj_get config ''types-in-unions'' \<noteq> JBool False)
      in createJSContext schema flt baseUri (Some oa_getRefUrl) False True False typesIn typesIn True
           (obj_get config ''explicit-additional-properties'' \<noteq> JBool False) (Inr ''T'') ''_type'')"

definition openapiContext :: "SchemaTypes \<Rightarrow> TypeFilter \<Rightarrow> Documentation \<Rightarrow> URL \<Rightarrow> string \<Rightarrow> jsval \<Rightarrow> JSONSchemaTypes \<Rightarrow> OpenApiContext" where
  "openapiContext schema flt doc baseUri version config js =
     (let typesIn = (obj_get config ''types-in-unions'' \<noteq> JBool False)
      in \<lparr>oa_schema = schema, oa_typeFilter = flt, oa_baseUri = baseUri, openApiVersion = version,
          oa_jsonSchema = js, oa_doc = doc, includeIds = (obj_get config ''ids'' \<noteq> JBool False),
          oa_typesInUnions = typesIn,
          msgContentOnly = (typesIn \<and> obj_get config ''msg-content-only'' \<noteq> JBool False)\<rparr>)"

definition lift_js :: "js_error + 'a \<Rightarrow> openapi_error + 'a" where
  "lift_js r = (case r of Inl e \<Rightarrow> Inl (OaSchema e) | Inr x \<Rightarrow> Inr x)"

definition writeOpenAPIOutput ::
  "OpenApiHost \<Rightarrow> SchemaTypes \<Rightarrow> TypeFilter \<Rightarrow> Documentation \<Rightarrow> string \<Rightarrow> jsval \<Rightarrow> openapi_error + string \<times> yaml" where
  "writeOpenAPIOutput H schema flt doc baseDir config =
     bindE (oa_string config ''file'') (\<lambda>f.
     bindE (oa_string config ''base-uri'') (\<lambda>base.
     if \<not> object_like (obj_get config ''info'') then Inl (OaMissing ''info'')
     else bindE (oa_string config ''version'') (\<lambda>version.
       if version \<notin> set OPEN_API_VERSIONS then Inl (OaVersion version)
       else
         (let baseUri = with_slash (oa_newURL H base)
          in bindE (lift_js (getJSONSchemaTypes (openapiJSContext schema flt baseUri config))) (\<lambda>js.
             bindE (writeDocument H config (openapiContext schema flt doc baseUri version config js)) (\<lambda>yd.
               Inr (oa_resolve H [baseDir, f], yd)))))))"

end
