(* ===== verification/Openapi_Properties.thy ===== *)
theory Openapi_Properties
  imports Openapi_Output Json_Schema_Properties Doc_Properties
begin

text \<open>
  The OpenAPI document is closed: what it refers to is among its components. The references of a schema
  are those of the JSON Schema it is written from, and those of a path lead to the tagged types the schema
  output has emitted. The components stand in the order of the type names, whether or not the YAML package
  wraps its keys.
\<close>

section \<open>References in a document\<close>

fun yaml_refs :: "yaml \<Rightarrow> string list" where
  "yaml_refs (YVal v) = js_refs v"
| "yaml_refs (YSeq xs) = concat (map yaml_refs xs)"
| "yaml_refs (YMap ps) =
     concat (map (\<lambda>(k, v). case (key_string k, v) of (Some n, YVal w) \<Rightarrow> entry_refs n w | _ \<Rightarrow> yaml_refs v) ps)"

definition y_entry_refs :: "string \<Rightarrow> yaml \<Rightarrow> string set" where
  "y_entry_refs k v = (case v of YVal w \<Rightarrow> set (entry_refs k w) | _ \<Rightarrow> set (yaml_refs v))"

lemma y_entry_simps [simp]:
  "y_entry_refs k (YVal w) = set (entry_refs k w)"
  "y_entry_refs k (YMap ps) = set (yaml_refs (YMap ps))"
  "y_entry_refs k (YSeq xs) = set (yaml_refs (YSeq xs))"
  by (simp_all add: y_entry_refs_def)

lemma y_entry_nonref: "k \<noteq> ''$ref'' \<Longrightarrow> y_entry_refs k v = set (yaml_refs v)"
  by (cases v) simp_all

lemma yaml_refs_Map: "set (yaml_refs (YMap ((y_key k, v) # ps))) = y_entry_refs k v \<union> set (yaml_refs (YMap ps))"
  by (cases v) simp_all

lemma yaml_refs_map_set:
  "set (yaml_refs (YMap (map_set (y_key k) v ps))) \<subseteq> set (yaml_refs (YMap ps)) \<union> y_entry_refs k v"
proof (induction ps)
  case Nil
  then show ?case by (cases v) simp_all
next
  case (Cons p ps)
  obtain k' v' where p: "p = (k', v')" by (cases p)
  show ?case
  proof (cases "k' = y_key k")
    case True
    then show ?thesis using yaml_refs_Map [of k v ps] p by auto
  next
    case False
    then show ?thesis using Cons p by auto
  qed
qed

lemma yaml_refs_set: "set (yaml_refs (y_set k v m)) \<subseteq> set (yaml_refs m) \<union> y_entry_refs k v"
  using yaml_refs_map_set by (cases m) auto

lemma yaml_refs_set_in:
  "set (yaml_refs m) \<subseteq> R \<Longrightarrow> y_entry_refs k v \<subseteq> R \<Longrightarrow> set (yaml_refs (y_set k v m)) \<subseteq> R"
  using yaml_refs_set by blast

lemma yaml_refs_object: "set (yaml_refs (y_object ps)) = (\<Union>(k, v) \<in> set ps. y_entry_refs k v)"
proof (induction ps)
  case (Cons p ps)
  obtain k v where "p = (k, v)" by (cases p)
  with Cons show ?case by (simp add: y_object_def yaml_refs_Map del: yaml_refs.simps)
qed (simp add: y_object_def)

lemma is_map_object [simp]: "is_map (y_object ps)"
  by (simp add: y_object_def)

lemma fold_refs:
  assumes "\<And>x. x \<in> set xs \<Longrightarrow> y_entry_refs (f x) (g x) \<subseteq> R" and "set (yaml_refs m) \<subseteq> R"
  shows "set (yaml_refs (fold (\<lambda>x. y_set (f x) (g x)) xs m)) \<subseteq> R"
  using assms
proof (induction xs arbitrary: m)
  case (Cons x xs)
  have "set (yaml_refs (y_set (f x) (g x) m)) \<subseteq> R"
    by (rule yaml_refs_set_in) (use Cons.prems in auto)
  with Cons.IH [OF Cons.prems(1)] show ?case by simp
qed simp

section \<open>Documentation without references\<close>

text \<open>The texts and examples the documentation adds; an example could hold anything.\<close>

definition refless_examples :: "yaml list \<Rightarrow> bool" where
  "refless_examples xs = list_all (\<lambda>x. yaml_refs x = []) xs"

definition refless_field :: "DocField \<Rightarrow> bool" where
  "refless_field d = (case df_examples d of None \<Rightarrow> True | Some xs \<Rightarrow> refless_examples xs)"

definition refless_type :: "DocType \<Rightarrow> bool" where
  "refless_type d \<longleftrightarrow> refless_examples (dt_examples d) \<and>
     (case dt_fields d of None \<Rightarrow> True | Some fs \<Rightarrow> list_all (\<lambda>(k, f). refless_field f) fs)"

definition refless_path :: "DocPath \<Rightarrow> bool" where
  "refless_path p = list_all (\<lambda>v. js_refs v = [])
     [dp_summary p, dp_description p, dp_tags p, dp_operationId p]"

definition refless_doc :: "Documentation \<Rightarrow> bool" where
  "refless_doc doc \<longleftrightarrow> list_all (\<lambda>(k, d). refless_type d) (doc_types doc) \<and>
     list_all refless_path (doc_paths doc)"

lemma js_refs_scalar [simp]: "js_refs (JStr s) = []" "js_refs (JBool b) = []"
  by simp_all

lemma js_refs_strings [simp]: "js_refs (JArr (map JStr xs)) = []"
  by (induction xs) auto

lemma writeExamples_refs: "refless_examples xs \<Longrightarrow> set (yaml_refs (writeExamples ctx xs m)) \<subseteq> set (yaml_refs m)"
  unfolding writeExamples_def
  by (auto simp: y_entry_nonref refless_examples_def list_all_iff neq_Nil_conv
      dest!: subsetD [OF yaml_refs_set])

lemma writeDescription_refs: "set (yaml_refs (writeDescription d m)) \<subseteq> set (yaml_refs m)"
  unfolding writeDescription_def by (auto dest!: subsetD [OF yaml_refs_set] split: option.splits if_splits)

lemma writeTypeDoc_refs:
  "(\<And>d. td = Some d \<Longrightarrow> refless_type d) \<Longrightarrow> set (yaml_refs (writeTypeDoc ctx td m)) \<subseteq> set (yaml_refs m)"
proof (cases td)
  case (Some d)
  assume "\<And>d. td = Some d \<Longrightarrow> refless_type d"
  then have e: "refless_examples (dt_examples d)" using Some by (simp add: refless_type_def)
  let ?m = "writeDescription (dt_description d) m"
  let ?n = "if dt_tags d \<noteq> [] then y_set ''tags'' (y_strings (dt_tags d)) ?m else ?m"
  have "set (yaml_refs ?n) \<subseteq> set (yaml_refs ?m)"
    using yaml_refs_set [of "''tags''" "y_strings (dt_tags d)" ?m] by (auto simp: y_strings_def)
  with writeExamples_refs [OF e, of ctx ?n] writeDescription_refs [of "dt_description d" m] show ?thesis
    unfolding Some writeTypeDoc_def option.case Let_def by blast
qed (simp add: writeTypeDoc_def)

lemma writeFieldDoc_refs:
  "(\<And>d. fd = Some d \<Longrightarrow> refless_field d) \<Longrightarrow> set (yaml_refs (writeFieldDoc ctx fd m)) \<subseteq> set (yaml_refs m)"
proof (cases fd)
  case (Some d)
  assume "\<And>d. fd = Some d \<Longrightarrow> refless_field d"
  then have "refless_examples (case df_examples d of None \<Rightarrow> [] | Some xs \<Rightarrow> xs)"
    using Some by (auto simp: refless_field_def refless_examples_def split: option.splits)
  from writeExamples_refs [OF this] writeDescription_refs Some show ?thesis
    by (force simp: writeFieldDoc_def)
qed (simp add: writeFieldDoc_def)

lemma propertyDoc_refless:
  "(\<And>d. td = Some d \<Longrightarrow> refless_type d) \<Longrightarrow> propertyDoc ctx td key = Some d \<Longrightarrow> refless_field d"
  by (force simp: propertyDoc_def refless_type_def refless_field_def list_all_iff bind_eq_Some_conv
      dest!: map_of_SomeD split: option.splits if_splits)

section \<open>Schemas\<close>

lemma obj_get_refs: "entry_refs k (obj_get js k) \<noteq> [] \<Longrightarrow> set (entry_refs k (obj_get js k)) \<subseteq> set (js_refs js)"
proof (cases js)
  case (JObj ps)
  assume ne: "entry_refs k (obj_get js k) \<noteq> []"
  then obtain v where v: "map_get ps k = Some v" using JObj by (auto simp: entry_refs_def split: option.splits)
  show ?thesis using map_get_mem [OF v] v JObj by (force simp: js_refs_obj)
qed (auto simp: entry_refs_def)

lemma obj_get_entry: "set (entry_refs k (obj_get js k)) \<subseteq> set (js_refs js)"
  using obj_get_refs [of k js] by (cases "entry_refs k (obj_get js k) = []") auto

lemma js_refs_entry: "set (js_refs v) \<subseteq> set (entry_refs k v)"
  by (cases v) (auto simp: entry_refs_def)

lemma obj_get_sub: "set (js_refs (obj_get js k)) \<subseteq> set (js_refs js)"
  using obj_get_entry js_refs_entry by blast

lemma entries_sub: "(k, v) \<in> set (object_entries js) \<Longrightarrow> set (js_refs v) \<subseteq> set (js_refs js)"
  using js_refs_entry [of v k] by (cases js) (force simp: js_refs_obj)+

lemma setKey_refs: "set (yaml_refs m) \<subseteq> R \<Longrightarrow> set (js_refs js) \<subseteq> R \<Longrightarrow> set (yaml_refs (setKey js k m)) \<subseteq> R"
  using yaml_refs_set [of k "YVal (obj_get js k)" m] obj_get_entry [of k js] by (auto simp: setKey_def)

lemma setKeys_refs: "set (yaml_refs m) \<subseteq> R \<Longrightarrow> set (js_refs js) \<subseteq> R \<Longrightarrow> set (yaml_refs (setKeys js ks m)) \<subseteq> R"
  unfolding setKeys_def by (induction ks arbitrary: m) (simp_all add: setKey_refs)

lemma is_map_setKey [simp]: "is_map (setKey js k m) = is_map m"
  by (simp add: setKey_def)

lemma is_map_setKeys [simp]: "is_map (setKeys js ks m) = is_map m"
  unfolding setKeys_def by (induction ks arbitrary: m) simp_all

lemma is_map_docs [simp]:
  "is_map (writeTypeDoc ctx td m) = is_map m" "is_map (writeFieldDoc ctx fd m) = is_map m"
  by (simp_all add: writeTypeDoc_def writeFieldDoc_def writeDescription_def writeExamples_def Let_def split: option.split)

lemma writeSchema_is_map: "is_map m \<Longrightarrow> is_map (writeSchema ctx m js td fd fq)"
  by (cases js) (simp_all add: writeSchema.simps writeId_def writeTitle_def split: option.split)

lemma writeSchema_refs:
  assumes "\<And>d. typeDoc = Some d \<Longrightarrow> refless_type d" and "\<And>d. fieldDoc = Some d \<Longrightarrow> refless_field d"
    and "set (yaml_refs m) \<subseteq> set (js_refs js)"
  shows "set (yaml_refs (writeSchema ctx m js typeDoc fieldDoc fqtn)) \<subseteq> set (js_refs js)"
  using assms
proof (induction ctx m js typeDoc fieldDoc fqtn rule: writeSchema.induct)
  case (1 ctx m ps typeDoc fieldDoc fqtn)
  let ?R = "set (js_refs (JObj ps))"
  let ?m1 = "setKey (JObj ps) ''$ref'' m"
  have m1: "set (yaml_refs ?m1) \<subseteq> ?R" using 1(5) by (simp add: setKey_refs)
  show ?case
  proof (cases "openApiVersion ctx = ''3.0.3'' \<and> obj_has (JObj ps) ''$ref''")
    case True
    with m1 show ?thesis by (simp add: writeSchema.simps)
  next
    case False
    let ?m2 = "writeId ctx (JObj ps) ?m1"
    let ?m3 = "writeTitle fqtn ?m2"
    let ?m4 = "writeFieldDoc ctx fieldDoc (writeTypeDoc ctx typeDoc (setKey (JObj ps) ''type'' ?m3))"
    let ?m5 = "setKeys (JObj ps) [''required'', ''enum'', ''const'', ''format'', ''minimum'', ''maximum''] ?m4"
    let ?props = "fold (\<lambda>p. y_set (fst p) (writeSchema ctx (YMap []) (snd p) None (propertyDoc ctx typeDoc (fst p)) None))
      (object_entries (obj_get (JObj ps) ''properties'')) (YMap [])"
    let ?m6 = "(if truthy (obj_get (JObj ps) ''properties'') then y_set ''properties'' ?props else id) ?m5"
    let ?items = "writeSchema ctx (YMap []) (obj_get (JObj ps) ''items'') None None None"
    let ?m7 = "(if truthy (obj_get (JObj ps) ''items'') then y_set ''items'' ?items else id) ?m6"
    have 2: "set (yaml_refs ?m2) \<subseteq> ?R" using m1 by (simp add: setKey_refs writeId_def)
    have 3: "set (yaml_refs ?m3) \<subseteq> ?R"
    proof (cases fqtn)
      case (Some f)
      have "set (yaml_refs (y_set ''title'' (y_str f) ?m2)) \<subseteq> ?R"
        by (rule yaml_refs_set_in [OF 2]) (simp add: y_entry_nonref)
      with 2 Some show ?thesis by (simp add: writeTitle_def)
    qed (use 2 in \<open>simp add: writeTitle_def\<close>)
    have 4: "set (yaml_refs ?m4) \<subseteq> ?R"
      using writeFieldDoc_refs [OF 1(4)] writeTypeDoc_refs [OF 1(3)] setKey_refs [OF 3 order_refl] by blast
    have 5: "set (yaml_refs ?m5) \<subseteq> ?R" using 4 by (simp add: setKeys_refs)
    have 6: "set (yaml_refs ?m6) \<subseteq> ?R"
    proof (cases "truthy (obj_get (JObj ps) ''properties'')")
      case True
      have "set (yaml_refs ?props) \<subseteq> ?R"
      proof (rule fold_refs)
        fix p assume p: "p \<in> set (object_entries (obj_get (JObj ps) ''properties''))"
        have "set (js_refs (snd p)) \<subseteq> ?R"
          using entries_sub [of "fst p" "snd p"] obj_get_sub [of "JObj ps" "''properties''"] p by fastforce
        moreover have "set (yaml_refs (writeSchema ctx (YMap []) (snd p) None (propertyDoc ctx typeDoc (fst p)) None)) \<subseteq> set (js_refs (snd p))"
          using 1(2) [OF False True p _ propertyDoc_refless [OF 1(3)]] by simp
        moreover have "is_map (writeSchema ctx (YMap []) (snd p) None (propertyDoc ctx typeDoc (fst p)) None)" using writeSchema_is_map by simp
        ultimately show "y_entry_refs (fst p) (writeSchema ctx (YMap []) (snd p) None (propertyDoc ctx typeDoc (fst p)) None) \<subseteq> ?R"
          by (cases "writeSchema ctx (YMap []) (snd p) None (propertyDoc ctx typeDoc (fst p)) None") auto
      qed simp
      then have "set (yaml_refs (y_set ''properties'' ?props ?m5)) \<subseteq> ?R"
        by (intro yaml_refs_set_in 5) (simp add: y_entry_nonref)
      with True show ?thesis by simp
    qed (use 5 in simp)
    have 7: "set (yaml_refs ?m7) \<subseteq> ?R"
    proof (cases "truthy (obj_get (JObj ps) ''items'')")
      case True
      have "set (yaml_refs ?items) \<subseteq> set (js_refs (obj_get (JObj ps) ''items''))"
        using 1(1) [OF False True] by simp
      then have "set (yaml_refs (y_set ''items'' ?items ?m6)) \<subseteq> ?R"
        using obj_get_sub [of "JObj ps" "''items''"] by (intro yaml_refs_set_in 6) (auto simp: y_entry_nonref)
      with True show ?thesis by simp
    qed (use 6 in simp)
    show ?thesis
      using setKeys_refs [OF 7 order_refl] False by (subst writeSchema.simps) (simp only: if_False)
  qed
qed (simp_all add: writeSchema.simps)

section \<open>Tagged types are emitted\<close>

definition tags_emitted :: "JSContext \<Rightarrow> bool" where
  "tags_emitted c \<longleftrightarrow> (\<forall>a t. map_get (untaggedToTaggedType c) a = Some t \<longrightarrow> t \<in> emitted c)"

lemma tags_emitted_set [simp]: "tags_emitted c \<Longrightarrow> tags_emitted (set_js k v c)"
  by (simp add: tags_emitted_def)

lemma tags_emitted_add:
  "tags_emitted c \<Longrightarrow> m = untaggedToTaggedType c \<Longrightarrow>
     tags_emitted ((set_js t v c)\<lparr>taggedToUntaggedType := x, untaggedToTaggedType := map_set k t m\<rparr>)"
  by (auto simp: tags_emitted_def map_get_set split: if_splits)

lemma convertSchemaType_emits_tags:
  assumes "tags_emitted c" and "convertSchemaType c k t = Inr c'"
  shows "tags_emitted c'"
proof (cases t)
  case (SUnion u)
  with assms show ?thesis by (auto simp: convertSchemaType_def convertUnion_def Let_def)
next
  case (STable tt)
  with assms show ?thesis
    by (auto simp: convertSchemaType_def convertTable_def Let_def bindE_Inr_iff tags_emitted_add split: if_splits)
qed (use assms in \<open>auto simp: convertSchemaType_def\<close>)

lemma tagged_types_emitted:
  assumes "getJSONSchemaTypes ctx = Inr out" and "untaggedToTaggedType ctx = []"
    and "map_get (jst_untaggedToTaggedType out) a = Some t"
  shows "map_has (jst_types out) t"
proof -
  obtain c where c: "foldE schemaTypeStep ctx (types (js_schema ctx)) = Inr c"
    "jst_types out = bundleDefs c" "jst_untaggedToTaggedType out = untaggedToTaggedType c"
    using assms(1) by (auto simp: getJSONSchemaTypes_def bindE_Inr_iff)
  have "tags_emitted c"
    by (rule foldE_inv [OF c(1)])
      (auto simp: tags_emitted_def assms(2) schemaTypeStep_def split: if_splits
        dest: convertSchemaType_emits_tags [unfolded tags_emitted_def])
  with assms(3) c show ?thesis
    unfolding map_has_iff c(2) bundleDefs_keys by (simp add: tags_emitted_def)
qed

section \<open>The components\<close>

lemma y_keys_fold: "is_map m \<Longrightarrow> y_keys (fold (\<lambda>x. y_set x (g x)) xs m) = y_keys m \<union> set xs"
  by (induction xs arbitrary: m) (auto simp: y_keys_set)

lemma set_sortTypes [simp]: "set (sortTypes xs) = set xs"
  by (simp add: sortTypes_def)

lemma writeSchemas_keys: "y_keys (writeSchemas ctx) = set (map_keys (jst_types (oa_jsonSchema ctx)))"
  unfolding writeSchemas_def by (subst y_keys_fold) (auto simp: y_keys_def y_has_def)

lemma y_keys_sortItems [simp]: "is_map m \<Longrightarrow> y_keys (sortItems H m) = y_keys m"
  by (cases m) (auto simp: sortItems_def y_keys_def y_has_iff)

lemma yaml_refs_items: "set (yaml_refs (YMap ps)) = (\<Union>p \<in> set ps. set (yaml_refs (YMap [p])))"
  by auto

lemma sortItems_refs: "is_map m \<Longrightarrow> set (yaml_refs (sortItems H m)) = set (yaml_refs m)"
proof (cases m)
  case (YMap ps)
  then show ?thesis
    unfolding sortItems_def using yaml_refs_items [of ps] yaml_refs_items [of "array_sort (compareItems H) ps"]
    by (simp del: yaml_refs.simps)
qed simp_all

lemma is_map_writeSchemas [simp]: "is_map (writeSchemas ctx)"
proof -
  have "is_map m \<Longrightarrow> is_map (fold (\<lambda>x. y_set x (g x)) xs m)" for g :: "string \<Rightarrow> yaml" and xs m
    by (induction xs arbitrary: m) simp_all
  then show ?thesis by (simp add: writeSchemas_def)
qed

lemma doc_type_refless: "refless_doc doc \<Longrightarrow> map_get (doc_types doc) k = Some d \<Longrightarrow> refless_type d"
  by (auto simp: refless_doc_def list_all_iff dest!: map_of_SomeD)

lemma schemaEntry_refs:
  assumes "refless_doc (oa_doc ctx)"
  shows "set (yaml_refs (schemaEntry ctx k)) \<subseteq> (\<Union>(k, v) \<in> set (jst_types (oa_jsonSchema ctx)). set (js_refs v))"
    and "is_map (schemaEntry ctx k)"
proof -
  let ?js = "obj_get (JObj (jst_types (oa_jsonSchema ctx))) k"
  have "set (yaml_refs (schemaEntry ctx k)) \<subseteq> set (js_refs ?js)"
    unfolding schemaEntry_def Let_def
    by (rule writeSchema_refs) (use doc_type_refless [OF assms] in auto)
  moreover have "set (js_refs ?js) \<subseteq> (\<Union>(k, v) \<in> set (jst_types (oa_jsonSchema ctx)). set (js_refs v))"
    by (auto dest!: map_of_SomeD split: option.splits)
  ultimately show "set (yaml_refs (schemaEntry ctx k)) \<subseteq> (\<Union>(k, v) \<in> set (jst_types (oa_jsonSchema ctx)). set (js_refs v))"
    by blast
  show "is_map (schemaEntry ctx k)" by (simp add: schemaEntry_def Let_def writeSchema_is_map)
qed

lemma y_entry_map: "is_map v \<Longrightarrow> y_entry_refs k v = set (yaml_refs v)"
  by (cases v) simp_all

lemma writeSchemas_refs:
  assumes "refless_doc (oa_doc ctx)"
  shows "set (yaml_refs (writeSchemas ctx)) \<subseteq> (\<Union>(k, v) \<in> set (jst_types (oa_jsonSchema ctx)). set (js_refs v))"
  unfolding writeSchemas_def
  by (rule fold_refs) (simp_all add: y_entry_map schemaEntry_refs [OF assms])

section \<open>The paths\<close>

text \<open>The types a path speaks of.\<close>

definition path_types :: "DocPath \<Rightarrow> string list" where
  "path_types p =
     (case path_input p of Some t \<Rightarrow> [t] | None \<Rightarrow> []) @
     [case dp_output p of Some r \<Rightarrow> dr_type r | None \<Rightarrow> ''motis.MotisSuccess'', ''motis.MotisError'']"

definition component_urls :: "OpenApiContext \<Rightarrow> string set" where
  "component_urls ctx = {''#/components/schemas/'' @ k | k. map_has (jst_types (oa_jsonSchema ctx)) k}"

definition tags_known :: "OpenApiContext \<Rightarrow> bool" where
  "tags_known ctx \<longleftrightarrow> (\<forall>a t. map_get (jst_untaggedToTaggedType (oa_jsonSchema ctx)) a = Some t \<longrightarrow>
     map_has (jst_types (oa_jsonSchema ctx)) t)"

lemma messageSchema_refs:
  assumes "messageSchema ctx req target t = Inr y"
    and "tags_known ctx"
    and "msgContentOnly ctx \<or> map_has (jst_types (oa_jsonSchema ctx)) t"
  shows "set (yaml_refs y) \<subseteq> component_urls ctx \<and> is_map y"
proof (cases "msgContentOnly ctx")
  case True
  then obtain u where "map_get (jst_untaggedToTaggedType (oa_jsonSchema ctx)) t = Some u"
    "y = y_object [(''$ref'', y_str (oa_getRefUrl (dot_split u)))]"
    using assms(1) by (auto simp: messageSchema_def split: option.splits if_splits)
  with assms(2) show ?thesis by (auto simp: yaml_refs_object component_urls_def oa_getRefUrl_def tags_known_def)
next
  case False
  then have y: "y = y_object [(''type'', y_str ''object''), (''required'', YVal (js_required req)),
        (''properties'', YVal (messageProperties target (dot_split t)))]" and h: "map_has (jst_types (oa_jsonSchema ctx)) t"
    using assms(1,3) by (auto simp: messageSchema_def)
  have "js_refs (messageProperties target (dot_split t)) = [oa_getRefUrl (dot_split t)]"
    by (simp add: messageProperties_def js_enum_def js_required_def js_ref_def js_refs_obj entry_refs_def)
  with y h show ?thesis
    by (auto simp: yaml_refs_object component_urls_def oa_getRefUrl_def js_required_def)
qed

lemma jsonContent_refs:
  assumes "set (yaml_refs m) \<subseteq> R" and "set (yaml_refs s) \<subseteq> R" and "is_map m" and "is_map s"
    and "y_get ''content'' m = None"
  shows "set (yaml_refs (jsonContent s m)) \<subseteq> R \<and> is_map (jsonContent s m)"
proof -
  have "set (yaml_refs (YMap [(y_key k, v)])) \<subseteq> R \<Longrightarrow> set (yaml_refs (y_set ''content'' (YMap [(y_key k, v)]) m)) \<subseteq> R" for k v
    by (rule yaml_refs_set_in [OF assms(1)]) (simp add: y_entry_nonref)
  moreover have "set (yaml_refs (YMap [(y_key ''application/json'', YMap [(y_key ''schema'', s)])])) \<subseteq> R"
    using assms(2,4) by (cases s) simp_all
  ultimately show ?thesis using assms(3,5) by (simp add: jsonContent_def)
qed

lemma writeResponse_refs:
  assumes "writeResponse ctx t d = Inr y"
    and "tags_known ctx"
    and "msgContentOnly ctx \<or> map_has (jst_types (oa_jsonSchema ctx)) t"
  shows "set (yaml_refs y) \<subseteq> component_urls ctx \<and> is_map y"
proof -
  obtain s where s: "messageSchema ctx [''content_type'', ''content''] '''' t = Inr s"
    "y = jsonContent s (y_object [(''description'', y_str d)])"
    using assms(1) by (auto simp: writeResponse_def bindE_Inr_iff)
  show ?thesis unfolding s(2)
    by (rule jsonContent_refs) (use messageSchema_refs [OF s(1) assms(2,3)] in \<open>auto simp: yaml_refs_object y_object_def\<close>)
qed

lemma writeRequest_refs:
  assumes "writeRequest ctx path t = Inr y"
    and "tags_known ctx"
    and "msgContentOnly ctx \<or> map_has (jst_types (oa_jsonSchema ctx)) t"
  shows "set (yaml_refs y) \<subseteq> component_urls ctx \<and> is_map y"
proof -
  obtain s where s: "messageSchema ctx [''destination'', ''content_type'', ''content''] path t = Inr s"
    "y = jsonContent s (y_object [(''required'', YVal (JBool True))])"
    using assms(1) by (auto simp: writeRequest_def bindE_Inr_iff)
  show ?thesis unfolding s(2)
    by (rule jsonContent_refs) (use messageSchema_refs [OF s(1) assms(2,3)] in \<open>auto simp: yaml_refs_object y_object_def\<close>)
qed

lemma set_refless: "set (yaml_refs m) \<subseteq> R \<Longrightarrow> k \<noteq> ''$ref'' \<Longrightarrow> js_refs v = [] \<Longrightarrow> set (yaml_refs (y_set k (YVal v) m)) \<subseteq> R"
  by (rule yaml_refs_set_in) (simp_all add: y_entry_nonref)

lemma set_map_refs: "set (yaml_refs m) \<subseteq> R \<Longrightarrow> set (yaml_refs v) \<subseteq> R \<Longrightarrow> is_map v \<Longrightarrow> set (yaml_refs (y_set k v m)) \<subseteq> R"
  by (rule yaml_refs_set_in) (simp_all add: y_entry_map)

lemma setTruthy_refs: "set (yaml_refs m) \<subseteq> R \<Longrightarrow> k \<noteq> ''$ref'' \<Longrightarrow> js_refs v = [] \<Longrightarrow> set (yaml_refs (setTruthy k v m)) \<subseteq> R"
  by (simp add: setTruthy_def set_refless)

lemma is_map_setTruthy [simp]: "is_map (setTruthy k v m) = is_map m"
  by (simp add: setTruthy_def)

lemma operationHead_refs:
  assumes "refless_path p"
  shows "set (yaml_refs (operationHead p)) \<subseteq> R" and "is_map (operationHead p)"
proof -
  note r = assms [unfolded refless_path_def, simplified]
  let ?m = "setTruthy ''description'' (dp_description p)
    (setTruthy ''summary'' (dp_summary p) (y_object [(''operationId'', operationId p)]))"
  have "js_refs (js_coalesce (dp_operationId p) (JStr s)) = []" for s
    using r by (simp add: js_coalesce_def)
  then have "set (yaml_refs (y_object [(''operationId'', operationId p)])) \<subseteq> R"
    by (simp add: yaml_refs_object operationId_def)
  then have m: "set (yaml_refs ?m) \<subseteq> R" using r by (intro setTruthy_refs) simp_all
  note t = set_refless [OF m, of "''tags''" "dp_tags p"]
  show "set (yaml_refs (operationHead p)) \<subseteq> R"
    unfolding operationHead_def Let_def
    using m t r set_refless [OF m, of "''deprecated''" "JBool True"] set_refless [OF t, of "''deprecated''" "JBool True"]
    by (cases "has_length (dp_tags p)"; cases "truthy (dp_deprecated p)") simp_all
  show "is_map (operationHead p)"
    unfolding operationHead_def Let_def
    by (cases "has_length (dp_tags p)"; cases "truthy (dp_deprecated p)") simp_all
qed

lemma writeOperation_refs:
  assumes "writeOperation ctx p = Inr y" and "refless_path p" and tags: "tags_known ctx"
    and known: "\<And>t. t \<in> set (path_types p) \<Longrightarrow> msgContentOnly ctx \<or> map_has (jst_types (oa_jsonSchema ctx)) t"
  shows "set (yaml_refs y) \<subseteq> component_urls ctx \<and> is_map y"
proof -
  let ?R = "component_urls ctx"
  obtain m ok failed where m: "operationRequest ctx p (operationHead p) = Inr m"
    and ok: "operationResponse ctx p = Inr ok"
    and failed: "writeResponse ctx ''motis.MotisError'' ''Error'' = Inr failed"
    and y: "y = y_set ''responses'' (y_object [(''200'', ok), (''500'', failed)]) m"
    using assms(1) unfolding writeOperation_def bindE_Inr_iff by blast
  note head = operationHead_refs [OF assms(2)]
  have 1: "set (yaml_refs m) \<subseteq> ?R \<and> is_map m"
  proof (cases "path_input p")
    case None
    with m head show ?thesis by (simp add: operationRequest_def)
  next
    case (Some t)
    then obtain q where q: "writeRequest ctx (dp_path p) t = Inr q" "m = y_set ''requestBody'' q (operationHead p)"
      using m by (auto simp: operationRequest_def bindE_Inr_iff)
    have "set (yaml_refs q) \<subseteq> ?R \<and> is_map q"
      by (rule writeRequest_refs [OF q(1) tags]) (use known Some in \<open>auto simp: path_types_def\<close>)
    with head q(2) show ?thesis by (simp add: set_map_refs)
  qed
  have 2: "set (yaml_refs ok) \<subseteq> ?R \<and> is_map ok"
  proof (cases "dp_output p")
    case None
    then have r: "writeResponse ctx ''motis.MotisSuccess'' ''Empty response'' = Inr ok"
      using ok by (simp add: operationResponse_def)
    show ?thesis by (rule writeResponse_refs [OF r tags]) (use known None in \<open>auto simp: path_types_def\<close>)
  next
    case (Some o')
    then have r: "writeResponse ctx (dr_type o') (dr_description o') = Inr ok"
      using ok by (simp add: operationResponse_def)
    show ?thesis by (rule writeResponse_refs [OF r tags]) (use known Some in \<open>auto simp: path_types_def\<close>)
  qed
  have "set (yaml_refs failed) \<subseteq> ?R \<and> is_map failed"
    by (rule writeResponse_refs [OF failed tags]) (use known in \<open>auto simp: path_types_def\<close>)
  with 2 have "set (yaml_refs (y_object [(''200'', ok), (''500'', failed)])) \<subseteq> ?R"
    by (simp add: yaml_refs_object y_entry_map)
  with 1 y show ?thesis by (simp add: set_map_refs)
qed

definition known_paths :: "OpenApiContext \<Rightarrow> bool" where
  "known_paths ctx \<longleftrightarrow> msgContentOnly ctx \<or>
     list_all (\<lambda>p. list_all (map_has (jst_types (oa_jsonSchema ctx))) (path_types p)) (doc_paths (oa_doc ctx))"

lemma writePaths_refs:
  assumes "writePaths ctx = Inr y" and "refless_doc (oa_doc ctx)" and "known_paths ctx"
    and tags: "tags_known ctx"
  shows "set (yaml_refs y) \<subseteq> component_urls ctx \<and> is_map y"
proof (rule foldE_inv [OF assms(1) [unfolded writePaths_def]])
  fix m p m'
  assume m: "set (yaml_refs m) \<subseteq> component_urls ctx \<and> is_map m" and p: "p \<in> set (doc_paths (oa_doc ctx))"
    and "writePathStep ctx m p = Inr m'"
  then obtain oper where oper: "writeOperation ctx p = Inr oper"
    "m' = y_set (dp_path p) (y_object [(if truthy (dp_input p) then ''post'' else ''get'', oper)]) m"
    by (auto simp: writePathStep_def bindE_Inr_iff)
  have "refless_path p" using assms(2) p by (auto simp: refless_doc_def list_all_iff)
  moreover have "msgContentOnly ctx \<or> map_has (jst_types (oa_jsonSchema ctx)) t" if "t \<in> set (path_types p)" for t
    using assms(3) p that by (auto simp: known_paths_def list_all_iff)
  ultimately have "set (yaml_refs oper) \<subseteq> component_urls ctx \<and> is_map oper"
    using writeOperation_refs [OF oper(1) _ tags] by blast
  with m oper(2) show "set (yaml_refs m') \<subseteq> component_urls ctx \<and> is_map m'"
    by (simp add: set_map_refs yaml_refs_object y_entry_map)
qed simp

section \<open>The document is closed\<close>

definition document_parts :: "yaml \<Rightarrow> yaml \<Rightarrow> yaml \<Rightarrow> bool" where
  "document_parts yd paths schemas \<longleftrightarrow>
     y_get ''paths'' yd = Some paths \<and> y_getIn [''components'', ''schemas''] yd = Some schemas"

lemma y_get_setTruthy: "is_map m \<Longrightarrow> k' \<noteq> k \<Longrightarrow> y_get k' (setTruthy k v m) = y_get k' m"
  by (simp add: setTruthy_def y_get_set)

lemma writeDocument_parts:
  assumes "writeDocument H config ctx = Inr yd"
  obtains paths where "writePaths ctx = Inr paths" and "document_parts yd paths (sortItems H (writeSchemas ctx))"
proof -
  let ?yd0 = "writeTags ctx (copyBlock config ''servers'' (copyBlock config ''externalDocs'' (copyBlock config ''info''
    (y_object [(''openapi'', y_str (openApiVersion ctx))]))))"
  have m: "is_map ?yd0" "y_get ''components'' ?yd0 = None"
    by (simp_all add: writeTags_def copyBlock_def y_get_set y_get_setTruthy) (simp_all add: y_object_def)
  obtain paths where p: "writePaths ctx = Inr paths"
    and yd: "yd = y_setIn [''components'', ''schemas''] (sortItems H (writeSchemas ctx)) (y_set ''paths'' paths ?yd0)"
    using assms by (auto simp: writeDocument_def Let_def bindE_Inr_iff)
  have "y_get ''paths'' yd = Some paths" using m yd by (simp add: y_get_set)
  moreover have "y_getIn [''components'', ''schemas''] yd = Some (sortItems H (writeSchemas ctx))"
    using m yd by (simp add: y_get_set)
  ultimately show thesis using that p by (simp add: document_parts_def)
qed

lemma lift_js_ok: "lift_js r = Inr x \<longleftrightarrow> r = Inr x"
  by (cases r) (simp_all add: lift_js_def)

lemma guard_ok: "(if b then Inl e else m) = Inr x \<longleftrightarrow> \<not> b \<and> m = Inr x"
  by simp

lemma writeOpenAPI_ok:
  assumes "writeOpenAPIOutput H S flt doc baseDir config = Inr (f, yd)"
  obtains base version js where "getJSONSchemaTypes (openapiJSContext S flt (with_slash (oa_newURL H base)) config) = Inr js"
    and "writeDocument H config (openapiContext S flt doc (with_slash (oa_newURL H base)) version config js) = Inr yd"
  using assms
  unfolding writeOpenAPIOutput_def Let_def bindE_Inr_iff guard_ok lift_js_ok by blast

text \<open>The types of the paths are emitted as they are, or the paths speak of tagged types only.\<close>

definition paths_documented :: "Documentation \<Rightarrow> jsval \<Rightarrow> yaml \<Rightarrow> bool" where
  "paths_documented doc config schemas \<longleftrightarrow>
     obj_get config ''types-in-unions'' \<noteq> JBool False \<and> obj_get config ''msg-content-only'' \<noteq> JBool False \<or>
     list_all (\<lambda>p. list_all (\<lambda>t. y_has t schemas) (path_types p)) (doc_paths doc)"


section \<open>The order of the components\<close>

lemma array_sort_id: "sorted_wrt (\<lambda>a b. cmp a b \<le> 0) xs \<Longrightarrow> array_sort cmp xs = xs"
proof (induction xs)
  case (Cons x xs)
  have "insert_by cmp x xs = x # xs" using Cons.prems by (cases xs) simp_all
  with Cons show ?case by (simp add: array_sort_def)
qed (simp add: array_sort_def)

lemma y_items_fold:
  "distinct xs \<Longrightarrow> set xs \<inter> y_keys m = {} \<Longrightarrow> is_map m \<Longrightarrow>
     map fst (y_items (fold (\<lambda>x. y_set x (g x)) xs m)) = map fst (y_items m) @ map y_key xs"
proof (induction xs arbitrary: m)
  case (Cons x xs)
  have "y_items (y_set x (g x) m) = y_items m @ [(y_key x, g x)]"
    using Cons.prems by (auto simp: y_items_set y_keys_def y_has_iff intro!: map_set_fresh)
  moreover have "set xs \<inter> y_keys (y_set x (g x) m) = {}" using Cons.prems by (auto simp: y_keys_set)
  ultimately show ?case using Cons.IH [of "y_set x (g x) m"] Cons.prems by simp
qed simp

lemma distinct_sortTypes: "distinct xs \<Longrightarrow> distinct (sortTypes xs)"
  unfolding sortTypes_def by (metis mset_array_sort mset_eq_imp_distinct_iff)

lemma writeSchemas_order:
  "distinct (map_keys (jst_types (oa_jsonSchema ctx))) \<Longrightarrow>
     map fst (y_items (writeSchemas ctx)) = map y_key (sortTypes (map_keys (jst_types (oa_jsonSchema ctx))))"
  unfolding writeSchemas_def
  by (subst y_items_fold) (auto simp: distinct_sortTypes y_keys_def y_has_def simp del: set_sortTypes)

lemma compareItems_keys: "compareItems H a b = compareItems H (fst a, undefined) (fst b, undefined)"
  by (simp add: compareItems_def)

lemma sortItems_order:
  assumes "map fst (y_items m) = map y_key (sortTypes ks)" and "is_map m"
  shows "sortItems H m = m"
proof -
  have "sorted_wrt (\<lambda>a b. compareFqtns a b \<le> 0) (sortTypes ks)"
    unfolding sortTypes_def by (rule fqtn_order.array_sort_sorted)
  then have "sorted_wrt (\<lambda>a b. compareItems H (a, u) (b, v) \<le> 0) (map y_key (sortTypes ks))" for u v
    by (auto simp: sorted_wrt_map compareItems_def elim!: sorted_wrt_mono_rel [rotated])
  then have "sorted_wrt (\<lambda>a b. compareItems H (a, undefined) (b, undefined) \<le> 0) (map fst (y_items m))"
    using assms(1) by simp
  then have "sorted_wrt (\<lambda>a b. compareItems H a b \<le> 0) (y_items m)"
    unfolding sorted_wrt_map compareItems_keys [symmetric] .
  from array_sort_id [OF this] assms(2) show ?thesis by (cases m) (simp_all add: sortItems_def)
qed

lemma bundle_distinct: "getJSONSchemaTypes ctx = Inr out \<Longrightarrow> distinct (map_keys (jst_types out))"
proof -
  have "distinct (map_keys m) \<Longrightarrow> distinct (map_keys (fold (\<lambda>(k, v). map_set k v) ps m))" for ps and m :: "(string, jsval) jsmap"
  proof (induction ps arbitrary: m)
    case (Cons p ps)
    obtain k v where "p = (k, v)" by (cases p)
    with Cons.IH [of "map_set k v m"] Cons.prems show ?case by simp
  qed simp
  then show "getJSONSchemaTypes ctx = Inr out \<Longrightarrow> distinct (map_keys (jst_types out))"
    by (auto simp: getJSONSchemaTypes_def bindE_Inr_iff bundleDefs_def)
qed

text \<open>The components of the document are the emitted types in the canonical order of their names,
  whether or not the YAML package wraps the keys that the final sort looks at.\<close>

theorem openapi_components_ordered:
  assumes "writeOpenAPIOutput H S flt doc baseDir config = Inr (f, yd)" and "document_parts yd paths schemas"
  shows "\<exists>ks. map fst (y_items schemas) = map y_key ks \<and> distinct ks \<and> sorted (map dot_split ks) \<and>
    (\<exists>u js. getJSONSchemaTypes (openapiJSContext S flt u config) = Inr js \<and> set ks = set (map_keys (jst_types js)))"
proof -
  obtain base version js where js: "getJSONSchemaTypes (openapiJSContext S flt (with_slash (oa_newURL H base)) config) = Inr js"
    and d: "writeDocument H config (openapiContext S flt doc (with_slash (oa_newURL H base)) version config js) = Inr yd"
    using assms(1) by (rule writeOpenAPI_ok)
  let ?ctx = "openapiContext S flt doc (with_slash (oa_newURL H base)) version config js"
  let ?ks = "sortTypes (map_keys (jst_types js))"
  have c: "oa_jsonSchema ?ctx = js" by (simp add: openapiContext_def Let_def)
  obtain paths' where "document_parts yd paths' (sortItems H (writeSchemas ?ctx))" using d by (rule writeDocument_parts)
  then have s: "schemas = sortItems H (writeSchemas ?ctx)" using assms(2) by (simp add: document_parts_def)
  note dis = bundle_distinct [OF js]
  have o': "map fst (y_items (writeSchemas ?ctx)) = map y_key ?ks"
    using writeSchemas_order [of ?ctx] dis by (simp add: c)
  with sortItems_order [OF o'] s have "map fst (y_items schemas) = map y_key ?ks" by simp
  moreover have "sorted (map dot_split ?ks)"
    unfolding sorted_fqtns_iff sortTypes_def by (rule fqtn_order.array_sort_sorted)
  ultimately show ?thesis using js distinct_sortTypes [OF dis] by (metis set_sortTypes)
qed

section \<open>An example\<close>

text \<open>A request and the two standard answers, all in the union of messages.\<close>

definition api_host :: Host where
  "api_host =
     (let tab = (\<lambda>n t. AstTable False n None [\<lparr>af_name = ''value'', af_type = t, af_default = None, af_metadata = None\<rparr>]);
          val = (\<lambda>n. \<lparr>ev_id = n, ev_value = None, ev_metadata = None\<rparr>)
      in \<lparr>host_files = [(''root'', ''R'')], path_resolve = (\<lambda>d f. f), path_relative = (\<lambda>d f. f),
          parse_fbs = (\<lambda>s. Some
            [AstNamespace ''motis'', tab ''Place'' (AstBasic StringType), tab ''Request'' (AstCustom ''Place''),
             tab ''MotisSuccess'' (AstBasic BoolType), tab ''MotisError'' (AstBasic StringType),
             AstUnion ''Content'' None [val ''Request'', val ''MotisSuccess'', val ''MotisError''],
             tab ''Message'' (AstCustom ''Content''), AstRootType ''Message''])\<rparr>)"

definition api_schema :: SchemaTypes where
  "api_schema = (case resolveSchemaTypes api_host ''/'' ''root'' of Inr S \<Rightarrow> S | Inl _ \<Rightarrow> \<lparr>types = [], rootType = None\<rparr>)"

definition api_doc :: Documentation where
  "api_doc = \<lparr>doc_types = [(''motis.Place'', \<lparr>dt_fqtn = ''motis.Place'', dt_description = Some ''A place'', dt_examples = [],
        dt_tags = [], dt_fields = None\<rparr>)],
     doc_paths = [raw_path ''/find'' (JObj [(''input'', JStr ''motis.Request'')])], doc_tags = []\<rparr>"

definition api_config :: jsval where
  "api_config = JObj [(''file'', JStr ''api.yaml''), (''base-uri'', JStr ''http://x/''), (''info'', JObj []), (''version'', JStr ''3.1.0'')]"

definition api_openapi_host :: OpenApiHost where
  "api_openapi_host = \<lparr>oa_newURL = (\<lambda>s. \<lparr>url_origin = s, url_pathname = ''/'', url_rest = []\<rparr>),
     oa_resolve = join ''/'', key_nodes = False\<rparr>"

abbreviation api_all :: TypeFilter where
  "api_all \<equiv> \<lparr>tf_includes = [], tf_excludes = []\<rparr>"

lemma api_run:
  obtains yd paths schemas where "writeOpenAPIOutput api_openapi_host api_schema api_all api_doc ''out'' api_config = Inr (''out/api.yaml'', yd)"
    and "document_parts yd paths schemas"
    and "''#/components/schemas/motis.RequestT'' \<in> set (yaml_refs paths)"
    and "y_has ''motis.Place'' schemas"
proof -
  have "case writeOpenAPIOutput api_openapi_host api_schema api_all api_doc ''out'' api_config of Inl _ \<Rightarrow> False
    | Inr (f, yd) \<Rightarrow> f = ''out/api.yaml'' \<and>
        (case (y_get ''paths'' yd, y_getIn [''components'', ''schemas''] yd) of
           (Some paths, Some schemas) \<Rightarrow>
             ''#/components/schemas/motis.RequestT'' \<in> set (yaml_refs paths) \<and> y_has ''motis.Place'' schemas
         | _ \<Rightarrow> False)" by code_simp
  then obtain yd paths schemas where
    "writeOpenAPIOutput api_openapi_host api_schema api_all api_doc ''out'' api_config = Inr (''out/api.yaml'', yd)"
    "y_get ''paths'' yd = Some paths" "y_getIn [''components'', ''schemas''] yd = Some schemas"
    "''#/components/schemas/motis.RequestT'' \<in> set (yaml_refs paths)" "y_has ''motis.Place'' schemas"
    by (auto simp del: y_getIn.simps split: sum.splits option.splits)
  with that show thesis by (simp only: document_parts_def)
qed


theorem openapi_components_ordered_witness:
  "\<exists>yd paths schemas ks. writeOpenAPIOutput api_openapi_host api_schema api_all api_doc ''out'' api_config = Inr (''out/api.yaml'', yd) \<and>
     document_parts yd paths schemas \<and> map fst (y_items schemas) = map y_key ks \<and> sorted (map dot_split ks) \<and> ks \<noteq> []"
proof -
  obtain yd paths schemas where r: "writeOpenAPIOutput api_openapi_host api_schema api_all api_doc ''out'' api_config = Inr (''out/api.yaml'', yd)"
    and p: "document_parts yd paths schemas" and u: "y_has ''motis.Place'' schemas"
    by (rule api_run)
  obtain ks where ks: "map fst (y_items schemas) = map y_key ks" "sorted (map dot_split ks)"
    using openapi_components_ordered [OF r p] by blast
  moreover have "ks \<noteq> []" using ks(1) u by (auto simp: y_has_iff)
  ultimately show ?thesis using r p by blast
qed

end
