(* ===== verification/Json_Schema_Types.thy ===== *)
theory Json_Schema_Types
  imports Json_Schema_Properties
begin

text \<open>
  The types of the JSON Schema output
  (\<^verbatim>\<open>tools/protocol/src/output/json-schema/types.ts\<close>) and the proof that what
  the conversion builds and writes has them. The declarations are terms of the part of the
  TypeScript type language they use, \<open>has_type\<close> decides whether a value has a type, and the
  members of an interface are typed one by one, so that an unknown member or one of a wrong
  type is an error, as it is for an object literal.
\<close>

section \<open>The declarations\<close>

datatype ts_type =
    TString
  | TNumber
  | TBoolean
  | TNull
  | TLit string
  | TUnion "ts_type list"
  | TArray ts_type
  | TRecord ts_type \<comment> \<open>\<^verbatim>\<open>Record\<close> and the index signature of strings\<close>
  | TNamed string

record ts_member =
  tm_type :: ts_type
  tm_optional :: bool

abbreviation opt_member :: "string \<Rightarrow> ts_type \<Rightarrow> string \<times> ts_member" where
  "opt_member n t \<equiv> (n, \<lparr>tm_type = t, tm_optional = True\<rparr>)"

abbreviation req_member :: "string \<Rightarrow> ts_type \<Rightarrow> string \<times> ts_member" where
  "req_member n t \<equiv> (n, \<lparr>tm_type = t, tm_optional = False\<rparr>)"

definition JSONSchemaType :: ts_type where
  "JSONSchemaType = TUnion
     [TLit ''null'', TLit ''boolean'', TLit ''object'', TLit ''array'', TLit ''number'', TLit ''string'', TLit ''integer'']"

definition JSONLiteral :: ts_type where
  "JSONLiteral = TUnion [TString, TNumber, TBoolean, TNull]"

definition JSONValue :: ts_type where
  "JSONValue = TUnion [JSONLiteral, TArray (TNamed ''JSONValue''), TRecord (TNamed ''JSONValue'')]"

definition JSONDiscriminator :: "(string \<times> ts_member) list" where
  "JSONDiscriminator = [req_member ''propertyName'' TString, req_member ''mapping'' (TRecord TString)]"

definition JSONSchema :: "(string \<times> ts_member) list" where
  "JSONSchema =
     [opt_member ''$schema'' TString,
      opt_member ''$id'' TString,
      opt_member ''$comment'' TString,
      opt_member ''$ref'' TString,
      opt_member ''$defs'' (TRecord (TNamed ''JSONSchema'')),
      opt_member ''type'' (TUnion [JSONSchemaType, TArray JSONSchemaType]),
      opt_member ''properties'' (TRecord (TNamed ''JSONSchema'')),
      opt_member ''required'' (TArray TString),
      opt_member ''additionalProperties'' (TUnion [TBoolean, TNamed ''JSONSchema'']),
      opt_member ''items'' (TNamed ''JSONSchema''),
      opt_member ''enum'' (TArray JSONLiteral),
      opt_member ''allOf'' (TArray (TNamed ''JSONSchema'')),
      opt_member ''anyOf'' (TArray (TNamed ''JSONSchema'')),
      opt_member ''oneOf'' (TArray (TNamed ''JSONSchema'')),
      opt_member ''not'' (TNamed ''JSONSchema''),
      opt_member ''if'' (TNamed ''JSONSchema''),
      opt_member ''then'' (TNamed ''JSONSchema''),
      opt_member ''else'' (TNamed ''JSONSchema''),
      opt_member ''const'' JSONLiteral,
      opt_member ''format'' TString,
      opt_member ''minimum'' TNumber,
      opt_member ''maximum'' TNumber,
      opt_member ''title'' TString,
      opt_member ''description'' TString,
      opt_member ''default'' (TNamed ''JSONValue''),
      opt_member ''examples'' (TArray (TNamed ''JSONValue'')),
      opt_member ''readOnly'' TBoolean,
      opt_member ''writeOnly'' TBoolean,
      opt_member ''deprecated'' TBoolean,
      opt_member ''discriminator'' (TNamed ''JSONDiscriminator'')]"

definition alias_of :: "string \<Rightarrow> ts_type option" where
  "alias_of n = (if n = ''JSONValue'' then Some JSONValue else None)"

definition interface_members :: "string \<Rightarrow> (string \<times> ts_member) list option" where
  "interface_members n =
     (if n = ''JSONSchema'' then Some JSONSchema
      else if n = ''JSONDiscriminator'' then Some JSONDiscriminator else None)"

section \<open>Typing\<close>

text \<open>
  A name is unfolded to its declaration, which is smaller than a name counts until the next array
  or record, where the value shrinks.
\<close>

fun ts_weight :: "ts_type \<Rightarrow> nat" where
  "ts_weight (TUnion ts) = Suc (sum_list (map ts_weight ts))"
| "ts_weight (TNamed n) = 20"
| "ts_weight _ = 1"

lemma ts_weight_union: "t \<in> set ts \<Longrightarrow> ts_weight t < Suc (sum_list (map ts_weight ts))"
  by (simp add: le_imp_less_Suc member_le_sum_list)

lemma ts_weight_alias: "alias_of n = Some t \<Longrightarrow> ts_weight t < 20"
  by (auto simp: alias_of_def JSONValue_def JSONLiteral_def split: if_splits)

function has_type :: "ts_type \<Rightarrow> jsval \<Rightarrow> bool" where
  "has_type TString v = (case v of JStr s \<Rightarrow> True | _ \<Rightarrow> False)"
| "has_type TNumber v = (case v of JNum x \<Rightarrow> True | _ \<Rightarrow> False)"
| "has_type TBoolean v = (case v of JBool b \<Rightarrow> True | _ \<Rightarrow> False)"
| "has_type TNull v = (v = JNull)"
| "has_type (TLit s) v = (v = JStr s)"
| "has_type (TUnion ts) v = list_ex (\<lambda>t. has_type t v) ts"
| "has_type (TArray t) v = (case v of JArr xs \<Rightarrow> list_all (has_type t) xs | _ \<Rightarrow> False)"
| "has_type (TRecord t) v =
     (case v of JObj ps \<Rightarrow> distinct (map_keys ps) \<and> list_all (\<lambda>(k, x). has_type t x) ps | _ \<Rightarrow> False)"
| "has_type (TNamed n) v =
     (case alias_of n of
        Some t \<Rightarrow> has_type t v
      | None \<Rightarrow>
          (case interface_members n of
             None \<Rightarrow> False
           | Some ms \<Rightarrow>
               (case v of
                  JObj ps \<Rightarrow>
                    distinct (map_keys ps) \<and>
                    list_all (\<lambda>(m, d). tm_optional d \<or> map_has ps m) ms \<and>
                    list_all (\<lambda>(k, x). case map_get ms k of None \<Rightarrow> False | Some d \<Rightarrow> has_type (tm_type d) x) ps
                | _ \<Rightarrow> False)))"
  by pat_completeness auto
termination
  by (relation "measures [\<lambda>(t, v). size v, \<lambda>(t, v). ts_weight t]")
    (auto dest: size_jarr size_jobj ts_weight_union ts_weight_alias)

declare has_type.simps(9) [simp del]

abbreviation is_schema :: "jsval \<Rightarrow> bool" where
  "is_schema \<equiv> has_type (TNamed ''JSONSchema'')"

text \<open>A member may be set to a value of its type, and a schema stays one.\<close>

definition schema_member :: "string \<Rightarrow> ts_type option" where
  "schema_member k = map_option tm_type (map_get JSONSchema k)"

lemma is_schema_iff:
  "is_schema v \<longleftrightarrow>
     (\<exists>ps. v = JObj ps \<and> distinct (map_keys ps) \<and>
       (\<forall>k x. (k, x) \<in> set ps \<longrightarrow> (\<exists>t. schema_member k = Some t \<and> has_type t x)))"
proof -
  have opt: "list_all (\<lambda>(m, d). tm_optional d \<or> map_has ps m) JSONSchema" for ps :: "(string, jsval) jsmap"
    by (simp add: JSONSchema_def)
  show ?thesis
    by (cases v; simp add: has_type.simps(9) alias_of_def interface_members_def opt schema_member_def)
      (fastforce simp: list_all_iff split: option.splits)
qed

lemma schema_members [simp]:
  "schema_member ''$schema'' = Some TString"
  "schema_member ''$id'' = Some TString"
  "schema_member ''$ref'' = Some TString"
  "schema_member ''$defs'' = Some (TRecord (TNamed ''JSONSchema''))"
  "schema_member ''type'' = Some (TUnion [JSONSchemaType, TArray JSONSchemaType])"
  "schema_member ''properties'' = Some (TRecord (TNamed ''JSONSchema''))"
  "schema_member ''required'' = Some (TArray TString)"
  "schema_member ''additionalProperties'' = Some (TUnion [TBoolean, TNamed ''JSONSchema''])"
  "schema_member ''items'' = Some (TNamed ''JSONSchema'')"
  "schema_member ''enum'' = Some (TArray JSONLiteral)"
  "schema_member ''allOf'' = Some (TArray (TNamed ''JSONSchema''))"
  "schema_member ''anyOf'' = Some (TArray (TNamed ''JSONSchema''))"
  "schema_member ''oneOf'' = Some (TArray (TNamed ''JSONSchema''))"
  "schema_member ''if'' = Some (TNamed ''JSONSchema'')"
  "schema_member ''then'' = Some (TNamed ''JSONSchema'')"
  "schema_member ''const'' = Some JSONLiteral"
  "schema_member ''format'' = Some TString"
  "schema_member ''minimum'' = Some TNumber"
  "schema_member ''maximum'' = Some TNumber"
  "schema_member ''discriminator'' = Some (TNamed ''JSONDiscriminator'')"
  by (simp_all add: schema_member_def JSONSchema_def)

lemma is_schema_empty [simp]: "is_schema (JObj [])"
  by (simp add: is_schema_iff)

lemma is_schema_cons [simp]:
  "is_schema (JObj ((k, x) # ps)) \<longleftrightarrow>
     k \<notin> set (map_keys ps) \<and> (\<exists>t. schema_member k = Some t \<and> has_type t x) \<and> is_schema (JObj ps)"
  by (auto simp: is_schema_iff)

lemma set_map_set: "p \<in> set (map_set k v m) \<Longrightarrow> p = (k, v) \<or> p \<in> set m"
  by (induction m) (auto split: if_splits)

lemma is_schema_set [intro]:
  "is_schema js \<Longrightarrow> schema_member k = Some t \<Longrightarrow> has_type t x \<Longrightarrow> is_schema (obj_set k x js)"
  by (fastforce simp: is_schema_iff dest: set_map_set)

definition schema_record :: "(string, jsval) jsmap \<Rightarrow> bool" where
  "schema_record m = (distinct (map_keys m) \<and> (\<forall>k x. (k, x) \<in> set m \<longrightarrow> is_schema x))"

lemma has_type_schema_record: "has_type (TRecord (TNamed ''JSONSchema'')) (JObj m) = schema_record m"
  by (auto simp: schema_record_def list_all_iff)

lemma schema_record_empty [simp]: "schema_record []"
  by (simp add: schema_record_def)

lemma schema_record_set [simp]: "schema_record m \<Longrightarrow> is_schema x \<Longrightarrow> schema_record (map_set k x m)"
  by (auto simp: schema_record_def dest: set_map_set)

definition string_record :: "(string, jsval) jsmap \<Rightarrow> bool" where
  "string_record m = has_type (TRecord TString) (JObj m)"

lemma string_record_empty [simp]: "string_record []"
  by (simp add: string_record_def)

lemma string_record_set [simp]: "string_record m \<Longrightarrow> string_record (map_set k (JStr s) m)"
  by (fastforce simp: string_record_def list_all_iff dest: set_map_set)

lemma is_discriminator:
  "has_type (TNamed ''JSONDiscriminator'') (JObj [(''propertyName'', JStr s), (''mapping'', JObj m)]) =
     string_record m"
  by (simp add: has_type.simps(9) alias_of_def interface_members_def JSONDiscriminator_def map_has_def string_record_def)

lemma has_type_literal [simp]: "has_type JSONLiteral (JStr s)"
  by (simp add: JSONLiteral_def)

lemma has_type_type [simp]:
  "has_type JSONSchemaType (JStr s) \<longleftrightarrow>
     s \<in> {''null'', ''boolean'', ''object'', ''array'', ''number'', ''string'', ''integer''}"
  by (auto simp: JSONSchemaType_def)

lemma list_all_strs [simp]: "list_all (has_type TString) (map JStr xs)"
  by (simp add: list_all_iff)

lemma is_schema_sets [simp]:
  assumes "is_schema js"
  shows "s \<in> {''null'', ''boolean'', ''object'', ''array'', ''number'', ''string'', ''integer''} \<Longrightarrow>
      is_schema (obj_set ''type'' (JStr s) js)"
    and "schema_record m \<Longrightarrow> is_schema (obj_set ''properties'' (JObj m) js)"
    and "list_all is_schema xs \<Longrightarrow> is_schema (obj_set ''allOf'' (JArr xs) js)"
    and "list_all is_schema xs \<Longrightarrow> is_schema (obj_set ''anyOf'' (JArr xs) js)"
    and "list_all is_schema xs \<Longrightarrow> is_schema (obj_set ''oneOf'' (JArr xs) js)"
    and "is_schema (obj_set ''required'' (JArr (map JStr ns)) js)"
    and "is_schema (obj_set ''enum'' (JArr (map JStr ns)) js)"
    and "is_schema (obj_set ''additionalProperties'' (JBool b) js)"
    and "is_schema (obj_set ''$ref'' (JStr u) js)"
    and "string_record mp \<Longrightarrow>
      is_schema (obj_set ''discriminator'' (JObj [(''propertyName'', JStr p), (''mapping'', JObj mp)]) js)"
proof -
  note set = is_schema_set [OF assms]
  show "is_schema (obj_set ''type'' (JStr s) js)"
    if "s \<in> {''null'', ''boolean'', ''object'', ''array'', ''number'', ''string'', ''integer''}"
  proof -
    have "has_type JSONSchemaType (JStr s)" using that by simp
    then show ?thesis by (intro set [OF schema_members(5)]) simp
  qed
  show "is_schema (obj_set ''properties'' (JObj m) js)" if "schema_record m"
    using that by (intro set [OF schema_members(6)]) (simp only: has_type_schema_record)
  show "is_schema (obj_set ''allOf'' (JArr xs) js)" "is_schema (obj_set ''anyOf'' (JArr xs) js)"
    "is_schema (obj_set ''oneOf'' (JArr xs) js)" if "list_all is_schema xs"
    using that by (auto intro!: set)
  show "is_schema (obj_set ''discriminator'' (JObj [(''propertyName'', JStr p), (''mapping'', JObj mp)]) js)"
    if "string_record mp"
    using that by (intro set [OF schema_members(20)]) (simp only: is_discriminator)
qed (auto intro!: is_schema_set [OF assms] simp: list_all_iff)

section \<open>What the conversion builds\<close>

lemma js_ref_typed [simp]: "is_schema (js_ref u)"
  by (simp add: js_ref_def)

lemma const_typed [simp]: "is_schema (getConstString ctx v)"
  by (simp add: getConstString_def)

lemma basic_typed [simp]: "is_schema (basicTypeToJS ctx b)"
  by (cases b) (simp_all add: basicTypeToJS_def Let_def)

lemma field_typed [simp]: "is_schema (fieldTypeToJS ctx t)"
  by (induction t) simp_all

lemma unionCase_typed [simp]: "is_schema (unionCase ctx f t r)"
  by (simp add: unionCase_def)

definition acc_typed :: "TableAcc \<Rightarrow> bool" where
  "acc_typed a = (schema_record (acc_props a) \<and> list_all is_schema (acc_unionCases a))"

lemma acc_typed_steps [simp]:
  "acc_typed (add_required n a) = acc_typed a"
  "acc_typed a \<Longrightarrow> is_schema v \<Longrightarrow> acc_typed (add_prop n v a)"
  "acc_typed a \<Longrightarrow> is_schema v \<Longrightarrow> acc_typed (add_case v a)"
  by (auto simp: acc_typed_def add_required_def add_prop_def add_case_def)

lemma plainField_typed [simp]: "acc_typed a \<Longrightarrow> acc_typed (plainField ctx f a)"
  by (simp add: plainField_def Let_def)

lemma unionCases_typed [simp]: "acc_typed a \<Longrightarrow> acc_typed (fold (unionCaseStep ctx n tag) vs a)"
  by (induction vs arbitrary: a) (simp_all add: unionCaseStep_def)

lemma untypedUnion_typed [simp]: "acc_typed a \<Longrightarrow> acc_typed (untypedUnionField ctx f r u a)"
  by (simp add: untypedUnionField_def Let_def)

lemma tableFieldStep_types: "acc_typed a \<Longrightarrow> tableFieldStep ctx t a f = Inr a' \<Longrightarrow> acc_typed a'"
  by (auto simp: tableFieldStep_def split: FieldType.splits option.splits SchemaType.splits if_splits)

lemma finishTable_typed: "is_schema js \<Longrightarrow> acc_typed a \<Longrightarrow> is_schema (finishTable ctx js a)"
  by (simp add: finishTable_def acc_typed_def Let_def)

lemma addTableProperties_typed:
  assumes "addTableProperties ctx t js tagged = Inr js'" and "is_schema js"
  shows "is_schema js'"
proof -
  obtain a where a: "foldE (tableFieldStep ctx t) (startTable ctx t tagged) (tbl_fields t) = Inr a"
    "js' = finishTable ctx js a"
    using assms(1) by (auto simp: addTableProperties_def bindE_Inr_iff)
  have "acc_typed (startTable ctx t tagged)" by (auto simp: acc_typed_def startTable_def schema_record_def)
  then have "acc_typed a" by (rule foldE_inv [OF a(1)]) (rule tableFieldStep_types)
  with assms(2) show ?thesis by (simp add: a(2) finishTable_typed)
qed

text \<open>The types collected so far, and the object they are copied to.\<close>

lemma set_js_typed [simp]:
  "schema_record (jsonSchema c) \<Longrightarrow> is_schema v \<Longrightarrow> schema_record (jsonSchema (set_js k v c))"
  by (simp add: set_js_def)

lemma base_typed [simp]: "is_schema (getBaseJSProps ctx ns n)" "is_schema (getTaggedBaseJSProps ctx ns n)"
  by (simp_all add: getBaseJSProps_def getTaggedBaseJSProps_def)

lemma mapping_typed [simp]:
  "string_record m \<Longrightarrow> string_record (fold (\<lambda>r. map_set (f r) (JStr (g r))) rs m)"
  by (induction rs arbitrary: m) simp_all

lemma refs_typed [simp]: "list_all is_schema (map (\<lambda>r. js_ref (f r)) rs)"
  by (simp add: list_all_iff)

lemma union_typed: "schema_record (jsonSchema c) \<Longrightarrow> schema_record (jsonSchema (convertUnion c fqtn u))"
  unfolding convertUnion_def Let_def
  by (simp add: list_all_iff)

lemma table_typed:
  assumes "convertTable c fqtn t = Inr c'" and "schema_record (jsonSchema c)"
  shows "schema_record (jsonSchema c')"
proof -
  have upd: "jsonSchema (c\<lparr>taggedToUntaggedType := m, untaggedToTaggedType := n\<rparr>) = jsonSchema c" for c m n
    by simp
  show ?thesis
    using assms addTableProperties_typed
    by (fastforce simp: convertTable_def Let_def bindE_Inr_iff upd split: if_splits)
qed

lemma convert_typed:
  assumes "convertSchemaType c fqtn t = Inr c'" and "schema_record (jsonSchema c)"
  shows "schema_record (jsonSchema c')"
  using assms table_typed
  by (auto simp: convertSchemaType_def union_typed split: SchemaType.splits simp flip: map_map)

lemma getJSONSchemaTypes_typed:
  assumes "getJSONSchemaTypes ctx = Inr out" and "schema_record (jsonSchema ctx)"
  shows "schema_record (jst_types out)"
proof -
  obtain c where c: "foldE schemaTypeStep ctx (types (js_schema ctx)) = Inr c" "jst_types out = bundleDefs c"
    using assms(1) by (auto simp: getJSONSchemaTypes_def bindE_Inr_iff)
  have "schema_record (jsonSchema c)"
    by (rule foldE_inv [where P = "\<lambda>c. schema_record (jsonSchema c)", OF c(1) assms(2)]) (auto simp: schemaTypeStep_def convert_typed split: if_splits)
  moreover have "\<forall>k x. (k, x) \<in> set xs \<longrightarrow> is_schema x \<Longrightarrow> schema_record m \<Longrightarrow>
      schema_record (fold (\<lambda>(k, v). map_set k v) xs m)" for xs m
    by (induction xs arbitrary: m) auto
  ultimately show ?thesis by (simp add: c(2) bundleDefs_def schema_record_def [of "jsonSchema c"])
qed

section \<open>What is written\<close>

lemma spread_typed:
  assumes "is_schema v" and "is_schema js"
  shows "is_schema (spread js v)"
proof -
  have "is_schema (fold (\<lambda>(k, v). obj_set k v) ps js)"
    if "\<And>k x. (k, x) \<in> set ps \<Longrightarrow> \<exists>t. schema_member k = Some t \<and> has_type t x" for ps
    using that assms(2)
  proof (induction ps arbitrary: js)
    case (Cons p ps)
    obtain k x where p: "p = (k, x)" by force
    obtain t where "schema_member k = Some t" "has_type t x" using Cons.prems(1) [of k x] p by auto
    then have "is_schema (obj_set k x js)" by (rule is_schema_set [OF Cons.prems(2)])
    then have "is_schema (fold (\<lambda>(k, v). obj_set k v) ps (obj_set k x js))"
      using Cons.IH Cons.prems(1) by (meson list.set_intros(2))
    then show ?case by (simp add: p)
  qed simp
  with assms(1) show ?thesis by (auto simp: is_schema_iff [of v])
qed

lemma context_empty: "jsonSchema (createJSContext sch flt bu refFn si nf su tu di ce ap tg key) = []"
  by (simp add: createJSContext_def)

lemma bundle_typed:
  assumes "schema_record defs"
  shows "is_schema (bundleFile ctx defs)"
proof -
  have "is_schema (JObj [(''$schema'', JStr JSON_SCHEMA_URL), (''$defs'', JObj defs)])"
    using assms has_type_schema_record by (simp del: has_type.simps(8))
  then show ?thesis by (simp add: bundleFile_def Let_def split: option.splits)
qed

text \<open>C10: every file the JSON Schema output writes, one per type or the bundle, is a value of the
  interface \<^verbatim>\<open>JSONSchema\<close>: only its members occur at any depth, each with a value of
  its declared type, and no key twice.\<close>

theorem written_schemas_typed:
  assumes "writeJsonSchemaOutput newURL resolvePath toStr schema flt baseDir config = Inr files"
    and "(f, v) \<in> set files"
  shows "has_type (TNamed ''JSONSchema'') v"
proof -
  obtain base where base: "obj_get config ''base-uri'' = JStr base"
    using assms(1) unfolding writeJsonSchemaOutput_def Let_def by (cases "obj_get config ''base-uri''") simp_all
  obtain ctx out dir bd where out: "getJSONSchemaTypes ctx = Inr out" "jsonSchema ctx = []"
    "files = (case dir of None \<Rightarrow> [] | Some d \<Rightarrow> map (typeFile resolvePath d) (jst_types out)) @
       (case bd of None \<Rightarrow> [] | Some b \<Rightarrow> [(b, bundleFile ctx (jst_types out))])"
    using assms(1) base that [OF _ context_empty] unfolding writeJsonSchemaOutput_def Let_def
    by (auto simp: bindE_Inr_iff split: if_splits)
  have rec: "schema_record (jst_types out)" using out by (simp add: getJSONSchemaTypes_typed)
  have "is_schema (spread (JObj [(''$schema'', JStr JSON_SCHEMA_URL)]) x)" if "(k, x) \<in> set (jst_types out)" for k x
    using rec that by (intro spread_typed) (auto simp: schema_record_def)
  then show ?thesis
    using assms(2) rec bundle_typed by (fastforce simp: out(3) typeFile_def split: option.splits)
qed

definition demo_write :: "js_error + (string \<times> jsval) list" where
  "demo_write = writeJsonSchemaOutput (\<lambda>s. \<lparr>url_origin = s, url_pathname = ''/'', url_rest = []\<rparr>) (join ''/'') (\<lambda>v. [])
     (js_schema demo_js) \<lparr>tf_includes = [], tf_excludes = []\<rparr> ''/p''
     (JObj [(''base-uri'', JStr ''http://x''), (''dir'', JStr ''out'')])"

theorem written_schemas_typed_witness:
  "\<exists>files v. demo_write = Inr files \<and> (''/p/out/motis/lookup/Msg.schema.json'', v) \<in> set files \<and>
     has_type (TNamed ''JSONSchema'') v \<and> \<not> has_type (TNamed ''JSONSchema'') (obj_set ''items'' (JArr []) v)"
proof -
  let ?f = "''/p/out/motis/lookup/Msg.schema.json''"
  have "case demo_write of Inl _ \<Rightarrow> False
    | Inr files \<Rightarrow> map_get files ?f =
       Some (JObj [(''$schema'', JStr JSON_SCHEMA_URL), (''$id'', JStr ''http://x/motis/lookup/Msg''),
                   (''oneOf'', JArr [JObj [(''$ref'', JStr ''/motis/lookup/RequestT'')]])])" by code_simp
  then obtain files v where w: "demo_write = Inr files" "map_get files ?f = Some v"
    "v = JObj [(''$schema'', JStr JSON_SCHEMA_URL), (''$id'', JStr ''http://x/motis/lookup/Msg''),
               (''oneOf'', JArr [JObj [(''$ref'', JStr ''/motis/lookup/RequestT'')]])]"
    by (auto split: sum.splits)
  have "\<not> has_type (TNamed ''JSONSchema'') (obj_set ''items'' (JArr []) v)"
    unfolding w(3) by code_simp
  then show ?thesis
    using written_schemas_typed [OF w(1) [unfolded demo_write_def] map_get_mem [OF w(2)]] w(1) map_get_mem [OF w(2)] by blast
qed

end
