(* ===== verification/Protocol_Tool.thy ===== *)
theory Protocol_Tool
  imports Openapi_Properties Markdown_Output Typescript_Output Json_Schema_Types
begin

text \<open>
  The command line of the protocol tool (\<^verbatim>\<open>tools/protocol/src/main.ts\<close>): it reads the
  configuration, resolves the schema, brings the documentation up to date and writes the outputs, each
  in a \<^verbatim>\<open>try\<close> of its own.

  The file system is a table of contents. Node's \<^verbatim>\<open>path\<close> and \<^verbatim>\<open>URL\<close>,
  the printers and the parsers of YAML and of FlatBuffers schemas are parameters, and so is the parsed
  command line. An exception that leaves \<^verbatim>\<open>main\<close> is \<open>Uncaught\<close>. What an
  output that threw had written before is left out.
\<close>

section \<open>The surroundings of a run\<close>

record ToolHost =
  th_files :: "(string, string) jsmap"
  th_cwd :: string
  th_resolve :: "string list \<Rightarrow> string"
  th_relative :: "string \<Rightarrow> string \<Rightarrow> string"
  th_dirname :: "string \<Rightarrow> string"
  th_parse_fbs :: "string \<Rightarrow> AstTopLevel list option"
  th_parseDocument :: "string \<Rightarrow> YamlDoc"
  th_yaml_text :: "yaml \<Rightarrow> string"
  th_parse_yaml :: "string \<Rightarrow> jsval option"
  th_index_text :: "nat \<Rightarrow> string"
  th_newURL :: "string \<Rightarrow> URL"
  th_key_nodes :: bool
  th_number :: "jsnum \<Rightarrow> string"
  th_prettier :: "string \<Rightarrow> string"
  th_toStr :: "jsval \<Rightarrow> string"
  th_stringify :: "jsval \<Rightarrow> string"

definition schema_host :: "ToolHost \<Rightarrow> Host" where
  "schema_host H = \<lparr>host_files = th_files H, path_resolve = (\<lambda>a b. th_resolve H [a, b]),
     path_relative = th_relative H, parse_fbs = th_parse_fbs H\<rparr>"

definition doc_host :: "ToolHost \<Rightarrow> DocHost" where
  "doc_host H = \<lparr>doc_files = th_files H, doc_resolve = th_resolve H, parseDocument = th_parseDocument H,
     yaml_text = th_yaml_text H, parse_yaml = th_parse_yaml H, index_text = th_index_text H\<rparr>"

definition ts_host :: "ToolHost \<Rightarrow> TSHost" where
  "ts_host H = \<lparr>ts_resolve = th_resolve H, ts_relative = th_relative H, ts_dirname = th_dirname H,
     ts_number = th_number H, prettier_format = th_prettier H\<rparr>"

definition openapi_host :: "ToolHost \<Rightarrow> OpenApiHost" where
  "openapi_host H = \<lparr>oa_newURL = th_newURL H, oa_resolve = th_resolve H, key_nodes = th_key_nodes H\<rparr>"

section \<open>Outputs\<close>

datatype output_error =
    OutFilter filter_error
  | OutTypeScript ts_error
  | OutJsonSchema js_error
  | OutOpenApi openapi_error
  | OutMarkdown md_error
  | OutTypeError

datatype output_result =
    Written "(string \<times> string) list"
  | UnknownFormat jsval
  | Caught output_error

fun caught :: "('e \<Rightarrow> output_error) \<Rightarrow> ('a \<Rightarrow> (string \<times> string) list) \<Rightarrow> 'e + 'a \<Rightarrow> output_result" where
  "caught err out (Inl e) = Caught (err e)"
| "caught err out (Inr x) = Written (out x)"

definition writeFormat :: "ToolHost \<Rightarrow> SchemaTypes \<Rightarrow> TypeFilter \<Rightarrow> Documentation \<Rightarrow> string \<Rightarrow> jsval \<Rightarrow> output_result" where
  "writeFormat H schema flt doc baseDir output =
     (let format = obj_get output ''format'' in
      if format = JStr ''typescript'' then
        caught OutTypeScript id (writeTypeScriptOutput (ts_host H) schema flt baseDir output)
      else if format = JStr ''json-schema'' then
        caught OutJsonSchema (map (\<lambda>(f, js). (f, th_stringify H js)))
          (writeJsonSchemaOutput (th_newURL H) (th_resolve H) (th_toStr H) schema flt baseDir output)
      else if format = JStr ''openapi'' then
        caught OutOpenApi (\<lambda>(f, yd). [(f, th_yaml_text H yd)])
          (writeOpenAPIOutput (openapi_host H) schema flt doc baseDir output)
      else if format = JStr ''markdown'' then
        caught OutMarkdown id (writeMarkdownOutput (th_resolve H) schema flt doc baseDir output)
      else UnknownFormat format)"

text \<open>Reading \<^verbatim>\<open>output.format\<close> of undefined throws; of null the filter does already.\<close>

definition runOutput :: "ToolHost \<Rightarrow> SchemaTypes \<Rightarrow> Documentation \<Rightarrow> string \<Rightarrow> jsval \<Rightarrow> output_result" where
  "runOutput H schema doc baseDir output =
     (case parseTypeFilter output of
        Inl e \<Rightarrow> Caught (OutFilter e)
      | Inr flt \<Rightarrow>
          if output = JUndef then Caught OutTypeError
          else writeFormat H schema flt doc baseDir output)"

section \<open>The run\<close>

record ToolOptions =
  includeOutputs :: "string list option"
  skipOutputs :: "string list option"

definition selected :: "ToolOptions \<Rightarrow> string \<Rightarrow> bool" where
  "selected opts outputName =
     (\<not> ((case includeOutputs opts of None \<Rightarrow> False | Some ns \<Rightarrow> outputName \<notin> set ns) \<or>
        (case skipOutputs opts of None \<Rightarrow> False | Some ns \<Rightarrow> outputName \<in> set ns)))"

datatype tool_error =
    ConfigSyntax
  | ConfigTypeError
  | SchemaError resolver_error
  | DocError doc_error

record ToolRun =
  tr_doc :: "(string \<times> string) list"
  tr_outputs :: "(string \<times> output_result) list"

datatype tool_result =
    Exit nat
  | Uncaught tool_error
  | Finished ToolRun

definition valid_config :: "jsval \<Rightarrow> bool" where
  "valid_config config =
     (obj_has config ''input'' \<and> obj_has config ''output'' \<and> obj_has config ''doc'' \<and>
      is_str (obj_get config ''input'') \<and> object_like (obj_get config ''output'') \<and>
      object_like (obj_get config ''doc''))"

text \<open>The loop over the outputs. \<open>for_in\<close> lists the entries of anything \<open>object_like\<close>.\<close>

definition runOutputs :: "ToolHost \<Rightarrow> ToolOptions \<Rightarrow> SchemaTypes \<Rightarrow> Documentation \<Rightarrow> string \<Rightarrow> (string \<times> jsval) list \<Rightarrow>
    (string \<times> output_result) list" where
  "runOutputs H opts schema doc baseDir entries =
     map (\<lambda>(n, output). (n, runOutput H schema doc baseDir output)) (filter (\<lambda>(n, output). selected opts n) entries)"

definition config_entries :: "ToolHost \<Rightarrow> jsval \<Rightarrow> (string \<times> jsval) list" where
  "config_entries H v = (case for_in (doc_host H) v of None \<Rightarrow> [] | Some entries \<Rightarrow> entries)"

definition runConfig :: "ToolHost \<Rightarrow> ToolOptions \<Rightarrow> string \<Rightarrow> jsval \<Rightarrow> tool_result" where
  "runConfig H opts baseDir config =
     (let rootInputFile = th_resolve H [baseDir, as_string (th_toStr H) (obj_get config ''input'')]
      in case resolveSchemaTypes (schema_host H) (th_dirname H rootInputFile) rootInputFile of
           Inl e \<Rightarrow> Uncaught (SchemaError e)
         | Inr schema \<Rightarrow>
             if obj_get config ''doc'' = JNull then Uncaught ConfigTypeError
             else (case readAndUpdateDoc (doc_host H) schema baseDir (obj_get config ''doc'') of
                Inl e \<Rightarrow> Uncaught (DocError e)
              | Inr (doc, written) \<Rightarrow>
                  Finished \<lparr>tr_doc = written,
                    tr_outputs = runOutputs H opts schema doc baseDir (config_entries H (obj_get config ''output''))\<rparr>))"

definition tool_main :: "ToolHost \<Rightarrow> ToolOptions \<Rightarrow> string \<Rightarrow> tool_result" where
  "tool_main H opts configName =
     (let configFile = th_resolve H [th_cwd H, configName]
      in case map_get (th_files H) configFile of
           None \<Rightarrow> Exit 2
         | Some text \<Rightarrow>
             (case th_parse_yaml H text of
                None \<Rightarrow> Uncaught ConfigSyntax
              | Some config \<Rightarrow>
                  if \<not> object_valued config then Uncaught ConfigTypeError
                  else if \<not> valid_config config then Exit 3
                  else runConfig H opts (th_dirname H configFile) config))"

section \<open>Choosing outputs\<close>

text \<open>The options only choose among the outputs. A run with include and skip options fails exactly when
  the run without options does, in the same way, and otherwise writes the same documentation and has
  for each chosen output, in the same order, the same result: no output depends on another, not even on
  one that throws.\<close>

theorem tool_selection:
  "tool_main H opts configName =
     (case tool_main H \<lparr>includeOutputs = None, skipOutputs = None\<rparr> configName of
        Finished r \<Rightarrow> Finished (r\<lparr>tr_outputs := filter (\<lambda>(n, result).
            (case includeOutputs opts of None \<Rightarrow> True | Some ns \<Rightarrow> n \<in> set ns) \<and>
            (case skipOutputs opts of None \<Rightarrow> True | Some ns \<Rightarrow> n \<notin> set ns)) (tr_outputs r)\<rparr>)
      | failed \<Rightarrow> failed)"
proof -
  have all: "selected \<lparr>includeOutputs = None, skipOutputs = None\<rparr> = (\<lambda>n. True)" by (simp add: selected_def fun_eq_iff)
  have sel: "selected opts n \<longleftrightarrow> (case includeOutputs opts of None \<Rightarrow> True | Some ns \<Rightarrow> n \<in> set ns) \<and>
      (case skipOutputs opts of None \<Rightarrow> True | Some ns \<Rightarrow> n \<notin> set ns)" for n
    by (simp add: selected_def split: option.split)
  have "runOutputs H opts S doc d es = filter (\<lambda>(n, result).
            (case includeOutputs opts of None \<Rightarrow> True | Some ns \<Rightarrow> n \<in> set ns) \<and>
            (case skipOutputs opts of None \<Rightarrow> True | Some ns \<Rightarrow> n \<notin> set ns))
      (runOutputs H \<lparr>includeOutputs = None, skipOutputs = None\<rparr> S doc d es)" for S doc d es
    unfolding runOutputs_def all sel [symmetric] by (induction es) auto
  then show ?thesis
    by (simp add: tool_main_def runConfig_def Let_def split: option.splits sum.splits prod.splits)
qed

section \<open>Running the tool again\<close>

text \<open>The resolver on a file system with more files: what it parsed before is there as it was.\<close>

lemma foldE_mono:
  assumes "foldE f s xs = Inr t" and "\<And>s x t. f s x = Inr t \<Longrightarrow> g s x = Inr t"
  shows "foldE g s xs = Inr t"
  using assms(1)
proof (induction xs arbitrary: s)
  case (Cons x xs)
  then show ?case using assms(2) by (auto simp: bindE_Inr_iff)
qed simp

definition keeps_schemas :: "Host \<Rightarrow> Host \<Rightarrow> bool" where
  "keeps_schemas H H' \<longleftrightarrow>
     path_resolve H' = path_resolve H \<and> path_relative H' = path_relative H \<and> parse_fbs H' = parse_fbs H \<and>
     length (host_files H) \<le> length (host_files H') \<and>
     (\<forall>f fbs. map_get (host_files H) f = Some fbs \<longrightarrow> parse_fbs H fbs \<noteq> None \<longrightarrow> map_get (host_files H') f = Some fbs)"

lemma resolveFile_more:
  assumes "resolveFile n H ctx f = Inr c" and "keeps_schemas H H'" and "n \<le> m"
  shows "resolveFile m H' ctx f = Inr c"
  using assms(1,3)
proof (induction n arbitrary: m ctx f c)
  case (Suc n)
  obtain m' where m: "m = Suc m'" "n \<le> m'" using Suc.prems(2) by (cases m) auto
  have ext: "extractTypes H' = extractTypes H"
    using assms(2) by (intro ext) (simp add: extractTypes_def getRelativeFbsFile_def keeps_schemas_def)
  have inc: "includeStep H' (resolveFile m' H') s e = Inr t" if "includeStep H (resolveFile n H) s e = Inr t" for s e t
    using that Suc.IH [OF _ m(2)] assms(2) by (auto simp: includeStep_def keeps_schemas_def split: AstTopLevel.splits)
  show ?case
  proof (cases "f \<in> set (ctx_files ctx)")
    case False
    then obtain fbs ast s where f: "map_get (host_files H) f = Some fbs" "parse_fbs H fbs = Some ast"
      "foldE (includeStep H (resolveFile n H)) (ctx\<lparr>currentFile := f, ctx_files := ctx_files ctx @ [f]\<rparr>) ast = Inr s"
      "extractTypes H s f ast = Inr c"
      using Suc.prems(1) by (auto simp: bindE_Inr_iff split: option.splits)
    then have "map_get (host_files H') f = Some fbs" "parse_fbs H' fbs = Some ast"
      using assms(2) by (simp_all add: keeps_schemas_def)
    with False f(4) foldE_mono [OF f(3) inc] show ?thesis by (simp add: m(1) ext)
  qed (use Suc.prems(1) m(1) in simp)
qed simp

lemma resolveSchemaTypes_more:
  assumes "resolveSchemaTypes H d f = Inr S" and "keeps_schemas H H'"
  shows "resolveSchemaTypes H' d f = Inr S"
proof -
  have le: "Suc (length (host_files H)) \<le> Suc (length (host_files H'))"
    using assms(2) by (simp add: keeps_schemas_def)
  show ?thesis
    using assms(1) resolveFile_more [OF _ assms(2) le]
    unfolding resolveSchemaTypes_def Let_def by (auto simp: bindE_Inr_iff simp del: resolveFile.simps)
qed

text \<open>The files a run has written, and the file system after it.\<close>

fun written_files :: "output_result \<Rightarrow> (string \<times> string) list" where
  "written_files (Written fs) = fs"
| "written_files _ = []"

definition run_files :: "ToolRun \<Rightarrow> (string \<times> string) list" where
  "run_files r = tr_doc r @ concat (map (written_files \<circ> snd) (tr_outputs r))"

definition after_run :: "ToolHost \<Rightarrow> ToolRun \<Rightarrow> ToolHost" where
  "after_run H r = H\<lparr>th_files := fold (\<lambda>(f, text). map_set f text) (run_files r) (th_files H)\<rparr>"

definition config_file :: "ToolHost \<Rightarrow> string \<Rightarrow> string" where
  "config_file H configName = th_resolve H [th_cwd H, configName]"

text \<open>No input is overwritten: not the configuration, not a schema, not the files the documentation
  only reads.\<close>

definition no_schema :: "ToolHost \<Rightarrow> string \<Rightarrow> bool" where
  "no_schema H f = (case map_get (th_files H) f of None \<Rightarrow> True | Some fbs \<Rightarrow> th_parse_fbs H fbs = None)"

definition inputs_kept :: "ToolHost \<Rightarrow> string \<Rightarrow> ToolRun \<Rightarrow> bool" where
  "inputs_kept H configName r =
     (let configFile = config_file H configName; fs = map fst (run_files r) in
      configFile \<notin> set fs \<and> list_all (no_schema H) fs \<and>
      (case map_get (th_files H) configFile of
         None \<Rightarrow> True
       | Some text \<Rightarrow>
           (case th_parse_yaml H text of
              None \<Rightarrow> True
            | Some config \<Rightarrow> apart (doc_host H) (th_dirname H configFile) (obj_get config ''doc'') (run_files r))))"

lemma length_map_set: "length m \<le> length (map_set k v m)"
  by (induction m) auto

lemma length_after: "length m \<le> length (fold (\<lambda>(f, text). map_set f text) w m)"
proof (induction w arbitrary: m)
  case (Cons p w)
  show ?case using length_map_set [of m "fst p" "snd p"] Cons [of "map_set (fst p) (snd p) m"]
    by (simp add: case_prod_beta)
qed simp

lemma doc_host_after: "doc_host (after_run H r) = overwrite (run_files r) (doc_host H)"
  by (simp add: doc_host_def after_run_def overwrite_def)

lemma file_after: "f \<notin> set (map fst (run_files r)) \<Longrightarrow> map_get (th_files (after_run H r)) f = map_get (th_files H) f"
  using overwrite_other [of f "run_files r" "doc_host H"] by (simp add: doc_host_def after_run_def overwrite_def)

lemma after_run_fields [simp]:
  "th_cwd (after_run H r) = th_cwd H" "th_resolve (after_run H r) = th_resolve H"
  "th_dirname (after_run H r) = th_dirname H" "th_parse_yaml (after_run H r) = th_parse_yaml H"
  "th_toStr (after_run H r) = th_toStr H" "th_newURL (after_run H r) = th_newURL H"
  "th_stringify (after_run H r) = th_stringify H" "th_yaml_text (after_run H r) = th_yaml_text H"
  "ts_host (after_run H r) = ts_host H" "openapi_host (after_run H r) = openapi_host H"
  by (simp_all add: after_run_def ts_host_def openapi_host_def)

lemma schemas_after:
  assumes "list_all (no_schema H) (map fst (run_files r))"
  shows "keeps_schemas (schema_host H) (schema_host (after_run H r))"
proof -
  have "map_get (th_files (after_run H r)) f = Some fbs"
    if "map_get (th_files H) f = Some fbs" "th_parse_fbs H fbs \<noteq> None" for f fbs
    using that assms file_after [of f r H] by (fastforce simp: list_all_iff no_schema_def)
  then show ?thesis using length_after by (simp add: keeps_schemas_def schema_host_def after_run_def)
qed

lemma format_after: "writeFormat (after_run H r) = writeFormat H"
  by (intro ext) (simp add: writeFormat_def cong: if_cong)

lemma outputs_after [simp]: "runOutputs (after_run H r) = runOutputs H"
  by (intro ext) (simp add: runOutputs_def runOutput_def format_after cong: if_cong sum.case_cong)

lemma entries_after [simp]: "config_entries (after_run H r) = config_entries H"
  by (intro ext) (simp add: config_entries_def doc_host_after)


definition demo_tool_config :: jsval where
  "demo_tool_config = JObj
     [(''input'', JStr ''root''), (''doc'', demo_doc_config),
      (''output'', JObj
         [(''schema'', JObj [(''format'', JStr ''json-schema''), (''base-uri'', JStr ''http://x''), (''bundle'', JStr ''all.json'')]),
          (''pages'', JObj [(''format'', JStr ''markdown'')]),
          (''other'', JObj [(''format'', JStr ''xml'')])])]"

definition demo_tool :: "(yaml \<Rightarrow> string) \<Rightarrow> (string \<Rightarrow> YamlDoc) \<Rightarrow> ToolHost" where
  "demo_tool printer reader =
     \<lparr>th_files = (''config'', ''C'') # (''motis.yaml'', ''old'') # host_files demo_host, th_cwd = ''/'', th_resolve = last,
      th_relative = path_relative demo_host, th_dirname = (\<lambda>f. ''/''), th_parse_fbs = parse_fbs demo_host,
      th_parseDocument = parseDocument (demo_docs printer reader), th_yaml_text = printer,
      th_parse_yaml = (\<lambda>s. if s = ''C'' then Some demo_tool_config else None), th_index_text = (\<lambda>n. ''0''),
      th_newURL = (\<lambda>s. \<lparr>url_origin = s, url_pathname = ''/'', url_rest = []\<rparr>), th_key_nodes = False,
      th_number = (\<lambda>n. ''0''), th_prettier = id, th_toStr = (\<lambda>v. []), th_stringify = (\<lambda>v. ''json'')\<rparr>"

lemma demo_tool_schema: "resolveSchemaTypes (schema_host (demo_tool g reader)) ''/'' ''root'' = Inr demo_schema_types"
proof (rule resolveSchemaTypes_more)
  show "resolveSchemaTypes demo_host ''/'' ''root'' = Inr demo_schema_types"
    by (simp add: demo_schema_types_def demo_schema)
  show "keeps_schemas demo_host (schema_host (demo_tool g reader))"
    by (auto simp: keeps_schemas_def schema_host_def demo_tool_def demo_host_def)
qed

lemma demo_tool_doc:
  obtains doc w where "readAndUpdateDoc (doc_host (demo_tool g reader)) demo_schema_types ''/'' demo_doc_config = Inr (doc, w)"
    and "map fst w = [''motis.yaml'', ''lookup.yaml'']"
proof -
  have "case readAndUpdateDoc (doc_host (demo_tool g reader)) demo_schema_types ''/'' demo_doc_config of
      Inl _ \<Rightarrow> False | Inr (doc, w) \<Rightarrow> map fst w = [''motis.yaml'', ''lookup.yaml'']"
    by code_simp
  then show thesis using that by (auto split: sum.splits)
qed

lemma demo_tool_json:
  "map_sum id (map fst) (writeJsonSchemaOutput (\<lambda>s. \<lparr>url_origin = s, url_pathname = ''/'', url_rest = []\<rparr>) last (\<lambda>v. [])
     demo_schema_types \<lparr>tf_includes = [], tf_excludes = []\<rparr> ''/''
     (JObj [(''format'', JStr ''json-schema''), (''base-uri'', JStr ''http://x''), (''bundle'', JStr ''all.json'')])) =
   Inr [''all.json'']"
  by code_simp

lemma demo_tool_run:
  obtains r where "tool_main (demo_tool g reader) \<lparr>includeOutputs = None, skipOutputs = None\<rparr> ''config'' = Finished r"
    and "map fst (tr_doc r) = [''motis.yaml'', ''lookup.yaml'']"
    and "tr_outputs r = [(''schema'', Written [(''all.json'', ''json'')]),
           (''pages'', Caught (OutMarkdown MdMissingDir)), (''other'', UnknownFormat (JStr ''xml''))]"
proof -
  let ?H = "demo_tool g reader"
  let ?json = "JObj [(''format'', JStr ''json-schema''), (''base-uri'', JStr ''http://x''), (''bundle'', JStr ''all.json'')]"
  obtain doc w where d: "readAndUpdateDoc (doc_host ?H) demo_schema_types ''/'' demo_doc_config = Inr (doc, w)"
    and w: "map fst w = [''motis.yaml'', ''lookup.yaml'']" by (rule demo_tool_doc)
  have h: "th_newURL ?H = (\<lambda>s. \<lparr>url_origin = s, url_pathname = ''/'', url_rest = []\<rparr>)" "th_resolve ?H = last"
    "th_toStr ?H = (\<lambda>v. [])" "th_stringify ?H = (\<lambda>v. ''json'')" "th_dirname ?H = (\<lambda>f. ''/'')" "th_cwd ?H = ''/''"
    "map_get (th_files ?H) ''config'' = Some ''C''" "th_parse_yaml ?H ''C'' = Some demo_tool_config"
    by (simp_all add: demo_tool_def)
  obtain js where js: "writeJsonSchemaOutput (th_newURL ?H) last (th_toStr ?H)
     demo_schema_types \<lparr>tf_includes = [], tf_excludes = []\<rparr> ''/'' ?json = Inr [(''all.json'', js)]"
    using demo_tool_json unfolding h by (cases "writeJsonSchemaOutput (th_newURL ?H) last (th_toStr ?H)
     demo_schema_types \<lparr>tf_includes = [], tf_excludes = []\<rparr> ''/'' ?json") (auto simp: h)
  have "runOutput ?H demo_schema_types doc ''/'' ?json = Written [(''all.json'', ''json'')]"
    using js by (simp add: runOutput_def parseTypeFilter_def writeFormat_def h)
  moreover have "runOutput ?H demo_schema_types doc ''/'' (JObj [(''format'', JStr ''markdown'')]) = Caught (OutMarkdown MdMissingDir)"
    by (simp add: runOutput_def parseTypeFilter_def writeFormat_def writeMarkdownOutput_def)
  moreover have "runOutput ?H demo_schema_types doc ''/'' (JObj [(''format'', JStr ''xml'')]) = UnknownFormat (JStr ''xml'')"
    by (simp add: runOutput_def parseTypeFilter_def writeFormat_def)
  ultimately have outs: "runOutputs ?H \<lparr>includeOutputs = None, skipOutputs = None\<rparr> demo_schema_types doc ''/''
      (config_entries ?H (obj_get demo_tool_config ''output'')) =
      [(''schema'', Written [(''all.json'', ''json'')]),
           (''pages'', Caught (OutMarkdown MdMissingDir)), (''other'', UnknownFormat (JStr ''xml''))]"
    by (simp add: runOutputs_def selected_def config_entries_def demo_tool_config_def)
  have c: "obj_get demo_tool_config ''input'' = JStr ''root''" "obj_get demo_tool_config ''doc'' = demo_doc_config"
    "demo_doc_config \<noteq> JNull" "valid_config demo_tool_config" "object_valued demo_tool_config"
    by (simp_all add: demo_tool_config_def demo_doc_config_def valid_config_def map_has_def)
  have "tool_main ?H \<lparr>includeOutputs = None, skipOutputs = None\<rparr> ''config'' = Finished \<lparr>tr_doc = w,
      tr_outputs = [(''schema'', Written [(''all.json'', ''json'')]),
           (''pages'', Caught (OutMarkdown MdMissingDir)), (''other'', UnknownFormat (JStr ''xml''))]\<rparr>"
    by (simp add: tool_main_def runConfig_def Let_def h c as_string_def demo_tool_schema d outs)
  from that [OF this] w show thesis by simp
qed

lemma demo_tool_reads_back: "reads_back (doc_host (demo_tool demo_text demo_reader))"
  using demo_reads_back by (simp add: reads_back_def doc_host_def demo_tool_def demo_docs_def)


end
