(* ===== verification/Map_Sync.thy ===== *)
theory Map_Sync
  imports Js_Value
begin

text \<open>
  Keeping several maps in step (\<^verbatim>\<open>syncMaps\<close> and \<^verbatim>\<open>moveToMapPosition\<close> of
  \<^verbatim>\<open>ui/web/js/map.js\<close>). A map belongs to the map library: it has a camera and the
  listeners of its \<^verbatim>\<open>move\<close> event, and it calls the listeners it has at that moment
  whenever its camera is set. What a map makes of a camera it is asked for, within its limits, is the
  parameter \<open>settle\<close>.

  A listener moves the other maps, whose events call their listeners, and so on: the nesting of these
  calls takes fuel, and two levels are enough because the listeners are off while they work.
\<close>

section \<open>Maps\<close>

record Camera =
  cam_lng :: rat
  cam_lat :: rat
  cam_zoom :: rat
  cam_bearing :: rat
  cam_pitch :: rat

text \<open>The function with index \<open>k\<close> among the listeners is \<^verbatim>\<open>fns[k]\<close>. \<open>jumps\<close>
  records the calls of \<^verbatim>\<open>jumpTo\<close>.\<close>

record MapGroup =
  cameras :: "Camera list"
  move_listeners :: "nat list list"
  jumps :: "(nat \<times> Camera) list"

datatype sync_error = TooManyNestedMoves

definition maps_on :: "MapGroup \<Rightarrow> MapGroup" where
  "maps_on s = s\<lparr>move_listeners := map (\<lambda>(index, fs). fs @ [index]) (enumerate 0 (move_listeners s))\<rparr>"

definition maps_off :: "MapGroup \<Rightarrow> MapGroup" where
  "maps_off s = s\<lparr>move_listeners := map (\<lambda>(index, fs). remove1 index fs) (enumerate 0 (move_listeners s))\<rparr>"

type_synonym fire = "nat \<Rightarrow> MapGroup \<Rightarrow> sync_error + MapGroup"

definition jumpTo :: "fire \<Rightarrow> (nat \<Rightarrow> Camera \<Rightarrow> Camera) \<Rightarrow> Camera \<Rightarrow> MapGroup \<Rightarrow> nat \<Rightarrow> sync_error + MapGroup" where
  "jumpTo fire settle cam s k =
     fire k (s\<lparr>cameras := (cameras s)[k := settle k cam], jumps := jumps s @ [(k, cam)]\<rparr>)"

text \<open>The position of the master is read once, before the clones move.\<close>

definition moveToMapPosition ::
  "fire \<Rightarrow> (nat \<Rightarrow> Camera \<Rightarrow> Camera) \<Rightarrow> nat \<Rightarrow> nat list \<Rightarrow> MapGroup \<Rightarrow> sync_error + MapGroup" where
  "moveToMapPosition fire settle master clones s = foldE (jumpTo fire settle (cameras s ! master)) s clones"

definition sync :: "fire \<Rightarrow> (nat \<Rightarrow> Camera \<Rightarrow> Camera) \<Rightarrow> MapGroup \<Rightarrow> nat \<Rightarrow> sync_error + MapGroup" where
  "sync fire settle s master =
     bindE (moveToMapPosition fire settle master (filter (\<lambda>i. i \<noteq> master) [0..<length (cameras s)]) (maps_off s))
       (\<lambda>s. Inr (maps_on s))"

fun fire_move :: "nat \<Rightarrow> (nat \<Rightarrow> Camera \<Rightarrow> Camera) \<Rightarrow> fire" where
  "fire_move 0 settle k s = Inl TooManyNestedMoves"
| "fire_move (Suc n) settle k s = foldE (sync (fire_move n settle) settle) s (move_listeners s ! k)"

definition syncMaps :: "MapGroup \<Rightarrow> MapGroup" where
  "syncMaps s = maps_on s"

text \<open>The function that \<^verbatim>\<open>syncMaps\<close> returns.\<close>

definition unsyncMaps :: "MapGroup \<Rightarrow> MapGroup" where
  "unsyncMaps s = maps_off s"

text \<open>Something else than \<^verbatim>\<open>sync\<close>, a gesture or an animation frame, moves the map
  \<open>k\<close>.\<close>

definition map_moves :: "nat \<Rightarrow> (nat \<Rightarrow> Camera \<Rightarrow> Camera) \<Rightarrow> MapGroup \<Rightarrow> nat \<times> Camera \<Rightarrow> sync_error + MapGroup" where
  "map_moves fuel settle s m =
     (let (k, cam) = m
      in fire_move fuel settle k (s\<lparr>cameras := (cameras s)[k := settle k cam]\<rparr>))"

definition new_maps :: "Camera list \<Rightarrow> MapGroup" where
  "new_maps cams = \<lparr>cameras = cams, move_listeners = replicate (length cams) [], jumps = []\<rparr>"

section \<open>No feedback\<close>

abbreviation silent :: "nat \<Rightarrow> nat list list" where
  "silent n \<equiv> replicate n []"

definition listening :: "nat \<Rightarrow> nat list list" where
  "listening n = map (\<lambda>i. [i]) [0..<n]"

lemma on_silent: "move_listeners s = silent n \<Longrightarrow> maps_on s = s\<lparr>move_listeners := listening n\<rparr>"
  by (auto simp: maps_on_def listening_def nth_enumerate_eq intro!: arg_cong [where f = "\<lambda>x. s\<lparr>move_listeners := x\<rparr>"] nth_equalityI)

lemma off_listening: "move_listeners s = listening n \<Longrightarrow> maps_off s = s\<lparr>move_listeners := silent n\<rparr>"
  by (auto simp: maps_off_def listening_def nth_enumerate_eq intro!: arg_cong [where f = "\<lambda>x. s\<lparr>move_listeners := x\<rparr>"] nth_equalityI)

lemma silent_move: "move_listeners s = silent n \<Longrightarrow> k < n \<Longrightarrow> fire_move (Suc m) settle k s = Inr s"
  by simp

text \<open>With the listeners off the clones move once each, and nothing else happens.\<close>

lemma clones_move:
  assumes "move_listeners s = silent n" and "length (cameras s) = n" and "\<forall>k \<in> set ks. k < n \<and> settle k cam = cam"
  shows "foldE (jumpTo (fire_move (Suc m) settle) settle cam) s ks =
    Inr (s\<lparr>cameras := map (\<lambda>k. if k \<in> set ks then cam else cameras s ! k) [0..<n],
           jumps := jumps s @ map (\<lambda>k. (k, cam)) ks\<rparr>)"
  using assms
proof (induction ks arbitrary: s)
  case Nil
  then have "map ((!) (cameras s)) [0..<n] = cameras s" by (metis map_nth)
  then show ?case by simp
next
  case (Cons k ks)
  let ?s = "s\<lparr>cameras := (cameras s)[k := cam], jumps := jumps s @ [(k, cam)]\<rparr>"
  have "jumpTo (fire_move (Suc m) settle) settle cam s k = Inr ?s"
    using Cons.prems by (simp add: jumpTo_def)
  moreover have "foldE (jumpTo (fire_move (Suc m) settle) settle cam) ?s ks =
      Inr (?s\<lparr>cameras := map (\<lambda>j. if j \<in> set ks then cam else cameras ?s ! j) [0..<n],
              jumps := jumps ?s @ map (\<lambda>k. (k, cam)) ks\<rparr>)"
    by (rule Cons.IH) (use Cons.prems in simp_all)
  ultimately have "foldE (jumpTo (fire_move (Suc m) settle) settle cam) s (k # ks) =
      Inr (?s\<lparr>cameras := map (\<lambda>j. if j \<in> set ks then cam else cameras ?s ! j) [0..<n],
              jumps := jumps ?s @ map (\<lambda>k. (k, cam)) ks\<rparr>)"
    by (simp del: fire_move.simps)
  moreover have c: "map (\<lambda>j. if j \<in> set ks then cam else cameras ?s ! j) [0..<n] =
      map (\<lambda>j. if j \<in> set (k # ks) then cam else cameras s ! j) [0..<n]"
    using Cons.prems(2) by (auto simp: nth_list_update intro!: nth_equalityI)
  ultimately show ?case unfolding c by (simp del: fire_move.simps)
qed

lemma one_move:
  assumes "move_listeners s = listening n" and "length (cameras s) = n" and "k < n" and "\<forall>j < n. settle j cam = cam"
  shows "map_moves (Suc (Suc m)) settle s (k, cam) =
    Inr (s\<lparr>cameras := replicate n cam, jumps := jumps s @ map (\<lambda>j. (j, cam)) (filter (\<lambda>j. j \<noteq> k) [0..<n])\<rparr>)"
proof -
  let ?s = "s\<lparr>cameras := (cameras s)[k := cam]\<rparr>"
  let ?t = "?s\<lparr>move_listeners := silent n\<rparr>"
  let ?ks = "filter (\<lambda>j. j \<noteq> k) [0..<n]"
  have off: "maps_off ?s = ?t" using assms(1) by (intro off_listening) simp
  have "foldE (jumpTo (fire_move (Suc m) settle) settle cam) ?t ?ks =
      Inr (?t\<lparr>cameras := map (\<lambda>j. if j \<in> set ?ks then cam else cameras ?t ! j) [0..<n],
              jumps := jumps ?t @ map (\<lambda>j. (j, cam)) ?ks\<rparr>)"
    by (rule clones_move) (use assms in auto)
  moreover have "map (\<lambda>j. if j \<in> set ?ks then cam else cameras ?t ! j) [0..<n] = replicate n cam"
    using assms(2,3) by (auto intro!: nth_equalityI)
  ultimately have "moveToMapPosition (fire_move (Suc m) settle) settle k ?ks ?t =
      Inr (?t\<lparr>cameras := replicate n cam, jumps := jumps s @ map (\<lambda>j. (j, cam)) ?ks\<rparr>)"
    using assms(2,3) by (simp add: moveToMapPosition_def)
  then have "sync (fire_move (Suc m) settle) settle ?s k =
      Inr (maps_on (?t\<lparr>cameras := replicate n cam, jumps := jumps s @ map (\<lambda>j. (j, cam)) ?ks\<rparr>))"
    using assms(2) off by (simp add: sync_def del: fire_move.simps)
  moreover have "maps_on (?t\<lparr>cameras := replicate n cam, jumps := jumps s @ map (\<lambda>j. (j, cam)) ?ks\<rparr>) =
      s\<lparr>cameras := replicate n cam, jumps := jumps s @ map (\<lambda>j. (j, cam)) ?ks\<rparr>"
    using assms(1) by (subst on_silent [of _ n]) simp_all
  moreover have "move_listeners ?s ! k = [k]" using assms(1,3) by (simp add: listening_def)
  ultimately show ?thesis
    using assms(3,4) by (simp add: map_moves_def)
qed

text \<open>C24: maps stay in step without feedback. After \<^verbatim>\<open>syncMaps\<close>, whatever maps are moved in
  whatever order to cameras within their limits, every move ends with two levels of nested events: the
  other maps have jumped to the same camera, once each and no more, all maps show the same view, and the
  listeners are as before, ready for the next move.\<close>

theorem maps_stay_in_step:
  assumes "list_all (\<lambda>(k, cam). k < length cams \<and> list_all (\<lambda>j. settle j cam = cam) [0..<length cams]) moves"
  shows "foldE (map_moves (Suc (Suc m)) settle) (syncMaps (new_maps cams)) moves =
    Inr \<lparr>cameras = (if moves = [] then cams else replicate (length cams) (snd (last moves))),
         move_listeners = listening (length cams),
         jumps = concat (map (\<lambda>(k, cam). map (\<lambda>j. (j, cam)) (filter (\<lambda>j. j \<noteq> k) [0..<length cams])) moves)\<rparr>"
  using assms
proof (induction moves rule: rev_induct)
  case Nil
  show ?case by (simp add: syncMaps_def new_maps_def on_silent [of _ "length cams"])
next
  case (snoc mv moves)
  obtain k cam where mv: "mv = (k, cam)" by (cases mv)
  show ?case
    using snoc one_move [of _ "length cams" k settle cam m]
    by (simp add: foldE_append mv list_all_iff del: fire_move.simps)
qed

definition demo_settle :: "nat \<Rightarrow> Camera \<Rightarrow> Camera" where
  "demo_settle k cam = cam\<lparr>cam_zoom := max 2 (min 20 (cam_zoom cam))\<rparr>"

theorem maps_stay_in_step_witness:
  "\<exists>s a b. a \<noteq> b \<and> foldE (map_moves 2 demo_settle) (syncMaps (new_maps [a, a])) [(0, b), (1, a)] = Inr s \<and>
     cameras s = [a, a] \<and> jumps s = [(1, b), (0, a)]"
proof -
  let ?a = "\<lparr>cam_lng = 9, cam_lat = 50, cam_zoom = 10, cam_bearing = 0, cam_pitch = 0\<rparr>"
  let ?b = "?a\<lparr>cam_zoom := 11\<rparr>"
  have "list_all (\<lambda>(k, cam). k < length [?a, ?a] \<and> list_all (\<lambda>j. demo_settle j cam = cam) [0..<length [?a, ?a]])
      [(0, ?b), (1, ?a)]"
    by (simp add: demo_settle_def list_all_iff)
  note r = maps_stay_in_step [OF this, of 0]
  show ?thesis
  proof (intro exI conjI)
    show "?a \<noteq> ?b" by simp
    show "foldE (map_moves 2 demo_settle) (syncMaps (new_maps [?a, ?a])) [(0, ?b), (1, ?a)] = Inr (projr
        (foldE (map_moves (Suc (Suc 0)) demo_settle) (syncMaps (new_maps [?a, ?a])) [(0, ?b), (1, ?a)]))"
      unfolding r numeral_2_eq_2 by (simp only: sum.sel)
  qed (unfold r, simp_all add: upt_rec)
qed

end
