(* ===== verification/Map_Style.thy ===== *)
theory Map_Style
  imports Js_Value
begin

text \<open>
  The two styles of the background map (\<^verbatim>\<open>ui/web/js/map_style.js\<close> and
  \<^verbatim>\<open>map_style_color.js\<close>), as the objects that the map library is given. A style
  is a function of the address of the tile server, and the colour style also of the one of the programming
  interface, whose sprite it loads. Each layer is a definition of its own, in the order of the sources.
\<close>

abbreviation JQ :: "rat \<Rightarrow> jsval" where
  "JQ q \<equiv> JNum (Fin q)"

section \<open>The gray style\<close>

definition gray_water_overview :: jsval where
  "gray_water_overview = JStr ''#D1D1D1''"

definition gray_water :: jsval where
  "gray_water = JStr ''#D1D1D1''"

definition gray_rail_overvew :: jsval where
  "gray_rail_overvew = JStr ''hsl(0, 0%, 65%)''"

definition gray_rail :: jsval where
  "gray_rail = JStr ''hsl(0, 0%, 50%)''"

definition gray_pedestrian :: jsval where
  "gray_pedestrian = JStr ''hsl(0, 0%, 90%)''"

definition gray_sport :: jsval where
  "gray_sport = JStr ''#D5D5D5''"

definition gray_sport_outline :: jsval where
  "gray_sport_outline = JStr ''hsla(0, 0%, 70%, 45%)''"

definition gray_building :: jsval where
  "gray_building = JStr ''#D5D5D5''"

definition gray_building_outline :: jsval where
  "gray_building_outline = JStr ''hsla(0, 0%, 70%, 45%)''"

definition roadLineWidth :: "rat \<Rightarrow> jsval" where
  "roadLineWidth add =
     JArr [JStr ''let'', JStr ''base'',
       JArr [JStr ''match'', JArr [JStr ''get'', JStr ''highway''], JStr ''motorway'', JQ (25 / 10),
         JArr [JStr ''trunk'', JStr ''motorway_link''], JQ (23 / 10),
         JArr [JStr ''primary'', JStr ''trunk_link''], JQ (22 / 10),
         JArr [JStr ''secondary'', JStr ''aeroway''], JQ (21 / 10),
         JArr [JStr ''primary_link'', JStr ''secondary_link'', JStr ''tertiary'', JStr ''tertiary_link''],
         JQ (175 / 100), JArr [JStr ''residential'', JStr ''unclassified''], JQ (15 / 10), JQ (75 / 100)],
       JArr [JStr ''interpolate'', JArr [JStr ''linear''], JArr [JStr ''zoom''], JQ 5,
         JArr [JStr ''+'', JArr [JStr ''*'', JArr [JStr ''var'', JStr ''base''], JQ (1 / 10)], JQ add],
         JQ 9,
         JArr [JStr ''+'', JArr [JStr ''*'', JArr [JStr ''var'', JStr ''base''], JQ (4 / 10)], JQ add],
         JQ 12,
         JArr [JStr ''+'', JArr [JStr ''*'', JArr [JStr ''var'', JStr ''base''], JQ (1 * (125 / 100))],
           JQ add],
         JQ 16,
         JArr [JStr ''+'', JArr [JStr ''*'', JArr [JStr ''var'', JStr ''base''], JQ (4 * (15 / 10))], JQ add],
         JQ 20,
         JArr [JStr ''+'', JArr [JStr ''*'', JArr [JStr ''var'', JStr ''base''], JQ (8 * (15 / 10))], JQ add]]]"

definition gray_background :: jsval where
  "gray_background =
     JObj [(''id'', JStr ''background''),
           (''type'', JStr ''background''),
           (''paint'', JObj [(''background-color'', JStr ''#eeeeee'')])]"

definition gray_coastline :: jsval where
  "gray_coastline =
     JObj [(''id'', JStr ''coastline''),
           (''type'', JStr ''fill''),
           (''source'', JStr ''osm''),
           (''source-layer'', JStr ''coastline''),
           (''paint'',
             JObj [(''fill-color'',
                     JArr [JStr ''interpolate-hcl'', JArr [JStr ''linear''], JArr [JStr ''zoom''], JQ 6,
                       gray_water_overview, JQ 9, gray_water])])]"

definition gray_landuse :: jsval where
  "gray_landuse =
     JObj [(''id'', JStr ''landuse''),
           (''type'', JStr ''fill''),
           (''source'', JStr ''osm''),
           (''source-layer'', JStr ''landuse''),
           (''paint'',
             JObj [(''fill-color'',
                     JArr [JStr ''match'', JArr [JStr ''get'', JStr ''landuse''], JStr ''complex'',
                       JStr ''hsl(0, 0%, 79%)'', JStr ''commercial'', JStr ''hsl(0, 0%, 82%)'',
                       JStr ''industrial'', JStr ''hsl(0, 0%, 82%)'', JStr ''residential'',
                       JStr ''hsl(0, 0%, 85%)'', JStr ''retail'', JStr ''hsl(0, 0%, 81%)'',
                       JStr ''construction'', JStr ''magenta'', JStr ''nature_light'',
                       JStr ''hsl(0, 0%, 91%)'', JStr ''nature_heavy'', JStr ''hsl(0, 0%, 88%)'',
                       JStr ''park'', JStr ''hsl(0, 0%, 90%)'', JStr ''cemetery'',
                       JStr ''hsl(0, 0%, 90%)'', JStr ''beach'', JStr ''hsl(0, 0%, 90%)'',
                       JStr ''#ff0000''])])]"

definition gray_water_layer :: jsval where
  "gray_water_layer =
     JObj [(''id'', JStr ''water''),
           (''type'', JStr ''fill''),
           (''source'', JStr ''osm''),
           (''source-layer'', JStr ''water''),
           (''paint'',
             JObj [(''fill-color'',
                     JArr [JStr ''interpolate-hcl'', JArr [JStr ''linear''], JArr [JStr ''zoom''], JQ 6,
                       gray_water_overview, JQ 9, gray_water])])]"

definition gray_sport_layer :: jsval where
  "gray_sport_layer =
     JObj [(''id'', JStr ''sport''),
           (''type'', JStr ''fill''),
           (''source'', JStr ''osm''),
           (''source-layer'', JStr ''sport''),
           (''paint'', JObj [(''fill-color'', gray_sport), (''fill-outline-color'', gray_sport_outline)])]"

definition gray_pedestrian_layer :: jsval where
  "gray_pedestrian_layer =
     JObj [(''id'', JStr ''pedestrian''),
           (''type'', JStr ''fill''),
           (''source'', JStr ''osm''),
           (''source-layer'', JStr ''pedestrian''),
           (''paint'', JObj [(''fill-color'', gray_pedestrian)])]"

definition gray_waterway :: jsval where
  "gray_waterway =
     JObj [(''id'', JStr ''waterway''),
           (''type'', JStr ''line''),
           (''source'', JStr ''osm''),
           (''source-layer'', JStr ''waterway''),
           (''paint'',
             JObj [(''line-color'',
                     JArr [JStr ''interpolate-hcl'', JArr [JStr ''linear''], JArr [JStr ''zoom''], JQ 6,
                       gray_water_overview, JQ 9, gray_water])])]"

definition gray_road_back :: jsval where
  "gray_road_back =
     JObj [(''id'', JStr ''road_back''),
           (''type'', JStr ''line''),
           (''source'', JStr ''osm''),
           (''source-layer'', JStr ''road''),
           (''filter'',
             JArr [JStr ''!in'', JStr ''highway'', JStr ''footway'', JStr ''track'', JStr ''steps'',
               JStr ''cycleway'', JStr ''path'']),
           (''layout'', JObj [(''line-cap'', JStr ''round'')]),
           (''paint'',
             JObj [(''line-color'', JStr ''#FFF''),
                   (''line-opacity'', JQ (5 / 10)),
                   (''line-width'', roadLineWidth 1)])]"

definition gray_road :: jsval where
  "gray_road =
     JObj [(''id'', JStr ''road''),
           (''type'', JStr ''line''),
           (''source'', JStr ''osm''),
           (''source-layer'', JStr ''road''),
           (''layout'', JObj [(''line-cap'', JStr ''round'')]),
           (''paint'',
             JObj [(''line-color'', JStr ''#FFF''),
                   (''line-opacity'',
                     JArr [JStr ''match'', JArr [JStr ''get'', JStr ''highway''],
                       JArr [JStr ''footway'', JStr ''track'', JStr ''steps'', JStr ''cycleway'',
                         JStr ''path''],
                       JQ (66 / 100), JQ 1]),
                   (''line-width'', roadLineWidth 0)])]"

definition gray_rail_old :: jsval where
  "gray_rail_old =
     JObj [(''id'', JStr ''rail_old''),
           (''type'', JStr ''line''),
           (''source'', JStr ''osm''),
           (''source-layer'', JStr ''rail''),
           (''filter'', JArr [JStr ''=='', JStr ''rail'', JStr ''old'']),
           (''layout'', JObj [(''line-cap'', JStr ''round'')]),
           (''paint'', JObj [(''line-color'', gray_rail)])]"

definition gray_rail_detail :: jsval where
  "gray_rail_detail =
     JObj [(''id'', JStr ''rail_detail''),
           (''type'', JStr ''line''),
           (''source'', JStr ''osm''),
           (''source-layer'', JStr ''rail''),
           (''filter'', JArr [JStr ''=='', JStr ''rail'', JStr ''detail'']),
           (''layout'', JObj [(''line-cap'', JStr ''round'')]),
           (''paint'', JObj [(''line-color'', gray_rail)])]"

definition gray_rail_secondary :: jsval where
  "gray_rail_secondary =
     JObj [(''id'', JStr ''rail_secondary''),
           (''type'', JStr ''line''),
           (''source'', JStr ''osm''),
           (''source-layer'', JStr ''rail''),
           (''filter'', JArr [JStr ''=='', JStr ''rail'', JStr ''secondary'']),
           (''layout'', JObj [(''line-cap'', JStr ''round'')]),
           (''paint'', JObj [(''line-color'', gray_rail), (''line-width'', JQ (115 / 100))])]"

definition gray_rail_primary :: jsval where
  "gray_rail_primary =
     JObj [(''id'', JStr ''rail_primary''),
           (''type'', JStr ''line''),
           (''source'', JStr ''osm''),
           (''source-layer'', JStr ''rail''),
           (''filter'', JArr [JStr ''=='', JStr ''rail'', JStr ''primary'']),
           (''layout'', JObj [(''line-cap'', JStr ''round'')]),
           (''paint'',
             JObj [(''line-color'',
                     JArr [JStr ''interpolate-hcl'', JArr [JStr ''linear''], JArr [JStr ''zoom''], JQ 6,
                       gray_rail_overvew, JQ 9, gray_rail]),
                   (''line-width'',
                     JArr [JStr ''interpolate'', JArr [JStr ''linear''], JArr [JStr ''zoom''], JQ 6, JQ 1,
                       JQ 9, JQ (13 / 10)])])]"

definition gray_building_layer :: jsval where
  "gray_building_layer =
     JObj [(''id'', JStr ''building''),
           (''type'', JStr ''fill''),
           (''source'', JStr ''osm''),
           (''source-layer'', JStr ''building''),
           (''paint'',
             JObj [(''fill-color'', gray_building), (''fill-outline-color'', gray_building_outline)])]"

definition gray_road_ref_shield :: jsval where
  "gray_road_ref_shield =
     JObj [(''id'', JStr ''road-ref-shield''),
           (''type'', JStr ''symbol''),
           (''source'', JStr ''osm''),
           (''source-layer'', JStr ''road''),
           (''minzoom'', JQ 6),
           (''filter'',
             JArr [JStr ''all'', JArr [JStr ''has'', JStr ''ref''],
               JArr [JStr ''any'',
                 JArr [JStr ''=='', JArr [JStr ''get'', JStr ''highway''], JStr ''motorway''],
                 JArr [JStr ''=='', JArr [JStr ''get'', JStr ''highway''], JStr ''trunk''],
                 JArr [JStr ''=='', JArr [JStr ''get'', JStr ''highway''], JStr ''primary''],
                 JArr [JStr ''=='', JArr [JStr ''get'', JStr ''highway''], JStr ''secondary''],
                 JArr [JStr ''>'', JArr [JStr ''zoom''], JQ 11]]]),
           (''layout'',
             JObj [(''symbol-placement'', JStr ''line''),
                   (''text-field'', JArr [JStr ''get'', JStr ''ref'']),
                   (''text-font'', JArr [JStr ''Noto Sans Display Regular'']),
                   (''text-size'',
                     JArr [JStr ''case'',
                       JArr [JStr ''=='', JArr [JStr ''get'', JStr ''highway''], JStr ''motorway''],
                       JQ 11, JQ 10]),
                   (''text-justify'', JStr ''center''),
                   (''text-rotation-alignment'', JStr ''viewport''),
                   (''text-pitch-alignment'', JStr ''viewport''),
                   (''icon-image'',
                     JArr [JStr ''case'',
                       JArr [JStr ''=='', JArr [JStr ''get'', JStr ''highway''], JStr ''motorway''],
                       JStr ''hexshield'', JStr ''shield'']),
                   (''icon-text-fit'', JStr ''both''),
                   (''icon-text-fit-padding'', JArr [JQ 0, JQ 1, JQ 0, JQ 1]),
                   (''icon-rotation-alignment'', JStr ''viewport''),
                   (''icon-pitch-alignment'', JStr ''viewport'')]),
           (''paint'', JObj [(''text-color'', JStr ''#333333'')])]"

definition gray_road_name_text :: jsval where
  "gray_road_name_text =
     JObj [(''id'', JStr ''road-name-text''),
           (''type'', JStr ''symbol''),
           (''source'', JStr ''osm''),
           (''source-layer'', JStr ''road''),
           (''minzoom'', JQ 14),
           (''layout'',
             JObj [(''symbol-placement'', JStr ''line''),
                   (''text-field'', JArr [JStr ''get'', JStr ''name'']),
                   (''text-font'', JArr [JStr ''Noto Sans Display Regular'']),
                   (''text-size'', JQ 10)]),
           (''paint'',
             JObj [(''text-halo-width'', JQ 11),
                   (''text-halo-color'', JStr ''white''),
                   (''text-color'', JStr ''#333333'')])]"

definition gray_towns :: jsval where
  "gray_towns =
     JObj [(''id'', JStr ''towns''),
           (''type'', JStr ''symbol''),
           (''source'', JStr ''osm''),
           (''source-layer'', JStr ''cities''),
           (''filter'',
             JArr [JStr ''all'', JArr [JStr ''!='', JArr [JStr ''get'', JStr ''place''], JStr ''city''],
               JArr [JStr ''any'', JArr [JStr ''>='', JArr [JStr ''zoom''], JQ 11],
                 JArr [JStr ''>'', JArr [JStr ''coalesce'', JArr [JStr ''get'', JStr ''population''], JQ 0],
                   JQ 10000]]]),
           (''layout'',
             JObj [(''symbol-sort-key'',
                     JArr [JStr ''-'',
                       JArr [JStr ''coalesce'', JArr [JStr ''get'', JStr ''population''], JQ 0]]),
                   (''text-field'', JArr [JStr ''get'', JStr ''name'']),
                   (''text-font'', JArr [JStr ''Noto Sans Display Regular'']),
                   (''text-size'', JQ 12)]),
           (''paint'',
             JObj [(''text-halo-width'', JQ 1),
                   (''text-halo-color'', JStr ''white''),
                   (''text-color'', JStr ''hsl(0, 0%, 30%)'')])]"

definition gray_cities :: jsval where
  "gray_cities =
     JObj [(''id'', JStr ''cities''),
           (''type'', JStr ''symbol''),
           (''source'', JStr ''osm''),
           (''source-layer'', JStr ''cities''),
           (''filter'', JArr [JStr ''=='', JArr [JStr ''get'', JStr ''place''], JStr ''city'']),
           (''layout'',
             JObj [(''symbol-sort-key'',
                     JArr [JStr ''-'',
                       JArr [JStr ''coalesce'', JArr [JStr ''get'', JStr ''population''], JQ 0]]),
                   (''text-field'', JArr [JStr ''get'', JStr ''name'']),
                   (''text-font'', JArr [JStr ''Noto Sans Display Bold'']),
                   (''text-size'',
                     JArr [JStr ''interpolate'', JArr [JStr ''linear''], JArr [JStr ''zoom''], JQ 6, JQ 12,
                       JQ 9, JQ 16])]),
           (''paint'',
             JObj [(''text-halo-width'', JQ 2),
                   (''text-halo-color'', JStr ''white''),
                   (''text-color'', JStr ''hsl(0, 0%, 20%)'')])]"

definition gray_region :: jsval where
  "gray_region =
     JObj [(''id'', JStr ''region''),
           (''type'', JStr ''symbol''),
           (''source'', JStr ''osm''),
           (''source-layer'', JStr ''region''),
           (''maxzoom'', JQ 11),
           (''filter'', JArr [JStr ''!='', JArr [JStr ''get'', JStr ''place''], JStr ''country'']),
           (''layout'',
             JObj [(''symbol-sort-key'',
                     JArr [JStr ''-'',
                       JArr [JStr ''coalesce'', JArr [JStr ''get'', JStr ''population''], JQ 0]]),
                   (''text-field'', JArr [JStr ''get'', JStr ''name'']),
                   (''text-font'', JArr [JStr ''Noto Sans Display Italic'']),
                   (''text-size'',
                     JArr [JStr ''interpolate'', JArr [JStr ''linear''], JArr [JStr ''zoom''], JQ 6, JQ 16,
                       JQ 9, JQ 18])]),
           (''paint'',
             JObj [(''text-halo-width'', JQ 2),
                   (''text-halo-color'', JStr ''white''),
                   (''text-color'', JStr ''hsl(0, 0%, 20%)'')])]"

definition gray_country :: jsval where
  "gray_country =
     JObj [(''id'', JStr ''country''),
           (''type'', JStr ''symbol''),
           (''source'', JStr ''osm''),
           (''source-layer'', JStr ''region''),
           (''maxzoom'', JQ 8),
           (''filter'', JArr [JStr ''=='', JArr [JStr ''get'', JStr ''place''], JStr ''country'']),
           (''layout'',
             JObj [(''symbol-sort-key'',
                     JArr [JStr ''-'',
                       JArr [JStr ''coalesce'', JArr [JStr ''get'', JStr ''population''], JQ 0]]),
                   (''text-field'', JArr [JStr ''get'', JStr ''name'']),
                   (''text-font'', JArr [JStr ''Noto Sans Display Italic'']),
                   (''text-size'',
                     JArr [JStr ''interpolate'', JArr [JStr ''linear''], JArr [JStr ''zoom''], JQ 3, JQ 12,
                       JQ 8, JQ 18])]),
           (''paint'',
             JObj [(''text-halo-width'', JQ 2),
                   (''text-halo-color'', JStr ''white''),
                   (''text-color'', JStr ''hsl(0, 0%, 20%)'')])]"

definition gray_layers :: "jsval list" where
  "gray_layers =
     [gray_background, gray_coastline, gray_landuse, gray_water_layer, gray_sport_layer,
       gray_pedestrian_layer, gray_waterway, gray_road_back, gray_road, gray_rail_old, gray_rail_detail,
       gray_rail_secondary, gray_rail_primary, gray_building_layer, gray_road_ref_shield, gray_road_name_text,
       gray_towns, gray_cities, gray_region, gray_country]"

definition backgroundMapStyle :: "string \<Rightarrow> jsval" where
  "backgroundMapStyle tilesEndpoint =
     JObj [(''version'', JQ 8),
           (''sources'',
             JObj [(''osm'',
                     JObj [(''type'', JStr ''vector''),
                           (''tiles'', JArr [JStr (tilesEndpoint @ ''{z}/{x}/{y}.mvt'')]),
                           (''maxzoom'', JQ 20)])]),
           (''glyphs'', JStr (tilesEndpoint @ ''glyphs/{fontstack}/{range}.pbf'')),
           (''layers'', JArr gray_layers)]"

section \<open>The colour style\<close>

text \<open>The level of a building that is shown.\<close>

definition color_level :: rat where
  "color_level = 0"

definition color_water :: jsval where
  "color_water = JStr ''#99ddff''"

definition color_rail :: jsval where
  "color_rail = JStr ''#a8a8a8''"

definition color_pedestrian :: jsval where
  "color_pedestrian = JStr ''#e8e7eb''"

definition color_sport :: jsval where
  "color_sport = JStr ''#d0f4be''"

definition color_sport_outline :: jsval where
  "color_sport_outline = JStr ''#b3e998''"

definition color_building :: jsval where
  "color_building = JStr ''#ded7d3''"

definition color_building_outline :: jsval where
  "color_building_outline = JStr ''#cfc8c4''"

definition matchLevel :: "jsval \<Rightarrow> jsval" where
  "matchLevel expression =
     JArr [JStr ''all'',
       JArr [JStr ''any'', JArr [JStr ''!has'', JStr ''level''],
         JArr [JStr ''=='', JArr [JStr ''get'', JStr ''level''], JQ color_level]],
       expression]"

definition color_background :: jsval where
  "color_background =
     JObj [(''id'', JStr ''background''),
           (''type'', JStr ''background''),
           (''paint'', JObj [(''background-color'', JStr ''#f8f4f0'')])]"

definition color_coastline :: jsval where
  "color_coastline =
     JObj [(''id'', JStr ''coastline''),
           (''type'', JStr ''fill''),
           (''source'', JStr ''osm''),
           (''source-layer'', JStr ''coastline''),
           (''paint'', JObj [(''fill-color'', color_water)])]"

definition color_landuse_park :: jsval where
  "color_landuse_park =
     JObj [(''id'', JStr ''landuse_park''),
           (''type'', JStr ''fill''),
           (''source'', JStr ''osm''),
           (''source-layer'', JStr ''landuse''),
           (''filter'', JArr [JStr ''=='', JArr [JStr ''get'', JStr ''landuse''], JStr ''park'']),
           (''paint'', JObj [(''fill-color'', JStr ''#b8ebad'')])]"

definition color_landuse :: jsval where
  "color_landuse =
     JObj [(''id'', JStr ''landuse''),
           (''type'', JStr ''fill''),
           (''source'', JStr ''osm''),
           (''source-layer'', JStr ''landuse''),
           (''filter'', JArr [JStr ''!in'', JStr ''landuse'', JStr ''park'', JStr ''public_transport'']),
           (''paint'',
             JObj [(''fill-color'',
                     JArr [JStr ''match'', JArr [JStr ''get'', JStr ''landuse''], JStr ''complex'',
                       JStr ''#f0e6d1'', JStr ''commercial'', JStr ''hsla(0, 60%, 87%, 0.23)'',
                       JStr ''industrial'', JStr ''#e0e2eb'', JStr ''residential'', JStr ''#ece7e4'',
                       JStr ''retail'', JStr ''hsla(0, 60%, 87%, 0.23)'', JStr ''construction'',
                       JStr ''#aaa69d'', JStr ''nature_light'', JStr ''#ddecd7'', JStr ''nature_heavy'',
                       JStr ''#a3e39c'', JStr ''cemetery'', JStr ''#e0e4dd'', JStr ''beach'',
                       JStr ''#fffcd3'', JStr ''magenta''])])]"

definition color_water_layer :: jsval where
  "color_water_layer =
     JObj [(''id'', JStr ''water''),
           (''type'', JStr ''fill''),
           (''source'', JStr ''osm''),
           (''source-layer'', JStr ''water''),
           (''paint'', JObj [(''fill-color'', color_water)])]"

definition color_sport_layer :: jsval where
  "color_sport_layer =
     JObj [(''id'', JStr ''sport''),
           (''type'', JStr ''fill''),
           (''source'', JStr ''osm''),
           (''source-layer'', JStr ''sport''),
           (''paint'',
             JObj [(''fill-color'', color_sport), (''fill-outline-color'', color_sport_outline)])]"

definition color_pedestrian_layer :: jsval where
  "color_pedestrian_layer =
     JObj [(''id'', JStr ''pedestrian''),
           (''type'', JStr ''fill''),
           (''source'', JStr ''osm''),
           (''source-layer'', JStr ''pedestrian''),
           (''paint'', JObj [(''fill-color'', color_pedestrian)])]"

definition color_waterway :: jsval where
  "color_waterway =
     JObj [(''id'', JStr ''waterway''),
           (''type'', JStr ''line''),
           (''source'', JStr ''osm''),
           (''source-layer'', JStr ''waterway''),
           (''paint'', JObj [(''line-color'', color_water)])]"

definition color_building_layer :: jsval where
  "color_building_layer =
     JObj [(''id'', JStr ''building''),
           (''type'', JStr ''fill''),
           (''source'', JStr ''osm''),
           (''source-layer'', JStr ''building''),
           (''paint'',
             JObj [(''fill-color'', color_building),
                   (''fill-outline-color'', color_building_outline),
                   (''fill-opacity'',
                     JArr [JStr ''interpolate'', JArr [JStr ''linear''], JArr [JStr ''zoom''], JQ 14, JQ 0,
                       JQ 16, JQ (8 / 10)])])]"

definition color_indoor_corridor :: jsval where
  "color_indoor_corridor =
     JObj [(''id'', JStr ''indoor-corridor''),
           (''type'', JStr ''fill''),
           (''source'', JStr ''osm''),
           (''source-layer'', JStr ''indoor''),
           (''filter'',
             JArr [JStr ''all'', JArr [JStr ''=='', JStr ''indoor'', JStr ''corridor''],
               JArr [JStr ''=='', JStr ''level'', JQ color_level]]),
           (''paint'', JObj [(''fill-color'', JStr ''#fdfcfa''), (''fill-opacity'', JQ (8 / 10))])]"

definition color_indoor :: jsval where
  "color_indoor =
     JObj [(''id'', JStr ''indoor''),
           (''type'', JStr ''fill''),
           (''source'', JStr ''osm''),
           (''source-layer'', JStr ''indoor''),
           (''filter'',
             JArr [JStr ''all'',
               JArr [JStr ''!in'', JStr ''indoor'', JStr ''corridor'', JStr ''wall'', JStr ''elevator''],
               JArr [JStr ''=='', JStr ''level'', JQ color_level]]),
           (''paint'', JObj [(''fill-color'', JStr ''#d4edff''), (''fill-opacity'', JQ (8 / 10))])]"

definition color_indoor_outline :: jsval where
  "color_indoor_outline =
     JObj [(''id'', JStr ''indoor-outline''),
           (''type'', JStr ''line''),
           (''source'', JStr ''osm''),
           (''source-layer'', JStr ''indoor''),
           (''filter'',
             JArr [JStr ''all'',
               JArr [JStr ''!in'', JStr ''indoor'', JStr ''corridor'', JStr ''wall'', JStr ''elevator''],
               JArr [JStr ''=='', JStr ''level'', JQ color_level]]),
           (''minzoom'', JQ 18),
           (''paint'', JObj [(''line-color'', JStr ''#808080''), (''line-width'', JQ 2)])]"

definition color_indoor_names :: jsval where
  "color_indoor_names =
     JObj [(''id'', JStr ''indoor-names''),
           (''type'', JStr ''symbol''),
           (''source'', JStr ''osm''),
           (''source-layer'', JStr ''indoor''),
           (''minzoom'', JQ 18),
           (''filter'',
             JArr [JStr ''any'', JArr [JStr ''!has'', JStr ''level''],
               JArr [JStr ''=='', JStr ''level'', JQ color_level]]),
           (''layout'',
             JObj [(''symbol-placement'', JStr ''point''),
                   (''text-field'', JArr [JStr ''get'', JStr ''name'']),
                   (''text-font'', JArr [JStr ''Noto Sans Display Regular'']),
                   (''text-size'', JQ 12)]),
           (''paint'', JObj [(''text-color'', JStr ''#333333'')])]"

definition color_landuse_public_transport :: jsval where
  "color_landuse_public_transport =
     JObj [(''id'', JStr ''landuse-public-transport''),
           (''type'', JStr ''fill''),
           (''source'', JStr ''osm''),
           (''source-layer'', JStr ''landuse''),
           (''filter'',
             JArr [JStr ''all'', JArr [JStr ''=='', JStr ''landuse'', JStr ''public_transport''],
               JArr [JStr ''any'', JArr [JStr ''!has'', JStr ''level''],
                 JArr [JStr ''=='', JStr ''level'', JQ color_level]]]),
           (''paint'', JObj [(''fill-color'', JStr ''rgba(218,140,140,0.3)'')])]"

definition color_footway :: jsval where
  "color_footway =
     JObj [(''id'', JStr ''footway''),
           (''type'', JStr ''line''),
           (''source'', JStr ''osm''),
           (''source-layer'', JStr ''road''),
           (''filter'',
             JArr [JStr ''all'',
               JArr [JStr ''in'', JStr ''highway'', JStr ''footway'', JStr ''track'', JStr ''cycleway'',
                 JStr ''path'', JStr ''unclassified'', JStr ''service''],
               (if color_level = 0 then JArr [JStr ''any'', JArr [JStr ''!has'', JStr ''level''],
                                          JArr [JStr ''=='', JStr ''level'', JQ color_level]]
                else JArr [JStr ''=='', JStr ''level'', JQ color_level])]),
           (''layout'', JObj [(''line-cap'', JStr ''round'')]),
           (''minzoom'', JQ 14),
           (''paint'',
             JObj [(''line-dasharray'', JArr [JQ (75 / 100), JQ (15 / 10)]),
                   (''line-color'', JStr ''#fff''),
                   (''line-opacity'', JQ (5 / 10)),
                   (''line-width'',
                     JArr [JStr ''let'', JStr ''base'', JQ (4 / 10),
                       JArr [JStr ''interpolate'', JArr [JStr ''linear''], JArr [JStr ''zoom''], JQ 5,
                         JArr [JStr ''+'',
                           JArr [JStr ''*'', JArr [JStr ''var'', JStr ''base''], JQ (1 / 10)], JQ 1],
                         JQ 9,
                         JArr [JStr ''+'',
                           JArr [JStr ''*'', JArr [JStr ''var'', JStr ''base''], JQ (4 / 10)], JQ 1],
                         JQ 12,
                         JArr [JStr ''+'', JArr [JStr ''*'', JArr [JStr ''var'', JStr ''base''], JQ 1], JQ 1],
                         JQ 16,
                         JArr [JStr ''+'', JArr [JStr ''*'', JArr [JStr ''var'', JStr ''base''], JQ 4], JQ 1],
                         JQ 20,
                         JArr [JStr ''+'', JArr [JStr ''*'', JArr [JStr ''var'', JStr ''base''], JQ 8], JQ 1]]])])]"

definition color_steps :: jsval where
  "color_steps =
     JObj [(''id'', JStr ''steps''),
           (''type'', JStr ''line''),
           (''source'', JStr ''osm''),
           (''source-layer'', JStr ''road''),
           (''minzoom'', JQ 18),
           (''filter'',
             JArr [JStr ''all'', JArr [JStr ''=='', JStr ''highway'', JStr ''steps''],
               (if color_level = 0 then JArr [JStr ''any'', JArr [JStr ''!has'', JStr ''from_level''],
                                          JArr [JStr ''any'',
                                            JArr [JStr ''=='', JStr ''from_level'', JQ color_level],
                                            JArr [JStr ''=='', JStr ''to_level'', JQ color_level]]]
                else JArr [JStr ''any'', JArr [JStr ''=='', JStr ''from_level'', JQ color_level],
                       JArr [JStr ''=='', JStr ''to_level'', JQ color_level]])]),
           (''paint'',
             JObj [(''line-dasharray'', JArr [JQ (5 / 10), JQ (5 / 10)]),
                   (''line-color'', JStr ''#ff4524''),
                   (''line-opacity'', JQ 1),
                   (''line-width'',
                     JArr [JStr ''let'', JStr ''base'', JQ (4 / 10),
                       JArr [JStr ''interpolate'', JArr [JStr ''linear''], JArr [JStr ''zoom''], JQ 5,
                         JArr [JStr ''+'',
                           JArr [JStr ''*'', JArr [JStr ''var'', JStr ''base''], JQ (1 / 10)], JQ 1],
                         JQ 9,
                         JArr [JStr ''+'',
                           JArr [JStr ''*'', JArr [JStr ''var'', JStr ''base''], JQ (4 / 10)], JQ 1],
                         JQ 12,
                         JArr [JStr ''+'', JArr [JStr ''*'', JArr [JStr ''var'', JStr ''base''], JQ 1], JQ 1],
                         JQ 16,
                         JArr [JStr ''+'', JArr [JStr ''*'', JArr [JStr ''var'', JStr ''base''], JQ 4], JQ 1],
                         JQ 20,
                         JArr [JStr ''+'', JArr [JStr ''*'', JArr [JStr ''var'', JStr ''base''], JQ 8], JQ 1]]])])]"

definition color_indoor_elevator_outline :: jsval where
  "color_indoor_elevator_outline =
     JObj [(''id'', JStr ''indoor-elevator-outline''),
           (''type'', JStr ''circle''),
           (''source'', JStr ''osm''),
           (''source-layer'', JStr ''indoor''),
           (''minzoom'', JQ 18),
           (''filter'',
             JArr [JStr ''all'', JArr [JStr ''=='', JStr ''indoor'', JStr ''elevator''],
               JArr [JStr ''<='', JStr ''from_level'', JQ color_level],
               JArr [JStr ''>='', JStr ''to_level'', JQ color_level]]),
           (''paint'', JObj [(''circle-color'', JStr ''#808080''), (''circle-radius'', JQ 16)])]"

definition color_indoor_elevator :: jsval where
  "color_indoor_elevator =
     JObj [(''id'', JStr ''indoor-elevator''),
           (''type'', JStr ''circle''),
           (''source'', JStr ''osm''),
           (''source-layer'', JStr ''indoor''),
           (''minzoom'', JQ 18),
           (''filter'',
             JArr [JStr ''all'', JArr [JStr ''=='', JStr ''indoor'', JStr ''elevator''],
               JArr [JStr ''<='', JStr ''from_level'', JQ color_level],
               JArr [JStr ''>='', JStr ''to_level'', JQ color_level]]),
           (''paint'', JObj [(''circle-color'', JStr ''#bcf1ba''), (''circle-radius'', JQ 14)])]"

definition color_indoor_elevator_icon :: jsval where
  "color_indoor_elevator_icon =
     JObj [(''id'', JStr ''indoor-elevator-icon''),
           (''type'', JStr ''symbol''),
           (''source'', JStr ''osm''),
           (''source-layer'', JStr ''indoor''),
           (''minzoom'', JQ 18),
           (''filter'',
             JArr [JStr ''all'', JArr [JStr ''=='', JStr ''indoor'', JStr ''elevator''],
               JArr [JStr ''<='', JStr ''from_level'', JQ color_level],
               JArr [JStr ''>='', JStr ''to_level'', JQ color_level]]),
           (''layout'', JObj [(''icon-image'', JStr ''elevator''), (''icon-size'', JQ (9 / 10))])]"

definition color_road_back_residential :: jsval where
  "color_road_back_residential =
     JObj [(''id'', JStr ''road_back_residential''),
           (''type'', JStr ''line''),
           (''source'', JStr ''osm''),
           (''source-layer'', JStr ''road''),
           (''filter'', JArr [JStr ''=='', JStr ''highway'', JStr ''residential'']),
           (''layout'', JObj [(''line-cap'', JStr ''round'')]),
           (''paint'',
             JObj [(''line-color'', JStr ''#ffffff''),
                   (''line-width'',
                     JArr [JStr ''interpolate'', JArr [JStr ''linear''], JArr [JStr ''zoom''], JQ 5, JQ 0,
                       JQ 9, JQ (5 / 10), JQ 12, JQ 1, JQ 16, JQ 4, JQ 20, JQ 20]),
                   (''line-opacity'',
                     JArr [JStr ''interpolate'', JArr [JStr ''linear''], JArr [JStr ''zoom''], JQ 12,
                       JQ (4 / 10), JQ 15, JQ 1])])]"

definition color_road_back_non_residential :: jsval where
  "color_road_back_non_residential =
     JObj [(''id'', JStr ''road_back_non_residential''),
           (''type'', JStr ''line''),
           (''source'', JStr ''osm''),
           (''source-layer'', JStr ''road''),
           (''filter'',
             JArr [JStr ''!in'', JStr ''highway'', JStr ''footway'', JStr ''track'', JStr ''steps'',
               JStr ''cycleway'', JStr ''path'', JStr ''unclassified'', JStr ''residential'',
               JStr ''service'']),
           (''layout'', JObj [(''line-cap'', JStr ''round'')]),
           (''paint'',
             JObj [(''line-color'', JStr ''#ffffff''),
                   (''line-width'',
                     JArr [JStr ''let'', JStr ''base'',
                       JArr [JStr ''match'', JArr [JStr ''get'', JStr ''highway''], JStr ''motorway'', JQ 4,
                         JArr [JStr ''trunk'', JStr ''motorway_link''], JQ (35 / 10),
                         JArr [JStr ''primary'', JStr ''secondary'', JStr ''aeroway'', JStr ''trunk_link''],
                         JQ 3,
                         JArr [JStr ''primary_link'', JStr ''secondary_link'', JStr ''tertiary'',
                           JStr ''tertiary_link''],
                         JQ (175 / 100), JQ (0 / 10)],
                       JArr [JStr ''interpolate'', JArr [JStr ''linear''], JArr [JStr ''zoom''], JQ 5,
                         JArr [JStr ''+'',
                           JArr [JStr ''*'', JArr [JStr ''var'', JStr ''base''], JQ (1 / 10)], JQ 1],
                         JQ 9,
                         JArr [JStr ''+'',
                           JArr [JStr ''*'', JArr [JStr ''var'', JStr ''base''], JQ (4 / 10)], JQ 1],
                         JQ 12,
                         JArr [JStr ''+'', JArr [JStr ''*'', JArr [JStr ''var'', JStr ''base''], JQ 1], JQ 1],
                         JQ 16,
                         JArr [JStr ''+'', JArr [JStr ''*'', JArr [JStr ''var'', JStr ''base''], JQ 4], JQ 1],
                         JQ 20,
                         JArr [JStr ''+'', JArr [JStr ''*'', JArr [JStr ''var'', JStr ''base''], JQ 8], JQ 1]]])])]"

definition color_road :: jsval where
  "color_road =
     JObj [(''id'', JStr ''road''),
           (''type'', JStr ''line''),
           (''source'', JStr ''osm''),
           (''source-layer'', JStr ''road''),
           (''layout'', JObj [(''line-cap'', JStr ''round'')]),
           (''filter'',
             JArr [JStr ''all'', JArr [JStr ''has'', JStr ''ref''],
               JArr [JStr ''any'',
                 JArr [JStr ''=='', JArr [JStr ''get'', JStr ''highway''], JStr ''motorway''],
                 JArr [JStr ''=='', JArr [JStr ''get'', JStr ''highway''], JStr ''trunk''],
                 JArr [JStr ''=='', JArr [JStr ''get'', JStr ''highway''], JStr ''secondary''],
                 JArr [JStr ''>'', JArr [JStr ''zoom''], JQ 11]]]),
           (''paint'',
             JObj [(''line-color'',
                     JArr [JStr ''match'', JArr [JStr ''get'', JStr ''highway''], JStr ''motorway'',
                       JStr ''#ffb366'', JArr [JStr ''trunk'', JStr ''motorway_link''],
                       JStr ''#f7e06e'',
                       JArr [JStr ''primary'', JStr ''secondary'', JStr ''aeroway'', JStr ''trunk_link''],
                       JStr ''#fffbf8'',
                       JArr [JStr ''primary_link'', JStr ''secondary_link'', JStr ''tertiary'',
                         JStr ''tertiary_link''],
                       JStr ''#ffffff'', JStr ''residential'', JStr ''#ffffff'', JStr ''#ffffff'']),
                   (''line-width'',
                     JArr [JStr ''let'', JStr ''base'',
                       JArr [JStr ''match'', JArr [JStr ''get'', JStr ''highway''], JStr ''motorway'',
                         JQ (35 / 10), JArr [JStr ''trunk'', JStr ''motorway_link''], JQ 3,
                         JArr [JStr ''primary'', JStr ''secondary'', JStr ''aeroway'', JStr ''trunk_link''],
                         JQ (25 / 10),
                         JArr [JStr ''primary_link'', JStr ''secondary_link'', JStr ''tertiary'',
                           JStr ''tertiary_link''],
                         JQ (175 / 100), JStr ''residential'', JQ (15 / 10), JQ (75 / 100)],
                       JArr [JStr ''interpolate'', JArr [JStr ''linear''], JArr [JStr ''zoom''], JQ 5,
                         JArr [JStr ''*'', JArr [JStr ''var'', JStr ''base''], JQ (5 / 10)], JQ 9,
                         JArr [JStr ''*'', JArr [JStr ''var'', JStr ''base''], JQ 1], JQ 12,
                         JArr [JStr ''*'', JArr [JStr ''var'', JStr ''base''], JQ 2], JQ 16,
                         JArr [JStr ''*'', JArr [JStr ''var'', JStr ''base''], JQ (25 / 10)], JQ 20,
                         JArr [JStr ''*'', JArr [JStr ''var'', JStr ''base''], JQ 3]]])])]"

definition color_rail_old :: jsval where
  "color_rail_old =
     JObj [(''id'', JStr ''rail_old''),
           (''type'', JStr ''line''),
           (''source'', JStr ''osm''),
           (''source-layer'', JStr ''rail''),
           (''filter'', JArr [JStr ''=='', JStr ''rail'', JStr ''old'']),
           (''paint'', JObj [(''line-color'', color_rail)])]"

definition color_rail_detail :: jsval where
  "color_rail_detail =
     JObj [(''id'', JStr ''rail_detail''),
           (''type'', JStr ''line''),
           (''source'', JStr ''osm''),
           (''source-layer'', JStr ''rail''),
           (''filter'', JArr [JStr ''=='', JStr ''rail'', JStr ''detail'']),
           (''paint'', JObj [(''line-color'', color_rail)])]"

definition color_rail_secondary :: jsval where
  "color_rail_secondary =
     JObj [(''id'', JStr ''rail_secondary''),
           (''type'', JStr ''line''),
           (''source'', JStr ''osm''),
           (''source-layer'', JStr ''rail''),
           (''filter'',
             JArr [JStr ''all'', JArr [JStr ''=='', JStr ''rail'', JStr ''secondary''],
               JArr [JStr ''any'', JArr [JStr ''!has'', JStr ''level''],
                 JArr [JStr ''=='', JStr ''level'', JQ color_level]]]),
           (''paint'', JObj [(''line-color'', color_rail), (''line-width'', JQ (115 / 100))])]"

definition color_rail_primary :: jsval where
  "color_rail_primary =
     JObj [(''id'', JStr ''rail_primary''),
           (''type'', JStr ''line''),
           (''source'', JStr ''osm''),
           (''source-layer'', JStr ''rail''),
           (''filter'',
             JArr [JStr ''all'', JArr [JStr ''=='', JStr ''rail'', JStr ''primary''],
               JArr [JStr ''any'', JArr [JStr ''!has'', JStr ''level''],
                 JArr [JStr ''=='', JStr ''level'', JQ color_level]]]),
           (''paint'', JObj [(''line-color'', color_rail), (''line-width'', JQ (13 / 10))])]"

definition color_road_ref_shield :: jsval where
  "color_road_ref_shield =
     JObj [(''id'', JStr ''road-ref-shield''),
           (''type'', JStr ''symbol''),
           (''source'', JStr ''osm''),
           (''source-layer'', JStr ''road''),
           (''minzoom'', JQ 6),
           (''filter'',
             JArr [JStr ''all'', JArr [JStr ''has'', JStr ''ref''],
               JArr [JStr ''any'',
                 JArr [JStr ''=='', JArr [JStr ''get'', JStr ''highway''], JStr ''motorway''],
                 JArr [JStr ''=='', JArr [JStr ''get'', JStr ''highway''], JStr ''trunk''],
                 JArr [JStr ''=='', JArr [JStr ''get'', JStr ''highway''], JStr ''secondary''],
                 JArr [JStr ''>'', JArr [JStr ''zoom''], JQ 11]]]),
           (''layout'',
             JObj [(''symbol-placement'', JStr ''line''),
                   (''text-field'', JArr [JStr ''get'', JStr ''ref'']),
                   (''text-font'', JArr [JStr ''Noto Sans Display Regular'']),
                   (''text-size'',
                     JArr [JStr ''case'',
                       JArr [JStr ''=='', JArr [JStr ''get'', JStr ''highway''], JStr ''motorway''],
                       JQ 11, JQ 10]),
                   (''text-justify'', JStr ''center''),
                   (''text-rotation-alignment'', JStr ''viewport''),
                   (''text-pitch-alignment'', JStr ''viewport''),
                   (''icon-image'', JStr ''shield''),
                   (''icon-text-fit'', JStr ''both''),
                   (''icon-text-fit-padding'', JArr [JQ (5 / 10), JQ 4, JQ (5 / 10), JQ 4]),
                   (''icon-rotation-alignment'', JStr ''viewport''),
                   (''icon-pitch-alignment'', JStr ''viewport'')]),
           (''paint'', JObj [(''text-color'', JStr ''#333333'')])]"

definition color_road_name_text :: jsval where
  "color_road_name_text =
     JObj [(''id'', JStr ''road-name-text''),
           (''type'', JStr ''symbol''),
           (''source'', JStr ''osm''),
           (''source-layer'', JStr ''road''),
           (''minzoom'', JQ 14),
           (''layout'',
             JObj [(''symbol-placement'', JStr ''line''),
                   (''text-field'', JArr [JStr ''get'', JStr ''name'']),
                   (''text-font'', JArr [JStr ''Noto Sans Display Regular'']),
                   (''text-size'', JQ 9)]),
           (''paint'',
             JObj [(''text-halo-width'', JQ 11),
                   (''text-halo-color'', JStr ''white''),
                   (''text-color'', JStr ''#333333'')])]"

definition color_towns :: jsval where
  "color_towns =
     JObj [(''id'', JStr ''towns''),
           (''type'', JStr ''symbol''),
           (''source'', JStr ''osm''),
           (''source-layer'', JStr ''cities''),
           (''filter'', JArr [JStr ''!='', JArr [JStr ''get'', JStr ''place''], JStr ''city'']),
           (''layout'',
             JObj [(''text-field'', JArr [JStr ''get'', JStr ''name'']),
                   (''text-font'', JArr [JStr ''Noto Sans Display Regular'']),
                   (''text-size'', JQ 12)]),
           (''paint'',
             JObj [(''text-halo-width'', JQ 1),
                   (''text-halo-color'', JStr ''white''),
                   (''text-color'', JStr ''#333333'')])]"

definition color_cities :: jsval where
  "color_cities =
     JObj [(''id'', JStr ''cities''),
           (''type'', JStr ''symbol''),
           (''source'', JStr ''osm''),
           (''source-layer'', JStr ''cities''),
           (''filter'', JArr [JStr ''=='', JArr [JStr ''get'', JStr ''place''], JStr ''city'']),
           (''layout'',
             JObj [(''text-field'', JArr [JStr ''get'', JStr ''name'']),
                   (''text-font'', JArr [JStr ''Noto Sans Display Bold'']),
                   (''text-size'', JQ 18)]),
           (''paint'',
             JObj [(''text-halo-width'', JQ 2),
                   (''text-halo-color'', JStr ''white''),
                   (''text-color'', JStr ''#111111'')])]"

definition color_layers :: "jsval list" where
  "color_layers =
     [color_background, color_coastline, color_landuse_park, color_landuse, color_water_layer,
       color_sport_layer, color_pedestrian_layer, color_waterway, color_building_layer, color_indoor_corridor,
       color_indoor, color_indoor_outline, color_indoor_names, color_landuse_public_transport, color_footway,
       color_steps, color_indoor_elevator_outline, color_indoor_elevator, color_indoor_elevator_icon,
       color_road_back_residential, color_road_back_non_residential, color_road, color_rail_old,
       color_rail_detail, color_rail_secondary, color_rail_primary, color_road_ref_shield,
       color_road_name_text, color_towns, color_cities]"

definition colorStyle :: "string \<Rightarrow> string \<Rightarrow> jsval" where
  "colorStyle tilesEndpoint apiEndpoint =
     JObj [(''version'', JQ 8),
           (''sources'',
             JObj [(''osm'',
                     JObj [(''type'', JStr ''vector''),
                           (''tiles'', JArr [JStr (tilesEndpoint @ ''{z}/{x}/{y}.mvt'')]),
                           (''maxzoom'', JQ 20)])]),
           (''glyphs'', JStr (tilesEndpoint @ ''glyphs/{fontstack}/{range}.pbf'')),
           (''sprite'', JStr (apiEndpoint @ ''sprite/sprite'')),
           (''layers'', JArr color_layers)]"

end
