(* ===== verification/Textures.thy ===== *)
theory Textures
  imports Prelude Complex_Main
begin

text \<open>
  The pictures that are drawn at run time (\<^verbatim>\<open>ui/web/js/railviz/textures.js\<close>).
  A canvas is its size with the drawing commands in their order; a path is the list of its segments. The
  angles of an arc are given in multiples of \<^verbatim>\<open>Math.PI\<close>.
\<close>

section \<open>Canvas\<close>

datatype Segment =
    MoveTo rat rat
  | LineTo rat rat
  | BezierCurveTo rat rat rat rat rat rat
  | Arc rat rat rat rat rat
  | ClosePath

datatype Drawing =
    FillStyle string
  | StrokeStyle string
  | LineWidth rat
  | FillPath "Segment list"
  | StrokePath "Segment list"

record Canvas =
  cv_width :: rat
  cv_height :: rat
  cv_drawn :: "Drawing list"

text \<open>What \<^verbatim>\<open>map.addImage\<close> is given besides the name: the pixels of the canvas and
  how the picture may be stretched.\<close>

record MapImage =
  im_data :: Canvas
  im_content :: "rat \<times> rat \<times> rat \<times> rat"
  im_stretchX :: "(rat \<times> rat) list option"
  im_stretchY :: "(rat \<times> rat) list option"

record ShieldOptions =
  so_fill :: string
  so_stroke :: string

section \<open>Pictures\<close>

definition createTrain :: "rat \<Rightarrow> Canvas" where
  "createTrain size' =
     (let border = 2 / 64 * size';
          padding = (size' - size' / 2) / 2 + border;
          innerSize = size' - 2 * padding;
          mid = size' / 2;
          rad = innerSize / (35 / 10);
          path = [Arc (padding + rad) mid rad (1 / 2) (3 / 2),
                  BezierCurveTo (padding + rad + rad) (mid - rad) (size' - padding) mid (size' - padding) mid,
                  BezierCurveTo (size' - padding) mid (padding + rad + rad) (mid + rad) (padding + rad) (mid + rad),
                  ClosePath]
      in \<lparr>cv_width = size', cv_height = size',
          cv_drawn = [FillStyle ''rgba(255, 255, 255, 1.0)'', FillPath path, LineWidth border,
                      StrokeStyle ''rgba(160, 160, 160, 1.0)'', StrokePath path]\<rparr>)"

definition createShield :: "ShieldOptions \<Rightarrow> MapImage" where
  "createShield opt =
     (let d = 32; l_front = 1; l_back = d - 1; lr_front = l_front + 2; lr_back = l_back - 2;
          lp_front = l_front + 1; lp_back = l_back - 1;
          p = [MoveTo lr_front l_front,
               LineTo lr_back l_front,
               BezierCurveTo lp_back lp_front lp_back lp_front l_back lr_front,
               LineTo l_back lr_back,
               BezierCurveTo lp_back lp_back lp_back lp_back lr_back l_back,
               LineTo lr_front l_back,
               BezierCurveTo lp_front lp_back lp_front lp_back l_front lr_back,
               LineTo l_front lr_front,
               BezierCurveTo lp_front lp_front lp_front lp_front lr_front l_front,
               ClosePath]
      in \<lparr>im_data = \<lparr>cv_width = d, cv_height = d,
                      cv_drawn = [FillStyle (so_fill opt), FillPath p, StrokeStyle (so_stroke opt), StrokePath p]\<rparr>,
          im_content = (lr_front, lr_front, lr_back, lr_back),
          im_stretchX = Some [(lr_front, lr_back)], im_stretchY = Some [(lr_front, lr_back)]\<rparr>)"

definition createHexShield :: "ShieldOptions \<Rightarrow> MapImage" where
  "createHexShield opt =
     (let d = 64; l_front = 3; l_back = d - 3; lp_front = l_front + 8; lp_half = d / 2; lp_back = l_back - 8;
          p = [MoveTo lp_half l_front, LineTo l_back lp_front, LineTo l_back lp_back, LineTo lp_half l_back,
               LineTo l_front lp_back, LineTo l_front lp_front, ClosePath]
      in \<lparr>im_data = \<lparr>cv_width = d, cv_height = d,
                      cv_drawn = [FillStyle (so_fill opt), FillPath p, LineWidth 3, StrokeStyle (so_stroke opt),
                                  StrokePath p]\<rparr>,
          im_content = (l_front + 4, lp_front + 2, l_back - 4, lp_back - 2),
          im_stretchX = None, im_stretchY = None\<rparr>)"

section \<open>What is on a picture\<close>

text \<open>The corners of a box around each segment: a curve stays between its control points, an arc within
  its circle.\<close>

fun segment_box :: "Segment \<Rightarrow> (rat \<times> rat) list" where
  "segment_box (MoveTo x y) = [(x, y)]"
| "segment_box (LineTo x y) = [(x, y)]"
| "segment_box (BezierCurveTo a b c d x y) = [(a, b), (c, d), (x, y)]"
| "segment_box (Arc x y r a b) = [(x - r, y - r), (x + r, y + r)]"
| "segment_box ClosePath = []"

fun path_of :: "Drawing \<Rightarrow> Segment list" where
  "path_of (FillPath p) = p"
| "path_of (StrokePath p) = p"
| "path_of _ = []"

definition inside :: "rat \<Rightarrow> Canvas \<Rightarrow> bool" where
  "inside m c =
     list_all (\<lambda>(x, y). m \<le> x \<and> x \<le> cv_width c - m \<and> m \<le> y \<and> y \<le> cv_height c - m)
       (concat (map segment_box (concat (map path_of (cv_drawn c)))))"

fun scale_segment :: "rat \<Rightarrow> Segment \<Rightarrow> Segment" where
  "scale_segment k (MoveTo x y) = MoveTo (k * x) (k * y)"
| "scale_segment k (LineTo x y) = LineTo (k * x) (k * y)"
| "scale_segment k (BezierCurveTo a b c d x y) = BezierCurveTo (k * a) (k * b) (k * c) (k * d) (k * x) (k * y)"
| "scale_segment k (Arc x y r a b) = Arc (k * x) (k * y) (k * r) a b"
| "scale_segment k ClosePath = ClosePath"

fun scale_drawing :: "rat \<Rightarrow> Drawing \<Rightarrow> Drawing" where
  "scale_drawing k (FillPath p) = FillPath (map (scale_segment k) p)"
| "scale_drawing k (StrokePath p) = StrokePath (map (scale_segment k) p)"
| "scale_drawing k (LineWidth w) = LineWidth (k * w)"
| "scale_drawing k d = d"

definition scale_canvas :: "rat \<Rightarrow> Canvas \<Rightarrow> Canvas" where
  "scale_canvas k c =
     \<lparr>cv_width = k * cv_width c, cv_height = k * cv_height c, cv_drawn = map (scale_drawing k) (cv_drawn c)\<rparr>"

text \<open>The train is the same picture at every size, and with its border it stays on the canvas. So do
  the shields, with half of the line they are stroked with, and the text fits on them.\<close>

lemma createTrain_scales: "createTrain (k * size') = scale_canvas k (createTrain size')"
  by (simp add: createTrain_def scale_canvas_def Let_def algebra_simps)

lemma createTrain_inside: "0 \<le> size' \<Longrightarrow> inside (2 / 64 * size') (createTrain size')"
  by (simp add: createTrain_def inside_def Let_def field_simps)

definition box_on_canvas :: "MapImage \<Rightarrow> bool" where
  "box_on_canvas i =
     (case im_content i of (x0, y0, x1, y1) \<Rightarrow>
        0 \<le> x0 \<and> x0 < x1 \<and> x1 \<le> cv_width (im_data i) \<and> 0 \<le> y0 \<and> y0 < y1 \<and> y1 \<le> cv_height (im_data i))"

lemma shields_inside:
  "inside (1 / 2) (im_data (createShield opt)) \<and> box_on_canvas (createShield opt)"
  "inside (3 / 2) (im_data (createHexShield opt)) \<and> box_on_canvas (createHexShield opt)"
  by (simp_all add: createShield_def createHexShield_def inside_def box_on_canvas_def Let_def)

end
