(* ===== verification/Map_View.thy ===== *)
theory Map_View
  imports Railviz_Events Map_Sync Map_Style Textures
begin

text \<open>
  The set-up of the map on the page (\<^verbatim>\<open>ui/web/js/map.js\<close>): the port handlers of
  \<^verbatim>\<open>initPorts\<close> that concern the map itself, and the custom layer that reports the
  viewport. The map library is a parameter (\<open>MapLib\<close>): it tells what a map shows, combines
  positions to bounds and computes a camera for bounds. What the handlers make the library do is
  recorded. The modules behind the view are the record \<open>Main\<close> of \<open>Railviz_Main\<close>.

  The browser's local storage is a map of values: the text of a value is not modelled. It may refuse to
  store; the code ignores that.
\<close>

section \<open>The page\<close>

record MapShown =
  sh_rect :: "rat \<times> rat \<times> rat \<times> rat" \<comment> \<open>top, left, width and height of the canvas\<close>
  sh_lng :: rat
  sh_lat :: rat
  sh_zoom :: rat
  sh_bearing :: rat
  sh_pitch :: rat
  sh_bounds :: "rat \<times> rat \<times> rat \<times> rat" \<comment> \<open>north, west, south, east\<close>

record ViewportInfo =
  vi_scale :: rat
  vi_zoom :: int
  vi_pixelBounds :: "rat \<times> rat \<times> rat \<times> rat"
  vi_geoBounds :: "rat \<times> rat \<times> rat \<times> rat"
  vi_railVizBounds :: "rat \<times> rat \<times> rat \<times> rat"
  vi_center :: point \<comment> \<open>latitude and longitude\<close>
  vi_bearing :: rat
  vi_pitch :: rat

record CameraOptions =
  co_center :: point
  co_zoom :: rat
  co_pitch :: rat
  co_bearing :: rat

record Padding =
  pad_top :: rat
  pad_right :: rat
  pad_bottom :: rat
  pad_left :: rat

record 'b MapLib =
  emptyBounds :: 'b
  extendBounds :: "'b \<Rightarrow> point \<Rightarrow> 'b"
  isEmptyBounds :: "'b \<Rightarrow> bool"
  cameraForBounds :: "string \<Rightarrow> 'b \<Rightarrow> rat \<Rightarrow> Padding option \<Rightarrow> CameraOptions"
  storage_accepts :: bool

datatype 'b CameraCmd =
    FlyTo CameraOptions
  | JumpTo CameraOptions
  | FitBounds 'b Padding rat

datatype PageMsg =
    MapUpdatePort ViewportInfo
  | ShowContextMenu int int rat rat

datatype MapStyle =
    ColorStyle string string
  | BackgroundMapStyle string
  | GlyphsOnly string

record MapOptions =
  mo_container :: string
  mo_style :: MapStyle
  mo_zoom :: jsval
  mo_minZoom :: rat
  mo_maxZoom :: rat
  mo_center :: "jsval \<times> jsval" \<comment> \<open>longitude and latitude\<close>
  mo_bearing :: jsval
  mo_pitch :: jsval

record Permalink =
  pl_lat :: jsnum
  pl_lng :: jsnum
  pl_zoom :: jsnum
  pl_bearing :: jsnum
  pl_pitch :: jsnum
  pl_timestamp :: jsval

record 'b MapPage =
  pg_main :: Main
  pg_storage :: "(string, jsval) jsmap"
  pg_messages :: "PageMsg list"
  pg_created :: "MapOptions list"
  pg_images :: "(string \<times> string \<times> MapImage) list" \<comment> \<open>map, name and picture\<close>
  pg_synced :: "(string \<times> string) list"
  elmMaps :: "string list"
  pg_camera :: "(string \<times> 'b CameraCmd) list"
  zoomRounded :: rat
  viewportListener :: bool

section \<open>The custom layer\<close>

definition viewport_info :: "MapShown \<Rightarrow> ViewportInfo" where
  "viewport_info v =
     (let zoom = \<lfloor>sh_zoom v\<rfloor> in
      \<lparr>vi_scale = 2 powi zoom, vi_zoom = zoom, vi_pixelBounds = sh_rect v,
       vi_geoBounds = sh_bounds v, vi_railVizBounds = sh_bounds v,
       vi_center = (sh_lat v, sh_lng v), vi_bearing = sh_bearing v, vi_pitch = sh_pitch v\<rparr>)"

text \<open>What the modules behind the view read of it.\<close>

definition map_info :: "ViewportInfo \<Rightarrow> MapInfo" where
  "map_info i =
     (let (north, west, south, east) = vi_railVizBounds i in
      \<lparr>mi_zoom = vi_zoom i, mi_north = north, mi_west = west, mi_south = south, mi_east = east\<rparr>)"

definition quarter_zoom :: "MapShown \<Rightarrow> rat" where
  "quarter_zoom v = of_int \<lfloor>sh_zoom v * 4\<rfloor> / 4"

definition localStorageSet :: "'b MapLib \<Rightarrow> string \<Rightarrow> jsval \<Rightarrow> 'b MapPage \<Rightarrow> 'b MapPage" where
  "localStorageSet L key v pg =
     (if storage_accepts L then pg\<lparr>pg_storage := map_set key v (pg_storage pg)\<rparr> else pg)"

definition stored_view :: "ViewportInfo \<Rightarrow> jsval" where
  "stored_view i =
     JObj [(''lat'', JNum (Fin (fst (vi_center i)))), (''lng'', JNum (Fin (snd (vi_center i)))),
           (''zoom'', JInt (vi_zoom i)), (''bearing'', JNum (Fin (vi_bearing i))), (''pitch'', JNum (Fin (vi_pitch i)))]"

definition updateViewport :: "'b MapLib \<Rightarrow> MapShown \<Rightarrow> 'b MapPage \<Rightarrow> 'b MapPage" where
  "updateViewport L v pg =
     (let zr = quarter_zoom v;
          pg1 = (if zr \<noteq> zoomRounded pg then pg\<lparr>zoomRounded := zr\<rparr> else pg);
          info = viewport_info v;
          pg2 = pg1\<lparr>pg_messages := pg_messages pg1 @ [MapUpdatePort info],
                    pg_main := mapUpdate (map_info info) (pg_main pg1)\<rparr>
      in localStorageSet L ''motis.map'' (stored_view info) pg2)"

definition onAdd :: "'b MapLib \<Rightarrow> MapShown \<Rightarrow> 'b MapPage \<Rightarrow> 'b MapPage" where
  "onAdd L v pg =
     updateViewport L v
       (pg\<lparr>zoomRounded := quarter_zoom v, pg_main := rd_setup (pg_main pg), viewportListener := True\<rparr>)"

definition onRemove :: "'b MapPage \<Rightarrow> 'b MapPage" where
  "onRemove pg = pg\<lparr>viewportListener := False, pg_main := rd_stop (pg_main pg)\<rparr>"

definition moveend :: "'b MapLib \<Rightarrow> MapShown \<Rightarrow> 'b MapPage \<Rightarrow> 'b MapPage" where
  "moveend L v pg = (if viewportListener pg then updateViewport L v pg else pg)"

text \<open>The layer does to the modules what the event loop of \<open>Railviz_Events\<close> takes it to do.\<close>

lemma layer_main:
  "pg_main (onAdd L v pg) = custom_layer_added (map_info (viewport_info v)) (pg_main pg)"
  "pg_main (updateViewport L v pg) = state_of (handle W (ViewportMoved (map_info (viewport_info v))) (pg_main pg))"
  by (simp_all add: onAdd_def updateViewport_def localStorageSet_def custom_layer_added_def Let_def)

section \<open>Ports\<close>

text \<open>\<^verbatim>\<open>(settings && settings.key) || fallback\<close>.\<close>

definition setting :: "jsval \<Rightarrow> string \<Rightarrow> jsnum \<Rightarrow> jsval" where
  "setting settings key fallback =
     js_or (if truthy settings then obj_get settings key else settings) (JNum fallback)"

definition mapInit :: "string \<Rightarrow> string \<Rightarrow> Permalink \<Rightarrow> string \<Rightarrow> string \<Rightarrow> 'b MapPage \<Rightarrow> 'b MapPage" where
  "mapInit ae te initialPermalink style id' pg =
     (let settings = (case map_get (pg_storage pg) ''motis.map'' of None \<Rightarrow> JNull | Some v \<Rightarrow> v);
          lat = setting settings ''lat'' (pl_lat initialPermalink);
          lng = setting settings ''lng'' (pl_lng initialPermalink);
          zoom = setting settings ''zoom'' (pl_zoom initialPermalink);
          bearing = setting settings ''bearing'' (pl_bearing initialPermalink);
          pitch = setting settings ''pitch'' (pl_pitch initialPermalink);
          map_bg = \<lparr>mo_container = id' @ ''-background'',
                    mo_style = (if style = ''color'' then ColorStyle te ae else BackgroundMapStyle te),
                    mo_zoom = zoom, mo_minZoom = 2, mo_maxZoom = 20, mo_center = (lng, lat),
                    mo_bearing = bearing, mo_pitch = pitch\<rparr>;
          map_fg = \<lparr>mo_container = id' @ ''-foreground'',
                    mo_style = GlyphsOnly (te @ ''glyphs/{fontstack}/{range}.pbf''),
                    mo_zoom = zoom, mo_minZoom = 2, mo_maxZoom = 20, mo_center = (lng, lat),
                    mo_bearing = bearing, mo_pitch = pitch\<rparr>
      in pg\<lparr>pg_created := pg_created pg @ [map_bg, map_fg], elmMaps := elmMaps pg @ [id'],
            pg_images := pg_images pg @
              [(mo_container map_bg, ''shield'',
                createShield \<lparr>so_fill = ''hsl(0, 0%, 96%)'', so_stroke = ''hsl(0, 0%, 80%)''\<rparr>),
               (mo_container map_bg, ''hexshield'',
                createHexShield \<lparr>so_fill = ''hsl(0, 0%, 99%)'', so_stroke = ''hsl(0, 0%, 75%)''\<rparr>)],
            pg_synced := pg_synced pg @ [(mo_container map_bg, mo_container map_fg)],
            pg_main := main_init ae (pg_main pg)\<rparr>)"

definition js_round :: "rat \<Rightarrow> int" where
  "js_round x = \<lfloor>x + 1 / 2\<rfloor>"

definition contextmenu :: "rat \<times> rat \<Rightarrow> rat \<times> rat \<Rightarrow> 'b MapPage \<Rightarrow> 'b MapPage" where
  "contextmenu pt lngLat pg =
     pg\<lparr>pg_messages := pg_messages pg @
       [ShowContextMenu (js_round (fst pt)) (js_round (snd pt))
          (of_int (js_round (snd lngLat * 10 ^ 6)) / 10 ^ 6) (of_int (js_round (fst lngLat * 10 ^ 6)) / 10 ^ 6)]\<rparr>"

definition map_padding :: Padding where
  "map_padding = \<lparr>pad_top = 96, pad_right = 32, pad_bottom = 96, pad_left = 640\<rparr>"

record FlyToOpt =
  fo_mapId :: string
  fo_lng :: rat
  fo_lat :: rat
  fo_zoom :: "rat option"
  fo_pitch :: "rat option"
  fo_bearing :: "rat option"
  fo_animate :: bool

definition nonzero_or :: "rat option \<Rightarrow> rat \<Rightarrow> rat" where
  "nonzero_or x d = (case x of None \<Rightarrow> d | Some q \<Rightarrow> if q = 0 then d else q)"

definition camera_cmd :: "string \<Rightarrow> 'b CameraCmd \<Rightarrow> 'b MapPage \<Rightarrow> 'b MapPage" where
  "camera_cmd id' c pg = pg\<lparr>pg_camera := pg_camera pg @ [(id', c)]\<rparr>"

text \<open>\<^verbatim>\<open>window.elmMaps\<close> has no map under another name, and calling a method of
  undefined throws.\<close>

definition mapFlyTo :: "'b MapLib \<Rightarrow> FlyToOpt \<Rightarrow> 'b MapPage \<Rightarrow> 'b MapPage exec" where
  "mapFlyTo L opt pg =
     (if fo_mapId opt \<notin> set (elmMaps pg) then Thrown pg
      else
        let spot = (fo_lng opt, fo_lat opt);
            bounds = extendBounds L (extendBounds L (emptyBounds L) spot) spot;
            cam = cameraForBounds L (fo_mapId opt) bounds 12 (if fo_animate opt then Some map_padding else None);
            options = cam\<lparr>co_zoom := nonzero_or (fo_zoom opt) (co_zoom cam),
                          co_pitch := nonzero_or (fo_pitch opt) 0, co_bearing := nonzero_or (fo_bearing opt) 0\<rparr>
        in Done (camera_cmd (fo_mapId opt) (if fo_animate opt then FlyTo options else JumpTo options) pg))"

definition fit_bounds :: "'b MapLib \<Rightarrow> string \<Rightarrow> 'b \<Rightarrow> 'b MapPage \<Rightarrow> 'b MapPage exec" where
  "fit_bounds L id' bounds pg =
     (if isEmptyBounds L bounds then Done pg
      else if id' \<notin> set (elmMaps pg) then Thrown pg
      else Done (camera_cmd id' (FitBounds bounds map_padding 0) pg))"

definition mapFitBounds :: "'b MapLib \<Rightarrow> string \<Rightarrow> (rat \<times> rat) list \<Rightarrow> 'b MapPage \<Rightarrow> 'b MapPage exec" where
  "mapFitBounds L id' coords pg =
     fit_bounds L id' (foldl (\<lambda>b c. extendBounds L b (snd c, fst c)) (emptyBounds L) coords) pg"

text \<open>A station is at the longitude and latitude given. Both subscribers of the port run, the one that
  frames the connections first.\<close>

definition frame_connections :: "'b MapLib \<Rightarrow> string \<Rightarrow> point list list \<Rightarrow> 'b MapPage \<Rightarrow> 'b MapPage exec" where
  "frame_connections L id' stations pg =
     fit_bounds L id' (foldl (\<lambda>b conn. foldl (extendBounds L) b conn) (emptyBounds L) stations) pg"

fun on_main :: "'b MapPage \<Rightarrow> Main exec \<Rightarrow> 'b MapPage exec" where
  "on_main pg (Done s) = Done (pg\<lparr>pg_main := s\<rparr>)"
| "on_main pg (Thrown s) = Thrown (pg\<lparr>pg_main := s\<rparr>)"

definition mapSetConnections ::
  "'b MapLib \<Rightarrow> World \<Rightarrow> string \<Rightarrow> point list list \<Rightarrow> Connection list \<Rightarrow> 'b MapPage \<Rightarrow> 'b MapPage exec" where
  "mapSetConnections L W id' stations conns pg =
     after (frame_connections L id' stations pg) (\<lambda>pg. on_main pg (handle W (PortConnections conns) (pg_main pg)))"

text \<open>The other ports lead straight to the modules.\<close>

datatype PortIn =
    InMapInit string
  | InFlyTo FlyToOpt
  | InFitBounds string "(rat \<times> rat) list"
  | InSetConnections string "point list list" "Connection list"
  | InSetMarkers MarkerSettings
  | InSetDetailFilter "DetailFilter option"
  | InUpdateWalks "Walk list"
  | InHighlightConnections "int list"
  | InSetTimeOffset rat
  | InSetPPRSearchOptions jsval
  | InUseTrainClassColors bool
  | InShowTrains bool
  | InSetLocale string string
  | InSetGBFSSearchOptions "GbfsOption list"

definition to_module :: "World \<Rightarrow> Event \<Rightarrow> 'b MapPage \<Rightarrow> 'b MapPage exec" where
  "to_module W e pg = on_main pg (handle W e (pg_main pg))"

fun subscriber :: "'b MapLib \<Rightarrow> World \<Rightarrow> PortIn \<Rightarrow> 'b MapPage \<Rightarrow> 'b MapPage exec" where
  "subscriber L W (InMapInit i) = (\<lambda>pg. Done pg)"
| "subscriber L W (InFlyTo opt) = mapFlyTo L opt"
| "subscriber L W (InFitBounds i coords) = mapFitBounds L i coords"
| "subscriber L W (InSetConnections i stations conns) = mapSetConnections L W i stations conns"
| "subscriber L W (InSetMarkers m) = to_module W (PortMarkers m)"
| "subscriber L W (InSetDetailFilter f) = to_module W (PortDetailFilter f)"
| "subscriber L W (InUpdateWalks ws) = to_module W (PortDetailWalks ws)"
| "subscriber L W (InHighlightConnections ids) = to_module W (PortHighlight ids)"
| "subscriber L W (InSetTimeOffset t) = to_module W (PortTimeOffset t)"
| "subscriber L W (InSetPPRSearchOptions v) = to_module W (PortPPROptions v)"
| "subscriber L W (InUseTrainClassColors b) = to_module W (PortCategoryColors b)"
| "subscriber L W (InShowTrains b) = to_module W (PortShowTrains b)"
| "subscriber L W (InSetLocale a b) = to_module W (PortLocale a b)"
| "subscriber L W (InSetGBFSSearchOptions os) = to_module W (PortGbfsOptions os)"

text \<open>A port only has subscribers once a map was initialised, and one set for every map that was.\<close>

record PortSettings =
  ps_apiEndpoint :: string
  ps_tilesEndpoint :: string
  ps_permalink :: Permalink
  ps_style :: string

definition initPorts :: "PortSettings \<Rightarrow> 'b MapLib \<Rightarrow> World \<Rightarrow> PortIn \<Rightarrow> 'b MapPage \<Rightarrow> 'b MapPage exec" where
  "initPorts P L W msg pg =
     (case msg of
        InMapInit i \<Rightarrow> Done (mapInit (ps_apiEndpoint P) (ps_tilesEndpoint P) (ps_permalink P) (ps_style P) i pg)
      | _ \<Rightarrow> forX (\<lambda>i. subscriber L W msg) (elmMaps pg) pg)"

definition map_mouse :: "World \<Rightarrow> MouseInput \<Rightarrow> 'b MapPage \<Rightarrow> 'b MapPage exec" where
  "map_mouse W e = to_module W (MouseEvent e)"

section \<open>The view is kept\<close>

text \<open>What a new map starts with after the value \<open>q\<close> was stored: zero is falsy, so it counts as
  nothing stored.\<close>

definition restored :: "rat \<Rightarrow> jsnum \<Rightarrow> jsval" where
  "restored q fallback = (if q = 0 then JNum fallback else JNum (Fin q))"

lemma storage_after_viewport:
  "storage_accepts L \<Longrightarrow> map_get (pg_storage (updateViewport L v pg)) ''motis.map'' = Some (stored_view (viewport_info v))"
  by (simp add: updateViewport_def localStorageSet_def Let_def map_get_set)

lemma setting_stored:
  "setting (stored_view (viewport_info v)) ''lat'' d = restored (sh_lat v) d"
  "setting (stored_view (viewport_info v)) ''lng'' d = restored (sh_lng v) d"
  "setting (stored_view (viewport_info v)) ''zoom'' d = restored (of_int \<lfloor>sh_zoom v\<rfloor>) d"
  "setting (stored_view (viewport_info v)) ''bearing'' d = restored (sh_bearing v) d"
  "setting (stored_view (viewport_info v)) ''pitch'' d = restored (sh_pitch v) d"
  by (simp_all add: setting_def stored_view_def js_or_def restored_def viewport_info_def Let_def)

text \<open>C25: the view of the map is kept across a reload. After a viewport was stored both new maps start at
  its position, bearing and pitch and at its zoom rounded down, the same for both, whatever the permalink
  says; but a stored value that is zero (a map that faces north, is not tilted or is centred on the equator)
  is replaced by the permalink's.\<close>

theorem viewport_restored:
  assumes "storage_accepts L"
  shows "\<exists>bg fg. pg_created (mapInit ae te pl style id' (updateViewport L v pg)) = pg_created pg @ [bg, fg] \<and>
    mo_center bg = (restored (sh_lng v) (pl_lng pl), restored (sh_lat v) (pl_lat pl)) \<and>
    mo_zoom bg = restored (of_int \<lfloor>sh_zoom v\<rfloor>) (pl_zoom pl) \<and>
    mo_bearing bg = restored (sh_bearing v) (pl_bearing pl) \<and> mo_pitch bg = restored (sh_pitch v) (pl_pitch pl) \<and>
    fg = bg\<lparr>mo_container := id' @ ''-foreground'', mo_style := GlyphsOnly (te @ ''glyphs/{fontstack}/{range}.pbf'')\<rparr>"
proof -
  have "pg_created (updateViewport L v pg) = pg_created pg"
    by (simp add: updateViewport_def localStorageSet_def Let_def)
  then show ?thesis
    using storage_after_viewport [OF assms] by (simp add: mapInit_def Let_def setting_stored)
qed

section \<open>Connections are framed\<close>

text \<open>What the code relies on: bounds contain what they were extended by, keep what they contained, and are
  empty only before that.\<close>

definition bounds_lib :: "'b MapLib \<Rightarrow> ('b \<Rightarrow> point \<Rightarrow> bool) \<Rightarrow> bool" where
  "bounds_lib L contains \<longleftrightarrow>
     isEmptyBounds L (emptyBounds L) \<and> (\<forall>b p. \<not> isEmptyBounds L (extendBounds L b p)) \<and>
     (\<forall>b p. contains (extendBounds L b p) p) \<and> (\<forall>b p q. contains b q \<longrightarrow> contains (extendBounds L b p) q)"

lemma extend_all:
  assumes "bounds_lib L contains"
  shows "(\<forall>q. contains b q \<longrightarrow> contains (foldl (extendBounds L) b ps) q) \<and>
    (\<forall>p \<in> set ps. contains (foldl (extendBounds L) b ps) p) \<and>
    (isEmptyBounds L (foldl (extendBounds L) b ps) \<longleftrightarrow> ps = [] \<and> isEmptyBounds L b)"
  using assms
proof (induction ps arbitrary: b)
  case (Cons p ps)
  note IH = Cons.IH [OF Cons.prems, of "extendBounds L b p"]
  have one: "contains (extendBounds L b p) p" "\<not> isEmptyBounds L (extendBounds L b p)"
    "\<forall>q. contains b q \<longrightarrow> contains (extendBounds L b p) q"
    using Cons.prems unfolding bounds_lib_def by blast+
  show ?case unfolding foldl_Cons list.set using IH one by blast
qed simp

lemma foldl_concat: "foldl (\<lambda>b xs. foldl f b xs) b xss = foldl f b (concat xss)"
  by (induction xss arbitrary: b) auto

text \<open>The connections that are set are in view. The map is moved to bounds that contain every station
  of every connection, or left alone when there is no station, before the connections are drawn.\<close>

theorem connections_framed:
  assumes "bounds_lib L contains" and "id' \<in> set (elmMaps pg)"
  shows "\<exists>moved. pg_camera (state_of (mapSetConnections L W id' stations conns pg)) = pg_camera pg @ moved \<and>
    (case moved of
       [] \<Rightarrow> concat stations = []
     | [(i, FitBounds b p pitch)] \<Rightarrow> i = id' \<and> pitch = 0 \<and> (\<forall>s \<in> set (concat stations). contains b s)
     | _ \<Rightarrow> False) \<and>
    pg_main (state_of (mapSetConnections L W id' stations conns pg)) = state_of (handle W (PortConnections conns) (pg_main pg))"
proof -
  let ?b = "foldl (extendBounds L) (emptyBounds L) (concat stations)"
  note all = extend_all [OF assms(1), of "emptyBounds L" "concat stations"]
  have e: "isEmptyBounds L ?b \<longleftrightarrow> concat stations = []" using all assms(1) by (auto simp: bounds_lib_def)
  have m: "pg_camera (state_of (on_main p r)) = pg_camera p" "pg_main (state_of (on_main p r)) = state_of r"
    for p :: "'b MapPage" and r
    by (cases r; simp)+
  show ?thesis
  proof (cases "concat stations = []")
    case True
    then have "frame_connections L id' stations pg = Done pg"
      using e by (simp add: frame_connections_def foldl_concat fit_bounds_def)
    with True show ?thesis by (intro exI [of _ "[]"]) (simp add: mapSetConnections_def m)
  next
    case False
    then have "frame_connections L id' stations pg = Done (camera_cmd id' (FitBounds ?b map_padding 0) pg)"
      using e assms(2) by (simp add: frame_connections_def foldl_concat fit_bounds_def del: concat_eq_Nil_conv)
    then show ?thesis
      using all by (intro exI [of _ "[(id', FitBounds ?b map_padding 0)]"]) (simp add: mapSetConnections_def m camera_cmd_def)
  qed
qed

section \<open>A concrete library\<close>

fun box_extend :: "(point \<times> point) option \<Rightarrow> point \<Rightarrow> (point \<times> point) option" where
  "box_extend None p = Some (p, p)"
| "box_extend (Some (sw, ne)) p =
     Some ((min (fst sw) (fst p), min (snd sw) (snd p)), (max (fst ne) (fst p), max (snd ne) (snd p)))"

fun box_contains :: "(point \<times> point) option \<Rightarrow> point \<Rightarrow> bool" where
  "box_contains None p = False"
| "box_contains (Some (sw, ne)) p =
     (fst sw \<le> fst p \<and> fst p \<le> fst ne \<and> snd sw \<le> snd p \<and> snd p \<le> snd ne)"

definition demo_lib :: "(point \<times> point) option MapLib" where
  "demo_lib = \<lparr>emptyBounds = None, extendBounds = box_extend, isEmptyBounds = (\<lambda>b. b = None),
     cameraForBounds = (\<lambda>i b z p. \<lparr>co_center = (0, 0), co_zoom = z, co_pitch = 0, co_bearing = 0\<rparr>),
     storage_accepts = True\<rparr>"

definition demo_page :: "(point \<times> point) option MapPage" where
  "demo_page = \<lparr>pg_main = start, pg_storage = [], pg_messages = [], pg_created = [], pg_images = [], pg_synced = [], elmMaps = [''map''],
     pg_camera = [], zoomRounded = 0, viewportListener = False\<rparr>"

definition demo_permalink :: Permalink where
  "demo_permalink = \<lparr>pl_lat = Fin 49, pl_lng = Fin 8, pl_zoom = Fin 10, pl_bearing = Fin 30, pl_pitch = Fin 0, pl_timestamp = JNull\<rparr>"

definition demo_shown :: MapShown where
  "demo_shown = \<lparr>sh_rect = (0, 0, 800, 600), sh_lng = 9, sh_lat = 50, sh_zoom = 25 / 2, sh_bearing = 0, sh_pitch = 20,
     sh_bounds = (51, 8, 49, 10)\<rparr>"

theorem viewport_restored_witness:
  "\<exists>bg fg. pg_created (mapInit ''/'' ''/t/'' demo_permalink ''bg'' ''map'' (updateViewport demo_lib demo_shown demo_page)) = [bg, fg] \<and>
     mo_center fg = (JNum (Fin 9), JNum (Fin 50)) \<and> mo_zoom fg = JNum (Fin 12) \<and> mo_bearing fg = JNum (Fin 30) \<and>
     mo_pitch fg = JNum (Fin 20)"
proof -
  have "storage_accepts demo_lib" by (simp add: demo_lib_def)
  note viewport_restored [OF this, of "''/''" "''/t/''" demo_permalink "''bg''" "''map''" demo_shown demo_page]
  moreover have "\<lfloor>25 / 2 :: rat\<rfloor> = 12" by (simp add: floor_eq_iff)
  ultimately show ?thesis by (force simp: demo_page_def demo_shown_def demo_permalink_def restored_def)
qed

theorem connections_framed_witness:
  "\<exists>moved. pg_camera (state_of (mapSetConnections demo_lib W ''map'' [[(8, 49), (9, 50)], [(10, 48)]] [] demo_page)) = moved \<and>
     (case moved of [(i, FitBounds b p pitch)] \<Rightarrow> box_contains b (9, 50) \<and> box_contains b (10, 48) | _ \<Rightarrow> False)"
proof -
  have "bounds_lib demo_lib box_contains"
  proof -
    have "box_contains (box_extend b p) p" "box_extend b p \<noteq> None" for b p by (cases b; auto)+
    moreover have "box_contains b q \<Longrightarrow> box_contains (box_extend b p) q" for b p q
      by (cases b) (auto simp: min_le_iff_disj le_max_iff_disj)
    ultimately show ?thesis by (simp add: bounds_lib_def demo_lib_def)
  qed
  moreover have "''map'' \<in> set (elmMaps demo_page)" by (simp add: demo_page_def)
  ultimately show ?thesis
    using connections_framed [of demo_lib box_contains "''map''" demo_page W "[[(8, 49), (9, 50)], [(10, 48)]]" "[]"]
    by (auto simp: demo_page_def split: list.splits CameraCmd.splits)
qed

end
