(* ===== verification/Js_Number.thy ===== *)
theory Js_Number
  imports Fbs_Ast
begin

text \<open>
  Reading numbers from text: \<^verbatim>\<open>parseFloat\<close> and \<^verbatim>\<open>parseInt\<close> of
  JavaScript, which read the longest prefix that is a number. Numbers are read exactly: the rounding to a
  double is left out.
\<close>

definition digit_table :: "(char \<times> nat) list" where
  "digit_table = [(CHR ''0'', 0), (CHR ''1'', 1), (CHR ''2'', 2), (CHR ''3'', 3), (CHR ''4'', 4),
     (CHR ''5'', 5), (CHR ''6'', 6), (CHR ''7'', 7), (CHR ''8'', 8), (CHR ''9'', 9)]"

definition is_digit :: "char \<Rightarrow> bool" where
  "is_digit c = (map_get digit_table c \<noteq> None)"

definition digit_value :: "char \<Rightarrow> nat" where
  "digit_value c = the (map_get digit_table c)"

definition digits_value :: "string \<Rightarrow> nat" where
  "digits_value ds = foldl (\<lambda>n c. 10 * n + digit_value c) 0 ds"

text \<open>The spaces that are skipped in front; those of 8-bit code units.\<close>

definition is_space :: "char \<Rightarrow> bool" where
  "is_space c = (c \<in> {CHR '' '', CHR 0x09, CHR 0x0A, CHR 0x0B, CHR 0x0C, CHR 0x0D, CHR 0xA0})"

fun signed_part :: "string \<Rightarrow> rat \<times> string" where
  "signed_part (c # cs) = (if c = CHR ''-'' then (-1, cs) else if c = CHR ''+'' then (1, cs) else (1, c # cs))"
| "signed_part [] = (1, [])"

text \<open>The digits after the decimal point, and the exponent if there is one.\<close>

definition fraction_part :: "string \<Rightarrow> string \<times> string" where
  "fraction_part s =
     (case s of
        c # cs \<Rightarrow> if c = CHR ''.'' then (takeWhile is_digit cs, dropWhile is_digit cs) else ([], s)
      | [] \<Rightarrow> ([], []))"

definition exponent_part :: "string \<Rightarrow> int" where
  "exponent_part s =
     (case s of
        c # cs \<Rightarrow>
          if c = CHR ''e'' \<or> c = CHR ''E'' then
            (let (sg, ds) = signed_part cs in \<lfloor>sg\<rfloor> * int (digits_value (takeWhile is_digit ds)))
          else 0
      | [] \<Rightarrow> 0)"

definition parseFloat :: "string \<Rightarrow> jsnum" where
  "parseFloat s =
     (let (sg, t) = signed_part (dropWhile is_space s);
          whole = takeWhile is_digit t;
          (frac, rest) = fraction_part (dropWhile is_digit t)
      in if startsWith t ''Infinity'' then (if sg = -1 then NegInf else PosInf)
         else if whole = [] \<and> frac = [] then NaN
         else Fin (sg * (of_nat (digits_value (whole @ frac)) / 10 ^ length frac) * 10 powi exponent_part rest))"

definition hex_value :: "char \<Rightarrow> nat option" where
  "hex_value c = map_get (digit_table @
     [(CHR ''a'', 10), (CHR ''b'', 11), (CHR ''c'', 12), (CHR ''d'', 13), (CHR ''e'', 14), (CHR ''f'', 15),
      (CHR ''A'', 10), (CHR ''B'', 11), (CHR ''C'', 12), (CHR ''D'', 13), (CHR ''E'', 14), (CHR ''F'', 15)]) c"

definition parseInt :: "string \<Rightarrow> jsnum" where
  "parseInt s =
     (let (sg, t) = signed_part (dropWhile is_space s)
      in if startsWith t ''0x'' \<or> startsWith t ''0X'' then
           (let ds = takeWhile (\<lambda>c. hex_value c \<noteq> None) (drop 2 t)
            in if ds = [] then NaN else Fin (sg * of_nat (foldl (\<lambda>n c. 16 * n + the (hex_value c)) 0 ds)))
         else
           (let ds = takeWhile is_digit t
            in if ds = [] then NaN else Fin (sg * of_nat (digits_value ds))))"

end
