(* ===== verification/Page_Setup.thy ===== *)
theory Page_Setup
  imports Map_View Js_Number
begin

text \<open>
  The start of the web user interface (\<^verbatim>\<open>ui/web/js/main.js\<close>): the addresses of the
  server, the time and the permalink the page begins with, the flags handed to the Elm program, and the
  files dropped on the page.

  The location of the page, its query parameters and the date parser of the browser are parameters.
\<close>

text \<open>\<^verbatim>\<open>a || b\<close> on numbers, and truthiness.\<close>

definition num_or :: "jsnum \<Rightarrow> jsnum \<Rightarrow> jsnum" where
  "num_or a b = (if truthy (JNum a) then a else b)"

section \<open>Addresses\<close>

record PageLocation =
  loc_protocol :: string
  loc_hostname :: string
  loc_origin :: string
  loc_pathname :: string

definition with_final_slash :: "string \<Rightarrow> string" where
  "with_final_slash s = (if endsWith s ''/'' then s else s @ ''/'')"

definition getApiEndpoint :: "PageLocation \<Rightarrow> string option \<Rightarrow> string" where
  "getApiEndpoint loc motisParam =
     with_final_slash
       (case motisParam of
          None \<Rightarrow> loc_origin loc @ loc_pathname loc
        | Some p \<Rightarrow>
            if p = [] then loc_origin loc @ loc_pathname loc
            else if list_all is_digit p then loc_protocol loc @ ''//'' @ loc_hostname loc @ '':'' @ p
            else if CHR '':'' \<notin> set p then loc_protocol loc @ ''//'' @ p @ '':8080''
            else if \<not> startsWith p ''http:'' \<and> \<not> startsWith p ''https:'' then loc_protocol loc @ ''//'' @ p
            else p)"

definition getTilesEndpoint :: "PageLocation \<Rightarrow> string \<Rightarrow> string option \<Rightarrow> string" where
  "getTilesEndpoint loc ae tiles_redirect =
     with_final_slash
       (case tiles_redirect of
          Some t \<Rightarrow> if t \<noteq> [] then t else with_final_slash (if startsWith ae ''http'' then ae else loc_origin loc @ ae) @ ''tiles''
        | None \<Rightarrow> with_final_slash (if startsWith ae ''http'' then ae else loc_origin loc @ ae) @ ''tiles'')"

section \<open>Time and permalink\<close>

text \<open>\<^verbatim>\<open>/^(\-|\+)?([0-9]+|Infinity)$/\<close>, and what \<^verbatim>\<open>Number\<close>
  makes of a string that matches.\<close>

definition filterInt :: "string \<Rightarrow> jsnum" where
  "filterInt value =
     (let (sg, t) = signed_part value
      in if t = ''Infinity'' then (if sg = -1 then NegInf else PosInf)
         else if t \<noteq> [] \<and> list_all is_digit t then Fin (sg * of_nat (digits_value t))
         else NaN)"

fun times_1000 :: "jsnum \<Rightarrow> jsnum" where
  "times_1000 (Fin q) = Fin (q * 1000)"
| "times_1000 x = x"

text \<open>\<open>date\<close> is \<^verbatim>\<open>new Date(value).getTime()\<close>; \<open>None\<close> is null.\<close>

definition parseTimestamp :: "(string \<Rightarrow> jsnum) \<Rightarrow> string option \<Rightarrow> jsnum option" where
  "parseTimestamp date value =
     (case value of
        None \<Rightarrow> None
      | Some v \<Rightarrow>
          if truthy (JNum (filterInt v)) then Some (times_1000 (filterInt v))
          else if truthy (JNum (date v)) \<and> date v \<noteq> NaN then Some (date v)
          else None)"

definition part :: "string list \<Rightarrow> nat \<Rightarrow> string option" where
  "part ps i = (if i < length ps then Some (ps ! i) else None)"

text \<open>A part that is missing is undefined: as text it reads \<^verbatim>\<open>"undefined"\<close>, no number, and
  as a time it is no value.\<close>

definition part_text :: "string list \<Rightarrow> nat \<Rightarrow> string" where
  "part_text ps i = (case part ps i of None \<Rightarrow> ''undefined'' | Some s \<Rightarrow> s)"

definition optional_num :: "jsnum option \<Rightarrow> jsval" where
  "optional_num x = (case x of None \<Rightarrow> JNull | Some n \<Rightarrow> js_or (JNum n) JNull)"

definition parseInitialPermalink :: "(string \<Rightarrow> jsnum) \<Rightarrow> string option \<Rightarrow> Permalink" where
  "parseInitialPermalink date str =
     (let ps = (case str of None \<Rightarrow> [] | Some s \<Rightarrow> if s = [] then [] else split_on (CHR ''/'') s)
      in \<lparr>pl_lat = num_or (parseFloat (part_text ps 1)) (Fin (498728 / 10000)),
          pl_lng = num_or (parseFloat (part_text ps 2)) (Fin (86512 / 10000)),
          pl_zoom = num_or (parseInt (part_text ps 3)) (Fin 10),
          pl_bearing = num_or (parseFloat (part_text ps 4)) (Fin 0),
          pl_pitch = num_or (parseFloat (part_text ps 5)) (Fin 0),
          pl_timestamp = optional_num (parseTimestamp date (part ps 6))\<rparr>)"

section \<open>The page\<close>

text \<open>The two values of the map configuration that are read; \<open>None\<close> is absent. \<open>toText\<close> prints a
  number.\<close>

record MapConfig =
  tiles_redirect :: "string option"
  initial_permalink :: "string option"

record ElmFlags =
  fl_apiEndpoint :: string
  fl_simulationTime :: jsval
  fl_language :: string
  fl_motisParam :: "string option"
  fl_timeParam :: "string option"
  fl_langParam :: "string option"
  fl_fromLocation :: "string option"
  fl_toLocation :: "string option"

definition param_or :: "string option \<Rightarrow> string \<Rightarrow> string" where
  "param_or p d = (case p of None \<Rightarrow> d | Some s \<Rightarrow> if s = [] then d else s)"

definition simulation_time :: "(string \<Rightarrow> jsnum) \<Rightarrow> (jsnum \<Rightarrow> string) \<Rightarrow> string option \<Rightarrow> Permalink \<Rightarrow> jsval \<times> string option" where
  "simulation_time date toText timeParam pl =
     (let t = (if param_or timeParam [] = [] then None else parseTimestamp date timeParam)
      in case t of
           Some n \<Rightarrow> (JNum n, timeParam)
         | None \<Rightarrow>
             (pl_timestamp pl,
              Some (toText (case pl_timestamp pl of
                 JNum (Fin q) \<Rightarrow> Fin (q / 1000) | JNum n \<Rightarrow> n | _ \<Rightarrow> Fin 0))))"

definition bootstrap ::
  "(string \<Rightarrow> jsnum) \<Rightarrow> (jsnum \<Rightarrow> string) \<Rightarrow> PageLocation \<Rightarrow> (string \<Rightarrow> string option) \<Rightarrow> MapConfig \<Rightarrow> ElmFlags \<times> PortSettings" where
  "bootstrap date toText loc params mapConfig =
     (let ae = getApiEndpoint loc (params ''motis'');
          te = getTilesEndpoint loc ae (tiles_redirect mapConfig);
          pl = parseInitialPermalink date (initial_permalink mapConfig);
          (simulationTime, timeParam) = simulation_time date toText (params ''time'') pl
      in (\<lparr>fl_apiEndpoint = ae, fl_simulationTime = simulationTime, fl_language = param_or (params ''lang'') ''de'',
           fl_motisParam = params ''motis'', fl_timeParam = timeParam, fl_langParam = params ''lang'',
           fl_fromLocation = params ''fromLocation'', fl_toLocation = params ''toLocation''\<rparr>,
          \<lparr>ps_apiEndpoint = ae, ps_tilesEndpoint = te, ps_permalink = pl, ps_style = param_or (params ''style'') ''bg''\<rparr>))"

section \<open>Dropped files\<close>

text \<open>One drop: the names of the files, the contents read so far, how many are still being read, and what
  was sent. A reader fires once; the readers finish in any order.\<close>

record Drop =
  dr_names :: "string list"
  dr_contents :: "string option list"
  dr_remaining :: nat
  dr_sent :: "(string \<times> string option) list list"

definition drop_files :: "string list \<Rightarrow> Drop" where
  "drop_files names =
     \<lparr>dr_names = names, dr_contents = replicate (length names) None, dr_remaining = length names, dr_sent = []\<rparr>"

definition onLoad :: "nat \<Rightarrow> string \<Rightarrow> Drop \<Rightarrow> Drop" where
  "onLoad i result d =
     (let d1 = d\<lparr>dr_contents := (dr_contents d)[i := Some result], dr_remaining := dr_remaining d - 1\<rparr>
      in if dr_remaining d1 = 0 then d1\<lparr>dr_sent := dr_sent d1 @ [zip (dr_names d1) (dr_contents d1)]\<rparr> else d1)"

lemma onLoad_names [simp]: "dr_names (onLoad i r d) = dr_names d"
  by (simp add: onLoad_def Let_def)

text \<open>The readers that have fired so far have put their contents in place, whatever their order.\<close>

lemma loads_state:
  assumes "distinct order" and "set order \<subseteq> {..<length names}" and "length texts = length names"
  shows "fold (\<lambda>i. onLoad i (texts ! i)) order (drop_files names) =
    \<lparr>dr_names = names,
     dr_contents = map (\<lambda>i. if i \<in> set order then Some (texts ! i) else None) [0..<length names],
     dr_remaining = length names - length order,
     dr_sent = (if order \<noteq> [] \<and> length order = length names then [zip names (map Some texts)] else [])\<rparr>"
  using assms
proof (induction order rule: rev_induct)
  case Nil
  show ?case by (simp add: drop_files_def map_replicate_const)
next
  case (snoc i order)
  let ?cs = "map (\<lambda>j. if j \<in> set order then Some (texts ! j) else None) [0..<length names]"
  have i: "i < length names" using snoc.prems by simp
  have c: "?cs[i := Some (texts ! i)] = map (\<lambda>j. if j \<in> set (order @ [i]) then Some (texts ! j) else None) [0..<length names]"
    using i by (auto simp: nth_list_update intro!: nth_equalityI)
  have lt: "length (order @ [i]) \<le> length names"
    using card_mono [OF _ snoc.prems(2)] distinct_card [OF snoc.prems(1)] by simp
  have full: "?cs[i := Some (texts ! i)] = map Some texts" if "length (order @ [i]) = length names"
  proof -
    have "card (set (order @ [i])) = card {..<length names}"
      using that distinct_card [OF snoc.prems(1)] by simp
    with snoc.prems(2) have "set (order @ [i]) = {..<length names}" by (intro card_subset_eq) simp_all
    then have "j \<in> set (order @ [i])" if "j < length names" for j using that by blast
    then show ?thesis unfolding c by (intro nth_equalityI) (simp_all add: snoc.prems(3) del: set_append)
  qed
  have IH: "fold (\<lambda>i. onLoad i (texts ! i)) order (drop_files names) =
    \<lparr>dr_names = names, dr_contents = ?cs, dr_remaining = length names - length order, dr_sent = []\<rparr>"
    using snoc lt by simp
  let ?d = "\<lparr>dr_names = names, dr_contents = ?cs, dr_remaining = length names - length order, dr_sent = []\<rparr>"
  have "onLoad i (texts ! i) ?d =
    \<lparr>dr_names = names, dr_contents = ?cs[i := Some (texts ! i)], dr_remaining = length names - length (order @ [i]),
     dr_sent = (if length (order @ [i]) = length names then [zip names (?cs[i := Some (texts ! i)])] else [])\<rparr>"
    using lt by (simp add: onLoad_def Let_def)
  also have "\<dots> = \<lparr>dr_names = names, dr_contents = map (\<lambda>j. if j \<in> set (order @ [i]) then Some (texts ! j) else None) [0..<length names],
     dr_remaining = length names - length (order @ [i]),
     dr_sent = (if order @ [i] \<noteq> [] \<and> length (order @ [i]) = length names then [zip names (map Some texts)] else [])\<rparr>"
    using full c by simp
  finally show ?case by (simp add: IH)
qed

text \<open>Files dropped on the page are sent once, when all of them have been read, and each name is sent
  with the contents of its own file, in whatever order the reads finish; before that nothing is sent.\<close>

theorem dropped_files_paired:
  assumes "distinct order" and "set order \<subseteq> {..<length names}" and "length texts = length names"
  shows "dr_sent (fold (\<lambda>i. onLoad i (texts ! i)) order (drop_files names)) =
    (if order \<noteq> [] \<and> length order = length names then [zip names (map Some texts)] else [])"
  by (simp add: loads_state [OF assms])

theorem dropped_files_paired_witness:
  "dr_sent (fold (\<lambda>i. onLoad i ([''A'', ''B''] ! i)) [1, 0] (drop_files [''a.json'', ''b.json''])) =
     [[(''a.json'', Some ''A''), (''b.json'', Some ''B'')]]"
  using dropped_files_paired [of "[1, 0]" "[''a.json'', ''b.json'']" "[''A'', ''B'']"] by simp

section \<open>Addresses and times\<close>

lemma ends_with_final_slash: "endsWith (with_final_slash s) ''/''"
  by (simp add: with_final_slash_def)

lemma endpoints_end_with_slash:
  "endsWith (getApiEndpoint loc p) ''/''" "endsWith (getTilesEndpoint loc ae t) ''/''"
  by (simp_all add: getApiEndpoint_def getTilesEndpoint_def ends_with_final_slash)

text \<open>A time in seconds is returned in milliseconds; the time 0 is taken for a date in words.\<close>

lemma digits_not_infinity: "v \<noteq> [] \<Longrightarrow> list_all is_digit v \<Longrightarrow> filterInt v = Fin (of_nat (digits_value v))"
proof -
  assume v: "v \<noteq> []" "list_all is_digit v"
  then obtain c cs where c: "v = c # cs" "is_digit c" by (cases v) auto
  have n: "\<not> is_digit (CHR ''I'')" "\<not> is_digit (CHR ''-'')" "\<not> is_digit (CHR ''+'')" by code_simp+
  then have s: "signed_part v = (1, v)" using c by auto
  moreover have "v \<noteq> ''Infinity''" using c n by auto
  ultimately show ?thesis using v by (simp add: filterInt_def)
qed

lemma timestamp_of_seconds:
  assumes "v \<noteq> []" and "list_all is_digit v"
  shows "parseTimestamp date (Some v) =
    (if digits_value v \<noteq> 0 then Some (Fin (1000 * of_nat (digits_value v)))
     else if truthy (JNum (date v)) then Some (date v) else None)"
proof -
  have "truthy (JNum NaN) = False" by simp
  then show ?thesis using digits_not_infinity [OF assms] by (auto simp: parseTimestamp_def)
qed

end
