(* ===== verification/Fbs_Parser.thy ===== *)
theory Fbs_Parser
  imports Js_Number
begin

text \<open>
  The FlatBuffers schema parser (\<^verbatim>\<open>tools/protocol/src/fbs/parser\<close>), one definition
  per parser of the code. It is written with the combinators of the package
  \<^verbatim>\<open>arcsecond\<close>, which are the fields of a parameter: the kind of thing a parser is and
  what running one does is left to the package. A regular expression is the function that tells how much of
  the text it matches.

  The values that parsers return and \<^verbatim>\<open>map\<close> functions take are dynamic, so they are one
  type with a case for every kind of object the parsers build.
\<close>

section \<open>Values and combinators\<close>

datatype pv =
    VNull
  | VStr string
  | VNum jsnum
  | VList "pv list"
  | VComment string
  | VBasic BasicType
  | VType AstFieldType
  | VScalar AstScalarLiteral
  | VStringLit string
  | VRef string
  | VAttr AstAttribute
  | VEnumVal AstEnumVal
  | VField AstField
  | VTop AstTopLevel

record 'p Arcsecond =
  p_str :: "string \<Rightarrow> 'p"
  p_char :: "char \<Rightarrow> 'p"
  p_regex :: "(string \<Rightarrow> nat option) \<Rightarrow> 'p"
  p_whitespace :: 'p
  p_endOfInput :: 'p
  p_everyCharUntil :: "'p \<Rightarrow> 'p"
  p_sequenceOf :: "'p list \<Rightarrow> 'p"
  p_choice :: "'p list \<Rightarrow> 'p"
  p_many :: "'p \<Rightarrow> 'p"
  p_many1 :: "'p \<Rightarrow> 'p"
  p_possibly :: "'p \<Rightarrow> 'p"
  p_sepBy1 :: "'p \<Rightarrow> 'p \<Rightarrow> 'p"
  p_between :: "'p \<Rightarrow> 'p \<Rightarrow> 'p \<Rightarrow> 'p"
  p_map :: "(pv \<Rightarrow> pv) \<Rightarrow> 'p \<Rightarrow> 'p"
  p_recursive :: "('p \<Rightarrow> 'p) \<Rightarrow> 'p"
  p_run :: "'p \<Rightarrow> string \<Rightarrow> (pv \<times> string) option"

text \<open>\<^verbatim>\<open>x[i]\<close> of a result, and what the fields of a node make of a value.\<close>

definition item :: "pv \<Rightarrow> nat \<Rightarrow> pv" where
  "item v i = (case v of VList xs \<Rightarrow> if i < length xs then xs ! i else VNull | _ \<Rightarrow> VNull)"

lemma item_list [simp]: "item (VList xs) i = (if i < length xs then xs ! i else VNull)"
  by (simp add: item_def)

fun items :: "pv \<Rightarrow> pv list" where
  "items (VList xs) = xs"
| "items _ = []"

fun as_str :: "pv \<Rightarrow> string" where
  "as_str (VStr s) = s"
| "as_str _ = []"

fun as_number :: "pv \<Rightarrow> jsnum option" where
  "as_number (VScalar (AstNumeric n)) = Some n"
| "as_number _ = None"

fun as_literal :: "pv \<Rightarrow> AstLiteral option" where
  "as_literal (VScalar s) = Some (AstScalar s)"
| "as_literal (VStringLit s) = Some (AstString s)"
| "as_literal _ = None"

fun as_default :: "pv \<Rightarrow> AstDefault option" where
  "as_default (VScalar s) = Some (AstScalarDefault s)"
| "as_default (VRef r) = Some (AstRef r)"
| "as_default _ = None"

fun as_attr :: "pv \<Rightarrow> AstAttribute" where
  "as_attr (VAttr a) = a"
| "as_attr _ = \<lparr>attr_id = [], attr_value = None\<rparr>"

fun as_metadata :: "pv \<Rightarrow> AstMetadata" where
  "as_metadata (VList xs) = Some (map as_attr xs)"
| "as_metadata _ = None"

fun as_type :: "pv \<Rightarrow> AstFieldType" where
  "as_type (VType t) = t"
| "as_type _ = AstCustom []"

fun as_basic :: "pv \<Rightarrow> BasicType" where
  "as_basic (VBasic b) = b"
| "as_basic _ = BoolType"

fun as_enumVal :: "pv \<Rightarrow> AstEnumVal" where
  "as_enumVal (VEnumVal v) = v"
| "as_enumVal _ = \<lparr>ev_id = [], ev_value = None, ev_metadata = None\<rparr>"

fun as_field :: "pv \<Rightarrow> AstField" where
  "as_field (VField f) = f"
| "as_field _ = \<lparr>af_name = [], af_type = AstCustom [], af_default = None, af_metadata = None\<rparr>"

fun as_top :: "pv \<Rightarrow> AstTopLevel" where
  "as_top (VTop t) = t"
| "as_top _ = AstInclude []"

section \<open>Comments and white space\<close>

definition lineComment :: "'p Arcsecond \<Rightarrow> 'p" where
  "lineComment A =
     p_map A (\<lambda>x. VComment (as_str (item x 1)))
       (p_sequenceOf A
          [p_str A ''//'', p_everyCharUntil A (p_choice A [p_char A (CHR 0x0A), p_endOfInput A])])"

definition blockComment :: "'p Arcsecond \<Rightarrow> 'p" where
  "blockComment A =
     p_map A (\<lambda>x. VComment (as_str (item x 1)))
       (p_sequenceOf A [p_str A ''/*'', p_everyCharUntil A (p_str A ''*/''), p_str A ''*/''])"

definition whitespaceOrComments :: "'p Arcsecond \<Rightarrow> 'p" where
  "whitespaceOrComments A = p_many1 A (p_choice A [p_whitespace A, lineComment A, blockComment A])"

definition optionalWhitespaceOrComments :: "'p Arcsecond \<Rightarrow> 'p" where
  "optionalWhitespaceOrComments A = p_possibly A (whitespaceOrComments A)"

definition surroundedBy :: "'p Arcsecond \<Rightarrow> 'p \<Rightarrow> 'p \<Rightarrow> 'p" where
  "surroundedBy A parser = p_between A parser parser"

definition whitespaceSurrounded :: "'p Arcsecond \<Rightarrow> 'p \<Rightarrow> 'p" where
  "whitespaceSurrounded A parser = surroundedBy A (optionalWhitespaceOrComments A) parser"

definition sepByWithOptionalTrailingSep :: "'p Arcsecond \<Rightarrow> 'p \<Rightarrow> 'p \<Rightarrow> 'p" where
  "sepByWithOptionalTrailingSep A sepParser valueParser =
     p_map A (\<lambda>x. if x = VNull then VList [] else x)
       (p_possibly A
          (p_map A (\<lambda>x. VList (item x 0 # items (item x 1)))
             (p_sequenceOf A
                [valueParser,
                 p_many A (p_map A (\<lambda>x. item x 1) (p_sequenceOf A [sepParser, valueParser])),
                 p_possibly A sepParser])))"

definition commaSeparated :: "'p Arcsecond \<Rightarrow> 'p \<Rightarrow> 'p" where
  "commaSeparated A = sepByWithOptionalTrailingSep A (whitespaceSurrounded A (p_char A (CHR '','')))"

definition betweenWithOptionalWhitespace :: "'p Arcsecond \<Rightarrow> 'p \<Rightarrow> 'p \<Rightarrow> 'p \<Rightarrow> 'p" where
  "betweenWithOptionalWhitespace A leftParser rightParser =
     p_between A (p_sequenceOf A [leftParser, optionalWhitespaceOrComments A])
       (p_sequenceOf A [optionalWhitespaceOrComments A, rightParser])"

definition betweenBraces :: "'p Arcsecond \<Rightarrow> 'p \<Rightarrow> 'p" where
  "betweenBraces A = betweenWithOptionalWhitespace A (p_char A (CHR ''{'')) (p_char A (CHR ''}''))"

definition betweenBrackets :: "'p Arcsecond \<Rightarrow> 'p \<Rightarrow> 'p" where
  "betweenBrackets A = betweenWithOptionalWhitespace A (p_char A (CHR ''['')) (p_char A (CHR '']''))"

definition betweenParens :: "'p Arcsecond \<Rightarrow> 'p \<Rightarrow> 'p" where
  "betweenParens A = betweenWithOptionalWhitespace A (p_char A (CHR ''('')) (p_char A (CHR '')''))"

section \<open>Constants\<close>

definition ident_start :: "char \<Rightarrow> bool" where
  "ident_start c = (c = CHR ''_'' \<or> in_range (CHR ''a'') (CHR ''z'') c \<or> in_range (CHR ''A'') (CHR ''Z'') c)"

definition ident_char :: "char \<Rightarrow> bool" where
  "ident_char c = (ident_start c \<or> is_digit c)"

text \<open>\<^verbatim>\<open>/^[a-zA-Z_][a-zA-Z0-9_]*/\<close>\<close>

fun ident_rx :: "string \<Rightarrow> nat option" where
  "ident_rx [] = None"
| "ident_rx (c # cs) = (if ident_start c then Some (Suc (length (takeWhile ident_char cs))) else None)"

definition ident :: "'p Arcsecond \<Rightarrow> 'p" where
  "ident A = p_regex A ident_rx"

definition identWithOptionalNamespace :: "'p Arcsecond \<Rightarrow> 'p" where
  "identWithOptionalNamespace A =
     p_map A (\<lambda>x. VStr (dot_join (map as_str (items x)))) (p_sepBy1 A (p_char A (CHR ''.'')) (ident A))"

definition booleanConstant :: "'p Arcsecond \<Rightarrow> 'p" where
  "booleanConstant A = p_choice A [p_str A ''true'', p_str A ''false'']"

definition booleanLiteral :: "'p Arcsecond \<Rightarrow> 'p" where
  "booleanLiteral A = p_map A (\<lambda>x. VScalar (AstBoolean (x = VStr ''true''))) (booleanConstant A)"

text \<open>The length of an optional sign, and of the digits in front.\<close>

fun sign_length :: "string \<Rightarrow> nat" where
  "sign_length [] = 0"
| "sign_length (c # cs) = (if c = CHR ''-'' \<or> c = CHR ''+'' then 1 else 0)"

abbreviation digits_length :: "string \<Rightarrow> nat" where
  "digits_length s \<equiv> length (takeWhile is_digit s)"

definition sign_rx :: "string \<Rightarrow> nat option" where
  "sign_rx s = Some (sign_length s)"

definition decInteger_rx :: "string \<Rightarrow> nat option" where
  "decInteger_rx s =
     (let k = sign_length s; d = digits_length (drop k s) in if d = 0 then None else Some (k + d))"

definition hexInteger_rx :: "string \<Rightarrow> nat option" where
  "hexInteger_rx s =
     (let k = sign_length s; t = drop k s; d = length (takeWhile (\<lambda>c. hex_value c \<noteq> None) (drop 2 t))
      in if (startsWith t ''0x'' \<or> startsWith t ''0X'') \<and> d \<noteq> 0 then Some (k + 2 + d) else None)"

text \<open>\<^verbatim>\<open>(\.\d+)|(\d+\.\d*)|(\d+)\<close> and \<^verbatim>\<open>([eE][-+]?\d+)?\<close>\<close>

definition mantissa_rx :: "string \<Rightarrow> nat option" where
  "mantissa_rx t =
     (let d = digits_length t; dot = startsWith (drop d t) ''.''; f = digits_length (drop (Suc d) t)
      in if d = 0 then (if dot \<and> f \<noteq> 0 then Some (1 + f) else None)
         else if dot then Some (d + 1 + f)
         else Some d)"

definition exponent_length :: "string \<Rightarrow> nat" where
  "exponent_length t =
     (if startsWith t ''e'' \<or> startsWith t ''E'' then
        (let k = sign_length (drop 1 t); d = digits_length (drop (1 + k) t) in if d = 0 then 0 else 1 + k + d)
      else 0)"

definition decFloat_rx :: "string \<Rightarrow> nat option" where
  "decFloat_rx s =
     (let k = sign_length s
      in case mantissa_rx (drop k s) of
           None \<Rightarrow> None
         | Some n \<Rightarrow> Some (k + n + exponent_length (drop (k + n) s)))"

definition sign :: "'p Arcsecond \<Rightarrow> 'p" where
  "sign A = p_regex A sign_rx"

definition decIntegerConstant :: "'p Arcsecond \<Rightarrow> 'p" where
  "decIntegerConstant A = p_map A (\<lambda>x. VNum (parseInt (as_str x))) (p_regex A decInteger_rx)"

definition hexIntegerConstant :: "'p Arcsecond \<Rightarrow> 'p" where
  "hexIntegerConstant A = p_map A (\<lambda>x. VNum (parseInt (as_str x))) (p_regex A hexInteger_rx)"

definition decFloatConstant :: "'p Arcsecond \<Rightarrow> 'p" where
  "decFloatConstant A = p_map A (\<lambda>x. VNum (parseFloat (as_str x))) (p_regex A decFloat_rx)"

definition specialFloatConstant :: "'p Arcsecond \<Rightarrow> 'p" where
  "specialFloatConstant A =
     p_map A (\<lambda>x. VNum (if item x 1 = VStr ''nan'' then NaN else if item x 0 = VStr ''-'' then NegInf else PosInf))
       (p_sequenceOf A [sign A, p_choice A [p_str A ''nan'', p_str A ''inf'', p_str A ''infinity'']])"

definition integerConstant :: "'p Arcsecond \<Rightarrow> 'p" where
  "integerConstant A = p_choice A [hexIntegerConstant A, decIntegerConstant A]"

definition floatConstant :: "'p Arcsecond \<Rightarrow> 'p" where
  "floatConstant A = p_choice A [decFloatConstant A, specialFloatConstant A]"

definition numericConstant :: "'p Arcsecond \<Rightarrow> 'p" where
  "numericConstant A = p_choice A [floatConstant A, integerConstant A]"

definition numericLiteral :: "'p Arcsecond \<Rightarrow> 'p" where
  "numericLiteral A =
     p_map A (\<lambda>x. VScalar (AstNumeric (case x of VNum n \<Rightarrow> n | _ \<Rightarrow> NaN))) (numericConstant A)"

definition scalar :: "'p Arcsecond \<Rightarrow> 'p" where
  "scalar A = p_choice A [booleanLiteral A, numericLiteral A]"

definition scalarOrRefLiteral :: "'p Arcsecond \<Rightarrow> 'p" where
  "scalarOrRefLiteral A = p_choice A [scalar A, p_map A (\<lambda>x. VRef (as_str x)) (ident A)]"

definition stringConstant :: "'p Arcsecond \<Rightarrow> 'p" where
  "stringConstant A =
     p_map A (\<lambda>x. item x 1)
       (p_sequenceOf A [p_char A (CHR 0x22), p_everyCharUntil A (p_char A (CHR 0x22)), p_char A (CHR 0x22)])"

definition stringLiteral :: "'p Arcsecond \<Rightarrow> 'p" where
  "stringLiteral A = p_map A (\<lambda>x. VStringLit (as_str x)) (stringConstant A)"

definition literal :: "'p Arcsecond \<Rightarrow> 'p" where
  "literal A = p_choice A [scalar A, stringLiteral A]"

section \<open>Types\<close>

definition boolType :: "'p Arcsecond \<Rightarrow> 'p" where
  "boolType A = p_map A (\<lambda>x. VBasic BoolType) (p_str A ''bool'')"

definition stringType :: "'p Arcsecond \<Rightarrow> 'p" where
  "stringType A = p_map A (\<lambda>x. VBasic StringType) (p_str A ''string'')"

definition intType :: "'p Arcsecond \<Rightarrow> 'p" where
  "intType A =
     p_map A (\<lambda>x. VBasic (IntType (as_str x) (the (map_get INT_TYPE_PROPERTIES (as_str x)))))
       (p_choice A (map (p_str A) INT_TYPES))"

definition floatType :: "'p Arcsecond \<Rightarrow> 'p" where
  "floatType A =
     p_map A (\<lambda>x. VBasic (FloatType (as_str x) (the (map_get FLOAT_TYPE_PROPERTIES (as_str x)))))
       (p_choice A (map (p_str A) FLOAT_TYPES))"

definition basicType :: "'p Arcsecond \<Rightarrow> 'p" where
  "basicType A = p_choice A [boolType A, stringType A, intType A, floatType A]"

definition customType :: "'p Arcsecond \<Rightarrow> 'p" where
  "customType A = p_map A (\<lambda>x. VType (AstCustom (as_str x))) (identWithOptionalNamespace A)"

text \<open>The body refers to the parser that is being defined.\<close>

definition typeBody :: "'p Arcsecond \<Rightarrow> 'p \<Rightarrow> 'p" where
  "typeBody A self =
     p_choice A
       [p_map A (\<lambda>x. VType (AstBasic (as_basic x))) (basicType A),
        p_map A (\<lambda>x. VType (AstVector (as_type x))) (betweenBrackets A self),
        customType A]"

definition fieldType :: "'p Arcsecond \<Rightarrow> 'p" where
  "fieldType A = p_recursive A (typeBody A)"

section \<open>Declarations\<close>

definition metadata :: "'p Arcsecond \<Rightarrow> 'p" where
  "metadata A =
     p_possibly A
       (p_map A (\<lambda>x. item x 1)
          (p_sequenceOf A
             [optionalWhitespaceOrComments A,
              betweenParens A
                (commaSeparated A
                   (p_map A (\<lambda>x. VAttr \<lparr>attr_id = as_str (item x 0), attr_value = as_literal (item x 1)\<rparr>)
                      (p_sequenceOf A
                         [identWithOptionalNamespace A,
                          p_possibly A
                            (p_map A (\<lambda>x. item x 3)
                               (p_sequenceOf A
                                  [optionalWhitespaceOrComments A, p_char A (CHR '':''),
                                   optionalWhitespaceOrComments A, literal A]))])))]))"

definition includeDecl :: "'p Arcsecond \<Rightarrow> 'p" where
  "includeDecl A =
     p_map A (\<lambda>x. VTop (AstInclude (as_str (item x 2))))
       (p_sequenceOf A
          [p_str A ''include'', whitespaceOrComments A, stringConstant A, optionalWhitespaceOrComments A,
           p_char A (CHR '';'')])"

definition namespaceDecl :: "'p Arcsecond \<Rightarrow> 'p" where
  "namespaceDecl A =
     p_map A (\<lambda>x. VTop (AstNamespace (as_str (item x 2))))
       (p_sequenceOf A
          [p_str A ''namespace'', whitespaceOrComments A, identWithOptionalNamespace A,
           optionalWhitespaceOrComments A, p_char A (CHR '';'')])"

definition enumOrUnionValueAssignment :: "'p Arcsecond \<Rightarrow> 'p" where
  "enumOrUnionValueAssignment A =
     p_map A (\<lambda>x. item x 3)
       (p_sequenceOf A
          [optionalWhitespaceOrComments A, p_char A (CHR ''=''), optionalWhitespaceOrComments A, numericLiteral A])"

text \<open>\<^verbatim>\<open>([id, value, metadata]) => ({ id, value, metadata })\<close>\<close>

definition enum_val_node :: "pv \<Rightarrow> pv" where
  "enum_val_node x =
     VEnumVal \<lparr>ev_id = as_str (item x 0), ev_value = as_number (item x 1), ev_metadata = as_metadata (item x 2)\<rparr>"

definition enumValDecl :: "'p Arcsecond \<Rightarrow> 'p" where
  "enumValDecl A =
     p_map A enum_val_node (p_sequenceOf A [ident A, p_possibly A (enumOrUnionValueAssignment A), metadata A])"

definition enumDecl :: "'p Arcsecond \<Rightarrow> 'p" where
  "enumDecl A =
     p_map A (\<lambda>x. VTop (AstEnum (as_str (item x 2)) (as_type (item x 7)) (as_metadata (item x 3))
                     (map as_enumVal (items (item x 9)))))
       (p_sequenceOf A
          [p_str A ''enum'', whitespaceOrComments A, ident A, metadata A, optionalWhitespaceOrComments A,
           p_char A (CHR '':''), optionalWhitespaceOrComments A, fieldType A, optionalWhitespaceOrComments A,
           betweenBraces A (commaSeparated A (enumValDecl A))])"

definition unionValDecl :: "'p Arcsecond \<Rightarrow> 'p" where
  "unionValDecl A =
     p_map A enum_val_node
       (p_sequenceOf A [identWithOptionalNamespace A, p_possibly A (enumOrUnionValueAssignment A), metadata A])"

definition unionDecl :: "'p Arcsecond \<Rightarrow> 'p" where
  "unionDecl A =
     p_map A (\<lambda>x. VTop (AstUnion (as_str (item x 2)) (as_metadata (item x 3)) (map as_enumVal (items (item x 5)))))
       (p_sequenceOf A
          [p_str A ''union'', whitespaceOrComments A, ident A, metadata A, optionalWhitespaceOrComments A,
           betweenBraces A (commaSeparated A (unionValDecl A))])"

definition fieldDecl :: "'p Arcsecond \<Rightarrow> 'p" where
  "fieldDecl A =
     p_map A (\<lambda>x. VField \<lparr>af_name = as_str (item x 0), af_type = as_type (item x 4), af_default = as_default (item x 6),
                          af_metadata = as_metadata (item x 7)\<rparr>)
       (p_sequenceOf A
          [ident A, optionalWhitespaceOrComments A, p_char A (CHR '':''), optionalWhitespaceOrComments A,
           fieldType A, optionalWhitespaceOrComments A,
           p_possibly A
             (p_map A (\<lambda>x. item x 2)
                (p_sequenceOf A
                   [p_char A (CHR ''=''), optionalWhitespaceOrComments A, scalarOrRefLiteral A,
                    optionalWhitespaceOrComments A])),
           metadata A, p_char A (CHR '';'')])"

definition typeDecl :: "'p Arcsecond \<Rightarrow> 'p" where
  "typeDecl A =
     p_map A (\<lambda>x. VTop (AstTable (item x 0 = VStr ''struct'') (as_str (item x 2)) (as_metadata (item x 3))
                     (map as_field (items (item x 5)))))
       (p_sequenceOf A
          [p_choice A [p_str A ''table'', p_str A ''struct''], whitespaceOrComments A, ident A, metadata A,
           optionalWhitespaceOrComments A,
           betweenBraces A (p_many A (whitespaceSurrounded A (fieldDecl A)))])"

definition rootTypeDecl :: "'p Arcsecond \<Rightarrow> 'p" where
  "rootTypeDecl A =
     p_map A (\<lambda>x. VTop (AstRootType (case as_type (item x 2) of AstCustom n \<Rightarrow> n | _ \<Rightarrow> [])))
       (p_sequenceOf A
          [p_str A ''root_type'', whitespaceOrComments A, customType A, optionalWhitespaceOrComments A,
           p_char A (CHR '';'')])"

definition attributeDecl :: "'p Arcsecond \<Rightarrow> 'p" where
  "attributeDecl A =
     p_map A (\<lambda>x. VTop (AstAttributeDecl (as_str (item x 2))))
       (p_sequenceOf A
          [p_str A ''attribute'', whitespaceOrComments A, p_choice A [ident A, stringConstant A],
           optionalWhitespaceOrComments A, p_char A (CHR '';'')])"

definition topDecl :: "'p Arcsecond \<Rightarrow> 'p" where
  "topDecl A =
     p_choice A [includeDecl A, namespaceDecl A, enumDecl A, unionDecl A, typeDecl A, rootTypeDecl A, attributeDecl A]"

definition schema :: "'p Arcsecond \<Rightarrow> 'p" where
  "schema A =
     p_map A (\<lambda>x. item x 0) (p_sequenceOf A [p_many A (whitespaceSurrounded A (topDecl A)), p_endOfInput A])"

text \<open>\<^verbatim>\<open>schema.run(fbs)\<close>, with no result when it is an error.\<close>

definition parseSchema :: "'p Arcsecond \<Rightarrow> string \<Rightarrow> AstTopLevel list option" where
  "parseSchema A fbs =
     (case p_run A (schema A) fbs of None \<Rightarrow> None | Some (x, rest) \<Rightarrow> Some (map as_top (items x)))"

end
