(* ===== verification/Parser_Laws.thy ===== *)
theory Parser_Laws
  imports Fbs_Parser
begin

text \<open>
  What the schema parser relies on of the combinators of \<^verbatim>\<open>arcsecond\<close>: the documented
  behaviour of each, as the interface \<open>arcsecond\<close>. Where the documentation is silent nothing is
  assumed: what a regular expression does at the end of the text, what \<^verbatim>\<open>many\<close> does with
  a parser that succeeds without reading anything, whether \<^verbatim>\<open>everyCharUntil\<close> may read to
  the very end, what \<^verbatim>\<open>sepBy1\<close> does with a separator at the end.

  The rest are the laws of the helpers of \<^verbatim>\<open>fbs/parser/helpers.ts\<close> on text without
  white space and comments.
\<close>

section \<open>The interface\<close>

fun run_seq :: "('p \<Rightarrow> string \<Rightarrow> (pv \<times> string) option) \<Rightarrow> 'p list \<Rightarrow> string \<Rightarrow> (pv list \<times> string) option" where
  "run_seq run [] s = Some ([], s)"
| "run_seq run (p # ps) s =
     (case run p s of
        None \<Rightarrow> None
      | Some (v, t) \<Rightarrow> (case run_seq run ps t of None \<Rightarrow> None | Some (vs, u) \<Rightarrow> Some (v # vs, u)))"

fun run_choice :: "('p \<Rightarrow> string \<Rightarrow> (pv \<times> string) option) \<Rightarrow> 'p list \<Rightarrow> string \<Rightarrow> (pv \<times> string) option" where
  "run_choice run [] s = None"
| "run_choice run (p # ps) s = (case run p s of None \<Rightarrow> run_choice run ps s | Some r \<Rightarrow> Some r)"

locale arcsecond =
  fixes A :: "'p Arcsecond"
  assumes run_str: "p_run A (p_str A w) s = (if startsWith s w then Some (VStr w, drop (length w) s) else None)"
    and run_char: "p_run A (p_char A c) s =
      (case s of [] \<Rightarrow> None | d # t \<Rightarrow> if d = c then Some (VStr [c], t) else None)"
    and run_regex: "s \<noteq> [] \<Longrightarrow> p_run A (p_regex A rx) s =
      (case rx s of None \<Rightarrow> None | Some n \<Rightarrow> Some (VStr (take n s), drop n s))"
    and run_whitespace: "p_run A (p_whitespace A) s =
      (if takeWhile is_space s = [] then None else Some (VStr (takeWhile is_space s), dropWhile is_space s))"
    and run_endOfInput: "p_run A (p_endOfInput A) s = (if s = [] then Some (VNull, []) else None)"
    and run_until: "k < length s \<Longrightarrow> p_run A p (drop k s) \<noteq> None \<Longrightarrow> \<forall>j<k. p_run A p (drop j s) = None \<Longrightarrow>
      p_run A (p_everyCharUntil A p) s = Some (VStr (take k s), drop k s)"
    and run_sequenceOf: "p_run A (p_sequenceOf A ps) s =
      map_option (\<lambda>(vs, t). (VList vs, t)) (run_seq (p_run A) ps s)"
    and run_choiceOf: "p_run A (p_choice A ps) s = run_choice (p_run A) ps s"
    and run_many_end: "p_run A p s = None \<Longrightarrow> p_run A (p_many A p) s = Some (VList [], s)"
    and run_many_more: "p_run A p s = Some (v, t) \<Longrightarrow> length t < length s \<Longrightarrow>
      p_run A (p_many A p) t = Some (VList vs, u) \<Longrightarrow> p_run A (p_many A p) s = Some (VList (v # vs), u)"
    and run_many1_none: "p_run A p s = None \<Longrightarrow> p_run A (p_many1 A p) s = None"
    and run_many1_some: "p_run A p s = Some (v, t) \<Longrightarrow> length t < length s \<Longrightarrow>
      p_run A (p_many A p) t = Some (VList vs, u) \<Longrightarrow> p_run A (p_many1 A p) s = Some (VList (v # vs), u)"
    and run_possibly: "p_run A (p_possibly A p) s =
      (case p_run A p s of None \<Rightarrow> Some (VNull, s) | Some r \<Rightarrow> Some r)"
    and run_sepBy1_none: "p_run A p s = None \<Longrightarrow> p_run A (p_sepBy1 A sep p) s = None"
    and run_sepBy1_one: "p_run A p s = Some (v, t) \<Longrightarrow> p_run A sep t = None \<Longrightarrow>
      p_run A (p_sepBy1 A sep p) s = Some (VList [v], t)"
    and run_sepBy1_more: "p_run A p s = Some (v, t) \<Longrightarrow> p_run A sep t = Some (y, t') \<Longrightarrow> length t' < length s \<Longrightarrow>
      p_run A (p_sepBy1 A sep p) t' = Some (VList vs, u) \<Longrightarrow> p_run A (p_sepBy1 A sep p) s = Some (VList (v # vs), u)"
    and run_between: "p_run A (p_between A l r p) s =
      (case run_seq (p_run A) [l, p, r] s of Some ([x, v, y], t) \<Rightarrow> Some (v, t) | _ \<Rightarrow> None)"
    and run_map: "p_run A (p_map A f p) s = map_option (\<lambda>(v, t). (f v, t)) (p_run A p s)"
    and run_recursive: "p_run A (p_recursive A (typeBody A)) s =
      p_run A (typeBody A (p_recursive A (typeBody A))) s"
begin

lemmas run_simps = run_str run_char run_endOfInput run_sequenceOf run_choiceOf run_possibly run_between run_map

section \<open>White space\<close>

text \<open>Text that does not start with white space or a comment.\<close>

definition plain :: "string \<Rightarrow> bool" where
  "plain s = (case s of [] \<Rightarrow> True | c # t \<Rightarrow> \<not> is_space c \<and> c \<noteq> CHR ''/'')"

lemma plain_simps [simp]: "plain []" "plain (c # s) \<longleftrightarrow> \<not> is_space c \<and> c \<noteq> CHR ''/''"
  by (simp_all add: plain_def)

lemma plain_append: "s \<noteq> [] \<Longrightarrow> plain (s @ t) = plain s"
  by (cases s) auto

lemma startsWith_Cons [simp]:
  "startsWith (c # s) (d # w) \<longleftrightarrow> c = d \<and> startsWith s w" "startsWith s []" "\<not> startsWith [] (d # w)"
  by (auto simp: startsWith_def)

lemma no_space_here: "plain s \<Longrightarrow> p_run A (p_choice A [p_whitespace A, lineComment A, blockComment A]) s = None"
  by (cases s) (simp_all add: run_simps run_whitespace lineComment_def blockComment_def)

lemma opt_ws [simp]: "plain s \<Longrightarrow> p_run A (optionalWhitespaceOrComments A) s = Some (VNull, s)"
  by (simp add: optionalWhitespaceOrComments_def whitespaceOrComments_def run_possibly run_many1_none no_space_here)

lemma one_space [simp]:
  assumes "plain s"
  shows "p_run A (whitespaceOrComments A) (CHR '' '' # s) = Some (VList [VStr '' ''], s)"
proof -
  let ?p = "p_choice A [p_whitespace A, lineComment A, blockComment A]"
  have sp: "is_space (CHR '' '')" by (simp add: is_space_def)
  have "takeWhile is_space s = []" "dropWhile is_space s = s"
    using assms by (cases s; simp)+
  then have "p_run A ?p (CHR '' '' # s) = Some (VStr '' '', s)"
    using sp by (simp add: run_simps run_whitespace)
  from run_many1_some [OF this _ run_many_end [OF no_space_here [OF assms]]] show ?thesis
    by (simp add: whitespaceOrComments_def)
qed

lemma surrounded:
  "plain s \<Longrightarrow> p_run A p s = Some (v, t) \<Longrightarrow> plain t \<Longrightarrow> p_run A (whitespaceSurrounded A p) s = Some (v, t)"
  "plain s \<Longrightarrow> p_run A p s = None \<Longrightarrow> p_run A (whitespaceSurrounded A p) s = None"
  by (simp_all add: whitespaceSurrounded_def surroundedBy_def run_between)

section \<open>Brackets and commas\<close>

lemma not_space [simp]:
  "\<not> is_space (CHR '','')" "\<not> is_space (CHR '';'')" "\<not> is_space (CHR '':'')" "\<not> is_space (CHR ''='')"
  "\<not> is_space (CHR ''('')" "\<not> is_space (CHR '')'')" "\<not> is_space (CHR ''{'')" "\<not> is_space (CHR ''}'')"
  "\<not> is_space (CHR ''['')" "\<not> is_space (CHR '']'')" "\<not> is_space (CHR 0x22)"
  by (simp_all add: is_space_def)

lemma enclosed:
  assumes "plain s" and "p_run A p s = Some (v, r # t)" and "plain (r # t)"
  shows "p_run A (betweenWithOptionalWhitespace A (p_char A l) (p_char A r) p) (l # s) = Some (v, t)"
  using assms by (simp add: betweenWithOptionalWhitespace_def run_simps)

lemma not_enclosed:
  assumes "c \<noteq> l"
  shows "p_run A (betweenWithOptionalWhitespace A (p_char A l) r p) (c # s) = None"
  using assms by (simp add: betweenWithOptionalWhitespace_def run_simps)

lemma comma:
  "plain t \<Longrightarrow> p_run A (whitespaceSurrounded A (p_char A (CHR '',''))) (CHR '','' # t) = Some (VStr '','', t)"
  "plain (c # t) \<Longrightarrow> c \<noteq> CHR '','' \<Longrightarrow> p_run A (whitespaceSurrounded A (p_char A (CHR '',''))) (c # t) = None"
  by (simp_all add: surrounded run_char)

text \<open>A list of printed elements between commas, up to a closing character: every element is read back
  when a comma or the closing character follows.\<close>

lemma comma_rest:
  assumes elem: "\<And>x c t. x \<in> set xs \<Longrightarrow> c \<in> {CHR '','', close} \<Longrightarrow> p_run A p (pr x @ c # t) = Some (val x, c # t)"
    and pl: "\<And>x. x \<in> set xs \<Longrightarrow> pr x \<noteq> [] \<and> plain (pr x)"
    and close: "close \<noteq> CHR '',''" "plain [close]"
  shows "p_run A (p_many A (p_map A (\<lambda>x. item x 1) (p_sequenceOf A [whitespaceSurrounded A (p_char A (CHR '','')), p])))
      (concat (map (\<lambda>x. CHR '','' # pr x) xs) @ close # t) = Some (VList (map val xs), close # t)"
  using elem pl
proof (induction xs)
  case Nil
  show ?case using close by (simp add: run_many_end run_simps comma)
next
  case (Cons x xs)
  let ?rest = "concat (map (\<lambda>x. CHR '','' # pr x) xs) @ close # t"
  have x: "pr x \<noteq> []" "plain (pr x)" using Cons.prems(2) by auto
  obtain c u where cu: "?rest = c # u" "c \<in> {CHR '','', close}" by (cases xs) auto
  have "p_run A p (pr x @ ?rest) = Some (val x, ?rest)" unfolding cu(1) using Cons.prems(1) cu(2) by simp
  moreover have "plain (pr x @ ?rest)" using x by (simp add: plain_append)
  ultimately have step: "p_run A (p_map A (\<lambda>x. item x 1) (p_sequenceOf A [whitespaceSurrounded A (p_char A (CHR '','')), p]))
      (CHR '','' # pr x @ ?rest) = Some (val x, ?rest)"
    by (simp add: run_simps comma item_def)
  have more: "p_run A (p_many A (p_map A (\<lambda>x. item x 1) (p_sequenceOf A [whitespaceSurrounded A (p_char A (CHR '','')), p])))
      ?rest = Some (VList (map val xs), close # t)"
    by (rule Cons.IH) (use Cons.prems in simp_all)
  show ?case using run_many_more [OF step _ more] by simp
qed

lemma join_commas: "join '','' (map pr (x # xs)) = pr x @ concat (map (\<lambda>x. CHR '','' # pr x) xs)"
  by (induction xs arbitrary: x) auto

lemma comma_list:
  assumes elem: "\<And>x c t. x \<in> set xs \<Longrightarrow> c \<in> {CHR '','', close} \<Longrightarrow> p_run A p (pr x @ c # t) = Some (val x, c # t)"
    and pl: "\<And>x. x \<in> set xs \<Longrightarrow> pr x \<noteq> [] \<and> plain (pr x)"
    and close: "close \<noteq> CHR '',''" "plain [close]" "p_run A p (close # t) = None"
  shows "p_run A (commaSeparated A p) (join '','' (map pr xs) @ close # t) = Some (VList (map val xs), close # t)"
proof (cases xs)
  case Nil
  with close show ?thesis
    by (simp add: commaSeparated_def sepByWithOptionalTrailingSep_def run_simps)
next
  case (Cons x ys)
  let ?rest = "concat (map (\<lambda>x. CHR '','' # pr x) ys) @ close # t"
  obtain c u where cu: "?rest = c # u" "c \<in> {CHR '','', close}" by (cases ys) auto
  have x: "p_run A p (pr x @ ?rest) = Some (val x, ?rest)" unfolding cu(1) using elem Cons cu(2) by simp
  have "p_run A (p_many A (p_map A (\<lambda>x. item x 1) (p_sequenceOf A [whitespaceSurrounded A (p_char A (CHR '','')), p]))) ?rest
      = Some (VList (map val ys), close # t)"
    by (rule comma_rest) (use elem pl Cons close in simp_all)
  with x close show ?thesis
    unfolding Cons join_commas
    by (simp add: commaSeparated_def sepByWithOptionalTrailingSep_def run_simps comma item_def)
qed

end

end
