(* ===== verification/Fbs_Roundtrip.thy ===== *)
theory Fbs_Roundtrip
  imports Parser_Laws
begin

text \<open>
  The schema parser reads back what is written in the schema language: a printer for syntax trees, the
  trees it can write, and the proof that parsing the text gives the tree. The parser is ambiguous by the
  order of its choices, so some names cannot be written: a type whose name starts with the name of a basic
  type, a default that starts like a constant. The sized basic types are lost to the same effect.
\<close>

section \<open>Printing\<close>

definition digit_char :: "nat \<Rightarrow> char" where
  "digit_char n = fst (digit_table ! n)"

fun show_nat :: "nat \<Rightarrow> string" where
  "show_nat n = (if n < 10 then [digit_char n] else show_nat (n div 10) @ [digit_char (n mod 10)])"

declare show_nat.simps [simp del]

definition show_int :: "int \<Rightarrow> string" where
  "show_int i = (if i < 0 then CHR ''-'' # show_nat (nat (- i)) else show_nat (nat i))"

fun print_num :: "jsnum \<Rightarrow> string" where
  "print_num (Fin q) = show_int \<lfloor>q\<rfloor>"
| "print_num NaN = ''nan''"
| "print_num PosInf = ''inf''"
| "print_num NegInf = ''-inf''"

fun print_scalar :: "AstScalarLiteral \<Rightarrow> string" where
  "print_scalar (AstBoolean b) = (if b then ''true'' else ''false'')"
| "print_scalar (AstNumeric n) = print_num n"

definition print_string :: "string \<Rightarrow> string" where
  "print_string s = CHR 0x22 # s @ [CHR 0x22]"

fun print_literal :: "AstLiteral \<Rightarrow> string" where
  "print_literal (AstScalar s) = print_scalar s"
| "print_literal (AstString s) = print_string s"

fun print_default :: "AstDefault \<Rightarrow> string" where
  "print_default (AstScalarDefault s) = print_scalar s"
| "print_default (AstRef r) = r"

fun print_basic :: "BasicType \<Rightarrow> string" where
  "print_basic BoolType = ''bool''"
| "print_basic (IntType n p) = n"
| "print_basic (FloatType n p) = n"
| "print_basic StringType = ''string''"

fun print_type :: "AstFieldType \<Rightarrow> string" where
  "print_type (AstBasic b) = print_basic b"
| "print_type (AstVector t) = ''['' @ print_type t @ '']''"
| "print_type (AstCustom n) = n"

definition print_attr :: "AstAttribute \<Rightarrow> string" where
  "print_attr a = attr_id a @ (case attr_value a of None \<Rightarrow> [] | Some l \<Rightarrow> '':'' @ print_literal l)"

definition print_meta :: "AstMetadata \<Rightarrow> string" where
  "print_meta m = (case m of None \<Rightarrow> [] | Some as \<Rightarrow> ''('' @ join '','' (map print_attr as) @ '')'')"

definition print_enumVal :: "AstEnumVal \<Rightarrow> string" where
  "print_enumVal v =
     ev_id v @ (case ev_value v of None \<Rightarrow> [] | Some n \<Rightarrow> ''='' @ print_num n) @ print_meta (ev_metadata v)"

definition print_field :: "AstField \<Rightarrow> string" where
  "print_field f =
     af_name f @ '':'' @ print_type (af_type f) @
     (case af_default f of None \<Rightarrow> [] | Some d \<Rightarrow> ''='' @ print_default d) @ print_meta (af_metadata f) @ '';''"

fun print_top :: "AstTopLevel \<Rightarrow> string" where
  "print_top (AstInclude f) = ''include '' @ print_string f @ '';''"
| "print_top (AstNamespace n) = ''namespace '' @ n @ '';''"
| "print_top (AstEnum n t m vs) =
     ''enum '' @ n @ print_meta m @ '':'' @ print_type t @ ''{'' @ join '','' (map print_enumVal vs) @ ''}''"
| "print_top (AstUnion n m vs) = ''union '' @ n @ print_meta m @ ''{'' @ join '','' (map print_enumVal vs) @ ''}''"
| "print_top (AstTable struct n m fs) =
     (if struct then ''struct '' else ''table '') @ n @ print_meta m @ ''{'' @ concat (map print_field fs) @ ''}''"
| "print_top (AstRootType n) = ''root_type '' @ n @ '';''"
| "print_top (AstAttributeDecl n) = ''attribute '' @ print_string n @ '';''"

definition print_schema :: "AstTopLevel list \<Rightarrow> string" where
  "print_schema ts = concat (map print_top ts)"

section \<open>What can be written\<close>

definition good_ident :: "string \<Rightarrow> bool" where
  "good_ident n = (ident_rx n = Some (length n))"

definition good_name :: "string \<Rightarrow> bool" where
  "good_name n = list_all good_ident (dot_split n)"

definition good_string :: "string \<Rightarrow> bool" where
  "good_string s = (CHR 0x22 \<notin> set s)"

fun good_num :: "jsnum \<Rightarrow> bool" where
  "good_num (Fin q) = (of_int \<lfloor>q\<rfloor> = q)"
| "good_num _ = True"

fun good_scalar :: "AstScalarLiteral \<Rightarrow> bool" where
  "good_scalar (AstBoolean b) = True"
| "good_scalar (AstNumeric n) = good_num n"

fun good_literal :: "AstLiteral \<Rightarrow> bool" where
  "good_literal (AstScalar s) = good_scalar s"
| "good_literal (AstString s) = good_string s"

fun good_default :: "AstDefault \<Rightarrow> bool" where
  "good_default (AstScalarDefault s) = good_scalar s"
| "good_default (AstRef r) =
     (good_ident r \<and> list_all (\<lambda>w. \<not> startsWith r w) [''true'', ''false'', ''nan'', ''inf''])"

definition sized_types :: "string list" where
  "sized_types =
     [''int8'', ''uint8'', ''int16'', ''uint16'', ''int32'', ''uint32'', ''int64'', ''uint64'', ''float32'', ''float64'']"

definition basic_names :: "string list" where
  "basic_names = [''bool'', ''string''] @ INT_TYPES @ FLOAT_TYPES"

fun good_basic :: "BasicType \<Rightarrow> bool" where
  "good_basic b = (basic_wf b \<and> print_basic b \<notin> set sized_types)"

fun good_type :: "AstFieldType \<Rightarrow> bool" where
  "good_type (AstBasic b) = good_basic b"
| "good_type (AstVector t) = good_type t"
| "good_type (AstCustom n) = (good_name n \<and> list_all (\<lambda>w. \<not> startsWith n w) basic_names)"

definition good_attr :: "AstAttribute \<Rightarrow> bool" where
  "good_attr a = (good_name (attr_id a) \<and> (case attr_value a of None \<Rightarrow> True | Some l \<Rightarrow> good_literal l))"

definition good_meta :: "AstMetadata \<Rightarrow> bool" where
  "good_meta m = (case m of None \<Rightarrow> True | Some as \<Rightarrow> list_all good_attr as)"

definition good_enumVal :: "(string \<Rightarrow> bool) \<Rightarrow> AstEnumVal \<Rightarrow> bool" where
  "good_enumVal name_ok v =
     (name_ok (ev_id v) \<and> (case ev_value v of None \<Rightarrow> True | Some n \<Rightarrow> good_num n) \<and> good_meta (ev_metadata v))"

definition good_field :: "AstField \<Rightarrow> bool" where
  "good_field f =
     (good_ident (af_name f) \<and> good_type (af_type f) \<and>
      (case af_default f of None \<Rightarrow> True | Some d \<Rightarrow> good_default d) \<and> good_meta (af_metadata f))"

fun good_top :: "AstTopLevel \<Rightarrow> bool" where
  "good_top (AstInclude f) = good_string f"
| "good_top (AstNamespace n) = good_name n"
| "good_top (AstEnum n t m vs) = (good_ident n \<and> good_type t \<and> good_meta m \<and> list_all (good_enumVal good_ident) vs)"
| "good_top (AstUnion n m vs) = (good_ident n \<and> good_meta m \<and> list_all (good_enumVal good_name) vs)"
| "good_top (AstTable struct n m fs) = (good_ident n \<and> good_meta m \<and> list_all good_field fs)"
| "good_top (AstRootType n) = good_name n"
| "good_top (AstAttributeDecl n) = good_string n"

section \<open>Characters\<close>

text \<open>What may follow a name or a number.\<close>

definition delims :: string where
  "delims = '',;:=(){}[]''"

lemma delim_char:
  assumes "c \<in> set delims"
  shows "\<not> ident_char c" "\<not> is_digit c" "c \<notin> {CHR ''.'', CHR ''e'', CHR ''E'', CHR ''/'', CHR ''-'', CHR ''+''}" "\<not> is_space c"
proof -
  have "list_all (\<lambda>c. \<not> ident_char c \<and> \<not> is_digit c \<and>
      c \<notin> {CHR ''.'', CHR ''e'', CHR ''E'', CHR ''/'', CHR ''-'', CHR ''+''} \<and> \<not> is_space c) delims"
    by code_simp
  with assms show "\<not> ident_char c" "\<not> is_digit c" "c \<notin> {CHR ''.'', CHR ''e'', CHR ''E'', CHR ''/'', CHR ''-'', CHR ''+''}" "\<not> is_space c"
    by (auto simp: list_all_iff)
qed

lemma delims_mem [simp]:
  "CHR '','' \<in> set delims" "CHR '';'' \<in> set delims" "CHR '':'' \<in> set delims" "CHR ''='' \<in> set delims" "CHR ''('' \<in> set delims"
  "CHR '')'' \<in> set delims" "CHR ''{'' \<in> set delims" "CHR ''}'' \<in> set delims" "CHR ''['' \<in> set delims" "CHR '']'' \<in> set delims"
  by (simp_all add: delims_def)

lemma digit_char_facts:
  assumes "is_digit c"
  shows "\<not> ident_start c" "\<not> is_space c" "c \<notin> {CHR ''.'', CHR ''-'', CHR ''+'', CHR ''/'', CHR ''t'', CHR ''f'', CHR ''I'', CHR 0x22}"
proof -
  have "list_all (\<lambda>c. \<not> ident_start c \<and> \<not> is_space c \<and> c \<notin> {CHR ''.'', CHR ''-'', CHR ''+'', CHR ''/'', CHR ''t'', CHR ''f'', CHR ''I'', CHR 0x22})
      (map fst digit_table)" by code_simp
  moreover have "c \<in> set (map fst digit_table)"
    using assms by (force simp: is_digit_def dest: map_of_SomeD)
  ultimately show "\<not> ident_start c" "\<not> is_space c" "c \<notin> {CHR ''.'', CHR ''-'', CHR ''+'', CHR ''/'', CHR ''t'', CHR ''f'', CHR ''I'', CHR 0x22}"
    unfolding list_all_iff by blast+
qed

lemma ident_start_facts:
  assumes "ident_start c"
  shows "\<not> is_digit c" "\<not> is_space c" "c \<notin> {CHR ''.'', CHR ''-'', CHR ''+'', CHR ''/'', CHR 0x22}"
proof -
  have n: "\<not> ident_start (CHR ''.'')" "\<not> ident_start (CHR ''-'')" "\<not> ident_start (CHR ''+'')" "\<not> ident_start (CHR ''/'')"
    "\<not> ident_start (CHR 0x22)" by code_simp+
  have "list_all (\<lambda>c. \<not> ident_start c) [CHR '' '', CHR 0x09, CHR 0x0A, CHR 0x0B, CHR 0x0C, CHR 0x0D, CHR 0xA0]" by code_simp
  then show "\<not> is_space c" using assms by (auto simp: is_space_def)
  show "\<not> is_digit c" using assms digit_char_facts(1) by blast
  show "c \<notin> {CHR ''.'', CHR ''-'', CHR ''+'', CHR ''/'', CHR 0x22}" using assms n by auto
qed

lemma good_ident_iff: "good_ident n \<longleftrightarrow> (\<exists>c cs. n = c # cs \<and> ident_start c \<and> (\<forall>x \<in> set cs. ident_char x))"
proof (cases n)
  case (Cons c cs)
  have "length (takeWhile ident_char cs) = length cs \<longleftrightarrow> (\<forall>x \<in> set cs. ident_char x)"
    by (metis takeWhile_eq_all_conv takeWhile_eq_take take_all_iff order_refl)
  with Cons show ?thesis by (simp add: good_ident_def)
qed (simp add: good_ident_def)

lemma ident_rx_follow:
  assumes "good_ident n" and "u = [] \<or> \<not> ident_char (hd u)"
  shows "ident_rx (n @ u) = Some (length n)"
proof -
  obtain c cs where n: "n = c # cs" "ident_start c" "\<forall>x \<in> set cs. ident_char x" using assms(1) good_ident_iff by blast
  have "takeWhile ident_char (cs @ u) = cs" using n(3) assms(2) by (cases u) auto
  with n show ?thesis by simp
qed

lemma good_ident_plain: "good_ident n \<Longrightarrow> n \<noteq> [] \<and> \<not> is_space (hd n) \<and> hd n \<noteq> CHR ''/'' \<and> hd n \<noteq> CHR 0x22"
  using ident_start_facts by (auto simp: good_ident_iff)

lemma good_name_start: "good_name n \<Longrightarrow> \<exists>c cs. n = c # cs \<and> ident_start c"
proof -
  assume g: "good_name n"
  obtain p ps where ps: "dot_split n = p # ps" by (cases "dot_split n") auto
  then have "good_ident p" using g by (simp add: good_name_def)
  moreover have "n = dot_join (p # ps)" using join_split [of "CHR ''.''" n] ps by simp
  ultimately show ?thesis by (cases ps) (auto simp: good_ident_iff)
qed

section \<open>Numbers\<close>

lemma digit_char: "n < 10 \<Longrightarrow> is_digit (digit_char n) \<and> digit_value (digit_char n) = n"
proof -
  have "list_all (\<lambda>n. is_digit (digit_char n) \<and> digit_value (digit_char n) = n) [0, 1, 2, 3, 4, 5, 6, 7, 8, 9]" by code_simp
  moreover assume "n < 10"
  then have "n \<in> set [0, 1, 2, 3, 4, 5, 6, 7, 8, 9]" by simp presburger
  ultimately show ?thesis unfolding list_all_iff by blast
qed

lemma show_nat_facts: "show_nat n \<noteq> [] \<and> (\<forall>c \<in> set (show_nat n). is_digit c) \<and> digits_value (show_nat n) = n"
proof (induction n rule: show_nat.induct)
  case (1 n)
  have "digits_value (xs @ [c]) = 10 * digits_value xs + digit_value c" for xs c by (simp add: digits_value_def)
  with 1 show ?case
    using digit_char [of n] digit_char [of "n mod 10"]
    by (subst (1 2 3) show_nat.simps) (auto simp: digits_value_def)
qed

lemma digits_prefix: "takeWhile is_digit (show_nat n @ c # u) = (if is_digit c then show_nat n @ c # takeWhile is_digit u else show_nat n)"
  using show_nat_facts [of n] by (simp add: takeWhile_append)

lemma show_nat_first: "\<exists>d ds. show_nat n = d # ds \<and> is_digit d"
  using show_nat_facts [of n] by (cases "show_nat n") auto

lemma mantissa_show: "c \<in> set delims \<Longrightarrow> mantissa_rx (show_nat n @ c # u) = Some (length (show_nat n))"
  using delim_char [of c] show_nat_facts [of n] by (simp add: mantissa_rx_def digits_prefix Let_def startsWith_def)

lemma exponent_none: "c \<in> set delims \<Longrightarrow> exponent_length (c # u) = 0"
  using delim_char(3) [of c] by (simp add: exponent_length_def startsWith_def)

lemma decFloat_show: "c \<in> set delims \<Longrightarrow> decFloat_rx (show_int i @ c # u) = Some (length (show_int i))"
proof -
  assume c: "c \<in> set delims"
  obtain d ds where d: "show_nat (nat i) = d # ds" "is_digit d" using show_nat_first by blast
  have "sign_length (show_nat (nat i) @ c # u) = 0" using d digit_char_facts(3) [OF d(2)] by simp
  then show ?thesis
    using mantissa_show [OF c] exponent_none [OF c] by (simp add: decFloat_rx_def show_int_def Let_def)
qed

lemma parseFloat_show: "parseFloat (show_int i) = Fin (of_int i)"
proof -
  have nat_num: "takeWhile is_digit (show_nat n) = show_nat n" "dropWhile is_digit (show_nat n) = []" for n
    using show_nat_facts [of n] by (auto simp: takeWhile_eq_all_conv dropWhile_eq_Nil_conv)
  have inf: "\<not> startsWith (show_nat n) ''Infinity''" for n
    using show_nat_first [of n] digit_char_facts(3) by (auto simp: startsWith_def)
  have sgn: "signed_part (show_nat n) = (1, show_nat n)" "dropWhile is_space (show_nat n) = show_nat n" for n
    using show_nat_first [of n] digit_char_facts(2,3) by auto
  have "\<not> is_space (CHR ''-'')" by code_simp
  then show ?thesis
    using show_nat_facts [of "nat i"] show_nat_facts [of "nat (- i)"]
    by (simp add: parseFloat_def show_int_def sgn nat_num inf fraction_part_def exponent_part_def)
qed

section \<open>Reading back\<close>

lemma startsWith_name:
  assumes "startsWith (n @ c # u) w" and "\<forall>x \<in> set w. ident_char x" and "\<not> ident_char c"
  shows "startsWith n w"
  using assms
proof (induction n arbitrary: w)
  case Nil
  then show ?case by (cases w) (auto simp: startsWith_def)
next
  case (Cons x n)
  then show ?case by (cases w) (auto simp: startsWith_def)
qed

lemma basic_names_chars: "w \<in> set basic_names \<Longrightarrow> \<forall>x \<in> set w. ident_char x"
proof -
  have "list_all (list_all ident_char) basic_names" by code_simp
  then show "w \<in> set basic_names \<Longrightarrow> \<forall>x \<in> set w. ident_char x" by (simp add: list_all_iff)
qed

lemma run_choice_none: "\<forall>p \<in> set ps. run p s = None \<Longrightarrow> run_choice run ps s = None"
  by (induction ps) auto

context arcsecond begin

lemma ident_read:
  assumes "good_ident n" and "\<not> ident_char c"
  shows "p_run A (ident A) (n @ c # u) = Some (VStr n, c # u)"
  using assms ident_rx_follow [OF assms(1), of "c # u"] by (simp add: ident_def run_regex)

lemma ident_no: "\<not> ident_start c \<Longrightarrow> p_run A (ident A) (c # u) = None"
  by (simp add: ident_def run_regex)

lemma dots_read:
  assumes "ps \<noteq> []" and "list_all good_ident ps" and "c \<in> set delims"
  shows "p_run A (p_sepBy1 A (p_char A (CHR ''.'')) (ident A)) (dot_join ps @ c # u) = Some (VList (map VStr ps), c # u)"
  using assms(1,2)
proof (induction ps rule: list_nonempty_induct)
  case (single p)
  have "c \<noteq> CHR ''.''" using delim_char(3) [OF assms(3)] by auto
  then show ?case
    using single run_sepBy1_one [OF ident_read [of p c u]] delim_char(1) [OF assms(3)] by (simp add: run_char)
next
  case (cons p ps)
  have dot: "\<not> ident_char (CHR ''.'')" by code_simp
  have "p_run A (ident A) (p @ CHR ''.'' # dot_join ps @ c # u) = Some (VStr p, CHR ''.'' # dot_join ps @ c # u)"
    using ident_read [OF _ dot] cons.prems by simp
  moreover have "p_run A (p_sepBy1 A (p_char A (CHR ''.'')) (ident A)) (dot_join ps @ c # u) = Some (VList (map VStr ps), c # u)"
    using cons by simp
  ultimately show ?case
    using run_sepBy1_more [of "ident A" _ _ _ "p_char A (CHR ''.'')"] cons.hyps by (simp add: join_Cons run_char)
qed

lemma name_read:
  assumes "good_name n" and "c \<in> set delims"
  shows "p_run A (identWithOptionalNamespace A) (n @ c # u) = Some (VStr n, c # u)"
  using dots_read [OF split_on_nonempty, of "CHR ''.''" n c u] assms
  by (simp add: identWithOptionalNamespace_def run_map good_name_def comp_def)

lemma name_no: "\<not> ident_start c \<Longrightarrow> p_run A (identWithOptionalNamespace A) (c # u) = None"
  by (simp add: identWithOptionalNamespace_def run_map run_sepBy1_none ident_no)

lemma string_read:
  assumes "good_string s"
  shows "p_run A (stringConstant A) (print_string s @ u) = Some (VStr s, u)"
proof -
  have "p_run A (p_char A (CHR 0x22)) (drop j (s @ CHR 0x22 # u)) = None" if "j < length s" for j
    using assms that in_set_conv_nth [of "CHR 0x22" s] by (auto simp: run_char good_string_def Cons_nth_drop_Suc [symmetric])
  then have "p_run A (p_everyCharUntil A (p_char A (CHR 0x22))) (s @ CHR 0x22 # u) = Some (VStr s, CHR 0x22 # u)"
    using run_until [of "length s" "s @ CHR 0x22 # u" "p_char A (CHR 0x22)"] by (simp add: run_char)
  then show ?thesis by (simp add: stringConstant_def print_string_def run_simps item_def)
qed

section \<open>Constants\<close>

lemma num_read:
  assumes "good_num n" and "c \<in> set delims"
  shows "p_run A (numericLiteral A) (print_num n @ c # u) = Some (VScalar (AstNumeric n), c # u)"
proof (cases n)
  case (Fin q)
  have "show_int \<lfloor>q\<rfloor> @ c # u \<noteq> []" by simp
  with Fin assms show ?thesis
    using decFloat_show [OF assms(2), of "\<lfloor>q\<rfloor>" u] parseFloat_show [of "\<lfloor>q\<rfloor>"]
    by (simp add: numericLiteral_def numericConstant_def floatConstant_def decFloatConstant_def run_map run_choiceOf run_regex)
next
  case NaN
  have "decFloat_rx (''nan'' @ c # u) = None" "sign_rx (''nan'' @ c # u) = Some 0"
    by (simp_all add: decFloat_rx_def sign_rx_def mantissa_rx_def is_digit_def digit_table_def)
  then show ?thesis
    by (simp add: NaN numericLiteral_def numericConstant_def floatConstant_def decFloatConstant_def specialFloatConstant_def
        sign_def run_simps run_regex item_def)
next
  case PosInf
  have "decFloat_rx (''inf'' @ c # u) = None" "sign_rx (''inf'' @ c # u) = Some 0"
    by (simp_all add: decFloat_rx_def sign_rx_def mantissa_rx_def is_digit_def digit_table_def)
  then show ?thesis
    by (simp add: PosInf numericLiteral_def numericConstant_def floatConstant_def decFloatConstant_def specialFloatConstant_def
        sign_def run_simps run_regex item_def)
next
  case NegInf
  have "decFloat_rx (''-inf'' @ c # u) = None" "sign_rx (''-inf'' @ c # u) = Some 1"
    by (simp_all add: decFloat_rx_def sign_rx_def mantissa_rx_def is_digit_def digit_table_def)
  then show ?thesis
    by (simp add: NegInf numericLiteral_def numericConstant_def floatConstant_def decFloatConstant_def specialFloatConstant_def
        sign_def run_simps run_regex item_def)
qed

text \<open>A number does not start like a boolean.\<close>

lemma bool_no: "c \<noteq> CHR ''t'' \<Longrightarrow> c \<noteq> CHR ''f'' \<Longrightarrow> p_run A (booleanLiteral A) (c # u) = None"
  by (simp add: booleanLiteral_def booleanConstant_def run_simps)

lemma num_first: "\<exists>d ds. print_num n = d # ds \<and> d \<noteq> CHR ''t'' \<and> d \<noteq> CHR ''f''"
proof (cases n)
  case (Fin q)
  obtain d ds where "show_nat (nat \<lfloor>q\<rfloor>) = d # ds" "is_digit d" using show_nat_first by blast
  then show ?thesis using Fin digit_char_facts(3) [of d] by (auto simp: show_int_def)
qed auto

lemma scalar_read:
  assumes "good_scalar s" and "c \<in> set delims"
  shows "p_run A (scalar A) (print_scalar s @ c # u) = Some (VScalar s, c # u)"
proof (cases s)
  case (AstBoolean b)
  then show ?thesis by (simp add: scalar_def booleanLiteral_def booleanConstant_def run_simps)
next
  case (AstNumeric n)
  obtain d ds where d: "print_num n = d # ds" "d \<noteq> CHR ''t''" "d \<noteq> CHR ''f''" using num_first by blast
  have "p_run A (numericLiteral A) (print_num n @ c # u) = Some (VScalar (AstNumeric n), c # u)"
    by (rule num_read) (use assms AstNumeric in simp_all)
  with AstNumeric d show ?thesis by (simp add: scalar_def run_choiceOf bool_no)
qed

lemma numeric_no:
  assumes "ident_start d" and "\<not> startsWith (d # ds) ''nan''" and "\<not> startsWith (d # ds) ''inf''"
  shows "p_run A (numericLiteral A) (d # ds) = None"
proof -
  have s: "sign_length (d # ds) = 0" using ident_start_facts(3) [OF assms(1)] by simp
  have m: "mantissa_rx (d # ds) = None" using ident_start_facts [OF assms(1)]
    by (simp add: mantissa_rx_def Let_def startsWith_def)
  have "\<not> startsWith (d # ds) ''0x''" "\<not> startsWith (d # ds) ''0X''"
    using ident_start_facts(1) [OF assms(1)] by (auto simp: startsWith_def is_digit_def digit_table_def)
  then have h: "hexInteger_rx (d # ds) = None" by (simp only: hexInteger_rx_def s Let_def) simp
  have i: "decInteger_rx (d # ds) = None" using ident_start_facts(1) [OF assms(1)] by (simp add: decInteger_rx_def s [simplified])
  have "startsWith x ''inf''" if "startsWith x ''infinity''" for x
    using that by (auto simp: startsWith_iff)
  with assms(3) have "\<not> startsWith (d # ds) ''infinity''" by blast
  then show ?thesis
    using assms(2,3) m s h i
    by (simp add: numericLiteral_def numericConstant_def floatConstant_def integerConstant_def decFloatConstant_def
        specialFloatConstant_def hexIntegerConstant_def decIntegerConstant_def sign_def run_simps run_regex sign_rx_def
        decFloat_rx_def del: startsWith_Cons)
qed

lemma default_read:
  assumes "good_default d" and "c \<in> set delims"
  shows "\<exists>v. p_run A (scalarOrRefLiteral A) (print_default d @ c # u) = Some (v, c # u) \<and> as_default v = Some d"
proof (cases d)
  case (AstScalarDefault s)
  have "p_run A (scalar A) (print_scalar s @ c # u) = Some (VScalar s, c # u)"
    by (rule scalar_read) (use assms AstScalarDefault in simp_all)
  with AstScalarDefault show ?thesis by (simp add: scalarOrRefLiteral_def run_choiceOf)
next
  case (AstRef r)
  obtain x xs where r: "r = x # xs" "ident_start x" "\<forall>y \<in> set xs. ident_char y"
    using assms(1) AstRef good_ident_iff by auto
  have no: "\<not> startsWith (r @ c # u) w" if "w \<in> {''true'', ''false'', ''nan'', ''inf''}" for w
  proof
    have "list_all (list_all ident_char) [''true'', ''false'', ''nan'', ''inf'']" by code_simp
    then have "\<forall>x \<in> set w. ident_char x" using that by (auto simp: list_all_iff)
    moreover assume "startsWith (r @ c # u) w"
    ultimately have "startsWith r w" using startsWith_name delim_char(1) [OF assms(2)] by blast
    with that assms(1) AstRef show False by auto
  qed
  have "p_run A (numericLiteral A) (r @ c # u) = None"
    using numeric_no [OF r(2), of "xs @ c # u"] no [of "''nan''"] no [of "''inf''"] r(1) by simp
  moreover have "p_run A (booleanLiteral A) (r @ c # u) = None"
    using no [of "''true''"] no [of "''false''"] by (simp add: booleanLiteral_def booleanConstant_def run_simps)
  moreover have "p_run A (ident A) (r @ c # u) = Some (VStr r, c # u)"
    using ident_read assms(1) AstRef delim_char(1) [OF assms(2)] by simp
  ultimately show ?thesis using AstRef by (simp add: scalarOrRefLiteral_def scalar_def run_choiceOf run_map)
qed

lemma literal_read:
  assumes "good_literal l" and "c \<in> set delims"
  shows "\<exists>v. p_run A (literal A) (print_literal l @ c # u) = Some (v, c # u) \<and> as_literal v = Some l"
proof (cases l)
  case (AstScalar s)
  have "p_run A (scalar A) (print_scalar s @ c # u) = Some (VScalar s, c # u)"
    by (rule scalar_read) (use assms AstScalar in simp_all)
  with AstScalar show ?thesis by (simp add: literal_def run_choiceOf)
next
  case (AstString s)
  have q: "\<not> is_digit (CHR 0x22)" by code_simp
  have "p_run A (numericLiteral A) (CHR 0x22 # t) = None" for t
    using q by (simp add: numericLiteral_def numericConstant_def floatConstant_def integerConstant_def decFloatConstant_def
        specialFloatConstant_def hexIntegerConstant_def decIntegerConstant_def sign_def run_simps run_regex sign_rx_def
        decFloat_rx_def mantissa_rx_def decInteger_rx_def hexInteger_rx_def)
  then have "p_run A (scalar A) (print_string s @ c # u) = None"
    by (simp add: scalar_def run_choiceOf print_string_def bool_no)
  with AstString assms(1) string_read [of s "c # u"] show ?thesis
    by (simp add: literal_def run_choiceOf stringLiteral_def run_map)
qed

end

section \<open>Types\<close>

context arcsecond begin

lemma choice_strs:
  "run_choice (p_run A) (map (p_str A) ws) s =
     map_option (\<lambda>w. (VStr w, drop (length w) s)) (List.find (startsWith s) ws)"
  by (induction ws) (simp_all add: run_str)

lemma int_names_read:
  assumes "n \<in> set [''byte'', ''ubyte'', ''short'', ''ushort'', ''int'', ''uint'', ''long'', ''ulong'']"
  shows "run_choice (p_run A) (map (p_str A) INT_TYPES) (n @ u) = Some (VStr n, u)"
    and "\<not> startsWith (n @ u) ''bool''" and "\<not> startsWith (n @ u) ''string''"
proof -
  have "n = ''byte'' \<or> n = ''ubyte'' \<or> n = ''short'' \<or> n = ''ushort'' \<or> n = ''int'' \<or> n = ''uint'' \<or> n = ''long'' \<or> n = ''ulong''"
    using assms by simp
  then show "run_choice (p_run A) (map (p_str A) INT_TYPES) (n @ u) = Some (VStr n, u)"
    unfolding choice_strs INT_TYPES_def by (elim disjE; simp)
qed (use assms in auto)

lemma float_names_read:
  assumes "n \<in> set [''float'', ''double'']"
  shows "run_choice (p_run A) (map (p_str A) FLOAT_TYPES) (n @ u) = Some (VStr n, u)"
    and "run_choice (p_run A) (map (p_str A) INT_TYPES) (n @ u) = None"
    and "\<not> startsWith (n @ u) ''bool''" and "\<not> startsWith (n @ u) ''string''"
  using assms unfolding choice_strs INT_TYPES_def FLOAT_TYPES_def by auto

lemma basic_read:
  assumes "good_basic b"
  shows "p_run A (basicType A) (print_basic b @ u) = Some (VBasic b, u)"
proof (cases b)
  case (IntType n p)
  have p: "map_get INT_TYPE_PROPERTIES n = Some p" using assms IntType by simp
  then have "n \<in> set INT_TYPES" using INT_TYPE_PROPERTIES_total map_get_mem [OF p] by force
  then have "n \<in> set [''byte'', ''ubyte'', ''short'', ''ushort'', ''int'', ''uint'', ''long'', ''ulong'']"
    using assms IntType by (auto simp: INT_TYPES_def sized_types_def)
  from int_names_read [OF this, of u] IntType p show ?thesis
    by (simp add: basicType_def boolType_def stringType_def intType_def run_simps)
next
  case (FloatType n p)
  have p: "map_get FLOAT_TYPE_PROPERTIES n = Some p" using assms FloatType by simp
  then have "n \<in> set FLOAT_TYPES" using FLOAT_TYPE_PROPERTIES_total map_get_mem [OF p] by force
  then have "n \<in> set [''float'', ''double'']" using assms FloatType by (auto simp: FLOAT_TYPES_def sized_types_def)
  from float_names_read [OF this, of u] FloatType p show ?thesis
    by (simp add: basicType_def boolType_def stringType_def intType_def floatType_def run_simps)
qed (simp_all add: basicType_def boolType_def stringType_def run_simps)

lemma basic_no:
  assumes "list_all (\<lambda>w. \<not> startsWith s w) basic_names"
  shows "p_run A (basicType A) s = None"
proof -
  have "\<not> startsWith s ''bool''" "\<not> startsWith s ''string''" "\<forall>w \<in> set INT_TYPES. \<not> startsWith s w"
    "\<forall>w \<in> set FLOAT_TYPES. \<not> startsWith s w"
    using assms by (auto simp: basic_names_def list_all_iff)
  then have "run_choice (p_run A) (map (p_str A) INT_TYPES) s = None" "run_choice (p_run A) (map (p_str A) FLOAT_TYPES) s = None"
    "\<not> startsWith s ''bool''" "\<not> startsWith s ''string''"
    by (auto intro!: run_choice_none simp: run_str)
  then show ?thesis by (simp add: basicType_def boolType_def stringType_def intType_def floatType_def run_simps)
qed

lemma custom_read:
  "good_name n \<Longrightarrow> c \<in> set delims \<Longrightarrow> p_run A (customType A) (n @ c # u) = Some (VType (AstCustom n), c # u)"
  by (simp add: customType_def run_map name_read)

lemma type_plain: "good_type t \<Longrightarrow> print_type t \<noteq> [] \<and> plain (print_type t)"
proof (cases t)
  case (AstBasic b)
  assume "good_type t"
  then have b: "basic_wf b" using AstBasic by simp
  have names: "list_all (\<lambda>n. n \<noteq> [] \<and> plain n) basic_names"
  proof -
    have "list_all (\<lambda>n. n \<noteq> [] \<and> ident_start (hd n)) basic_names" by code_simp
    moreover have "plain n" if "n \<noteq> []" "ident_start (hd n)" for n
      using that ident_start_facts [of "hd n"] by (cases n) auto
    ultimately show ?thesis unfolding list_all_iff by blast
  qed
  have "print_basic b \<in> set basic_names"
    using b INT_TYPE_PROPERTIES_total FLOAT_TYPE_PROPERTIES_total
    by (cases b) (force simp: basic_names_def dest: map_of_SomeD)+
  with AstBasic names show ?thesis by (simp add: list_all_iff)
next
  case (AstCustom n)
  assume "good_type t"
  then obtain c cs where "n = c # cs" "ident_start c" using good_name_start [of n] AstCustom by auto
  with AstCustom ident_start_facts [of c] show ?thesis by auto
qed simp

lemma type_read:
  assumes "good_type t" and "c \<in> set delims"
  shows "p_run A (fieldType A) (print_type t @ c # u) = Some (VType t, c # u)"
  using assms
proof (induction t arbitrary: c u)
  case (AstBasic b)
  have "p_run A (basicType A) (print_basic b @ c # u) = Some (VBasic b, c # u)"
    by (rule basic_read) (use AstBasic in simp)
  then show ?case unfolding fieldType_def run_recursive [of _] by (simp add: typeBody_def run_simps)
next
  case (AstVector t)
  let ?s = "print_type t @ CHR '']'' # c # u"
  have t: "p_run A (fieldType A) ?s = Some (VType t, CHR '']'' # c # u)"
    by (rule AstVector.IH) (use AstVector.prems in simp_all)
  have "plain ?s" using type_plain [of t] AstVector.prems(1) by (simp add: plain_append)
  then have v: "p_run A (betweenBrackets A (fieldType A)) (CHR ''['' # ?s) = Some (VType t, c # u)"
    unfolding betweenBrackets_def by (rule enclosed [OF _ t]) simp
  have "list_all (\<lambda>w. hd w \<noteq> CHR ''['' \<and> w \<noteq> []) basic_names" by code_simp
  then have "list_all (\<lambda>w. \<not> startsWith (CHR ''['' # ?s) w) basic_names"
    by (auto simp: list_all_iff startsWith_def neq_Nil_conv)
  from basic_no [OF this] v show ?case
    unfolding fieldType_def by (subst run_recursive) (simp add: typeBody_def run_choiceOf run_map)
next
  case (AstCustom n)
  have "\<not> startsWith (n @ c # u) w" if "w \<in> set basic_names" for w
    using startsWith_name [of n c u w] basic_names_chars [OF that] delim_char(1) [OF AstCustom.prems(2)] AstCustom.prems(1) that
    by (auto simp: list_all_iff)
  then have b: "p_run A (basicType A) (n @ c # u) = None" by (intro basic_no) (simp add: list_all_iff)
  obtain x xs where x: "n = x # xs" "ident_start x" using good_name_start [of n] AstCustom.prems(1) by auto
  have "\<not> ident_start (CHR ''['')" by code_simp
  then have "x \<noteq> CHR ''[''" using x(2) by auto
  then have "p_run A (betweenBrackets A p) (n @ c # u) = None" for p by (simp add: betweenBrackets_def not_enclosed x(1))
  with b custom_read [of n c u] AstCustom.prems show ?case
    unfolding fieldType_def by (subst run_recursive) (simp add: typeBody_def run_choiceOf run_map)
qed

section \<open>Attributes and values\<close>

definition attr_grammar :: 'p where
  "attr_grammar = p_map A (\<lambda>x. VAttr \<lparr>attr_id = as_str (item x 0), attr_value = as_literal (item x 1)\<rparr>)
     (p_sequenceOf A
        [identWithOptionalNamespace A,
         p_possibly A
           (p_map A (\<lambda>x. item x 3)
              (p_sequenceOf A
                 [optionalWhitespaceOrComments A, p_char A (CHR '':''), optionalWhitespaceOrComments A, literal A]))])"

lemma num_plain: "plain (print_num n @ u)"
proof (cases n)
  case (Fin q)
  obtain d ds where "show_nat (nat \<lfloor>q\<rfloor>) = d # ds" "is_digit d" using show_nat_first by blast
  moreover have "\<not> is_space (CHR ''-'')" by code_simp
  ultimately show ?thesis using Fin digit_char_facts(2,3) [of d] by (auto simp: show_int_def)
qed (simp_all add: is_space_def)

lemma scalar_plain: "plain (print_scalar s @ u)"
  by (cases s) (simp_all add: num_plain is_space_def)

lemma literal_plain: "plain (print_literal l @ u)"
  by (cases l) (simp_all add: scalar_plain print_string_def)

lemma attr_read:
  assumes "good_attr a" and "c \<in> {CHR '','', CHR '')''}"
  shows "p_run A attr_grammar (print_attr a @ c # u) = Some (VAttr a, c # u)"
proof -
  have c: "c \<in> set delims" "plain (c # u)" "c \<noteq> CHR '':''" using assms(2) by auto
  show ?thesis
  proof (cases "attr_value a")
    case None
    with assms(1) c show ?thesis
      by (simp add: attr_grammar_def print_attr_def good_attr_def run_simps name_read)
  next
    case (Some l)
    obtain v where v: "p_run A (literal A) (print_literal l @ c # u) = Some (v, c # u)" "as_literal v = Some l"
      using literal_read [of l c u] assms(1) c(1) Some by (auto simp: good_attr_def)
    with Some assms(1) literal_plain show ?thesis
      by (simp add: attr_grammar_def print_attr_def good_attr_def run_simps name_read)
  qed
qed

definition meta_pv :: "AstMetadata \<Rightarrow> pv" where
  "meta_pv m = (case m of None \<Rightarrow> VNull | Some as \<Rightarrow> VList (map VAttr as))"

lemma as_metadata_pv [simp]: "as_metadata (meta_pv m) = m"
  by (cases m) (simp_all add: meta_pv_def comp_def)

lemma name_plain: "good_name n \<Longrightarrow> n \<noteq> [] \<and> plain n"
  using good_name_start [of n] ident_start_facts(2,3) by fastforce

lemma meta_read:
  assumes "good_meta m" and "c \<in> {CHR '';'', CHR '','', CHR ''}'', CHR ''{'', CHR '':''}"
  shows "p_run A (metadata A) (print_meta m @ c # u) = Some (meta_pv m, c # u)"
proof -
  have c: "c \<in> set delims" "plain (c # u)" "c \<noteq> CHR ''(''" using assms(2) by auto
  show ?thesis
  proof (cases m)
    case None
    with c show ?thesis
      by (simp add: metadata_def print_meta_def meta_pv_def betweenParens_def not_enclosed run_simps)
  next
    case (Some as)
    let ?text = "join '','' (map print_attr as) @ CHR '')'' # c # u"
    have "\<not> ident_start (CHR '')'')" by code_simp
    then have "p_run A attr_grammar (CHR '')'' # c # u) = None" by (simp add: attr_grammar_def run_simps name_no)
    moreover have good: "good_attr a" if "a \<in> set as" for a using assms(1) Some that by (simp add: good_meta_def list_all_iff)
    moreover have pl: "print_attr a \<noteq> [] \<and> plain (print_attr a)" if "a \<in> set as" for a
      using name_plain [of "attr_id a"] good [OF that] by (simp add: good_attr_def print_attr_def plain_append)
    ultimately have l: "p_run A (commaSeparated A attr_grammar) ?text = Some (VList (map VAttr as), CHR '')'' # c # u)"
      by (intro comma_list) (simp_all add: attr_read)
    have "plain ?text" using pl by (cases as; cases "tl as") (auto simp: plain_append)
    then have "p_run A (betweenParens A (commaSeparated A attr_grammar)) (CHR ''('' # ?text) = Some (VList (map VAttr as), c # u)"
      unfolding betweenParens_def by (rule enclosed [OF _ l]) simp
    with Some show ?thesis
      unfolding metadata_def attr_grammar_def [symmetric] by (simp add: print_meta_def meta_pv_def run_simps)
  qed
qed

end

section \<open>Declarations\<close>

context arcsecond begin

lemma assignment_read:
  assumes "good_num n" and "c \<in> set delims"
  shows "p_run A (enumOrUnionValueAssignment A) (CHR ''='' # print_num n @ c # u) = Some (VScalar (AstNumeric n), c # u)"
  using assms num_plain by (simp add: enumOrUnionValueAssignment_def run_simps num_read)

text \<open>The first character of what follows the name of a value.\<close>

lemma meta_first: "c \<in> set delims \<Longrightarrow> \<exists>d ds. print_meta m @ c # u = d # ds \<and> d \<in> {CHR ''('', c} \<and> d \<in> set delims"
  by (cases m) (auto simp: print_meta_def)

lemma enumVal_read:
  assumes name: "\<And>n c u. name_ok n \<Longrightarrow> c \<in> set delims \<Longrightarrow> p_run A p (n @ c # u) = Some (VStr n, c # u)"
    and "good_enumVal name_ok v" and "c \<in> {CHR '','', CHR ''}''}"
  shows "p_run A (p_map A enum_val_node (p_sequenceOf A [p, p_possibly A (enumOrUnionValueAssignment A), metadata A]))
      (print_enumVal v @ c # u) = Some (VEnumVal v, c # u)"
proof -
  have c: "c \<in> set delims" "c \<noteq> CHR ''=''" "c \<in> {CHR '';'', CHR '','', CHR ''}'', CHR ''{'', CHR '':''}"
    using assms(3) by auto
  have v: "name_ok (ev_id v)" "good_meta (ev_metadata v)" "\<And>n. ev_value v = Some n \<Longrightarrow> good_num n"
    using assms(2) by (auto simp: good_enumVal_def)
  obtain d ds where d: "print_meta (ev_metadata v) @ c # u = d # ds" "d \<in> {CHR ''('', c}" "d \<in> set delims"
    using meta_first [OF c(1)] by metis
  note m = meta_read [OF v(2) c(3), of u]
  show ?thesis
  proof (cases "ev_value v")
    case None
    have "d \<noteq> CHR ''=''" "plain (d # ds)" using d(2) c(2) assms(3) by auto
    then have a: "p_run A (enumOrUnionValueAssignment A) (d # ds) = None"
      by (simp add: enumOrUnionValueAssignment_def run_simps)
    have "p_run A p (ev_id v @ print_meta (ev_metadata v) @ c # u) = Some (VStr (ev_id v), print_meta (ev_metadata v) @ c # u)"
      unfolding d(1) by (rule name [OF v(1) d(3)])
    then show ?thesis
      using None m a by (simp add: print_enumVal_def run_simps enum_val_node_def d(1))
  next
    case (Some n)
    have a: "p_run A (enumOrUnionValueAssignment A) (CHR ''='' # print_num n @ d # ds) = Some (VScalar (AstNumeric n), d # ds)"
      by (rule assignment_read [OF v(3) [OF Some] d(3)])
    have "p_run A p (ev_id v @ CHR ''='' # print_num n @ d # ds) = Some (VStr (ev_id v), CHR ''='' # print_num n @ d # ds)"
      by (rule name [OF v(1)]) simp
    then show ?thesis
      using Some m a by (simp add: print_enumVal_def run_simps enum_val_node_def d(1))
  qed
qed

lemma ident_read_delim: "good_ident n \<Longrightarrow> c \<in> set delims \<Longrightarrow> p_run A (ident A) (n @ c # u) = Some (VStr n, c # u)"
  using ident_read delim_char(1) by blast

lemmas enumValDecl_read = enumVal_read [OF ident_read_delim, folded enumValDecl_def]
lemmas unionValDecl_read = enumVal_read [OF name_read, folded unionValDecl_def]

lemma ident_plain: "good_ident n \<Longrightarrow> n \<noteq> [] \<and> plain n"
  using good_ident_plain [of n] by (cases n) auto

lemma values_read:
  assumes p: "\<And>v c u. good_enumVal ok v \<Longrightarrow> c \<in> {CHR '','', CHR ''}''} \<Longrightarrow> p_run A p (print_enumVal v @ c # u) = Some (VEnumVal v, c # u)"
    and stop: "\<And>u. p_run A p (CHR ''}'' # u) = None"
    and ok: "\<And>n. ok n \<Longrightarrow> n \<noteq> [] \<and> plain n"
    and vs: "list_all (good_enumVal ok) vs"
  shows "p_run A (betweenBraces A (commaSeparated A p)) (CHR ''{'' # join '','' (map print_enumVal vs) @ CHR ''}'' # u) =
    Some (VList (map VEnumVal vs), u)"
proof -
  let ?text = "join '','' (map print_enumVal vs) @ CHR ''}'' # u"
  have pl: "print_enumVal v \<noteq> [] \<and> plain (print_enumVal v)" if "v \<in> set vs" for v
    using that vs ok [of "ev_id v"] by (simp add: list_all_iff good_enumVal_def print_enumVal_def plain_append)
  have "p_run A (commaSeparated A p) ?text = Some (VList (map VEnumVal vs), CHR ''}'' # u)"
    by (rule comma_list) (use pl p stop vs in \<open>simp_all add: list_all_iff\<close>)
  moreover have "plain ?text" using pl by (cases vs; cases "tl vs") (auto simp: plain_append)
  ultimately show ?thesis unfolding betweenBraces_def by (intro enclosed) simp_all
qed

lemma no_brace: "\<not> ident_start (CHR ''}'')"
  by code_simp

lemma enumDecl_read:
  assumes "good_top (AstEnum n t m vs)"
  shows "p_run A (enumDecl A) (print_top (AstEnum n t m vs) @ u) = Some (VTop (AstEnum n t m vs), u)"
proof -
  have g: "good_ident n" "good_type t" "good_meta m" "list_all (good_enumVal good_ident) vs" using assms by auto
  let ?vals = "CHR ''{'' # join '','' (map print_enumVal vs) @ CHR ''}'' # u"
  have vals: "p_run A (betweenBraces A (commaSeparated A (enumValDecl A))) ?vals = Some (VList (map VEnumVal vs), u)"
    by (rule values_read [OF enumValDecl_read _ ident_plain g(4)]) (simp_all add: enumValDecl_def run_simps ident_no no_brace)
  have t: "p_run A (fieldType A) (print_type t @ ?vals) = Some (VType t, ?vals)" by (rule type_read [OF g(2)]) simp
  have m: "p_run A (metadata A) (print_meta m @ CHR '':'' # print_type t @ ?vals) = Some (meta_pv m, CHR '':'' # print_type t @ ?vals)"
    by (rule meta_read [OF g(3)]) simp
  obtain d ds where d: "print_meta m @ CHR '':'' # print_type t @ ?vals = d # ds" "d \<in> set delims"
    using meta_first [of "CHR '':''"] by (metis delims_mem(3))
  have n: "p_run A (ident A) (n @ print_meta m @ CHR '':'' # print_type t @ ?vals) = Some (VStr n, print_meta m @ CHR '':'' # print_type t @ ?vals)"
    unfolding d(1) by (rule ident_read_delim [OF g(1) d(2)])
  have "plain (n @ v)" "plain (print_type t @ v)" for v
    using ident_plain [OF g(1)] type_plain [OF g(2)] by (simp_all add: plain_append)
  then show ?thesis using n m t vals by (simp add: enumDecl_def run_simps comp_def nth_Cons')
qed

lemma unionDecl_read:
  assumes "good_top (AstUnion n m vs)"
  shows "p_run A (unionDecl A) (print_top (AstUnion n m vs) @ u) = Some (VTop (AstUnion n m vs), u)"
proof -
  have g: "good_ident n" "good_meta m" "list_all (good_enumVal good_name) vs" using assms by auto
  let ?vals = "CHR ''{'' # join '','' (map print_enumVal vs) @ CHR ''}'' # u"
  have vals: "p_run A (betweenBraces A (commaSeparated A (unionValDecl A))) ?vals = Some (VList (map VEnumVal vs), u)"
    by (rule values_read [OF unionValDecl_read _ name_plain g(3)]) (simp_all add: unionValDecl_def run_simps name_no no_brace)
  have m: "p_run A (metadata A) (print_meta m @ ?vals) = Some (meta_pv m, ?vals)" by (rule meta_read [OF g(2)]) simp
  obtain d ds where d: "print_meta m @ ?vals = d # ds" "d \<in> set delims"
    using meta_first [of "CHR ''{''"] by (metis delims_mem(7))
  have n: "p_run A (ident A) (n @ print_meta m @ ?vals) = Some (VStr n, print_meta m @ ?vals)"
    unfolding d(1) by (rule ident_read_delim [OF g(1) d(2)])
  have "plain (n @ v)" for v using ident_plain [OF g(1)] by (simp add: plain_append)
  then show ?thesis using n m vals by (simp add: unionDecl_def run_simps comp_def nth_Cons')
qed

lemma fieldDecl_read:
  assumes "good_field f"
  shows "p_run A (fieldDecl A) (print_field f @ u) = Some (VField f, u)"
proof -
  have g: "good_ident (af_name f)" "good_type (af_type f)" "good_meta (af_metadata f)"
    "\<And>d. af_default f = Some d \<Longrightarrow> good_default d" using assms by (auto simp: good_field_def)
  let ?meta = "print_meta (af_metadata f) @ CHR '';'' # u"
  have m: "p_run A (metadata A) ?meta = Some (meta_pv (af_metadata f), CHR '';'' # u)" by (rule meta_read [OF g(3)]) simp
  obtain d ds where d: "?meta = d # ds" "d \<in> set delims" "d \<in> {CHR ''('', CHR '';''}"
    using meta_first [of "CHR '';''"] by (metis delims_mem(2))
  have pd: "plain (d # ds)" using d(3) by auto
  have pl: "plain (print_type (af_type f) @ v)" for v using type_plain [OF g(2)] by (simp add: plain_append)
  show ?thesis
  proof (cases "af_default f")
    case None
    have "p_run A (fieldType A) (print_type (af_type f) @ d # ds) = Some (VType (af_type f), d # ds)"
      by (rule type_read [OF g(2) d(2)])
    moreover have "p_run A (ident A) (af_name f @ CHR '':'' # print_type (af_type f) @ d # ds) =
        Some (VStr (af_name f), CHR '':'' # print_type (af_type f) @ d # ds)" by (rule ident_read_delim [OF g(1)]) simp
    moreover have "d \<noteq> CHR ''=''" using d(3) by auto
    ultimately show ?thesis
      using None m pd pl by (simp add: fieldDecl_def print_field_def d(1) run_simps nth_Cons')
  next
    case (Some df)
    obtain v where v: "p_run A (scalarOrRefLiteral A) (print_default df @ d # ds) = Some (v, d # ds)" "as_default v = Some df"
      using default_read [OF g(4) [OF Some] d(2)] by blast
    have "plain (print_default df @ w)" for w
      using g(4) [OF Some] ident_plain by (cases df) (auto simp: scalar_plain plain_append)
    moreover have "p_run A (fieldType A) (print_type (af_type f) @ CHR ''='' # print_default df @ d # ds) =
        Some (VType (af_type f), CHR ''='' # print_default df @ d # ds)" by (rule type_read [OF g(2)]) simp
    moreover have "p_run A (ident A) (af_name f @ CHR '':'' # print_type (af_type f) @ CHR ''='' # print_default df @ d # ds) =
        Some (VStr (af_name f), CHR '':'' # print_type (af_type f) @ CHR ''='' # print_default df @ d # ds)"
      by (rule ident_read_delim [OF g(1)]) simp
    ultimately show ?thesis
      using Some m pd pl v by (simp add: fieldDecl_def print_field_def d(1) run_simps nth_Cons')
  qed
qed

end

end
