(* ===== verification/Fbs_Parser_Properties.thy ===== *)
theory Fbs_Parser_Properties
  imports Fbs_Roundtrip
begin

text \<open>
  The properties of the schema parser: it reads back every schema that can be written, and it never reads
  a field of a sized type. A concrete implementation of the combinators shows that what is assumed of them
  can hold.
\<close>

section \<open>Whole schemas\<close>

context arcsecond begin

text \<open>A sequence of printed elements, up to a text on which the parser fails.\<close>

lemma many_read:
  assumes elem: "\<And>x u. x \<in> set xs \<Longrightarrow> p_run A p (pr x @ u) = Some (val x, u)"
    and pl: "\<And>x. x \<in> set xs \<Longrightarrow> pr x \<noteq> [] \<and> plain (pr x)"
    and stop: "plain v" "p_run A p v = None"
  shows "p_run A (p_many A (whitespaceSurrounded A p)) (concat (map pr xs) @ v) = Some (VList (map val xs), v)"
  using elem pl
proof (induction xs)
  case Nil
  show ?case using stop by (simp add: run_many_end surrounded)
next
  case (Cons x xs)
  let ?rest = "concat (map pr xs) @ v"
  have x: "p_run A p (pr x @ ?rest) = Some (val x, ?rest)" using Cons.prems(1) by simp
  have "plain ?rest" using Cons.prems(2) stop(1) by (cases xs) (simp_all add: plain_append)
  moreover have p: "pr x \<noteq> []" "plain (pr x @ ?rest)" using Cons.prems(2) by (simp_all add: plain_append)
  ultimately have step: "p_run A (whitespaceSurrounded A p) (pr x @ ?rest) = Some (val x, ?rest)"
    using x by (simp add: surrounded)
  have "p_run A (p_many A (whitespaceSurrounded A p)) ?rest = Some (VList (map val xs), v)"
    by (rule Cons.IH) (use Cons.prems in simp_all)
  from run_many_more [OF step _ this] p(1) show ?case by simp
qed

lemma typeDecl_read:
  assumes "good_top (AstTable struct n m fs)"
  shows "p_run A (typeDecl A) (print_top (AstTable struct n m fs) @ u) = Some (VTop (AstTable struct n m fs), u)"
proof -
  have g: "good_ident n" "good_meta m" "list_all good_field fs" using assms by auto
  let ?fields = "concat (map print_field fs) @ CHR ''}'' # u"
  have pl: "print_field f \<noteq> [] \<and> plain (print_field f)" if "f \<in> set fs" for f
    using that g(3) ident_plain [of "af_name f"] by (simp add: list_all_iff good_field_def print_field_def plain_append)
  have "p_run A (fieldDecl A) (CHR ''}'' # u) = None"
    by (simp add: fieldDecl_def run_simps ident_no no_brace)
  then have fs: "p_run A (p_many A (whitespaceSurrounded A (fieldDecl A))) ?fields = Some (VList (map VField fs), CHR ''}'' # u)"
    using g(3) pl by (intro many_read) (auto simp: list_all_iff fieldDecl_read)
  have "plain ?fields" using pl by (cases fs) (simp_all add: plain_append)
  then have b: "p_run A (betweenBraces A (p_many A (whitespaceSurrounded A (fieldDecl A)))) (CHR ''{'' # ?fields) = Some (VList (map VField fs), u)"
    unfolding betweenBraces_def by (rule enclosed [OF _ fs]) simp
  have m: "p_run A (metadata A) (print_meta m @ CHR ''{'' # ?fields) = Some (meta_pv m, CHR ''{'' # ?fields)"
    by (rule meta_read [OF g(2)]) simp
  obtain d ds where d: "print_meta m @ CHR ''{'' # ?fields = d # ds" "d \<in> set delims"
    using meta_first [of "CHR ''{''"] by (metis delims_mem(7))
  have n: "p_run A (ident A) (n @ print_meta m @ CHR ''{'' # ?fields) = Some (VStr n, print_meta m @ CHR ''{'' # ?fields)"
    unfolding d(1) by (rule ident_read_delim [OF g(1) d(2)])
  have "plain (n @ v)" for v using ident_plain [OF g(1)] by (simp add: plain_append)
  then show ?thesis using n m b by (simp add: typeDecl_def run_simps comp_def nth_Cons')
qed

lemma name_plain_append: "good_name n \<Longrightarrow> plain (n @ u)"
  using name_plain [of n] by (simp add: plain_append)

lemma simple_decls_read:
  "good_top (AstInclude f) \<Longrightarrow> p_run A (includeDecl A) (print_top (AstInclude f) @ u) = Some (VTop (AstInclude f), u)"
  "good_top (AstNamespace n) \<Longrightarrow> p_run A (namespaceDecl A) (print_top (AstNamespace n) @ u) = Some (VTop (AstNamespace n), u)"
  "good_top (AstRootType n) \<Longrightarrow> p_run A (rootTypeDecl A) (print_top (AstRootType n) @ u) = Some (VTop (AstRootType n), u)"
  "good_top (AstAttributeDecl n) \<Longrightarrow> p_run A (attributeDecl A) (print_top (AstAttributeDecl n) @ u) = Some (VTop (AstAttributeDecl n), u)"
proof -
  have q: "\<not> ident_start (CHR 0x22)" by code_simp
  then have s: "p_run A (ident A) (print_string s @ v) = None" "plain (print_string s @ v)" for s v
    by (simp_all add: print_string_def ident_no)
  show "p_run A (includeDecl A) (print_top (AstInclude f) @ u) = Some (VTop (AstInclude f), u)" if "good_top (AstInclude f)"
    using that s string_read [of f "CHR '';'' # u"] by (simp add: includeDecl_def run_simps nth_Cons')
  show "p_run A (attributeDecl A) (print_top (AstAttributeDecl n) @ u) = Some (VTop (AstAttributeDecl n), u)"
    if "good_top (AstAttributeDecl n)"
    using that s string_read [of n "CHR '';'' # u"] by (simp add: attributeDecl_def run_simps nth_Cons')
qed (simp_all add: namespaceDecl_def rootTypeDecl_def run_simps name_read custom_read name_plain_append nth_Cons')

lemma top_read:
  assumes "good_top t"
  shows "p_run A (topDecl A) (print_top t @ u) = Some (VTop t, u)"
proof -
  have fails: "p_run A (includeDecl A) (c # s) = None" if "c \<noteq> CHR ''i''" for c s using that by (simp add: includeDecl_def run_simps)
  have fails2: "p_run A (namespaceDecl A) (c # s) = None" if "c \<noteq> CHR ''n''" for c s using that by (simp add: namespaceDecl_def run_simps)
  have fails3: "p_run A (enumDecl A) (c # s) = None" if "c \<noteq> CHR ''e''" for c s using that by (simp add: enumDecl_def run_simps)
  have fails4: "p_run A (unionDecl A) (c # s) = None" if "c \<noteq> CHR ''u''" for c s using that by (simp add: unionDecl_def run_simps)
  have fails5: "p_run A (typeDecl A) (c # s) = None" if "c \<noteq> CHR ''t''" "c \<noteq> CHR ''s''" for c s using that by (simp add: typeDecl_def run_simps)
  have fails6: "p_run A (rootTypeDecl A) (c # s) = None" if "c \<noteq> CHR ''r''" for c s using that by (simp add: rootTypeDecl_def run_simps)
  note fails = fails fails2 fails3 fails4 fails5 fails6
  show ?thesis
  proof (cases t)
    case (AstInclude f)
    with assms simple_decls_read(1) [of f u] show ?thesis by (simp add: topDecl_def run_choiceOf)
  next
    case (AstNamespace n)
    with assms simple_decls_read(2) [of n u] show ?thesis by (simp add: topDecl_def run_choiceOf fails)
  next
    case (AstEnum n bt m vs)
    with assms enumDecl_read [of n bt m vs u] show ?thesis by (simp add: topDecl_def run_choiceOf fails)
  next
    case (AstUnion n m vs)
    with assms unionDecl_read [of n m vs u] show ?thesis by (simp add: topDecl_def run_choiceOf fails)
  next
    case (AstTable struct n m fs)
    with assms typeDecl_read [of struct n m fs u] show ?thesis by (cases struct) (simp_all add: topDecl_def run_choiceOf fails)
  next
    case (AstRootType n)
    with assms simple_decls_read(3) [of n u] show ?thesis by (simp add: topDecl_def run_choiceOf fails)
  next
    case (AstAttributeDecl n)
    with assms simple_decls_read(4) [of n u] show ?thesis by (simp add: topDecl_def run_choiceOf fails)
  qed
qed

lemma top_plain: "print_top t \<noteq> [] \<and> plain (print_top t)"
  by (cases t) (simp_all add: is_space_def)

lemma schema_read:
  assumes "list_all good_top ts"
  shows "parseSchema A (print_schema ts) = Some ts"
proof -
  have "p_run A (topDecl A) [] = None"
    by (simp add: topDecl_def includeDecl_def namespaceDecl_def enumDecl_def unionDecl_def typeDecl_def rootTypeDecl_def
        attributeDecl_def run_simps)
  then have "p_run A (p_many A (whitespaceSurrounded A (topDecl A))) (concat (map print_top ts) @ []) = Some (VList (map VTop ts), [])"
    using assms top_plain by (intro many_read) (simp_all add: list_all_iff top_read)
  then show ?thesis by (simp add: parseSchema_def print_schema_def schema_def run_simps comp_def)
qed

end

section \<open>Sized types\<close>

context arcsecond begin

lemma sized_prefix:
  assumes "n \<in> set sized_types"
  shows "\<exists>b d ds. p_run A (basicType A) (n @ u) = Some (VBasic b, d # ds) \<and> is_digit d"
proof -
  have d: "is_digit (CHR ''8'')" "is_digit (CHR ''1'')" "is_digit (CHR ''3'')" "is_digit (CHR ''6'')" by code_simp+
  have "n = ''int8'' \<or> n = ''uint8'' \<or> n = ''int16'' \<or> n = ''uint16'' \<or> n = ''int32'' \<or> n = ''uint32'' \<or> n = ''int64'' \<or>
      n = ''uint64'' \<or> n = ''float32'' \<or> n = ''float64''"
    using assms by (simp add: sized_types_def)
  then show ?thesis
    unfolding basicType_def boolType_def stringType_def intType_def floatType_def run_choiceOf run_choice.simps run_map choice_strs run_str
      INT_TYPES_def FLOAT_TYPES_def
    by (elim disjE; simp add: d)
qed

lemma sized_field_no:
  assumes "n \<in> set sized_types" and "good_ident x"
  shows "p_run A (fieldDecl A) (x @ CHR '':'' # n @ u) = None"
proof -
  obtain b d ds where b: "p_run A (basicType A) (n @ u) = Some (VBasic b, d # ds)" "is_digit d"
    using sized_prefix [OF assms(1)] by blast
  have "p_run A (fieldType A) (n @ u) = Some (VType (AstBasic b), d # ds)"
    unfolding fieldType_def by (subst run_recursive) (simp add: typeBody_def run_choiceOf run_map b(1))
  moreover have "plain (d # ds)" "d \<noteq> CHR ''/''" using digit_char_facts(2,3) [OF b(2)] by auto
  moreover have "d \<noteq> CHR ''=''" "d \<noteq> CHR '';''" "d \<noteq> CHR ''(''"
    using b(2) delim_char(2) [of d] by auto
  moreover have "p_run A (metadata A) (d # ds) = Some (VNull, d # ds)"
    using calculation by (simp add: metadata_def betweenParens_def not_enclosed run_simps)
  moreover have "p_run A (ident A) (x @ CHR '':'' # n @ u) = Some (VStr x, CHR '':'' # n @ u)"
    by (rule ident_read_delim [OF assms(2)]) simp
  moreover have "plain (n @ u)"
  proof -
    have "list_all (\<lambda>n. plain n \<and> n \<noteq> []) sized_types" by (simp add: sized_types_def is_space_def)
    with assms(1) show ?thesis by (simp add: list_all_iff plain_append)
  qed
  ultimately show ?thesis by (simp add: fieldDecl_def run_simps)
qed

lemma sized_table_no:
  assumes "n \<in> set sized_types" and "good_ident t" and "good_ident x"
  shows "parseSchema A (''table '' @ t @ ''{'' @ x @ '':'' @ n @ '';}'') = None"
proof -
  let ?field = "x @ CHR '':'' # n @ '';}''"
  have x: "plain ?field" "p_run A (fieldDecl A) ?field = None"
    using ident_plain [OF assms(3)] sized_field_no [OF assms(1,3)] by (simp_all add: plain_append)
  obtain c cs where c: "x = c # cs" "ident_start c" using assms(3) good_ident_iff by blast
  have "c \<noteq> CHR ''}''" using c(2) no_brace by auto
  then have "p_run A (betweenBraces A (p_many A (whitespaceSurrounded A (fieldDecl A)))) (CHR ''{'' # ?field) = None"
    using x c(1) run_many_end [OF surrounded(2) [OF x]]
    by (simp add: betweenBraces_def betweenWithOptionalWhitespace_def run_simps)
  moreover have "p_run A (ident A) (t @ CHR ''{'' # ?field) = Some (VStr t, CHR ''{'' # ?field)"
    by (rule ident_read_delim [OF assms(2)]) simp
  moreover have "p_run A (metadata A) (CHR ''{'' # v) = Some (VNull, CHR ''{'' # v)" for v
    using meta_read [of None "CHR ''{''" v] by (simp add: good_meta_def print_meta_def meta_pv_def)
  moreover have "plain (t @ v)" for v using ident_plain [OF assms(2)] by (simp add: plain_append)
  ultimately have "p_run A (topDecl A) (''table '' @ t @ CHR ''{'' # ?field) = None"
    by (simp add: topDecl_def includeDecl_def namespaceDecl_def enumDecl_def unionDecl_def typeDecl_def rootTypeDecl_def
        attributeDecl_def run_simps)
  moreover have "plain (''table '' @ t @ CHR ''{'' # ?field)" by (simp add: is_space_def)
  ultimately have "p_run A (p_many A (whitespaceSurrounded A (topDecl A))) (''table '' @ t @ CHR ''{'' # ?field) =
      Some (VList [], ''table '' @ t @ CHR ''{'' # ?field)"
    by (intro run_many_end surrounded)
  then show ?thesis by (simp add: parseSchema_def schema_def run_simps)
qed

end

section \<open>Constants that are cut short\<close>

context arcsecond begin

text \<open>A hexadecimal constant is read as the zero in front, and \<^verbatim>\<open>infinity\<close> as
  \<^verbatim>\<open>inf\<close>: the parsers for them come after ones that match a prefix.\<close>

lemma hex_cut: "p_run A (numericLiteral A) (''0x'' @ u) = Some (VScalar (AstNumeric (Fin 0)), CHR ''x'' # u)"
proof -
  have d: "is_digit (CHR ''0'')" "\<not> is_digit (CHR ''x'')" by code_simp+
  have "decFloat_rx (''0x'' @ u) = Some 1"
    using d by (simp add: decFloat_rx_def mantissa_rx_def exponent_length_def)
  moreover have "parseFloat ''0'' = Fin 0" using parseFloat_show [of 0] by (simp add: show_int_def show_nat.simps digit_char_def digit_table_def)
  ultimately show ?thesis
    by (simp add: numericLiteral_def numericConstant_def floatConstant_def decFloatConstant_def run_map run_choiceOf run_regex)
qed

lemma infinity_cut: "p_run A (numericLiteral A) (''infinity'' @ u) = Some (VScalar (AstNumeric PosInf), ''inity'' @ u)"
proof -
  have "decFloat_rx (''infinity'' @ u) = None" "sign_rx (''infinity'' @ u) = Some 0"
    by (simp_all add: decFloat_rx_def sign_rx_def mantissa_rx_def is_digit_def digit_table_def)
  then show ?thesis
    by (simp add: numericLiteral_def numericConstant_def floatConstant_def decFloatConstant_def specialFloatConstant_def
        sign_def run_simps run_regex)
qed

end

section \<open>An implementation of the combinators\<close>

type_synonym peg = "string \<Rightarrow> (pv \<times> string) option"

function peg_many :: "peg \<Rightarrow> peg" where
  "peg_many p s =
     (case p s of
        None \<Rightarrow> Some (VList [], s)
      | Some (v, t) \<Rightarrow>
          if length t < length s then
            (case peg_many p t of Some (VList vs, u) \<Rightarrow> Some (VList (v # vs), u) | r \<Rightarrow> None)
          else None)"
  by pat_completeness auto
termination by (relation "measure (\<lambda>(p, s). length s)") auto

declare peg_many.simps [simp del]

definition peg_many1 :: "peg \<Rightarrow> peg" where
  "peg_many1 p s =
     (case p s of
        None \<Rightarrow> None
      | Some (v, t) \<Rightarrow>
          if length t < length s then
            (case peg_many p t of Some (VList vs, u) \<Rightarrow> Some (VList (v # vs), u) | r \<Rightarrow> None)
          else None)"

function peg_sepBy1 :: "peg \<Rightarrow> peg \<Rightarrow> peg" where
  "peg_sepBy1 sep p s =
     (case p s of
        None \<Rightarrow> None
      | Some (v, t) \<Rightarrow>
          (case sep t of
             None \<Rightarrow> Some (VList [v], t)
           | Some (y, t') \<Rightarrow>
               if length t' < length s then
                 (case peg_sepBy1 sep p t' of Some (VList vs, u) \<Rightarrow> Some (VList (v # vs), u) | r \<Rightarrow> None)
               else None))"
  by pat_completeness auto
termination by (relation "measure (\<lambda>(sep, p, s). length s)") auto

declare peg_sepBy1.simps [simp del]

definition peg_until :: "peg \<Rightarrow> peg" where
  "peg_until p s =
     map_option (\<lambda>k. (VStr (take k s), drop k s)) (List.find (\<lambda>k. p (drop k s) \<noteq> None) [0..<length s])"

definition peg_between :: "peg \<Rightarrow> peg \<Rightarrow> peg \<Rightarrow> peg" where
  "peg_between l r p s = (case run_seq id [l, p, r] s of Some ([x, v, y], t) \<Rightarrow> Some (v, t) | _ \<Rightarrow> None)"

definition peg :: "peg Arcsecond" where
  "peg =
     \<lparr>p_str = (\<lambda>w s. if startsWith s w then Some (VStr w, drop (length w) s) else None),
      p_char = (\<lambda>c s. case s of [] \<Rightarrow> None | d # t \<Rightarrow> if d = c then Some (VStr [c], t) else None),
      p_regex = (\<lambda>rx s. case rx s of None \<Rightarrow> None | Some n \<Rightarrow> Some (VStr (take n s), drop n s)),
      p_whitespace = (\<lambda>s. if takeWhile is_space s = [] then None
                          else Some (VStr (takeWhile is_space s), dropWhile is_space s)),
      p_endOfInput = (\<lambda>s. if s = [] then Some (VNull, []) else None),
      p_everyCharUntil = peg_until,
      p_sequenceOf = (\<lambda>ps s. map_option (\<lambda>(vs, t). (VList vs, t)) (run_seq id ps s)),
      p_choice = run_choice id,
      p_many = peg_many,
      p_many1 = peg_many1,
      p_possibly = (\<lambda>p s. case p s of None \<Rightarrow> Some (VNull, s) | Some r \<Rightarrow> Some r),
      p_sepBy1 = peg_sepBy1,
      p_between = peg_between,
      p_map = (\<lambda>f p s. map_option (\<lambda>(v, t). (f v, t)) (p s)),
      p_recursive = (\<lambda>F s. (F ^^ Suc (length s)) (\<lambda>t. None) s),
      p_run = id\<rparr>"

text \<open>The recursive parser of types calls itself on shorter text only.\<close>

lemma peg_many_length: "peg_many p s = Some (v, t) \<Longrightarrow> length t \<le> length s"
proof (induction p s arbitrary: v t rule: peg_many.induct)
  case (1 p s)
  show ?case using 1(2) unfolding peg_many.simps [of p s]
    by (fastforce split: option.splits if_splits pv.splits dest: 1(1))
qed

lemma opt_ws_length: "optionalWhitespaceOrComments peg s = Some (v, t) \<Longrightarrow> length t \<le> length s"
  by (auto simp: optionalWhitespaceOrComments_def whitespaceOrComments_def peg_def peg_many1_def dest!: peg_many_length
      split: option.splits if_splits pv.splits)

lemma peg_fields:
  "p_choice peg = run_choice id" "p_sequenceOf peg ps = (\<lambda>s. map_option (\<lambda>(vs, t). (VList vs, t)) (run_seq id ps s))"
  "p_char peg c = (\<lambda>s. case s of [] \<Rightarrow> None | d # t \<Rightarrow> if d = c then Some (VStr [c], t) else None)"
  "p_map peg f p = (\<lambda>s. map_option (\<lambda>(v, t). (f v, t)) (p s))" "p_between peg = peg_between"
  by (simp_all add: peg_def)

lemma typeBody_local:
  assumes "\<And>t. length t < length s \<Longrightarrow> p t = q t"
  shows "typeBody peg p s = typeBody peg q s"
proof -
  have "betweenBrackets peg p s = betweenBrackets peg q s"
  proof (cases s)
    case (Cons c cs)
    have "p t = q t" if "optionalWhitespaceOrComments peg cs = Some (v, t)" for v t
      using opt_ws_length [OF that] assms Cons by simp
    then show ?thesis
      using Cons by (simp add: betweenBrackets_def betweenWithOptionalWhitespace_def peg_fields peg_between_def split: option.splits)
  qed (simp add: betweenBrackets_def betweenWithOptionalWhitespace_def peg_fields peg_between_def)
  then show ?thesis by (simp add: typeBody_def peg_fields split: option.split)
qed

lemma typeBody_stable:
  "length s < n \<Longrightarrow> length s < m \<Longrightarrow> (typeBody peg ^^ n) (\<lambda>t. None) s = (typeBody peg ^^ m) (\<lambda>t. None) s"
proof (induction "length s" arbitrary: s n m rule: less_induct)
  case less
  obtain n' m' where nm: "n = Suc n'" "m = Suc m'" using less.prems by (cases n; cases m) auto
  have "(typeBody peg ^^ n') (\<lambda>t. None) t = (typeBody peg ^^ m') (\<lambda>t. None) t" if "length t < length s" for t
    by (rule less.hyps [OF that]) (use that less.prems nm in simp_all)
  then show ?case unfolding nm funpow.simps comp_apply by (rule typeBody_local)
qed

lemma typeBody_fix:
  "(typeBody peg ^^ Suc (length s)) (\<lambda>t. None) s = typeBody peg (\<lambda>s. (typeBody peg ^^ Suc (length s)) (\<lambda>t. None) s) s"
  unfolding funpow.simps(2) [of "length s"] comp_apply
proof (rule typeBody_local)
  fix t :: string
  assume "length t < length s"
  then show "(typeBody peg ^^ length s) (\<lambda>t. None) t = (typeBody peg ^^ Suc (length t)) (\<lambda>t. None) t"
    by (intro typeBody_stable) simp_all
qed

lemma peg_until_first:
  assumes "k < length s" and "p (drop k s) \<noteq> None" and "\<forall>j<k. p (drop j s) = None"
  shows "peg_until p s = Some (VStr (take k s), drop k s)"
proof -
  have "List.find (\<lambda>k. p (drop k s) \<noteq> None) [0..<length s] = Some k"
    using assms by (intro find_Some_iff [THEN iffD2]) (auto intro!: exI [of _ k])
  then show ?thesis by (simp add: peg_until_def)
qed

interpretation peg: arcsecond peg
proof (unfold_locales, goal_cases)
  case (6 k s p)
  then show ?case by (simp add: peg_def peg_until_first)
next
  case (10 p s v t vs u)
  then show ?case by (simp add: peg_def peg_many.simps [of p s])
next
  case (9 p s)
  then show ?case by (simp add: peg_def peg_many.simps [of p s])
next
  case (14 p s sep)
  then show ?case by (simp add: peg_def peg_sepBy1.simps [of sep p s])
next
  case (15 p s v t sep)
  then show ?case by (simp add: peg_def peg_sepBy1.simps [of sep p s])
next
  case (16 p s v t sep y t' vs u)
  then show ?case by (simp add: peg_def peg_sepBy1.simps [of sep p s])
next
  case (19 s)
  have "p_run peg = id" "p_recursive peg = (\<lambda>F s. (F ^^ Suc (length s)) (\<lambda>t. None) s)" by (simp_all add: peg_def)
  then show ?case using typeBody_fix [of s] by simp
qed (simp_all add: peg_def peg_many1_def peg_between_def)

section \<open>Properties\<close>

text \<open>C6: the parser reads back every schema that can be written. Printing a list of declarations
  (includes, namespaces, enums, unions, tables and structs with metadata and defaults, root types,
  attributes) and parsing the text gives the same declarations, with the basic types resolved to their
  properties. A custom type must not start with the name of a basic type, a named default not with
  \<^verbatim>\<open>true\<close>, \<^verbatim>\<open>false\<close>, \<^verbatim>\<open>nan\<close> or \<^verbatim>\<open>inf\<close>,
  numbers are whole or special, and strings hold no quotation mark.\<close>

theorem schema_reads_back:
  assumes "arcsecond A" and "list_all good_top ts"
  shows "parseSchema A (print_schema ts) = Some ts"
  by (rule arcsecond.schema_read [OF assms])

definition demo_ast :: "AstTopLevel list" where
  "demo_ast =
     [AstInclude ''base.fbs'', AstNamespace ''motis.lookup'',
      AstEnum ''Mode'' (AstBasic (IntType ''ubyte'' \<lparr>bits = 8, unsigned = True\<rparr>)) None
        [\<lparr>ev_id = ''A'', ev_value = Some (Fin 12), ev_metadata = None\<rparr>, \<lparr>ev_id = ''B'', ev_value = None, ev_metadata = None\<rparr>],
      AstUnion ''Content'' None [\<lparr>ev_id = ''lookup.Request'', ev_value = None, ev_metadata = None\<rparr>],
      AstTable False ''Request'' None
        [\<lparr>af_name = ''names'', af_type = AstVector (AstBasic StringType), af_default = None,
           af_metadata = Some [\<lparr>attr_id = ''required'', attr_value = None\<rparr>,
             \<lparr>attr_id = ''id'', attr_value = Some (AstScalar (AstNumeric (Fin (-1))))\<rparr>]\<rparr>,
         \<lparr>af_name = ''mode'', af_type = AstCustom ''lookup.Mode'', af_default = Some (AstRef ''A''), af_metadata = None\<rparr>],
      AstRootType ''Request'', AstAttributeDecl ''required'']"

theorem schema_reads_back_witness:
  "parseSchema peg (print_schema demo_ast) = Some demo_ast \<and>
   print_schema (drop 5 demo_ast) = ''root_type Request;attribute '' @ print_string ''required'' @ '';''"
proof -
  have "list_all good_top demo_ast"
    by (simp add: demo_ast_def good_enumVal_def good_field_def good_meta_def good_attr_def good_name_def basic_names_def
        INT_TYPES_def FLOAT_TYPES_def INT_TYPE_PROPERTIES_def sized_types_def good_string_def good_ident_def
        ident_char_def ident_start_def in_range_def startsWith_def less_eq_char_def)
  from schema_reads_back [OF peg.arcsecond_axioms this] show ?thesis
    by (simp add: demo_ast_def print_schema_def)
qed



end
