(* ===== verification/Polyline_Codec.thy ===== *)
theory Polyline_Codec
  imports Railviz_Shell "HOL-Library.Word"
begin

unbundle bit_operations_syntax

text \<open>
  The polyline codec (\<^verbatim>\<open>ui/web/external_lib/polyline.js\<close>), which turns the
  compressed paths of the server's answers into coordinates. A string is the list of its 16-bit code
  units, and where the code uses bit operators a number is a 32-bit word, shifted by the shift count
  modulo 32. Coordinates are rationals, so a division by the factor is exact.
\<close>

type_synonym units = "16 word list"

definition code_units :: "string \<Rightarrow> units" where
  "code_units s = map of_char s"

section \<open>Encoding\<close>

definition py2_round :: "rat \<Rightarrow> int" where
  "py2_round v = \<lfloor>\<bar>v\<bar> + 1 / 2\<rfloor> * (if 0 \<le> v then 1 else -1)"

definition fromCharCode :: "32 word \<Rightarrow> 16 word" where
  "fromCharCode w = ucast w"

text \<open>A word whose sign bit is clear is read the same with and without a sign.\<close>

lemma sint_uint_32:
  fixes w :: "32 word"
  shows "sint w = (if uint w < 2 ^ 31 then uint w else uint w - 2 ^ 32)"
proof -
  have s: "sint w = (uint w + 2 ^ 31) mod 2 ^ 32 - 2 ^ 31"
    by (simp add: sint_uint signed_take_bit_eq_take_bit_shift take_bit_eq_mod)
  have w: "0 \<le> uint w" "uint w < 2 ^ 32" using uint_bounded [of w] by simp_all
  show ?thesis
  proof (cases "uint w < 2 ^ 31")
    case False
    have "uint w + 2 ^ 31 = (uint w - 2 ^ 31) + 2 ^ 32" by simp
    then have "(uint w + 2 ^ 31) mod 2 ^ 32 = (uint w - 2 ^ 31) mod 2 ^ 32" by (metis mod_add_self2)
    with False w s show ?thesis by (simp add: mod_pos_pos_trivial)
  qed (use s w in \<open>simp add: mod_pos_pos_trivial\<close>)
qed

lemma sint_nonneg: "0 \<le> sint (w :: 32 word) \<longleftrightarrow> uint w < 2 ^ 31"
  using uint_bounded [of w] by (simp add: sint_uint_32)

lemma uint_signed_drop:
  fixes w :: "32 word"
  assumes "uint w < 2 ^ 31"
  shows "uint (signed_drop_bit n w) = uint w div 2 ^ n" "uint (signed_drop_bit n w) < 2 ^ 31"
proof -
  have d: "sint (signed_drop_bit n w) = uint w div 2 ^ n"
    unfolding sint_signed_drop_bit_eq drop_bit_eq_div sint_uint_32 [of w] if_P [OF assms] ..
  then have "0 \<le> sint (signed_drop_bit n w)" by (simp add: pos_imp_zdiv_nonneg_iff)
  then show u: "uint (signed_drop_bit n w) < 2 ^ 31" unfolding sint_nonneg .
  show "uint (signed_drop_bit n w) = uint w div 2 ^ n" using d unfolding sint_uint_32 if_P [OF u] .
qed

lemma at_least_32:
  fixes w :: "32 word"
  shows "32 \<le>s w \<longleftrightarrow> 32 \<le> uint w \<and> uint w < 2 ^ 31"
proof -
  have "32 \<le>s w \<longleftrightarrow> 32 \<le> sint w" by (simp add: word_sle_eq)
  also have "\<dots> \<longleftrightarrow> 32 \<le> uint w \<and> uint w < 2 ^ 31"
    using uint_bounded [of w] by (auto simp: sint_uint_32)
  finally show ?thesis .
qed

lemma signed_drop_smaller:
  fixes w :: "32 word"
  assumes "32 \<le>s w"
  shows "unat (signed_drop_bit 5 w) < unat w"
proof -
  have w: "32 \<le> uint w" "uint w < 2 ^ 31" using assms unfolding at_least_32 by simp_all
  have "uint (signed_drop_bit 5 w) < uint w" unfolding uint_signed_drop(1) [OF w(2)] using w(1) by simp
  then show ?thesis by (simp only: word_less_alt [symmetric] word_less_nat_alt)
qed

function encode_rest :: "32 word \<Rightarrow> units" where
  "encode_rest coordinate =
     (if 0x20 \<le>s coordinate
      then fromCharCode ((0x20 OR (coordinate AND 0x1f)) + 63) # encode_rest (signed_drop_bit 5 coordinate)
      else [fromCharCode (coordinate + 63)])"
  by pat_completeness auto

termination
  by (relation "measure unat") (simp_all add: signed_drop_smaller)

declare encode_rest.simps [simp del]

definition zigzag :: "int \<Rightarrow> 32 word" where
  "zigzag d = (let coordinate = push_bit 1 (word_of_int d) in if d < 0 then NOT coordinate else coordinate)"

definition encode_number :: "rat \<Rightarrow> rat \<Rightarrow> rat \<Rightarrow> units" where
  "encode_number current previous factor =
     encode_rest (zigzag (py2_round (current * factor) - py2_round (previous * factor)))"

definition polyline_factor :: "int option \<Rightarrow> rat" where
  "polyline_factor precision = 10 powi (case precision of None \<Rightarrow> 5 | Some p \<Rightarrow> p)"

fun encode_from :: "rat \<Rightarrow> point \<Rightarrow> point list \<Rightarrow> units" where
  "encode_from factor b [] = []"
| "encode_from factor b (a # cs) =
     encode_number (fst a) (fst b) factor @ encode_number (snd a) (snd b) factor @ encode_from factor a cs"

definition polyline_encode :: "point list \<Rightarrow> int option \<Rightarrow> units" where
  "polyline_encode coords precision =
     (case coords of
        [] \<Rightarrow> []
      | c # cs \<Rightarrow>
          let factor = polyline_factor precision in
          encode_number (fst c) 0 factor @ encode_number (snd c) 0 factor @ encode_from factor c cs)"

section \<open>Decoding\<close>

text \<open>Past the end of the string \<^verbatim>\<open>charCodeAt\<close> is NaN, which counts as zero in a bit
  operation and is not greater than anything.\<close>

fun read_value :: "nat \<Rightarrow> 32 word \<Rightarrow> units \<Rightarrow> 32 word \<times> units" where
  "read_value shift result [] = (result, [])"
| "read_value shift result (c # cs) =
     (let byte = uint c - 63;
          result' = result OR push_bit (shift mod 32) (word_of_int byte AND 0x1f)
      in if 0x20 \<le> byte then read_value (shift + 5) result' cs else (result', cs))"

definition unzigzag :: "32 word \<Rightarrow> int" where
  "unzigzag result =
     sint (if result AND 1 \<noteq> 0 then NOT (signed_drop_bit 1 result) else signed_drop_bit 1 result)"

lemma read_value_shorter: "length (snd (read_value shift result cs)) \<le> length cs"
proof (induction shift result cs rule: read_value.induct)
  case (2 shift result c cs)
  then show ?case by (cases "0x20 \<le> uint c - 63") (simp_all add: Let_def le_SucI)
qed simp

lemma read_value_progress: "cs \<noteq> [] \<Longrightarrow> length (snd (read_value shift result cs)) < length cs"
  by (cases cs) (auto simp: Let_def less_Suc_eq_le intro: read_value_shorter)

function decode_from :: "rat \<Rightarrow> int \<Rightarrow> int \<Rightarrow> units \<Rightarrow> point list" where
  "decode_from factor lat lng str =
     (if str = [] then []
      else
        let (r1, str1) = read_value 0 0 str;
            (r2, str2) = read_value 0 0 str1;
            lat' = lat + unzigzag r1;
            lng' = lng + unzigzag r2
        in (of_int lat' / factor, of_int lng' / factor) # decode_from factor lat' lng' str2)"
  by pat_completeness auto

termination
proof (relation "measure (\<lambda>(factor, lat, lng, str). length str)", goal_cases)
  case (2 factor lat lng str p r1 str1 q r2 str2)
  then show ?case
    using read_value_progress [of str 0 0] read_value_shorter [of 0 0 str1]
    by (metis (no_types, lifting) case_prod_conv in_measure order_le_less_trans snd_conv)
qed simp

declare decode_from.simps [simp del]

definition polyline_decode :: "units \<Rightarrow> int option \<Rightarrow> point list" where
  "polyline_decode str precision = decode_from (polyline_factor precision) 0 0 str"

section \<open>GeoJSON\<close>

text \<open>A GeoJSON object as far as it is looked at. \<open>flipped\<close> is in \<open>Railviz_Shell\<close>.\<close>

datatype Geometry =
    LineString "point list"
  | OtherGeometry string

datatype GeoJSON =
    Feature "Geometry option"
  | Geometry Geometry

datatype polyline_error = NotALineString

definition fromGeoJSON :: "GeoJSON option \<Rightarrow> int option \<Rightarrow> polyline_error + units" where
  "fromGeoJSON geojson precision =
     (let geometry = (case geojson of
                        Some (Feature g) \<Rightarrow> g
                      | Some (Geometry g) \<Rightarrow> Some g
                      | None \<Rightarrow> None)
      in case geometry of
           Some (LineString cs) \<Rightarrow> Inr (polyline_encode (flipped cs) precision)
         | _ \<Rightarrow> Inl NotALineString)"

definition toGeoJSON :: "units \<Rightarrow> int option \<Rightarrow> Geometry" where
  "toGeoJSON str precision = LineString (flipped (polyline_decode str precision))"

section \<open>Reading back a number\<close>

lemma or_exp: "2 ^ n OR take_bit n w = 2 ^ n + take_bit n (w :: 32 word)"
  by (rule disjunctive_add [symmetric]) (auto simp: bit_simps)

lemma uint_chunk: "uint (fromCharCode ((0x20 OR (w AND 0x1f)) + 63)) = 95 + uint w mod 32"
proof -
  have m: "w AND 0x1f = take_bit 5 w" by (simp add: take_bit_eq_mask mask_eq_exp_minus_1)
  have t: "uint (take_bit 5 w) = uint w mod 32" by (subst unsigned_take_bit_eq) (simp add: take_bit_eq_mod)
  have "(0x20 OR take_bit 5 w) + 63 = 95 + take_bit 5 w" using or_exp [of 5 w] by simp
  moreover have "uint (95 + take_bit 5 w) = 95 + uint w mod 32"
    by (simp add: uint_word_ariths t)
  ultimately have u: "uint ((0x20 OR (w AND 0x1f)) + 63) = 95 + uint w mod 32" unfolding m by simp
  have "uint (fromCharCode v) = uint v mod 2 ^ 16" for v
    by (simp add: fromCharCode_def unsigned_ucast_eq take_bit_eq_mod)
  then show ?thesis using u by simp
qed

lemma chunk_bits: "word_of_int (32 + uint w mod 32) AND 0x1f = take_bit 5 (w :: 32 word)"
proof -
  have m: "v AND 0x1f = take_bit 5 v" for v :: "32 word" by (simp add: take_bit_eq_mask mask_eq_exp_minus_1)
  show ?thesis unfolding m
    by (rule word_uint_eqI, unfold unsigned_take_bit_eq uint_word_of_int) (simp add: take_bit_eq_mod mod_mod_cancel)
qed

lemma split_word: "push_bit s (take_bit 5 w) OR push_bit (s + 5) (drop_bit 5 w) = push_bit s (w :: 32 word)"
proof -
  have "take_bit 5 w OR push_bit 5 (drop_bit 5 w) = w"
  proof (rule bit_word_eqI)
    fix n assume "n < LENGTH(32)"
    then show "bit (take_bit 5 w OR push_bit 5 (drop_bit 5 w)) n = bit w n" by (cases "n < 5") (auto simp: bit_simps)
  qed
  then show ?thesis by (metis push_bit_or push_bit_push_bit)
qed

lemma read_last:
  assumes "uint w < 32"
  shows "uint (fromCharCode (w + 63)) - 63 = uint w" "word_of_int (uint w) AND 0x1f = w"
proof -
  have "uint (w + 63) = uint w + 63" using assms by (simp add: uint_word_ariths)
  then show "uint (fromCharCode (w + 63)) - 63 = uint w"
    using assms by (simp add: fromCharCode_def unsigned_ucast_eq take_bit_eq_mod)
  have "w AND 0x1f = take_bit 5 w" by (simp add: take_bit_eq_mask mask_eq_exp_minus_1)
  moreover have "take_bit 5 w = w"
    by (rule word_uint_eqI, unfold unsigned_take_bit_eq) (use assms in \<open>simp add: take_bit_eq_mod\<close>)
  ultimately show "word_of_int (uint w) AND 0x1f = w" by simp
qed

lemma read_unit:
  assumes "uint c - 63 = b" "word_of_int b AND 0x1f = x" "s < 32"
  shows "read_value s r (c # cs) =
    (if 0x20 \<le> b then read_value (s + 5) (r OR push_bit s x) cs else (r OR push_bit s x, cs))"
  using assms by (simp only: read_value.simps Let_def mod_less)

lemma read_chunk:
  assumes "s < 32"
  shows "read_value s r (fromCharCode ((0x20 OR (w AND 0x1f)) + 63) # cs) =
    read_value (s + 5) (r OR push_bit s (take_bit 5 w)) cs"
proof -
  have "uint (fromCharCode ((0x20 OR (w AND 0x1f)) + 63)) - 63 = 32 + uint w mod 32" by (simp add: uint_chunk)
  from read_unit [OF this chunk_bits assms, of r cs] show ?thesis by simp
qed

lemma read_back:
  assumes "uint w * 2 ^ s < 2 ^ 31" "s < 32"
  shows "read_value s r (encode_rest w @ rest) = (r OR push_bit s w, rest)"
  using assms
proof (induction w arbitrary: s r rule: encode_rest.induct)
  case (1 w)
  have "uint w * 1 \<le> uint w * 2 ^ s" by (rule mult_left_mono) simp_all
  then have w: "uint w < 2 ^ 31" using "1.prems"(1) by linarith
  show ?case
  proof (cases "32 \<le>s w")
    case True
    then have w32: "32 \<le> uint w" by (simp add: at_least_32)
    let ?w = "signed_drop_bit 5 w"
    have u: "uint ?w = uint w div 32" using uint_signed_drop(1) [OF w, of 5] by simp
    have d: "?w = drop_bit 5 w"
      by (rule word_uint_eqI, unfold u unsigned_drop_bit_eq) (use uint_bounded [of w] in \<open>simp add: drop_bit_eq_div take_bit_eq_mod\<close>)
    have "uint w div 32 * 32 * 2 ^ s \<le> uint w * 2 ^ s" by (rule mult_right_mono) simp_all
    moreover have "uint ?w * 2 ^ (s + 5) = uint w div 32 * 32 * 2 ^ s" by (simp add: u power_add)
    ultimately have small: "uint ?w * 2 ^ (s + 5) < 2 ^ 31" using "1.prems"(1) by linarith
    have "(32 :: int) * 2 ^ s \<le> uint w * 2 ^ s" using w32 by (rule mult_right_mono) simp
    moreover have "(2 :: int) ^ (s + 5) = 32 * 2 ^ s" by (simp add: power_add)
    ultimately have "(2 :: int) ^ (s + 5) < 2 ^ 31" using "1.prems"(1) by linarith
    then have s: "s + 5 < 31" by (rule power_less_imp_less_exp [rotated]) simp
    have "read_value s r (encode_rest w @ rest) =
        read_value (s + 5) (r OR push_bit s (take_bit 5 w)) (encode_rest ?w @ rest)"
      using s by (subst encode_rest.simps) (simp only: True if_True append_Cons read_chunk)
    also have "\<dots> = ((r OR push_bit s (take_bit 5 w)) OR push_bit (s + 5) (drop_bit 5 w), rest)"
      using "1.IH" [OF True small] s d by simp
    finally show ?thesis by (simp only: or.assoc split_word)
  next
    case False
    then have l: "uint w < 32" using w by (simp add: at_least_32)
    from read_unit [OF read_last [OF l] "1.prems"(2), of r rest] l
    have "read_value s r (fromCharCode (w + 63) # rest) = (r OR push_bit s w, rest)" by simp
    then show ?thesis by (subst encode_rest.simps) (simp only: False if_False append_Cons append_Nil)
  qed
qed

lemma zigzag_bounds:
  assumes "- (2 ^ 30) \<le> d" "d < 2 ^ 30"
  shows "uint (zigzag d) = (if d < 0 then - 2 * d - 1 else 2 * d)"
proof -
  have p: "push_bit 1 (word_of_int d) = (word_of_int (2 * d) :: 32 word)" by simp
  have n: "NOT (word_of_int (2 * d)) = (word_of_int (- 2 * d - 1) :: 32 word)"
    by (simp add: not_eq_complement)
  show ?thesis
  proof (cases "d < 0")
    case True
    then have "uint (zigzag d) = (- 2 * d - 1) mod 2 ^ 32"
      unfolding zigzag_def Let_def p by (simp only: if_True n uint_word_of_int) simp
    also have "\<dots> = - 2 * d - 1" by (rule mod_pos_pos_trivial) (use True assms in simp_all)
    finally show ?thesis using True by simp
  next
    case False
    then have "uint (zigzag d) = (2 * d) mod 2 ^ 32"
      unfolding zigzag_def Let_def p by (simp only: if_False uint_word_of_int) simp
    also have "\<dots> = 2 * d" by (rule mod_pos_pos_trivial) (use False assms in simp_all)
    finally show ?thesis using False by simp
  qed
qed

lemma unzigzag_zigzag:
  assumes "- (2 ^ 30) \<le> d" "d < 2 ^ 30"
  shows "unzigzag (zigzag d) = d" "uint (zigzag d) < 2 ^ 31"
proof -
  note z = zigzag_bounds [OF assms]
  show b: "uint (zigzag d) < 2 ^ 31" using z assms by (simp split: if_splits)
  let ?h = "signed_drop_bit 1 (zigzag d)"
  have h: "uint ?h = uint (zigzag d) div 2" "uint ?h < 2 ^ 31" using uint_signed_drop [OF b, of 1] by simp_all
  have "zigzag d AND 1 \<noteq> 0 \<longleftrightarrow> odd (uint (zigzag d))"
    by (simp add: and_one_eq odd_iff_mod_2_eq_one [symmetric] bit_0 [symmetric] bit_uint_iff flip: mod_2_eq_odd)
  then have o: "zigzag d AND 1 \<noteq> 0 \<longleftrightarrow> d < 0" unfolding z by simp
  have s: "sint ?h = uint (zigzag d) div 2" using h by (simp add: sint_uint_32)
  have n: "sint (NOT ?h) = - 1 - sint ?h"
  proof -
    have "NOT ?h = word_of_int (- 1 - uint ?h)" by (simp add: not_eq_complement)
    moreover have "signed_take_bit 31 (- 1 - uint ?h) = - 1 - uint ?h"
      by (rule signed_take_bit_int_eq_self) (use h(2) uint_ge_0 [of ?h] in linarith)+
    ultimately have "sint (NOT ?h) = - 1 - uint ?h" by (simp only: sint_sbintrunc') simp
    then show ?thesis using h(2) by (simp add: sint_uint_32)
  qed
  show "unzigzag (zigzag d) = d" unfolding unzigzag_def o if_distrib [of sint] n s z by auto
qed

lemma read_number:
  assumes "- (2 ^ 30) \<le> d" "d < 2 ^ 30"
  shows "\<exists>r. read_value 0 0 (encode_rest (zigzag d) @ rest) = (r, rest) \<and> unzigzag r = d"
  using read_back [of "zigzag d" 0 0 rest] unzigzag_zigzag [OF assms] by simp

section \<open>Reading back a path\<close>

definition fits :: "int \<Rightarrow> bool" where
  "fits d = (- (2 ^ 30) \<le> d \<and> d < 2 ^ 30)"

definition scaled :: "rat \<Rightarrow> point \<Rightarrow> int \<times> int" where
  "scaled factor c = (py2_round (fst c * factor), py2_round (snd c * factor))"

definition unscaled :: "rat \<Rightarrow> int \<times> int \<Rightarrow> point" where
  "unscaled factor k = (of_int (fst k) / factor, of_int (snd k) / factor)"

fun encodable :: "rat \<Rightarrow> point \<Rightarrow> point list \<Rightarrow> bool" where
  "encodable factor b [] = True"
| "encodable factor b (a # cs) =
     (fits (fst (scaled factor a) - fst (scaled factor b)) \<and> fits (snd (scaled factor a) - snd (scaled factor b)) \<and>
      encodable factor a cs)"

lemma encode_rest_nonempty [simp]: "encode_rest w \<noteq> []"
  by (subst encode_rest.simps) simp

lemma decode_from_Nil [simp]: "decode_from factor lat lng [] = []"
  by (subst decode_from.simps) simp

lemma decode_encode:
  "encodable factor b cs \<Longrightarrow>
   decode_from factor (fst (scaled factor b)) (snd (scaled factor b)) (encode_from factor b cs) =
     map (\<lambda>a. unscaled factor (scaled factor a)) cs"
proof (induction cs arbitrary: b)
  case (Cons a cs)
  let ?d = "\<lambda>g. g (scaled factor a) - g (scaled factor b)"
  let ?rest = "encode_from factor a cs"
  let ?s = "encode_rest (zigzag (?d snd)) @ ?rest"
  have e: "encode_from factor b (a # cs) = encode_rest (zigzag (?d fst)) @ ?s"
    by (simp add: encode_number_def scaled_def)
  obtain r1 where r1: "read_value 0 0 (encode_rest (zigzag (?d fst)) @ ?s) = (r1, ?s)" "unzigzag r1 = ?d fst"
    using read_number [of "?d fst" ?s] Cons.prems by (auto simp: fits_def)
  obtain r2 where r2: "read_value 0 0 ?s = (r2, ?rest)" "unzigzag r2 = ?d snd"
    using read_number [of "?d snd" ?rest] Cons.prems by (auto simp: fits_def)
  show ?case unfolding e
    by (subst decode_from.simps) (use Cons.IH [of a] Cons.prems r1 r2 in \<open>simp add: Let_def unscaled_def\<close>)
qed simp

lemma polyline_encode_alt: "polyline_encode coords p = encode_from (polyline_factor p) (0, 0) coords"
  by (simp add: polyline_encode_def Let_def split: list.splits)

lemma polyline_decode_encode:
  assumes "encodable (polyline_factor p) (0, 0) coords"
  shows "polyline_decode (polyline_encode coords p) p =
    map (\<lambda>c. unscaled (polyline_factor p) (scaled (polyline_factor p) c)) coords"
proof -
  have "scaled (polyline_factor p) (0, 0) = (0, 0)" by (simp add: scaled_def py2_round_def floor_eq_iff)
  then show ?thesis using decode_encode [OF assms] by (simp add: polyline_decode_def polyline_encode_alt)
qed

section \<open>Rounding\<close>

lemma py2_round_near: "\<bar>of_int (py2_round v) - v\<bar> \<le> 1 / 2"
proof -
  obtain e where e: "e = of_int \<lfloor>\<bar>v\<bar> + 1 / 2\<rfloor> - \<bar>v\<bar>" by simp
  then have "\<bar>e\<bar> \<le> 1 / 2" by linarith
  moreover have "of_int (py2_round v) - v = (if 0 \<le> v then e else - e)" by (simp add: py2_round_def e)
  ultimately show ?thesis by simp
qed

lemma py2_round_int: "py2_round (of_int k) = k"
proof -
  have "\<lfloor>of_int \<bar>k\<bar> + 1 / 2 :: rat\<rfloor> = \<bar>k\<bar>" by linarith
  then show ?thesis by (simp add: py2_round_def abs_if split: if_splits)
qed

lemma scaled_unscaled: "factor \<noteq> 0 \<Longrightarrow> scaled factor (unscaled factor k) = k"
  by (simp add: scaled_def unscaled_def py2_round_int)

text \<open>Encoding depends on the rounded coordinates only.\<close>

lemma encode_from_scaled:
  assumes "map (scaled factor) cs = map (scaled factor) ds" "scaled factor b = scaled factor c"
  shows "encode_from factor b cs = encode_from factor c ds"
  using assms
proof (induction cs arbitrary: b c ds)
  case (Cons a cs)
  then obtain d ds' where ds: "ds = d # ds'" by auto
  with Cons show ?case by (auto simp: encode_number_def scaled_def)
qed simp

definition on_earth :: "point \<Rightarrow> bool" where
  "on_earth c = (\<bar>fst c\<bar> \<le> 90 \<and> \<bar>snd c\<bar> \<le> 180)"

lemma earth_fits:
  assumes "\<bar>x\<bar> \<le> 180" "\<bar>y\<bar> \<le> 180" "0 \<le> factor" "factor \<le> 10 ^ 6"
  shows "fits (py2_round (x * factor) - py2_round (y * factor))"
proof -
  have b: "\<bar>v * factor\<bar> \<le> 180 * 10 ^ 6" if "\<bar>v\<bar> \<le> 180" for v :: rat
    unfolding abs_mult by (rule mult_mono) (use that assms(3,4) in simp_all)
  have "\<bar>of_int (py2_round (x * factor)) - of_int (py2_round (y * factor)) :: rat\<bar> \<le> 360 * 10 ^ 6 + 1"
    using py2_round_near [of "x * factor"] py2_round_near [of "y * factor"] b [OF assms(1)] b [OF assms(2)] by linarith
  then have "\<bar>py2_round (x * factor) - py2_round (y * factor)\<bar> \<le> 360 * 10 ^ 6 + 1"
    by (simp flip: of_int_diff of_int_abs)
  moreover have "(360 * 10 ^ 6 + 1 :: int) < 2 ^ 30" by simp
  ultimately show ?thesis unfolding fits_def by linarith
qed

lemma earth_encodable:
  assumes "0 \<le> factor" "factor \<le> 10 ^ 6"
  shows "on_earth b \<Longrightarrow> list_all on_earth cs \<Longrightarrow> encodable factor b cs"
proof (induction cs arbitrary: b)
  case (Cons a cs)
  then have "\<bar>fst a\<bar> \<le> 180" "\<bar>snd a\<bar> \<le> 180" "\<bar>fst b\<bar> \<le> 180" "\<bar>snd b\<bar> \<le> 180"
    by (auto simp: on_earth_def)
  with Cons show ?case by (simp add: scaled_def earth_fits [OF _ _ assms])
qed simp

section \<open>The round trip\<close>

lemma small_factor: "0 \<le> p \<Longrightarrow> p \<le> 6 \<Longrightarrow> 0 < polyline_factor (Some p) \<and> polyline_factor (Some p) \<le> 10 ^ 6"
  using power_int_increasing [of p 6 "10 :: rat"] by (simp add: polyline_factor_def)

lemma unscaled_near:
  assumes "0 < factor"
  shows "\<bar>fst (unscaled factor (scaled factor c)) - fst c\<bar> \<le> 1 / 2 / factor"
    and "\<bar>snd (unscaled factor (scaled factor c)) - snd c\<bar> \<le> 1 / 2 / factor"
proof -
  have "\<bar>of_int (py2_round (x * factor)) / factor - x\<bar> \<le> 1 / 2 / factor" for x
  proof -
    have "of_int (py2_round (x * factor)) / factor - x = (of_int (py2_round (x * factor)) - x * factor) / factor"
      using assms by (simp add: field_simps)
    then have "\<bar>of_int (py2_round (x * factor)) / factor - x\<bar> = \<bar>of_int (py2_round (x * factor)) - x * factor\<bar> / factor"
      using assms by (simp add: abs_divide)
    then show ?thesis using divide_right_mono [OF py2_round_near [of "x * factor"], of factor] assms by simp
  qed
  then show "\<bar>fst (unscaled factor (scaled factor c)) - fst c\<bar> \<le> 1 / 2 / factor"
    and "\<bar>snd (unscaled factor (scaled factor c)) - snd c\<bar> \<le> 1 / 2 / factor"
    by (simp_all add: unscaled_def scaled_def)
qed

text \<open>C19: with up to six decimal places every path on earth survives the polyline codec: each decoded
  coordinate is within half a unit of the last place, and encoding the decoded path gives the same
  string. The differences of two coordinates then fit into the 32-bit words of the bit operations.\<close>

theorem polyline_roundtrip:
  assumes "list_all on_earth coords" "0 \<le> p" "p \<le> 6"
  shows "let str = polyline_encode coords (Some p); again = polyline_decode str (Some p) in
    list_all2 (\<lambda>c d. \<bar>fst d - fst c\<bar> \<le> 1 / 2 / 10 powi p \<and> \<bar>snd d - snd c\<bar> \<le> 1 / 2 / 10 powi p) coords again \<and>
    polyline_encode again (Some p) = str"
proof -
  let ?f = "polyline_factor (Some p)"
  let ?r = "\<lambda>c. unscaled ?f (scaled ?f c)"
  have f: "0 < ?f" "?f \<le> 10 ^ 6" using small_factor assms(2,3) by simp_all
  have "encodable ?f (0, 0) coords"
    using earth_encodable [of ?f "(0, 0)" coords] f assms(1) by (simp add: on_earth_def)
  then have decoded: "polyline_decode (polyline_encode coords (Some p)) (Some p) = map ?r coords"
    by (rule polyline_decode_encode)
  have "polyline_encode (map ?r coords) (Some p) = polyline_encode coords (Some p)"
    unfolding polyline_encode_alt by (rule encode_from_scaled) (use f in \<open>simp_all add: scaled_unscaled\<close>)
  moreover have "list_all2 (\<lambda>c d. \<bar>fst d - fst c\<bar> \<le> 1 / 2 / ?f \<and> \<bar>snd d - snd c\<bar> \<le> 1 / 2 / ?f) coords (map ?r coords)"
    by (simp only: list_all2_map2 list_all2_same unscaled_near [OF f(1)]) simp
  ultimately show ?thesis unfolding Let_def decoded by (simp add: polyline_factor_def)
qed

definition demo_path :: "point list" where
  "demo_path = [(49.87, 8.65), (49.87, -179.999999), (-1/3, 180)]"

lemma polyline_roundtrip_witness:
  "polyline_decode (polyline_encode demo_path (Some 6)) (Some 6) =
     [(49.87, 8.65), (49.87, -179.999999), (-0.333333, 180)] \<and>
   polyline_encode (polyline_decode (polyline_encode demo_path (Some 6)) (Some 6)) (Some 6) = polyline_encode demo_path (Some 6)"
proof
  have e: "list_all on_earth demo_path" by code_simp
  show "polyline_encode (polyline_decode (polyline_encode demo_path (Some 6)) (Some 6)) (Some 6) = polyline_encode demo_path (Some 6)"
    using polyline_roundtrip [OF e, of 6] by (simp add: Let_def)
  show "polyline_decode (polyline_encode demo_path (Some 6)) (Some 6) =
     [(49.87, 8.65), (49.87, -179.999999), (-0.333333, 180)]"
    by code_simp
qed

text \<open>With seven places half the earth is too far for one step.\<close>

lemma seven_places_overflow: "polyline_decode (polyline_encode [(0, 180)] (Some 7)) (Some 7) \<noteq> [(0, 180)]"
  by code_simp

end
