(* ===== verification/Polyline_Paths.thy ===== *)
theory Polyline_Paths
  imports Polyline_Codec
begin

text \<open>
  The codec in the model of the trains (\<^verbatim>\<open>preprocessPolyline\<close> of
  \<^verbatim>\<open>model.js\<close>, which decodes with six places): the server's path comes back.
\<close>

definition codec_geo :: "Geo \<Rightarrow> Geo" where
  "codec_geo G = G\<lparr>decode := \<lambda>str. polyline_decode (code_units str) (Some 6)\<rparr>"

definition polyline_text :: "point list \<Rightarrow> string" where
  "polyline_text coords = map (\<lambda>u. char_of (uint u)) (polyline_encode coords (Some 6))"

lemma encode_rest_ascii:
  assumes "uint w < 2 ^ 31" "u \<in> set (encode_rest w)"
  shows "uint u < 128"
  using assms
proof (induction w rule: encode_rest.induct)
  case (1 w)
  show ?case
  proof (cases "32 \<le>s w")
    case True
    then have "u = fromCharCode ((0x20 OR (w AND 0x1f)) + 63) \<or> u \<in> set (encode_rest (signed_drop_bit 5 w))"
      using "1.prems"(2) by (subst (asm) encode_rest.simps) auto
    then show ?thesis
    proof
      assume u: "u = fromCharCode ((0x20 OR (w AND 0x1f)) + 63)"
      have "uint w mod 32 < 32" by simp
      then show ?thesis unfolding u uint_chunk by linarith
    qed (rule "1.IH" [OF True uint_signed_drop(2) [OF "1.prems"(1)]])
  next
    case False
    then have l: "uint w < 32" using "1.prems"(1) by (simp add: at_least_32)
    have "u = fromCharCode (w + 63)" using "1.prems"(2) False by (subst (asm) encode_rest.simps) auto
    then show ?thesis using read_last(1) [OF l] l by simp
  qed
qed

lemma encode_from_ascii: "encodable factor b cs \<Longrightarrow> u \<in> set (encode_from factor b cs) \<Longrightarrow> uint u < 128"
proof (induction cs arbitrary: b)
  case (Cons a cs)
  have z: "uint v < 128" if "fits d" "v \<in> set (encode_rest (zigzag d))" for d v
    by (rule encode_rest_ascii [OF unzigzag_zigzag(2) that(2)]) (use that(1) in \<open>simp_all add: fits_def\<close>)
  from Cons.prems Cons.IH [of a] show ?case by (auto simp: encode_number_def scaled_def dest: z)
qed simp

lemma units_of_text:
  assumes "list_all on_earth coords"
  shows "code_units (polyline_text coords) = polyline_encode coords (Some 6)"
proof -
  have f: "0 < polyline_factor (Some 6)" "polyline_factor (Some 6) \<le> 10 ^ 6" using small_factor [of 6] by simp_all
  have "encodable (polyline_factor (Some 6)) (0, 0) coords"
    by (rule earth_encodable) (use f assms in \<open>simp_all add: on_earth_def\<close>)
  then have small: "uint u < 128" if "u \<in> set (polyline_encode coords (Some 6))" for u
    using that encode_from_ascii by (simp add: polyline_encode_alt)
  have "of_char (char_of (uint u)) = u" if "uint u < 128" for u :: "16 word"
  proof -
    have "(of_char (char_of (uint u)) :: int) = uint u" using that by simp
    then have "(of_int (of_char (char_of (uint u)) :: int) :: 16 word) = of_int (uint u)" by (simp only:)
    then show ?thesis by (simp only: of_int_of_char of_int_uint ucast_id)
  qed
  with small show ?thesis by (simp add: code_units_def polyline_text_def map_idI comp_def)
qed

text \<open>The decoded path of a text has the points it was written from, to six places.\<close>

theorem path_comes_back:
  assumes "list_all on_earth coords" "coords \<noteq> []"
  shows "\<exists>pl. preprocessPolyline (codec_geo G) (polyline_text coords) = Some pl \<and>
    coordinates pl = map (\<lambda>c. unscaled (10 ^ 6) (scaled (10 ^ 6) c)) coords"
proof -
  have f: "polyline_factor (Some 6) = 10 ^ 6" by (simp add: polyline_factor_def)
  have "encodable (10 ^ 6) (0, 0) coords"
    by (rule earth_encodable) (use assms(1) in \<open>simp_all add: on_earth_def\<close>)
  then have "polyline_decode (polyline_encode coords (Some 6)) (Some 6) = map (\<lambda>c. unscaled (10 ^ 6) (scaled (10 ^ 6) c)) coords"
    using polyline_decode_encode [of "Some 6" coords] unfolding f by blast
  then show ?thesis
    using assms by (simp add: preprocessPolyline_def codec_geo_def units_of_text Let_def split: prod.splits)
qed

end
