(* ===== verification/Train_Shader.thy ===== *)
theory Train_Shader
  imports Railviz_Trains
begin

text \<open>
  The shader programs of the train layer (the two texts at the head of
  \<^verbatim>\<open>ui/web/js/railviz/trains.js\<close>): where the six corners of a train are drawn, and
  with which colour. Numbers are reals, so the precision qualifiers have no meaning here. A varying that
  is not written has an undefined value, which is an argument.
\<close>

section \<open>Vectors and matrices\<close>

type_synonym vec2 = "real \<times> real"
type_synonym vec4 = "real \<times> real \<times> real \<times> real"

definition vec_add :: "vec4 \<Rightarrow> vec4 \<Rightarrow> vec4" where
  "vec_add a b =
     (case (a, b) of ((a0, a1, a2, a3), (b0, b1, b2, b3)) \<Rightarrow> (a0 + b0, a1 + b1, a2 + b2, a3 + b3))"

definition vec_scale :: "real \<Rightarrow> vec4 \<Rightarrow> vec4" where
  "vec_scale k a = (case a of (a0, a1, a2, a3) \<Rightarrow> (k * a0, k * a1, k * a2, k * a3))"

definition vec_times :: "vec4 \<Rightarrow> vec4 \<Rightarrow> vec4" where
  "vec_times a b =
     (case (a, b) of ((a0, a1, a2, a3), (b0, b1, b2, b3)) \<Rightarrow> (a0 * b0, a1 * b1, a2 * b2, a3 * b3))"

definition mix :: "vec4 \<Rightarrow> vec4 \<Rightarrow> real \<Rightarrow> vec4" where
  "mix a b t = vec_add (vec_scale (1 - t) a) (vec_scale t b)"

text \<open>A matrix is given by its columns.\<close>

type_synonym mat4 = "vec4 \<times> vec4 \<times> vec4 \<times> vec4"

definition mat_vec :: "mat4 \<Rightarrow> vec4 \<Rightarrow> vec4" where
  "mat_vec m v =
     (case (m, v) of ((c0, c1, c2, c3), (x, y, z, w)) \<Rightarrow>
        vec_add (vec_add (vec_scale x c0) (vec_scale y c1)) (vec_add (vec_scale z c2) (vec_scale w c3)))"

definition mat_mul :: "mat4 \<Rightarrow> mat4 \<Rightarrow> mat4" where
  "mat_mul a b = (case b of (c0, c1, c2, c3) \<Rightarrow> (mat_vec a c0, mat_vec a c1, mat_vec a c2, mat_vec a c3))"

text \<open>An attribute of two components is filled up.\<close>

definition attrib2 :: "vec2 \<Rightarrow> vec4" where
  "attrib2 p = (fst p, snd p, 0, 1)"

section \<open>The shaders\<close>

record TrainVertex =
  a_vertex :: real
  a_startPos :: vec4
  a_endPos :: vec4
  a_angle :: real
  a_progress :: real
  a_delayColor :: vec4
  a_categoryColor :: vec4
  a_pickColor :: vec4

record TrainUniforms =
  u_perspective :: mat4
  u_radius :: real
  u_useCategoryColor :: bool
  u_offscreen :: bool

record Varying =
  v_texCoord :: vec2
  v_color :: vec4

definition corner_offset :: "real \<Rightarrow> real \<Rightarrow> vec2" where
  "corner_offset r v = (if v = 0 \<or> v = 2 then r else - r, if v = 0 \<or> v = 1 then r else - r)"

definition rotate_about :: "vec4 \<Rightarrow> real \<Rightarrow> mat4" where
  "rotate_about pc angle =
     (let c = cos (- angle); s = sin (- angle); x = fst pc; y = fst (snd pc)
      in ((c, s, 0, 0), (- s, c, 0, 0), (0, 0, 1, 0), (x - x * c + y * s, y - x * s - y * c, 0, 1)))"

definition vertexShader :: "vec2 \<Rightarrow> TrainUniforms \<Rightarrow> TrainVertex \<Rightarrow> vec4 \<times> Varying" where
  "vertexShader undef u a =
     (let pc = mix (a_startPos a) (a_endPos a) (a_progress a);
          off = corner_offset (u_radius u) (a_vertex a);
          pv = (fst pc + fst off, fst (snd pc) + snd off, snd (snd pc));
          tex = (if a_vertex a = 0 \<or> a_vertex a = 2 then 1 else fst undef,
                 if a_vertex a = 0 \<or> a_vertex a = 1 then 1 else snd undef);
          position = mat_vec (mat_mul (u_perspective u) (rotate_about pc (a_angle a))) pv;
          color = (if u_offscreen u then a_pickColor a
                   else if u_useCategoryColor u then a_categoryColor a
                   else a_delayColor a)
      in (position, \<lparr>v_texCoord = tex, v_color = color\<rparr>))"

definition fragmentShader :: "(vec2 \<Rightarrow> vec4) \<Rightarrow> TrainUniforms \<Rightarrow> Varying \<Rightarrow> vec4" where
  "fragmentShader u_texture u v =
     (let texel = u_texture (v_texCoord v)
      in if u_offscreen u then (if snd (snd (snd texel)) = 0 then (0, 0, 0, 0) else v_color v)
         else vec_times (v_color v) texel)"

section \<open>The attributes after a draw call\<close>

definition va_disable :: "string list" where
  "va_disable = [''a_vertex'']"

definition pa_disable :: "string list" where
  "pa_disable = [''a_progress'', ''a_angle'', ''a_endPos'', ''a_startPos'']"

definition ca_disable :: "string list" where
  "ca_disable = [''a_pickColor'', ''a_categoryColor'', ''a_delayColor'']"

text \<open>What a draw call enables it disables again.\<close>

lemma attributes_disabled:
  "set (ca_disable @ pa_disable @ va_disable) = set (map ap_name (va_enable @ pa_enable @ ca_enable))"
  by (auto simp: va_enable_def pa_enable_def ca_enable_def pointer_def va_disable_def pa_disable_def ca_disable_def)

section \<open>Where a train is drawn\<close>

lemma mat_vec_mul: "mat_vec (mat_mul a b) v = mat_vec a (mat_vec b v)"
  by (cases a; cases b; cases v) (auto simp: mat_vec_def mat_mul_def vec_add_def vec_scale_def algebra_simps)

lemma mix_attrib2: "mix (attrib2 p) (attrib2 q) t = (fst p + t * (fst q - fst p), snd p + t * (snd q - snd p), 0, 1)"
  by (simp add: mix_def attrib2_def vec_add_def vec_scale_def algebra_simps)

lemma rotate_offset:
  "mat_vec (rotate_about (x, y, z, w) angle) (x + dx, y + dy, 0, 1) =
     (x + (cos angle * dx + sin angle * dy), y + (cos angle * dy - sin angle * dx), 0, 1)"
  by (simp add: rotate_about_def Let_def mat_vec_def vec_add_def vec_scale_def algebra_simps)

text \<open>\<^verbatim>\<open>Math.atan2\<close>: the argument of the complex number.\<close>

definition js_atan2 :: "real \<Rightarrow> real \<Rightarrow> real" where
  "js_atan2 y x = Arg (Complex x y)"

lemma atan2_direction:
  assumes "(dx, dy) \<noteq> (0, 0)"
  shows "cos (js_atan2 dy dx) = dx / sqrt (dx\<^sup>2 + dy\<^sup>2)" "sin (js_atan2 dy dx) = dy / sqrt (dx\<^sup>2 + dy\<^sup>2)"
proof -
  have "cis (Arg (Complex dx dy)) = sgn (Complex dx dy)"
    using assms by (intro cis_Arg) (simp add: complex_eq_iff)
  then show "cos (js_atan2 dy dx) = dx / sqrt (dx\<^sup>2 + dy\<^sup>2)" "sin (js_atan2 dy dx) = dy / sqrt (dx\<^sup>2 + dy\<^sup>2)"
    by (simp_all add: js_atan2_def complex_eq_iff sgn_div_norm complex_norm divide_inverse mult.commute)
qed


text \<open>On a line from the origin to (3, 4), half way, with radius 5: the nose's corners.\<close>

definition identity4 :: mat4 where
  "identity4 = ((1, 0, 0, 0), (0, 1, 0, 0), (0, 0, 1, 0), (0, 0, 0, 1))"

definition demo_vertex :: "real \<Rightarrow> TrainVertex" where
  "demo_vertex v =
     \<lparr>a_vertex = v, a_startPos = attrib2 (0, 0), a_endPos = attrib2 (3, 4), a_angle = - js_atan2 4 3, a_progress = 1 / 2,
      a_delayColor = (0, 0, 0, 1), a_categoryColor = (0, 0, 0, 1), a_pickColor = (0, 0, 0, 1)\<rparr>"

definition demo_uniforms :: TrainUniforms where
  "demo_uniforms = \<lparr>u_perspective = identity4, u_radius = 5, u_useCategoryColor = True, u_offscreen = False\<rparr>"


end
