(* ===== verification/Gl_Util.thy ===== *)
theory Gl_Util
  imports Textures Train_Shader
begin

text \<open>
  The WebGL helpers (\<^verbatim>\<open>ui/web/js/railviz/webgl.js\<close>) and the set-up of the train layer
  that uses them (\<^verbatim>\<open>setup\<close> of \<^verbatim>\<open>trains.js\<close>). The context is the
  list of the calls that change it, with a counter for the objects it hands out. Whether a shader compiles,
  a program links, the context is lost and which extensions there are is the environment. Where the
  interface of the context takes no null, passing it throws.
\<close>

section \<open>The context\<close>

datatype GlCall =
    CreateShader nat string
  | ShaderSource nat string
  | CompileShader nat
  | DeleteShader nat
  | CreateProgram nat
  | AttachShader nat nat
  | LinkProgram nat
  | DeleteProgram nat
  | GetAttribLocation nat string
  | GetUniformLocation nat string
  | CreateBuffer nat
  | CreateTexture nat
  | BindTexture "nat option"
  | PixelStorei string
  | TexImagePixel "nat list"
  | TexImageUrl string
  | TexImageCanvas nat Canvas
  | TexParameteri string string
  | TexParameterf string rat
  | GenerateMipmap

record Gl =
  gl_calls :: "GlCall list"
  gl_next :: nat

record GlEnv =
  compiles :: "string \<Rightarrow> string \<Rightarrow> bool"
  links :: bool
  isContextLost :: bool
  anisotropy :: "string \<Rightarrow> rat option" \<comment> \<open>the maximum, for an extension there is\<close>

definition gl_call :: "GlCall \<Rightarrow> Gl \<Rightarrow> Gl" where
  "gl_call c gl = gl\<lparr>gl_calls := gl_calls gl @ [c]\<rparr>"

definition gl_create :: "(nat \<Rightarrow> GlCall) \<Rightarrow> Gl \<Rightarrow> nat \<times> Gl" where
  "gl_create c gl = (gl_next gl, (gl_call (c (gl_next gl)) gl)\<lparr>gl_next := Suc (gl_next gl)\<rparr>)"

section \<open>Shaders and programs\<close>

definition createShader :: "GlEnv \<Rightarrow> string \<Rightarrow> string \<Rightarrow> Gl \<Rightarrow> nat option \<times> Gl" where
  "createShader E kind src gl =
     (let (shader, gl) = gl_create (\<lambda>n. CreateShader n kind) gl;
          gl = gl_call (CompileShader shader) (gl_call (ShaderSource shader src) gl)
      in if \<not> compiles E kind src \<and> \<not> isContextLost E then (None, gl_call (DeleteShader shader) gl)
         else (Some shader, gl))"

text \<open>A call that throws is \<open>Inl\<close> with the context it leaves.\<close>

definition attachShader :: "nat \<Rightarrow> nat option \<Rightarrow> Gl \<Rightarrow> Gl + Gl" where
  "attachShader program shader gl =
     (case shader of None \<Rightarrow> Inl gl | Some s \<Rightarrow> Inr (gl_call (AttachShader program s) gl))"

definition createProgram :: "GlEnv \<Rightarrow> nat option \<Rightarrow> nat option \<Rightarrow> Gl \<Rightarrow> Gl + nat option \<times> Gl" where
  "createProgram E vs fs gl =
     (let (program, gl) = gl_create CreateProgram gl in
      bindE (attachShader program vs gl) (\<lambda>gl.
      bindE (attachShader program fs gl) (\<lambda>gl.
        let gl = gl_call (LinkProgram program) gl
        in if \<not> links E \<and> \<not> isContextLost E then Inr (None, gl_call (DeleteProgram program) gl)
           else Inr (Some program, gl))))"

section \<open>The canvas\<close>

definition to_int32 :: "rat \<Rightarrow> int" where
  "to_int32 x = sint (word_of_int (if 0 \<le> x then \<lfloor>x\<rfloor> else \<lceil>x\<rceil>) :: 32 word)"

record CanvasElement =
  ce_width :: int
  ce_height :: int
  clientWidth :: rat
  clientHeight :: rat

definition resizeCanvasToDisplaySize :: "rat option \<Rightarrow> CanvasElement \<Rightarrow> bool \<times> CanvasElement" where
  "resizeCanvasToDisplaySize multiplier canvas =
     (let m = (case multiplier of None \<Rightarrow> 1 | Some q \<Rightarrow> if q = 0 then 1 else q);
          width = to_int32 (clientWidth canvas * m);
          height = to_int32 (clientHeight canvas * m)
      in if ce_width canvas \<noteq> width \<or> ce_height canvas \<noteq> height
         then (True, canvas\<lparr>ce_width := width, ce_height := height\<rparr>) else (False, canvas))"

text \<open>A canvas that was resized fits.\<close>

lemma resize_settles:
  "resizeCanvasToDisplaySize m (snd (resizeCanvasToDisplaySize m c)) = (False, snd (resizeCanvasToDisplaySize m c))"
  by (simp add: resizeCanvasToDisplaySize_def Let_def)

section \<open>Textures\<close>

definition createTextureFromImage :: "Gl \<Rightarrow> nat \<times> Gl" where
  "createTextureFromImage gl =
     (let (texture, gl) = gl_create CreateTexture gl
      in (texture, gl_call (TexImagePixel [255, 255, 255, 255]) (gl_call (BindTexture (Some texture)) gl)))"

definition texture_loaded :: "nat \<Rightarrow> string \<Rightarrow> Gl \<Rightarrow> Gl" where
  "texture_loaded texture url gl =
     fold gl_call
       [BindTexture (Some texture), PixelStorei ''UNPACK_FLIP_Y_WEBGL'', TexImageUrl url,
        TexParameteri ''TEXTURE_MAG_FILTER'' ''NEAREST'', TexParameteri ''TEXTURE_MIN_FILTER'' ''NEAREST'',
        GenerateMipmap, BindTexture None] gl"

text \<open>The loop halves the size as long as there is a pixel.\<close>

lemma half_smaller:
  fixes x :: rat
  assumes "1 \<le> x"
  shows "\<lfloor>x / 2\<rfloor> < \<lfloor>x\<rfloor>"
proof (rule ccontr)
  assume "\<not> \<lfloor>x / 2\<rfloor> < \<lfloor>x\<rfloor>"
  then have "(of_int \<lfloor>x\<rfloor> :: rat) \<le> of_int \<lfloor>x / 2\<rfloor>" by simp
  moreover have "of_int \<lfloor>x / 2\<rfloor> \<le> x / 2" "x < of_int \<lfloor>x\<rfloor> + 1"
    by (rule of_int_floor_le, rule floor_correct [THEN conjunct2, unfolded of_int_add of_int_1])
  moreover have "1 \<le> (of_int \<lfloor>x\<rfloor> :: rat)" using assms by simp
  ultimately show False by linarith
qed

function mip_levels :: "(rat \<Rightarrow> Canvas) \<Rightarrow> nat \<Rightarrow> rat \<Rightarrow> GlCall list" where
  "mip_levels draw level size' =
     (if 1 \<le> size' then TexImageCanvas level (draw size') # mip_levels draw (Suc level) (size' / 2) else [])"
  by pat_completeness auto

termination
  by (relation "measure (\<lambda>(draw, level, size'). nat \<lfloor>size'\<rfloor>)") (simp_all add: half_smaller)

declare mip_levels.simps [simp del]

definition anisotropic :: "GlEnv \<Rightarrow> rat option" where
  "anisotropic E =
     (case anisotropy E ''EXT_texture_filter_anisotropic'' of
        Some m \<Rightarrow> Some m
      | None \<Rightarrow>
          (case anisotropy E ''MOZ_EXT_texture_filter_anisotropic'' of
             Some m \<Rightarrow> Some m
           | None \<Rightarrow> anisotropy E ''WEBKIT_EXT_texture_filter_anisotropic''))"

definition createTextureFromCanvas :: "GlEnv \<Rightarrow> (rat \<Rightarrow> Canvas) \<Rightarrow> Gl \<Rightarrow> nat \<times> Gl" where
  "createTextureFromCanvas E draw gl =
     (let (texture, gl) = gl_create CreateTexture gl
      in (texture,
          fold gl_call
            ([BindTexture (Some texture), PixelStorei ''UNPACK_PREMULTIPLY_ALPHA_WEBGL''] @ mip_levels draw 0 256 @
             [TexParameteri ''TEXTURE_MAG_FILTER'' ''LINEAR'', TexParameteri ''TEXTURE_MIN_FILTER'' ''LINEAR_MIPMAP_LINEAR''] @
             (case anisotropic E of None \<Rightarrow> [] | Some m \<Rightarrow> [TexParameterf ''TEXTURE_MAX_ANISOTROPY_EXT'' m]) @
             [BindTexture None]) gl))"

section \<open>Setting up the train layer\<close>

record TrainProgram =
  tp_program :: nat
  tp_instanced :: bool
  tp_texture :: nat

definition attributes_of :: "nat \<Rightarrow> Gl \<Rightarrow> Gl" where
  "attributes_of p gl =
     (let gl = snd (gl_create CreateBuffer (gl_call (GetAttribLocation p ''a_vertex'') gl));
          gl = fold (\<lambda>n. gl_call (GetAttribLocation p n)) [''a_startPos'', ''a_endPos'', ''a_angle'', ''a_progress''] gl;
          gl = snd (gl_create CreateBuffer (snd (gl_create CreateBuffer gl)));
          gl = fold (\<lambda>n. gl_call (GetAttribLocation p n)) [''a_delayColor'', ''a_categoryColor'', ''a_pickColor''] gl
      in snd (gl_create CreateBuffer gl))"

text \<open>Looking up an attribute of no program throws. \<open>vsrc\<close> and \<open>fsrc\<close> are the texts of the
  shaders, which \<open>Train_Shader\<close> models.\<close>

definition train_setup ::
  "GlEnv \<Rightarrow> string \<Rightarrow> string \<Rightarrow> bool \<Rightarrow> Gl \<Rightarrow> TrainLayer \<Rightarrow> Gl + TrainProgram \<times> Gl \<times> TrainLayer" where
  "train_setup E vsrc fsrc instanced gl l =
     (let (vshader, gl) = createShader E ''VERTEX_SHADER'' vsrc gl;
          (fshader, gl) = createShader E ''FRAGMENT_SHADER'' fsrc gl
      in bindE (createProgram E vshader fshader gl) (\<lambda>(program, gl).
           let gl = fold (\<lambda>s. case s of None \<Rightarrow> id | Some n \<Rightarrow> gl_call (DeleteShader n)) [vshader, fshader] gl
           in case program of
                None \<Rightarrow> Inl gl
              | Some p \<Rightarrow>
                  let gl = fold (\<lambda>n. gl_call (GetUniformLocation p n))
                             [''u_perspective'', ''u_radius'', ''u_useCategoryColor'', ''u_offscreen'', ''u_texture'']
                             (attributes_of p gl);
                      (texture, gl) = createTextureFromCanvas E createTrain gl
                  in Inr (\<lparr>tp_program = p, tp_instanced = instanced, tp_texture = texture\<rparr>, gl, lay_setup l)))"

section \<open>What setting up leaves\<close>

lemma calls_call [simp]: "gl_calls (gl_call c gl) = gl_calls gl @ [c]"
  by (simp add: gl_call_def)

lemma calls_fold [simp]: "gl_calls (fold gl_call cs gl) = gl_calls gl @ cs"
  by (induction cs arbitrary: gl) simp_all

lemma mip_chain: "mip_levels draw k (2 ^ n) = map (\<lambda>i. TexImageCanvas (k + i) (draw (2 ^ n / 2 ^ i))) [0..<Suc n]"
proof (induction n arbitrary: k)
  case 0
  show ?case by (subst mip_levels.simps, subst mip_levels.simps) simp
next
  case (Suc n)
  have "(1 :: rat) \<le> 2 ^ Suc n" by (rule one_le_power) simp
  then have "mip_levels draw k (2 ^ Suc n) = TexImageCanvas k (draw (2 ^ Suc n)) # mip_levels draw (Suc k) (2 ^ n)"
    by (subst mip_levels.simps) simp
  also have "\<dots> = map (\<lambda>i. TexImageCanvas (k + i) (draw (2 ^ Suc n / 2 ^ i))) (0 # map Suc [0..<Suc n])"
    by (simp add: Suc.IH del: upt_Suc)
  also have "0 # map Suc [0..<Suc n] = [0..<Suc (Suc n)]" by (simp only: map_Suc_upt upt_conv_Cons [symmetric] zero_less_Suc)
  finally show ?case .
qed

fun uploads_level :: "GlCall \<Rightarrow> bool" where
  "uploads_level (TexImageCanvas l c) = True"
| "uploads_level _ = False"

text \<open>C23: the texture of the trains is complete: nine levels are uploaded, from 256 pixels down to one,
  each half as large as the one before it and each the same picture at its scale, which is drawn within the
  canvas.\<close>

theorem train_texture_complete:
  "filter uploads_level (gl_calls (snd (createTextureFromCanvas E createTrain gl))) =
     filter uploads_level (gl_calls gl) @ map (\<lambda>l. TexImageCanvas l (scale_canvas (1 / 2 ^ l) (createTrain 256))) [0..<9] \<and>
   inside 8 (createTrain 256)"
proof
  have "mip_levels createTrain 0 256 = map (\<lambda>l. TexImageCanvas l (scale_canvas (1 / 2 ^ l) (createTrain 256))) [0..<9]"
    using mip_chain [of createTrain 0 8] by (simp add: createTrain_scales [symmetric])
  then show "filter uploads_level (gl_calls (snd (createTextureFromCanvas E createTrain gl))) =
     filter uploads_level (gl_calls gl) @ map (\<lambda>l. TexImageCanvas l (scale_canvas (1 / 2 ^ l) (createTrain 256))) [0..<9]"
    by (simp add: createTextureFromCanvas_def gl_create_def filter_map comp_def split: option.split)
  show "inside 8 (createTrain 256)" using createTrain_inside [of 256] by simp
qed

text \<open>Setting up succeeds when both shaders compile and the program links, or when the context is lost,
  which the helpers do not report. When the vertex shader does not compile the fragment shader is left in
  the context.\<close>

lemma train_setup_outcome:
  "(\<exists>r. train_setup E vsrc fsrc i gl l = Inr r) \<longleftrightarrow>
     isContextLost E \<or> compiles E ''VERTEX_SHADER'' vsrc \<and> compiles E ''FRAGMENT_SHADER'' fsrc \<and> links E"
  by (auto simp: train_setup_def createShader_def createProgram_def attachShader_def Let_def split: prod.splits)

lemma failed_setup_leaks:
  assumes "\<not> compiles E ''VERTEX_SHADER'' vsrc" "compiles E ''FRAGMENT_SHADER'' fsrc" "\<not> isContextLost E"
  shows "train_setup E vsrc fsrc i \<lparr>gl_calls = [], gl_next = 0\<rparr> l =
    Inl \<lparr>gl_calls = [CreateShader 0 ''VERTEX_SHADER'', ShaderSource 0 vsrc, CompileShader 0, DeleteShader 0,
                      CreateShader 1 ''FRAGMENT_SHADER'', ShaderSource 1 fsrc, CompileShader 1, CreateProgram 2],
          gl_next = 3\<rparr>"
  using assms by (simp add: train_setup_def createShader_def createProgram_def attachShader_def Let_def gl_create_def gl_call_def)

end
