(* ===== verification/Style_Expression.thy ===== *)
theory Style_Expression
  imports Map_Style
begin

text \<open>
  What the map library makes of a style: the expressions that the two styles compute line widths with,
  the two languages of filters, and what a style must fulfil to be accepted. The library is
  \<^verbatim>\<open>ui/web/external_lib/mapbox-gl.js\<close> (version 1.9.1); an expression is evaluated
  at a zoom level and for the properties of a feature. Colour interpolation is not modelled.
\<close>

section \<open>Evaluation\<close>

definition js_number :: "jsval \<Rightarrow> rat option" where
  "js_number v = (case v of JNum (Fin q) \<Rightarrow> Some q | _ \<Rightarrow> None)"

fun all_some :: "'a option list \<Rightarrow> 'a list option" where
  "all_some [] = Some []"
| "all_some (None # xs) = None"
| "all_some (Some x # xs) = map_option (Cons x) (all_some xs)"

definition js_numbers :: "jsval option list \<Rightarrow> rat list option" where
  "js_numbers vs = all_some (map (\<lambda>v. Option.bind v js_number) vs)"

text \<open>A label of \<^verbatim>\<open>match\<close> is a value or a list of values.\<close>

definition label_matches :: "jsval \<Rightarrow> jsval \<Rightarrow> bool" where
  "label_matches v l = (case l of JArr ls \<Rightarrow> v \<in> set ls | _ \<Rightarrow> v = l)"

fun match_branch :: "jsval \<Rightarrow> jsval list \<Rightarrow> jsval option" where
  "match_branch v (l # e # rest) = (if label_matches v l then Some e else match_branch v rest)"
| "match_branch v [otherwise] = Some otherwise"
| "match_branch v [] = None"

fun stop_pairs :: "'a list \<Rightarrow> ('a \<times> 'a) list" where
  "stop_pairs (x # y # rest) = (x, y) # stop_pairs rest"
| "stop_pairs _ = []"

definition blend :: "rat \<Rightarrow> rat \<Rightarrow> rat \<Rightarrow> rat" where
  "blend t w w' = w * (1 - t) + w' * t"

text \<open>Outside of the stops the first and the last output are used.\<close>

fun interpolate_stops :: "rat \<Rightarrow> (rat \<times> rat) list \<Rightarrow> rat option" where
  "interpolate_stops x [] = None"
| "interpolate_stops x [(l, w)] = Some w"
| "interpolate_stops x ((l, w) # (l', w') # stops) =
     (if x \<le> l then Some w
      else if x < l' then Some (blend ((x - l) / (l' - l)) w w')
      else interpolate_stops x ((l', w') # stops))"

lemma match_branch_mem: "match_branch v es = Some e \<Longrightarrow> e \<in> set es"
  by (induction v es rule: match_branch.induct) (auto split: if_splits)

lemma mem_smaller: "e \<in> set es \<Longrightarrow> size e \<le> size_list size es"
  by (erule size_list_estimation') (rule order_refl)

lemma match_branch_smaller: "match_branch v es = Some e \<Longrightarrow> size e \<le> size_list size es"
  by (drule match_branch_mem) (rule mem_smaller)

lemma stop_pairs_smaller: "(l, e) \<in> set (stop_pairs es) \<Longrightarrow> size e \<le> size_list size es"
  by (induction es rule: stop_pairs.induct) auto

function (sequential) eval_expr :: "rat \<Rightarrow> (string \<Rightarrow> jsval) \<Rightarrow> (string \<Rightarrow> jsval option) \<Rightarrow> jsval \<Rightarrow> jsval option" where
  "eval_expr zoom feature vars (JArr (JStr f # es)) =
     (if f = ''zoom'' then Some (JQ zoom)
      else if f = ''get'' then (case es of [JStr k] \<Rightarrow> Some (feature k) | _ \<Rightarrow> None)
      else if f = ''var'' then (case es of [JStr x] \<Rightarrow> vars x | _ \<Rightarrow> None)
      else if f = ''let'' then
        (case es of
           [JStr x, e, body] \<Rightarrow>
             (case eval_expr zoom feature vars e of
                None \<Rightarrow> None
              | Some w \<Rightarrow> eval_expr zoom feature (vars(x \<mapsto> w)) body)
         | _ \<Rightarrow> None)
      else if f = ''match'' then
        (case es of
           e # branches \<Rightarrow>
             (case eval_expr zoom feature vars e of
                None \<Rightarrow> None
              | Some w \<Rightarrow>
                  (case match_branch w branches of None \<Rightarrow> None | Some b \<Rightarrow> eval_expr zoom feature vars b))
         | _ \<Rightarrow> None)
      else if f = ''+'' then
        map_option (\<lambda>qs. JQ (sum_list qs)) (js_numbers (map (eval_expr zoom feature vars) es))
      else if f = ''*'' then
        map_option (\<lambda>qs. JQ (prod_list qs)) (js_numbers (map (eval_expr zoom feature vars) es))
      else if f = ''interpolate'' then
        (case es of
           kind # input # stops \<Rightarrow>
             if kind \<noteq> JArr [JStr ''linear''] then None
             else
               (case (js_numbers [eval_expr zoom feature vars input],
                      js_numbers (map Some (map fst (stop_pairs stops))),
                      js_numbers (map (\<lambda>(l, e). eval_expr zoom feature vars e) (stop_pairs stops))) of
                  (Some [x], Some ls, Some ws) \<Rightarrow> map_option JQ (interpolate_stops x (zip ls ws))
                | _ \<Rightarrow> None)
         | _ \<Rightarrow> None)
      else None)"
| "eval_expr zoom feature vars (JArr _) = None"
| "eval_expr zoom feature vars (JObj _) = None"
| "eval_expr zoom feature vars v = Some v"
  by pat_completeness auto

termination
proof (relation "measure (\<lambda>(zoom, feature, vars, e). size e)", goal_cases)
  case 5
  then show ?case by (auto dest!: match_branch_smaller)
next
  case 9
  then show ?case by (auto dest!: stop_pairs_smaller)
qed (auto dest!: mem_smaller)

section \<open>Interpolation\<close>

text \<open>Raising every output raises the curve; rising outputs give a rising curve.\<close>

lemma blend_shift: "blend t (w + a) (w' + a) = blend t w w' + a"
  by (simp add: blend_def algebra_simps)

lemma blend_between:
  assumes "w \<le> w'" "0 \<le> t" "t \<le> 1"
  shows "w \<le> blend t w w'" "blend t w w' \<le> w'"
proof -
  have "0 \<le> (w' - w) * t" "0 \<le> (w' - w) * (1 - t)" using assms by simp_all
  then show "w \<le> blend t w w'" "blend t w w' \<le> w'" by (simp_all add: blend_def algebra_simps)
qed

lemma blend_mono:
  assumes "w \<le> w'" "t \<le> t'"
  shows "blend t w w' \<le> blend t' w w'"
proof -
  have "0 \<le> (w' - w) * (t' - t)" using assms by simp
  then show ?thesis by (simp add: blend_def algebra_simps)
qed

lemma stops_shift:
  "interpolate_stops x (map (\<lambda>(l, w). (l, w + a)) stops) = map_option (\<lambda>w. w + a) (interpolate_stops x stops)"
  by (induction x stops rule: interpolate_stops.induct) (auto simp: blend_shift)

lemma stops_Some: "stops \<noteq> [] \<Longrightarrow> \<exists>w. interpolate_stops x stops = Some w"
  by (induction x stops rule: interpolate_stops.induct) auto

fun rising :: "(rat \<times> rat) list \<Rightarrow> bool" where
  "rising ((l, w) # (l', w') # stops) = (l < l' \<and> w \<le> w' \<and> rising ((l', w') # stops))"
| "rising _ = True"

text \<open>How far a zoom level is between two stops.\<close>

lemma part_between:
  fixes l l' x :: rat
  assumes "l < x" "x < l'"
  shows "0 \<le> (x - l) / (l' - l)" "(x - l) / (l' - l) \<le> 1"
  using assms by (simp_all add: divide_le_eq_1)

lemma stops_first:
  "rising ((l, w) # stops) \<Longrightarrow> interpolate_stops x ((l, w) # stops) = Some v \<Longrightarrow> w \<le> v"
proof (induction stops arbitrary: l w)
  case (Cons s stops)
  obtain l' w' where s: "s = (l', w')" by (cases s)
  from Cons.prems(1) s have r: "w \<le> w'" "rising ((l', w') # stops)" by simp_all
  consider "x \<le> l" | "l < x" "x < l'" | "l < x" "l' \<le> x" by linarith
  then show ?case
  proof cases
    case 2
    then show ?thesis using Cons.prems(2) s blend_between(1) [OF r(1) part_between [OF 2]] by auto
  next
    case 3
    then show ?thesis using Cons.prems(2) s r Cons.IH [of l' w'] by force
  qed (use Cons.prems(2) s in simp)
qed simp

lemma stops_mono:
  assumes "rising stops" "x \<le> y" "interpolate_stops x stops = Some v" "interpolate_stops y stops = Some u"
  shows "v \<le> u"
  using assms
proof (induction x stops rule: interpolate_stops.induct)
  case (3 x l w l' w' stops)
  from "3.prems"(1) have r: "l < l'" "w \<le> w'" "rising ((l', w') # stops)" by simp_all
  consider "x \<le> l" | "l < x" "x < l'" | "l < x" "l' \<le> x" by linarith
  then show ?case
  proof cases
    case 1
    then show ?thesis using "3.prems"(3) stops_first [OF "3.prems"(1,4)] by simp
  next
    case 2
    then have v: "v = blend ((x - l) / (l' - l)) w w'" using "3.prems"(3) by simp
    show ?thesis
    proof (cases "y < l'")
      case True
      then have "u = blend ((y - l) / (l' - l)) w w'" using 2 "3.prems"(2,4) by simp
      moreover have "(x - l) / (l' - l) \<le> (y - l) / (l' - l)" by (rule divide_right_mono) (use "3.prems"(2) r(1) in simp_all)
      ultimately show ?thesis unfolding v using blend_mono [OF r(2)] by simp
    next
      case False
      then have "interpolate_stops y ((l', w') # stops) = Some u" using 2 "3.prems"(2,4) by simp
      then show ?thesis
        using stops_first [OF r(3)] blend_between(2) [OF r(2) part_between [OF 2]] unfolding v by fastforce
    qed
  next
    case 3
    then show ?thesis using "3.prems" "3.IH" r(3) by simp
  qed
qed auto

section \<open>Filters\<close>

text \<open>
  A filter is written in one of two languages, and which one is decided by looking at it. In the older
  one the first argument is the name of a property, in the newer one arguments are expressions.
\<close>

fun is_expression_filter :: "jsval \<Rightarrow> bool" where
  "is_expression_filter (JBool b) = True"
| "is_expression_filter (JArr (f # es)) =
     (if f = JStr ''has'' then (case es of k # _ \<Rightarrow> k \<noteq> JStr ''$id'' \<and> k \<noteq> JStr ''$type'' | [] \<Rightarrow> False)
      else if f = JStr ''in'' then
        (case es of a # b # _ \<Rightarrow> (case a of JStr s \<Rightarrow> False | _ \<Rightarrow> True) \<or> (case b of JArr bs \<Rightarrow> True | _ \<Rightarrow> False) | _ \<Rightarrow> False)
      else if f \<in> {JStr ''!in'', JStr ''!has'', JStr ''none''} then False
      else if f \<in> {JStr ''=='', JStr ''!='', JStr ''>'', JStr ''>='', JStr ''<'', JStr ''<=''} then
        (case es of [a, b] \<Rightarrow> (case a of JArr as \<Rightarrow> True | _ \<Rightarrow> False) \<or> (case b of JArr bs \<Rightarrow> True | _ \<Rightarrow> False) | _ \<Rightarrow> True)
      else if f \<in> {JStr ''any'', JStr ''all''} then list_all is_expression_filter es
      else True)"
| "is_expression_filter _ = False"

definition is_text :: "jsval \<Rightarrow> bool" where
  "is_text v = (case v of JStr s \<Rightarrow> True | _ \<Rightarrow> False)"

definition is_plain :: "jsval \<Rightarrow> bool" where
  "is_plain v = (case v of JStr s \<Rightarrow> True | JNum q \<Rightarrow> True | JBool b \<Rightarrow> True | _ \<Rightarrow> False)"

text \<open>What the library accepts of a filter in the older language.\<close>

fun legacy_filter_ok :: "jsval \<Rightarrow> bool" where
  "legacy_filter_ok (JArr (f # es)) =
     (if f \<in> {JStr ''any'', JStr ''all'', JStr ''none''} then list_all legacy_filter_ok es
      else if f \<in> {JStr ''=='', JStr ''!='', JStr ''>'', JStr ''>='', JStr ''<'', JStr ''<=''} then
        (case es of [k, v] \<Rightarrow> is_text k \<and> is_plain v | _ \<Rightarrow> False)
      else if f \<in> {JStr ''in'', JStr ''!in''} then
        (case es of k # vs \<Rightarrow> is_text k \<and> list_all is_plain vs | _ \<Rightarrow> False)
      else if f \<in> {JStr ''has'', JStr ''!has''} then (case es of [k] \<Rightarrow> is_text k | _ \<Rightarrow> False)
      else False)"
| "legacy_filter_ok _ = False"

definition filter_ok :: "jsval \<Rightarrow> bool" where
  "filter_ok f = (f = JUndef \<or> is_expression_filter f \<or> legacy_filter_ok f)"

text \<open>\<^verbatim>\<open>matchLevel\<close> of the colour style, which no layer uses, mixes the languages:
  its result is refused whatever it is applied to.\<close>

lemma matchLevel_refused: "\<not> filter_ok (matchLevel f)"
  by (simp add: filter_ok_def matchLevel_def is_text_def)

end
