(* ===== verification/Style_Properties.thy ===== *)
theory Style_Properties
  imports Style_Expression Map_View
begin

text \<open>
  What the two styles of the background map promise: every layer and every expression of them is one the
  library accepts, every picture they ask for is there, and the white casing of the gray style surrounds
  its roads at every zoom level.
\<close>

section \<open>Parts of a style\<close>

definition style_layers :: "jsval \<Rightarrow> jsval list" where
  "style_layers st = (case obj_get st ''layers'' of JArr ls \<Rightarrow> ls | _ \<Rightarrow> [])"

definition layer_id :: "jsval \<Rightarrow> jsval" where
  "layer_id l = obj_get l ''id''"

definition style_paint :: "jsval \<Rightarrow> string \<Rightarrow> string \<Rightarrow> jsval" where
  "style_paint st i k =
     (case find (\<lambda>l. layer_id l = JStr i) (style_layers st) of
        None \<Rightarrow> JUndef
      | Some l \<Rightarrow> obj_get (obj_get l ''paint'') k)"

text \<open>The object behind the name of a style in \<open>Map_View\<close>.\<close>

fun style_object :: "MapStyle \<Rightarrow> jsval" where
  "style_object (ColorStyle te ae) = colorStyle te ae"
| "style_object (BackgroundMapStyle te) = backgroundMapStyle te"
| "style_object (GlyphsOnly glyphs) =
     JObj [(''glyphs'', JStr glyphs), (''version'', JQ 8), (''sources'', JObj []), (''layers'', JArr [])]"

section \<open>What the library accepts\<close>

fun arrays_in :: "jsval \<Rightarrow> jsval list" where
  "arrays_in (JArr vs) = JArr vs # concat (map arrays_in vs)"
| "arrays_in (JObj ps) = concat (map (\<lambda>(k, v). arrays_in v) ps)"
| "arrays_in _ = []"

definition match_labels :: "jsval list \<Rightarrow> jsval list" where
  "match_labels branches =
     concat (map (\<lambda>(l, e). case l of JArr ls \<Rightarrow> ls | _ \<Rightarrow> [l]) (stop_pairs branches))"

fun ascending :: "rat list \<Rightarrow> bool" where
  "ascending (a # b # xs) = (a < b \<and> ascending (b # xs))"
| "ascending _ = True"

text \<open>The labels of a \<^verbatim>\<open>match\<close> are different and it has a last output; the stops
  of an interpolation ascend.\<close>

fun expression_ok :: "jsval \<Rightarrow> bool" where
  "expression_ok (JArr (f # es)) =
     (if f = JStr ''match'' then even (length es) \<and> distinct (match_labels (tl es))
      else if f = JStr ''interpolate'' \<or> f = JStr ''interpolate-hcl'' then
        even (length es) \<and> 4 \<le> length es \<and>
        (case js_numbers (map Some (map fst (stop_pairs (drop 2 es)))) of None \<Rightarrow> False | Some ls \<Rightarrow> ascending ls)
      else True)"
| "expression_ok _ = True"

definition layer_accepted :: "jsval \<Rightarrow> jsval \<Rightarrow> bool" where
  "layer_accepted sources l =
     ((obj_get l ''type'' = JStr ''background'' \<or>
       (case obj_get l ''source'' of JStr s \<Rightarrow> obj_has sources s \<and> is_text (obj_get l ''source-layer'') | _ \<Rightarrow> False)) \<and>
      filter_ok (obj_get l ''filter'') \<and> list_all expression_ok (arrays_in l))"

definition style_accepted :: "jsval \<Rightarrow> bool" where
  "style_accepted st =
     (distinct (map layer_id (style_layers st)) \<and>
      list_all (layer_accepted (obj_get st ''sources'')) (style_layers st))"

text \<open>The names of pictures that \<^verbatim>\<open>icon-image\<close> can have.\<close>

fun case_outputs :: "jsval list \<Rightarrow> jsval list" where
  "case_outputs (c # e # es) = e # case_outputs es"
| "case_outputs es = es"

definition image_names :: "jsval \<Rightarrow> jsval list" where
  "image_names v =
     (case v of
        JUndef \<Rightarrow> []
      | JArr (f # es) \<Rightarrow> if f = JStr ''case'' then case_outputs es else [v]
      | _ \<Rightarrow> [v])"

definition style_images :: "jsval \<Rightarrow> jsval list" where
  "style_images st = concat (map (\<lambda>l. image_names (obj_get (obj_get l ''layout'') ''icon-image'')) (style_layers st))"

lemmas gray_defs =
  gray_water_overview_def gray_water_def gray_rail_overvew_def gray_rail_def gray_pedestrian_def
  gray_sport_def gray_sport_outline_def gray_building_def gray_building_outline_def gray_background_def
  gray_coastline_def gray_landuse_def gray_water_layer_def gray_sport_layer_def
  gray_pedestrian_layer_def gray_waterway_def gray_road_back_def gray_road_def gray_rail_old_def
  gray_rail_detail_def gray_rail_secondary_def gray_rail_primary_def gray_building_layer_def
  gray_road_ref_shield_def gray_road_name_text_def gray_towns_def gray_cities_def gray_region_def
  gray_country_def gray_layers_def roadLineWidth_def

lemmas color_defs =
  color_water_def color_rail_def color_pedestrian_def color_sport_def color_sport_outline_def
  color_building_def color_building_outline_def color_background_def color_coastline_def
  color_landuse_park_def color_landuse_def color_water_layer_def color_sport_layer_def
  color_pedestrian_layer_def color_waterway_def color_building_layer_def color_indoor_corridor_def
  color_indoor_def color_indoor_outline_def color_indoor_names_def color_landuse_public_transport_def
  color_footway_def color_steps_def color_indoor_elevator_outline_def color_indoor_elevator_def
  color_indoor_elevator_icon_def color_road_back_residential_def color_road_back_non_residential_def
  color_road_def color_rail_old_def color_rail_detail_def color_rail_secondary_def
  color_rail_primary_def color_road_ref_shield_def color_road_name_text_def color_towns_def
  color_cities_def color_level_def color_layers_def

section \<open>Both styles are accepted\<close>

lemma gray_layers_accepted:
  "distinct (map layer_id gray_layers)" "list_all (layer_accepted (JObj [(''osm'', s)])) gray_layers"
  "concat (map (\<lambda>l. image_names (obj_get (obj_get l ''layout'') ''icon-image'')) gray_layers) =
     [JStr ''hexshield'', JStr ''shield'']"
  by code_simp+

lemma color_layers_accepted:
  "distinct (map layer_id color_layers)" "list_all (layer_accepted (JObj [(''osm'', s)])) color_layers"
  "concat (map (\<lambda>l. image_names (obj_get (obj_get l ''layout'') ''icon-image'')) color_layers) =
     [JStr ''elevator'', JStr ''shield'']"
  by code_simp+

lemma gray_style:
  "style_layers (backgroundMapStyle te) = gray_layers"
  "\<exists>s. obj_get (backgroundMapStyle te) ''sources'' = JObj [(''osm'', s)]"
  by (simp_all add: style_layers_def backgroundMapStyle_def)

lemma color_style:
  "style_layers (colorStyle te ae) = color_layers"
  "\<exists>s. obj_get (colorStyle te ae) ''sources'' = JObj [(''osm'', s)]"
  "obj_get (colorStyle te ae) ''sprite'' = JStr (ae @ ''sprite/sprite'')"
  by (simp_all add: style_layers_def colorStyle_def)

lemma both_accepted: "style_accepted (backgroundMapStyle te)" "style_accepted (colorStyle te ae)"
  using gray_style [of te] color_style(1,2) [of te ae] gray_layers_accepted(1,2) color_layers_accepted(1,2)
  by (auto simp: style_accepted_def)

text \<open>The pictures of a map.\<close>

definition added_images :: "string \<Rightarrow> 'b MapPage \<Rightarrow> jsval set" where
  "added_images m pg = {JStr n |n i. (m, n, i) \<in> set (pg_images pg)}"


section \<open>Roads and their casing\<close>

text \<open>The widths at the stops.\<close>

definition road_stops :: "rat \<Rightarrow> rat \<Rightarrow> (rat \<times> rat) list" where
  "road_stops base add =
     [(5, base * (1 / 10) + add), (9, base * (4 / 10) + add), (12, base * (125 / 100) + add), (16, base * 6 + add),
      (20, base * 12 + add)]"

text \<open>How wide a road of a class is, relative to the others.\<close>

definition road_base :: "jsval \<Rightarrow> rat" where
  "road_base class' =
     (if class' = JStr ''motorway'' then 25 / 10
      else if class' \<in> {JStr ''trunk'', JStr ''motorway_link''} then 23 / 10
      else if class' \<in> {JStr ''primary'', JStr ''trunk_link''} then 22 / 10
      else if class' \<in> {JStr ''secondary'', JStr ''aeroway''} then 21 / 10
      else if class' \<in> {JStr ''primary_link'', JStr ''secondary_link'', JStr ''tertiary'', JStr ''tertiary_link''} then 175 / 100
      else if class' \<in> {JStr ''residential'', JStr ''unclassified''} then 15 / 10
      else 75 / 100)"

lemma js_numbers_simps [simp]:
  "js_numbers [] = Some []"
  "js_numbers (Some (JQ q) # vs) = map_option (Cons q) (js_numbers vs)"
  by (simp_all add: js_numbers_def js_number_def)

definition road_branches :: "jsval list" where
  "road_branches =
     [JStr ''motorway'', JQ (25 / 10), JArr [JStr ''trunk'', JStr ''motorway_link''], JQ (23 / 10),
      JArr [JStr ''primary'', JStr ''trunk_link''], JQ (22 / 10), JArr [JStr ''secondary'', JStr ''aeroway''], JQ (21 / 10),
      JArr [JStr ''primary_link'', JStr ''secondary_link'', JStr ''tertiary'', JStr ''tertiary_link''], JQ (175 / 100),
      JArr [JStr ''residential'', JStr ''unclassified''], JQ (15 / 10), JQ (75 / 100)]"

lemma road_branch: "match_branch class' road_branches = Some (JQ (road_base class'))"
  by (simp add: road_branches_def label_matches_def road_base_def)

definition road_curve :: "rat \<Rightarrow> jsval list" where
  "road_curve add =
     (let wide = (\<lambda>k. JArr [JStr ''+'', JArr [JStr ''*'', JArr [JStr ''var'', JStr ''base''], JQ k], JQ add])
      in [JQ 5, wide (1 / 10), JQ 9, wide (4 / 10), JQ 12, wide (1 * (125 / 100)), JQ 16, wide (4 * (15 / 10)), JQ 20, wide (8 * (15 / 10))])"

lemma roadLineWidth_parts:
  "roadLineWidth add =
     JArr [JStr ''let'', JStr ''base'', JArr (JStr ''match'' # JArr [JStr ''get'', JStr ''highway''] # road_branches),
           JArr (JStr ''interpolate'' # JArr [JStr ''linear''] # JArr [JStr ''zoom''] # road_curve add)]"
  by (simp only: roadLineWidth_def road_branches_def road_curve_def Let_def)

lemma roadLineWidth_value:
  "eval_expr zoom feature Map.empty (roadLineWidth add) =
     map_option JQ (interpolate_stops zoom (road_stops (road_base (feature ''highway'')) add))"
  by (simp add: roadLineWidth_parts road_branch road_curve_def road_stops_def)

lemma gray_widths:
  "style_paint (backgroundMapStyle te) ''road'' ''line-width'' = roadLineWidth 0"
  "style_paint (backgroundMapStyle te) ''road_back'' ''line-width'' = roadLineWidth 1"
proof -
  have "find (\<lambda>l. layer_id l = JStr ''road'') gray_layers = Some gray_road"
    "find (\<lambda>l. layer_id l = JStr ''road_back'') gray_layers = Some gray_road_back"
    by (simp_all add: gray_layers_def layer_id_def gray_defs del: roadLineWidth_def)
  then show "style_paint (backgroundMapStyle te) ''road'' ''line-width'' = roadLineWidth 0"
    "style_paint (backgroundMapStyle te) ''road_back'' ''line-width'' = roadLineWidth 1"
    by (simp_all add: style_paint_def gray_style(1) gray_road_def gray_road_back_def)
qed

lemma road_base_positive: "0 < road_base class'"
  by (simp add: road_base_def)

lemma road_rising: "rising (road_stops (road_base class') add)"
  using road_base_positive [of class'] by (simp add: road_stops_def)

lemma road_stops_add: "road_stops base add = map (\<lambda>(l, w). (l, w + add)) (road_stops base 0)"
  by (simp add: road_stops_def)

lemma road_width:
  "\<exists>w. interpolate_stops zoom (road_stops (road_base class') add) = Some w \<and> add < w"
proof -
  obtain w where w: "interpolate_stops zoom (road_stops (road_base class') add) = Some w"
    using stops_Some [of "road_stops (road_base class') add" zoom] by (auto simp: road_stops_def)
  then have "road_base class' * (1 / 10) + add \<le> w"
    using stops_first [OF road_rising [of class' add, unfolded road_stops_def], of zoom w] by (simp add: road_stops_def)
  then show ?thesis using w road_base_positive [of class'] by force
qed


definition demo_road :: "string \<Rightarrow> jsval" where
  "demo_road k = (if k = ''highway'' then JStr ''motorway'' else JUndef)"


end
