(* ===== verification/Schema_Text.thy ===== *)
theory Schema_Text
  imports Resolver_Properties Fbs_Parser_Properties
begin

text \<open>
  The resolver on the text of schema files: it reads the files, the parser of \<open>Fbs_Parser\<close> turns them
  into declarations, and the result is the one on the declarations that the text was printed from.
\<close>

type_synonym sources = "(string \<times> AstTopLevel list) list"

definition text_host :: "'p Arcsecond \<Rightarrow> (string \<Rightarrow> string \<Rightarrow> string) \<Rightarrow> (string \<Rightarrow> string \<Rightarrow> string) \<Rightarrow> sources \<Rightarrow> Host" where
  "text_host A res rel files =
     \<lparr>host_files = map (\<lambda>(f, ts). (f, print_schema ts)) files, path_resolve = res, path_relative = rel,
      parse_fbs = parseSchema A\<rparr>"

text \<open>The same files without any text: the contents of a file is its name, under which the declarations
  are looked up.\<close>

definition tree_host :: "(string \<Rightarrow> string \<Rightarrow> string) \<Rightarrow> (string \<Rightarrow> string \<Rightarrow> string) \<Rightarrow> sources \<Rightarrow> Host" where
  "tree_host res rel files =
     \<lparr>host_files = map (\<lambda>(f, ts). (f, f)) files, path_resolve = res, path_relative = rel, parse_fbs = map_get files\<rparr>"

text \<open>All that the resolver sees of a file is whether it exists and what it parses to.\<close>

definition parsed :: "Host \<Rightarrow> string \<Rightarrow> AstTopLevel list option option" where
  "parsed H f = map_option (parse_fbs H) (map_get (host_files H) f)"

lemma resolveFile_parsed:
  assumes "parsed H = parsed H'" "path_resolve H = path_resolve H'" "path_relative H = path_relative H'"
  shows "resolveFile n H = resolveFile n H'"
proof (induction n)
  case (Suc n)
  have i: "includeStep H (resolveFile n H) = includeStep H' (resolveFile n H')"
    by (intro ext) (unfold includeStep_def assms(2) Suc.IH, rule refl)
  have e: "extractTypes H = extractTypes H'"
    by (intro ext) (simp add: extractTypes_def getRelativeFbsFile_def assms(3))
  show ?case
  proof (intro ext)
    fix ctx f
    have p: "map_option (parse_fbs H) (map_get (host_files H) f) =
        map_option (parse_fbs H') (map_get (host_files H') f)"
      using fun_cong [OF assms(1), of f] by (simp only: parsed_def)
    show "resolveFile (Suc n) H ctx f = resolveFile (Suc n) H' ctx f"
      using p by (auto simp: i e split: option.splits)
  qed
qed (auto intro!: ext)

lemma resolveSchemaTypes_parsed:
  assumes "parsed H = parsed H'" "path_resolve H = path_resolve H'" "path_relative H = path_relative H'"
    and "length (host_files H) = length (host_files H')"
  shows "resolveSchemaTypes H d f = resolveSchemaTypes H' d f"
  unfolding resolveSchemaTypes_def by (simp only: resolveFile_parsed [OF assms(1-3)] assms(2,4))


definition demo_sources :: sources where
  "demo_sources =
     [(''/main.fbs'', [AstInclude ''/base.fbs'', AstNamespace ''motis'',
        AstTable False ''Request'' None
          [\<lparr>af_name = ''station'', af_type = AstCustom ''Station'', af_default = None, af_metadata = None\<rparr>],
        AstRootType ''Request'']),
      (''/base.fbs'', [AstNamespace ''motis'',
        AstTable False ''Station'' None
          [\<lparr>af_name = ''name'', af_type = AstBasic StringType, af_default = None, af_metadata = None\<rparr>]])]"


end
