(* ===== verification/Spec2Isabelle.thy ===== *)
theory Spec2Isabelle
  imports Json_Schema_Properties Typescript_Properties Railviz_Mode Connection_Walks
    Detail_Properties Doc_Properties Markdown_Output Openapi_Properties
    Json_Schema_Types Protocol_Tool Page_Setup Fbs_Parser_Properties
    Polyline_Paths Gl_Util Style_Properties Schema_Text
begin

text \<open>
  A verification library for MOTIS.

  MOTIS is a C++ backend with two JavaScript and TypeScript programs around it. The protocol tool
  (src/tools/protocol) reads the FlatBuffers schemas of the messages and writes JSON Schema, OpenAPI,
  TypeScript and Markdown for them. The map view of the web user interface (src/ui/web/js) shows trains,
  connections and vehicle sharing on a map. This library models these two programs; it does not model
  the backend.

  \<^bold>\<open>Shared theories.\<close> \<open>Prelude\<close> holds the lemmas on association lists, sorting with a JavaScript
  comparator (the locale \<open>consistent_comparator\<close>) and updates by index; \<open>Js_String\<close> the string
  functions the sources call, \<open>Js_Number\<close> the reading of numbers; \<open>Fbs_Ast\<close> the abstract syntax of
  fbs/ast.ts and the literal types of fbs/basic_types.ts; \<open>Js_Value\<close> JSON values and the deepEqual of
  the user interface. A JavaScript \<^verbatim>\<open>Map\<close> or object is an association list in the order of
  insertion, a number is an \<open>int\<close> where it is one, a \<open>rat\<close> or \<open>real\<close> where it is a coordinate or a
  progress, and a word where the code uses bit operators or bytes. Rationals and reals do not round.

  \<^bold>\<open>The protocol tool: reading.\<close>
  \<open>Fbs_Parser\<close> has one definition for each parser of fbs/parser/*.ts, over the record \<open>Arcsecond\<close> of
  the combinators they are built from. The package is not in the repository; \<open>Parser_Laws\<close> states its
  documented laws as the locale \<open>arcsecond\<close>. \<open>Fbs_Roundtrip\<close> prints schemas and
  \<open>Fbs_Parser_Properties\<close> shows that they are read back, which schemas are never read, and interprets the
  locale with a parser of its own. \<open>Schema_Types\<close> is schema/types.ts, \<open>Schema_Util\<close> util/sort.ts and
  util/required.ts, \<open>Type_Filter\<close> filter/*.ts with a semantics for its regular expressions, and
  \<open>Resolver\<close> schema/resolver.ts: one definition per function, errors as \<open>Inl\<close>, the include recursion
  with fuel. The file system is a table of contents; in \<open>Resolver\<close> the parser and the path functions of
  node are parameters. \<open>Resolver_Spec\<close> states what the resolver promises without its loops and shows
  that it refines it (\<open>resolver_refines\<close>), with fuel files + 1, which is enough because every file is
  read at most once (\<open>resolver_ends\<close>). \<open>Resolver_Properties\<close> derives the invariants of a resolved
  schema, and \<open>Schema_Text\<close> puts the parser in the place of the parameter.

  \<^bold>\<open>The protocol tool: writing.\<close>
  \<open>Json_Schema\<close> (output/json-schema), \<open>Typescript_Output\<close> (output/typescript), \<open>Openapi_Output\<close>
  (output/openapi) and \<open>Markdown_Output\<close> (output/markdown) are the outputs, with files as text, lists of
  lines, or the value that is serialised. \<open>Json_Schema_Properties\<close>, \<open>Typescript_Properties\<close>,
  \<open>Openapi_Properties\<close> and \<open>Markdown_Output\<close> show that no reference, import or link dangles;
  \<open>Json_Schema_Types\<close> that what is written has the interface of output/json-schema/types.ts.
  \<open>Doc_Model\<close>, \<open>Doc_Inout\<close> and \<open>Doc_Properties\<close> are the documentation files (doc/*.ts,
  util/yaml.ts): a YAML document is its contents, reading and printing YAML text are parameters, and
  the locale \<open>node_update\<close> is the interface between an update of a node and what it leaves. An update
  settles after one run. \<open>Protocol_Tool\<close> is main.ts: the parsed command line, the configuration file,
  the documentation and the outputs in their order, with what each writes or why it fails.

  \<^bold>\<open>The map view.\<close> \<open>Railviz_Model\<close> (railviz/model.js), \<open>Railviz_Trains\<close>
  (railviz/trains.js: the vertex buffers as lists of floats and bytes), \<open>Railviz_Api\<close> (api.js),
  \<open>Railviz_Style\<close> (style.js), \<open>Gbfs_Layer\<close> (gbfs.js), \<open>Markers\<close> (markers.js),
  \<open>Path_Layers\<close> (path_base.js, path_extra.js, path_detail.js), \<open>Path_Connections\<close>
  (path_connections.js), \<open>Connection_Manager\<close> (connectionmgr.js), \<open>Railviz_Render\<close>
  (render.js) and \<open>Railviz_Main\<close> (main.js). The module variables of each file are a record that
  extends the one of the file before it, so that the state of the whole view is one record; an operation
  is a function on any extension of its own record. \<open>Railviz_Shell\<close> holds what the modules do to
  the page and the library (layers, sources, messages to the user interface, requests) as recorded
  effects; a handler that throws is \<open>Thrown\<close> with the state it left behind.
  \<open>Railviz_Events\<close> composes them: every port, mouse event, frame, timer and answer is an event,
  \<open>handle\<close> runs its handler, and \<open>reachable\<close> and \<open>quietly\<close> are the states after
  any events, with and without exceptions. Calls are answered in any order, once each.

  The locales \<open>loop_invariant\<close> and \<open>quiet_invariant\<close> are the interface between an invariant
  and the events; \<open>Railviz_Loading\<close> (the loading count and the spinner) and \<open>Railviz_Mode\<close>
  (the visibility of the layers) interpret them. \<open>Railviz_Position\<close> shows where a train is drawn,
  \<open>Railviz_Trains_Properties\<close> that the buffers agree with the trains, \<open>Connection_Highlight\<close>,
  \<open>Connection_Requests\<close> and \<open>Connection_Walks\<close> what the connection manager requests and marks,
  \<open>Detail_Properties\<close> the journey layer and picking.

  \<^bold>\<open>The page around the map.\<close> \<open>Map_Sync\<close> is syncMaps of map.js, where moving one map makes
  the others jump, which are events again: fuel 2 is enough, because the listeners are off while the clones
  jump. \<open>Map_View\<close> is the rest of map.js (custom layer, viewport, ports), \<open>Page_Setup\<close> the web main.js
  (addresses, permalink, dropped files). \<open>Map_Style\<close> holds map_style.js and map_style_color.js, one
  definition per layer; \<open>Style_Expression\<close> what the map library makes of their expressions and filters,
  and \<open>Style_Properties\<close> that both styles are accepted and that roads have their casing.

  \<^bold>\<open>Drawing.\<close> \<open>Polyline_Codec\<close> is external_lib/polyline.js on 16-bit code units and 32-bit words,
  \<open>Polyline_Paths\<close> puts it into the model of the trains. \<open>Textures\<close> (textures.js) records what is
  drawn on a canvas, \<open>Gl_Util\<close> (webgl.js and the set-up of the train layer) the calls to the WebGL context,
  and \<open>Train_Shader\<close> is the two shader programs of trains.js on reals.

  \<^bold>\<open>Parameters.\<close> The map library, the WebGL context, the clock, the projection and the zoom of the map are
  arguments (the record \<open>World\<close> for the composed program, \<open>MapLib\<close> for the page, \<open>GlEnv\<close> for WebGL).

  \<^bold>\<open>Not modelled.\<close> Console messages and the text of local storage; the option parser of the command line
  (its result is the input); what an output that failed has left on disk; colour interpolation of the map
  library and the rasterising of canvas and WebGL; the other vendored libraries (mapbox-gl, gl-matrix); the
  Elm part of the user interface, the C++ backend, and the Java client, which are other languages.
\<close>

end
